(* ===== verification/Prelude.thy ===== *)
theory Prelude
  imports Main "HOL-Library.Word"
begin

text \<open>
  Shared ground of the development: bytes and byte strings, the little state-and-exception
  monad in which the client (C++) and the server (Python) are written, its total-correctness
  calculus, and the list lemmas the components share.
\<close>

section \<open>Bytes and byte strings\<close>

text \<open>
  A \<open>uint8_t\<close>, a \<open>char\<close> and an element of a Python \<open>bytes\<close> object are all 8-bit words, and
  \<open>std::string\<close>, \<open>std::vector<uint8_t>\<close> and \<open>bytes\<close> are lists of them.
\<close>

type_synonym byte = "8 word"
type_synonym bytes = "byte list"

text \<open>The bytes of a source literal such as \<open>"me.info"\<close>.\<close>

definition lit :: "string \<Rightarrow> bytes" where
  "lit s = map of_char s"

text \<open>
  \<open>s[i]\<close> of a \<open>std::string\<close>: the terminating NUL at \<open>i = size()\<close>, undefined behaviour (here
  \<open>None\<close>) beyond it.
\<close>

definition str_at :: "bytes \<Rightarrow> nat \<Rightarrow> byte option" where
  "str_at s i = (if i < length s then Some (s ! i) else if i = length s then Some 0 else None)"

section \<open>Programs\<close>

text \<open>
  A program takes the state and returns \<open>None\<close> when it never returns, or the state it leaves
  together with \<open>Inr\<close> of its value or \<open>Inl\<close> of what stopped it (an exception, an \<open>exit\<close>).
\<close>

type_synonym ('s, 'e, 'a) prog = "'s \<Rightarrow> (('e + 'a) \<times> 's) option"

definition retP :: "'a \<Rightarrow> ('s, 'e, 'a) prog" where
  "retP x s = Some (Inr x, s)"

definition throwP :: "'e \<Rightarrow> ('s, 'e, 'a) prog" where
  "throwP e s = Some (Inl e, s)"

definition divergeP :: "('s, 'e, 'a) prog" where
  "divergeP s = None"

definition bindP :: "('s, 'e, 'a) prog \<Rightarrow> ('a \<Rightarrow> ('s, 'e, 'b) prog) \<Rightarrow> ('s, 'e, 'b) prog" where
  "bindP m k s =
     (case m s of
        None \<Rightarrow> None
      | Some (Inl e, s') \<Rightarrow> Some (Inl e, s')
      | Some (Inr x, s') \<Rightarrow> k x s')"

text \<open>\<open>catchP m h\<close> is \<open>try m except: h\<close>; the state changes of \<open>m\<close> up to its exception stay.\<close>

definition catchP :: "('s, 'e, 'a) prog \<Rightarrow> ('e \<Rightarrow> ('s, 'f, 'a) prog) \<Rightarrow> ('s, 'f, 'a) prog" where
  "catchP m h s =
     (case m s of
        None \<Rightarrow> None
      | Some (Inl e, s') \<Rightarrow> h e s'
      | Some (Inr x, s') \<Rightarrow> Some (Inr x, s'))"

definition getP :: "('s \<Rightarrow> 'a) \<Rightarrow> ('s, 'e, 'a) prog" where
  "getP f s = Some (Inr (f s), s)"

definition modP :: "('s \<Rightarrow> 's) \<Rightarrow> ('s, 'e, unit) prog" where
  "modP f s = Some (Inr (), f s)"

definition optP :: "'e \<Rightarrow> 'a option \<Rightarrow> ('s, 'e, 'a) prog" where
  "optP e r = (case r of None \<Rightarrow> throwP e | Some x \<Rightarrow> retP x)"

definition guardP :: "bool \<Rightarrow> 'e \<Rightarrow> ('s, 'e, unit) prog" where
  "guardP b e = (if b then retP () else throwP e)"

subsection \<open>Total correctness\<close>

text \<open>
  \<open>wp m N E s\<close>: started in \<open>s\<close> the program returns; it returns a value and a state that satisfy
  \<open>N\<close>, or it is stopped with a reason and a state that satisfy \<open>E\<close>.
\<close>

definition wp :: "('s, 'e, 'a) prog \<Rightarrow> ('a \<Rightarrow> 's \<Rightarrow> bool) \<Rightarrow> ('e \<Rightarrow> 's \<Rightarrow> bool) \<Rightarrow> 's \<Rightarrow> bool" where
  "wp m N E s =
     (case m s of
        None \<Rightarrow> False
      | Some (Inl e, s') \<Rightarrow> E e s'
      | Some (Inr x, s') \<Rightarrow> N x s')"

named_theorems wp_rules "weakest preconditions of the program constructors and operations"
named_theorems run_rules "results of running the program constructors"

lemma wp_ret [wp_rules]: "wp (retP x) N E s = N x s"
  by (simp add: wp_def retP_def)

lemma wp_throw [wp_rules]: "wp (throwP e) N E s = E e s"
  by (simp add: wp_def throwP_def)

lemma wp_bind [wp_rules]: "wp (bindP m k) N E s = wp m (\<lambda>x. wp (k x) N E) E s"
  by (simp add: wp_def bindP_def split: option.split prod.split sum.split)

lemma wp_catch [wp_rules]: "wp (catchP m h) N E s = wp m N (\<lambda>e. wp (h e) N E) s"
  by (simp add: wp_def catchP_def split: option.split prod.split sum.split)

lemma wp_get [wp_rules]: "wp (getP f) N E s = N (f s) s"
  by (simp add: wp_def getP_def)

lemma wp_mod [wp_rules]: "wp (modP f) N E s = N () (f s)"
  by (simp add: wp_def modP_def)

lemma wp_opt [wp_rules]:
  "wp (optP e r) N E s = (case r of None \<Rightarrow> E e s | Some x \<Rightarrow> N x s)"
  by (simp add: optP_def wp_rules split: option.split)

lemma wp_guard [wp_rules]: "wp (guardP b e) N E s = (if b then N () s else E e s)"
  by (simp add: guardP_def wp_rules)

lemma wp_if [wp_rules]: "wp (if b then m else n) N E s = (if b then wp m N E s else wp n N E s)"
  by simp

lemma wp_conseq:
  assumes "wp m N E s"
    and "\<And>x s'. N x s' \<Longrightarrow> N' x s'" and "\<And>e s'. E e s' \<Longrightarrow> E' e s'"
  shows "wp m N' E' s"
  using assms by (auto simp: wp_def split: option.splits prod.splits sum.splits)

lemma wp_conj:
  "wp m N E s \<Longrightarrow> wp m N' E' s \<Longrightarrow> wp m (\<lambda>x t. N x t \<and> N' x t) (\<lambda>e t. E e t \<and> E' e t) s"
  by (auto simp: wp_def split: option.splits prod.splits sum.splits)

lemma wp_result: "wp m N E s \<longleftrightarrow>
    (\<exists>e s'. m s = Some (Inl e, s') \<and> E e s') \<or> (\<exists>x s'. m s = Some (Inr x, s') \<and> N x s')"
  by (auto simp: wp_def split: option.splits prod.splits sum.splits)

lemma wp_same_run: "m s = m' s' \<Longrightarrow> wp m N E s = wp m' N E s'"
  by (simp add: wp_def)

lemma wp_run: "m s = Some (Inr x, s') \<Longrightarrow> wp m N E s = N x s'"
  by (simp add: wp_def)

lemma wp_run_stop: "m s = Some (Inl e, s') \<Longrightarrow> wp m N E s = E e s'"
  by (simp add: wp_def)

text \<open>What returns at all: the postconditions that ask for nothing.\<close>

definition returns :: "('s, 'e, 'a) prog \<Rightarrow> 's \<Rightarrow> bool" where
  "returns m s = wp m (\<lambda>_ _. True) (\<lambda>_ _. True) s"

lemma returns_iff: "returns m s \<longleftrightarrow> (\<exists>r s'. m s = Some (r, s'))"
  by (auto simp: returns_def wp_def split: option.splits prod.splits sum.splits)

lemma run_bind [run_rules]: "bindP (retP x) k s = k x s"
  by (simp add: bindP_def retP_def)

lemma run_bind_Inr: "m s = Some (Inr x, s') \<Longrightarrow> bindP m k s = k x s'"
  by (simp add: bindP_def)

lemma run_bind_Inl: "m s = Some (Inl e, s') \<Longrightarrow> bindP m k s = Some (Inl e, s')"
  by (simp add: bindP_def)

lemma bind_assocP: "bindP (bindP m k) l = bindP m (\<lambda>x. bindP (k x) l)"
  by (rule ext) (simp add: bindP_def split: option.split prod.split sum.split)

subsection \<open>Recursive programs\<close>

text \<open>
  The hint that lets \<^theory_text>\<open>partial_function (option)\<close> accept a recursive call anywhere under
  \<open>bindP\<close>: a program that does not return makes the whole program not return.
\<close>

lemma bindP_eq_bind:
  "bindP m k s = Option.bind (m s) (\<lambda>(r, s'). case r of Inl e \<Rightarrow> Some (Inl e, s') | Inr x \<Rightarrow> k x s')"
  by (simp add: bindP_def split: option.split prod.split sum.split)

lemma bindP_mono [partial_function_mono]:
  assumes m: "mono_option (\<lambda>f. m f s)"
    and k: "\<And>x t. mono_option (\<lambda>f. k f x t)"
  shows "mono_option (\<lambda>f. bindP (m f) (k f) s)"
  unfolding bindP_eq_bind
proof (rule bind_mono [OF m])
  fix y
  show "mono_option (\<lambda>f. case y of (r, s') \<Rightarrow>
      (case r of Inl e \<Rightarrow> Some (Inl e, s') | Inr x \<Rightarrow> k f x s'))"
    by (cases y; cases "fst y") (auto intro: k option.const_mono)
qed

text \<open>The same for a \<open>let\<close>, a conditional or a pair pattern that stands where a program stands.\<close>

lemma let_app_mono [partial_function_mono]:
  "(\<And>x. mono_option (\<lambda>f. b f x s)) \<Longrightarrow> mono_option (\<lambda>f. Let t (b f) s)"
  by (simp add: Let_def)

lemma if_app_mono [partial_function_mono]:
  "mono_option (\<lambda>f. m f s) \<Longrightarrow> mono_option (\<lambda>f. n f s) \<Longrightarrow>
   mono_option (\<lambda>f. (if c then m f else n f) s)"
  by (cases c) simp_all

lemma case_prod_app_mono [partial_function_mono]:
  "(\<And>x y. mono_option (\<lambda>f. b f x y s)) \<Longrightarrow> mono_option (\<lambda>f. case_prod (b f) t s)"
  by (cases t) simp

end
