(* ===== verification/Cksum.thy ===== *)
theory Cksum
  imports Crc_Table
begin

unbundle bit_operations_syntax

text \<open>
  The checksum: \<open>memcrc\<close> of \<open>src/Client/cksum_new.cpp\<close> on machine words and \<open>memcrc\<close> of
  \<open>src/Server/cksum.py\<close> on Python integers, the bitwise CRC of the POSIX \<open>cksum\<close> utility that
  both implement by table, their agreement, and what the checksum detects.
\<close>

section \<open>The reference: polynomial division bit by bit\<close>

definition crc_poly :: "32 word" where
  "crc_poly = 0x04c11db7"

text \<open>One bit: shift the register to the left and reduce by the polynomial when a one drops out.\<close>

definition crc_shift :: "32 word \<Rightarrow> 32 word" where
  "crc_shift s = push_bit 1 s XOR (if bit s 31 then crc_poly else 0)"

definition crc_shift8 :: "32 word \<Rightarrow> 32 word" where
  "crc_shift8 s = (crc_shift ^^ 8) s"

definition ref_step :: "32 word \<Rightarrow> byte \<Rightarrow> 32 word" where
  "ref_step s b = crc_shift8 (s XOR push_bit 24 (ucast b))"

fun len_bytes :: "nat \<Rightarrow> bytes" where
  "len_bytes n = (if n = 0 then [] else of_nat (n mod 256) # len_bytes (n div 256))"

declare len_bytes.simps [simp del]

text \<open>The whole checksum: the message, then its length low byte first, then the complement.\<close>

definition ref_crc :: "bytes \<Rightarrow> 32 word" where
  "ref_crc bs = NOT (foldl ref_step 0 (bs @ len_bytes (length bs)))"


section \<open>Linearity and invertibility of the division step\<close>

lemma crc_shift8_eq:
  "crc_shift8 s = crc_shift (crc_shift (crc_shift (crc_shift
     (crc_shift (crc_shift (crc_shift (crc_shift s)))))))"
  by (simp add: crc_shift8_def numeral_eq_Suc)

lemma crc_shift_xor: "crc_shift (x XOR y) = crc_shift x XOR crc_shift y"
  by (cases "bit x 31"; cases "bit y 31") (simp_all add: crc_shift_def bit_xor_iff ac_simps)

lemma crc_shift8_xor: "crc_shift8 (x XOR y) = crc_shift8 x XOR crc_shift8 y"
  by (simp add: crc_shift8_eq crc_shift_xor)

text \<open>While nothing drops out of the register, the step is a plain shift.\<close>

lemma crc_shift_push: "\<not> bit s (31 - k) \<Longrightarrow> k \<le> 31 \<Longrightarrow> crc_shift (push_bit k s) = push_bit (Suc k) s"
  by (simp add: crc_shift_def bit_push_bit_iff)

lemma crc_shift_funpow_low:
  "(\<And>n. 32 \<le> n + k \<Longrightarrow> \<not> bit s n) \<Longrightarrow> k \<le> 31 \<Longrightarrow> (crc_shift ^^ k) s = push_bit k s"
proof (induction k)
  case 0
  then show ?case by simp
next
  case (Suc k)
  then have "(crc_shift ^^ k) s = push_bit k s" by simp
  moreover have "\<not> bit s (31 - k)" using Suc.prems by simp
  ultimately show ?case using Suc.prems by (simp only: funpow.simps comp_def crc_shift_push)
qed

lemma crc_shift8_low: "(\<And>n. 24 \<le> n \<Longrightarrow> \<not> bit s n) \<Longrightarrow> crc_shift8 s = push_bit 8 s"
  unfolding crc_shift8_def by (rule crc_shift_funpow_low) auto

lemma crc_shift_eq_0: "crc_shift x = 0 \<Longrightarrow> x = 0"
proof -
  assume z: "crc_shift x = 0"
  have "bit (crc_shift x) 0 = bit x 31"
    unfolding crc_shift_def bit_xor_iff bit_push_bit_iff by (simp add: crc_poly_def)
  with z have top: "\<not> bit x 31" by simp
  with z have p: "push_bit 1 x = 0" by (simp add: crc_shift_def)
  show "x = 0"
  proof (rule bit_word_eqI)
    fix n assume n: "n < LENGTH(32)"
    show "bit x n = bit 0 n"
    proof (cases "n = 31")
      case True
      with top show ?thesis by simp
    next
      case False
      with n have "bit (push_bit 1 x) (Suc n) = bit x n"
        unfolding bit_push_bit_iff by simp
      with p show ?thesis by simp
    qed
  qed
qed

lemma xor_eq_0_iff_word: "(x :: 'a::len word) XOR y = 0 \<longleftrightarrow> x = y"
  by (metis xor.assoc xor.left_neutral xor.right_neutral xor_self_eq)

lemma xor_cancel_right: "(x :: 'a::len word) XOR z = y XOR z \<Longrightarrow> x = y"
  by (metis xor.assoc xor.right_neutral xor_self_eq)

lemma xor_cancel_left: "(z :: 'a::len word) XOR x = z XOR y \<Longrightarrow> x = y"
  by (metis xor.commute xor_cancel_right)

lemma crc_shift_inj: "crc_shift x = crc_shift y \<Longrightarrow> x = y"
  using crc_shift_eq_0 [of "x XOR y"] by (simp add: crc_shift_xor xor_eq_0_iff_word)

lemma crc_shift8_inj: "crc_shift8 x = crc_shift8 y \<Longrightarrow> x = y"
  by (simp add: crc_shift8_eq) (blast dest: crc_shift_inj)

lemma ref_step_inj_state: "ref_step s b = ref_step t b \<Longrightarrow> s = t"
  unfolding ref_step_def by (drule crc_shift8_inj) (rule xor_cancel_right)

lemma foldl_ref_step_inj: "foldl ref_step s bs = foldl ref_step t bs \<Longrightarrow> s = t"
  by (induction bs arbitrary: s t) (auto dest: ref_step_inj_state)

section \<open>Tables\<close>

text \<open>The interface of a table of the 256 one-byte remainders, and what its client may rely on.\<close>

locale crc_table =
  fixes tab :: "nat \<Rightarrow> 32 word"
  assumes tab: "i < 256 \<Longrightarrow> tab i = crc_shift8 (push_bit 24 (word_of_nat i))"
begin

lemma index_bound: "unat (drop_bit 24 s XOR ucast b :: 32 word) < 256" for s :: "32 word" and b :: byte
proof -
  have "take_bit 8 (drop_bit 24 s XOR ucast b :: 32 word) = drop_bit 24 s XOR ucast b"
    by (rule bit_word_eqI) (auto simp: bit_simps dest: bit_imp_le_length)
  then have "unat (drop_bit 24 s XOR ucast b :: 32 word)
      = take_bit 8 (unat (drop_bit 24 s XOR ucast b :: 32 word))"
    by (metis unsigned_take_bit_eq)
  then show ?thesis
    using take_bit_nat_less_exp [of 8 "unat (drop_bit 24 s XOR ucast b :: 32 word)"] by simp
qed

lemma step: "push_bit 8 s XOR tab (unat (drop_bit 24 s XOR ucast b :: 32 word)) = ref_step s b"
proof -
  have hi: "crc_shift8 (s AND mask 24) = push_bit 8 s"
  proof -
    have "crc_shift8 (s AND mask 24) = push_bit 8 (s AND mask 24)"
      by (rule crc_shift8_low) (simp add: bit_simps)
    also have "\<dots> = push_bit 8 s"
      by (rule bit_word_eqI) (auto simp: bit_simps)
    finally show ?thesis .
  qed
  have split: "s XOR push_bit 24 (ucast b) =
      (s AND mask 24) XOR push_bit 24 (drop_bit 24 s XOR ucast b)"
    by (rule bit_word_eqI) (auto simp: bit_simps)
  show ?thesis
    unfolding ref_step_def split crc_shift8_xor hi
    by (simp add: tab [OF index_bound])
qed

end

section \<open>The client's checksum\<close>

text \<open>
  \<open>unsigned long\<close> has 32 bits on the platform the client is written for and 64 on others; the
  definitions are for any width \<open>'l\<close> of at least 32 bits. The table index is an \<open>unsigned int\<close>.
\<close>

definition UNSIGNED :: "'l::len word \<Rightarrow> 'l word" where
  "UNSIGNED n = n AND 0xffffffff"

definition memcrc_step :: "'l::len word \<Rightarrow> byte \<Rightarrow> 'l word" where
  "memcrc_step s b =
     (let tabidx = (ucast (drop_bit 24 s XOR ucast b) :: 32 word)
      in UNSIGNED (push_bit 8 s) XOR ucast (crctab ! 0 ! unat tabidx))"

text \<open>
  The second loop, over the bytes of the length \<open>n\<close> (a \<open>size_t\<close>), low byte first. Its table index
  is an \<open>unsigned long\<close>.
\<close>

definition memcrc_length_step :: "'l::len word \<Rightarrow> byte \<Rightarrow> 'l word" where
  "memcrc_length_step s c =
     UNSIGNED (push_bit 8 s) XOR ucast (crctab ! 0 ! unat (drop_bit 24 s XOR ucast c :: 'l word))"

fun memcrc_length :: "'l::len word \<Rightarrow> nat \<Rightarrow> 'l word" where
  "memcrc_length s n =
     (if n = 0 then s
      else let c = of_nat (n mod 256) in memcrc_length (memcrc_length_step s c) (n div 256))"

declare memcrc_length.simps [simp del]

text \<open>\<open>memcrc(b, n)\<close>: the first loop runs \<open>i\<close> over \<open>0 \<le> i < n\<close>.\<close>

definition memcrc :: "bytes \<Rightarrow> nat \<Rightarrow> 'l::len word" where
  "memcrc b n =
     (let s = fold (\<lambda>i s. memcrc_step s (b ! i)) [0..<n] 0
      in UNSIGNED (NOT (memcrc_length s n)))"

text \<open>\<open>readfile\<close>, the checksum of a file by name; the program does not call it.\<close>

definition readfile :: "(bytes \<Rightarrow> bytes option) \<Rightarrow> bytes \<Rightarrow> 'l::len word" where
  "readfile fs fname = (case fs fname of None \<Rightarrow> - 1 | Some b \<Rightarrow> memcrc b (length b))"

section \<open>The server's checksum\<close>

definition py_UNSIGNED :: "int \<Rightarrow> int" where
  "py_UNSIGNED n = n AND 0xffffffff"

definition py_step :: "int \<Rightarrow> int \<Rightarrow> int" where
  "py_step s ch =
     (let tabidx = drop_bit 24 s XOR ch
      in py_UNSIGNED (push_bit 8 s) XOR py_crctab ! nat tabidx)"

fun py_length :: "int \<Rightarrow> nat \<Rightarrow> int" where
  "py_length s n =
     (if n = 0 then s else let c = int (n mod 256) in py_length (py_step s c) (n div 256))"

declare py_length.simps [simp del]

definition py_memcrc :: "bytes \<Rightarrow> int" where
  "py_memcrc b = py_UNSIGNED (NOT (py_length (foldl (\<lambda>s ch. py_step s (uint ch)) 0 b) (length b)))"


section \<open>Both tables hold the remainders\<close>

lemma upt_256: "[0..<256] = 0 # 1 # [2..<256]"
  by (simp add: upt_conv_Cons)

lemma crctab0_remainders:
  "map crc_shift8 (map (\<lambda>i. push_bit 24 (word_of_nat i)) [0..<256]) = crctab0"
  by (simp add: upt_256 upt_rec_numeral crctab0_def crc_shift8_eq crc_shift_def crc_poly_def
      del: map_map)

lemma py_crctab_eq: "py_crctab = map uint crctab0"
  by (simp add: crctab0_def py_crctab_def)

lemma length_crctab0: "length crctab0 = 256"
  by (metis crctab0_remainders diff_zero length_map length_upt)

lemma crctab0_nth: "i < 256 \<Longrightarrow> crctab ! 0 ! i = crc_shift8 (push_bit 24 (word_of_nat i))"
  by (simp add: crctab_def crctab0_remainders [symmetric])

interpretation client_table: crc_table "\<lambda>i. crctab ! 0 ! i"
  by unfold_locales (rule crctab0_nth)

interpretation server_table: crc_table "\<lambda>i. word_of_int (py_crctab ! i)"
  by unfold_locales (simp add: py_crctab_eq length_crctab0 crctab0_nth [symmetric] crctab_def)

text \<open>
  The other slices are the remainders after one to seven more zero bytes, for a slicing loop the
  program does not have.
\<close>

lemma crctab1_remainders: "map crc_shift8 crctab0 = crctab1"
  by (simp add: crctab0_def crctab1_def crc_shift8_eq crc_shift_def crc_poly_def)

lemma crctab2_remainders: "map crc_shift8 crctab1 = crctab2"
  by (simp add: crctab1_def crctab2_def crc_shift8_eq crc_shift_def crc_poly_def)

lemma crctab3_remainders: "map crc_shift8 crctab2 = crctab3"
  by (simp add: crctab2_def crctab3_def crc_shift8_eq crc_shift_def crc_poly_def)

lemma crctab4_remainders: "map crc_shift8 crctab3 = crctab4"
  by (simp add: crctab3_def crctab4_def crc_shift8_eq crc_shift_def crc_poly_def)

lemma crctab5_remainders: "map crc_shift8 crctab4 = crctab5"
  by (simp add: crctab4_def crctab5_def crc_shift8_eq crc_shift_def crc_poly_def)

lemma crctab6_remainders: "map crc_shift8 crctab5 = crctab6"
  by (simp add: crctab5_def crctab6_def crc_shift8_eq crc_shift_def crc_poly_def)

lemma crctab7_remainders: "map crc_shift8 crctab6 = crctab7"
  by (simp add: crctab6_def crctab7_def crc_shift8_eq crc_shift_def crc_poly_def)

section \<open>Both implementations compute the reference\<close>

lemma UNSIGNED_32: "UNSIGNED (n :: 32 word) = n"
proof -
  have ff: "(0xffffffff :: 32 word) = mask 32" by (simp add: mask_eq_exp_minus_1)
  show ?thesis
    unfolding UNSIGNED_def ff by (rule bit_word_eqI) (simp add: bit_simps)
qed

lemma memcrc_step_ref: "memcrc_step (s :: 32 word) b = ref_step s b"
  by (simp add: memcrc_step_def UNSIGNED_32 client_table.step)

lemma memcrc_length_step_32: "memcrc_length_step (s :: 32 word) c = memcrc_step s c"
  by (simp add: memcrc_length_step_def memcrc_step_def)

lemma memcrc_length_ref: "memcrc_length (s :: 32 word) n = foldl ref_step s (len_bytes n)"
proof (induction n arbitrary: s rule: less_induct)
  case (less n)
  then show ?case
    by (subst memcrc_length.simps, subst len_bytes.simps)
      (simp add: memcrc_length_step_32 memcrc_step_ref Let_def)
qed

lemma fold_nth: "fold (\<lambda>i s. f s (b ! i)) [0..<length b] s = foldl f s b"
proof (induction b rule: rev_induct)
  case Nil
  then show ?case by simp
next
  case (snoc x xs)
  have "fold (\<lambda>i s. f s ((xs @ [x]) ! i)) [0..<length xs] s
      = fold (\<lambda>i s. f s (xs ! i)) [0..<length xs] s"
    by (rule List.fold_cong) (auto simp: nth_append)
  with snoc show ?case by simp
qed

lemma memcrc_ref: "memcrc b (length b) = ref_crc b"
  by (simp add: memcrc_def ref_crc_def fold_nth memcrc_step_ref memcrc_length_ref UNSIGNED_32 Let_def)


text \<open>
  Any width of \<open>unsigned long\<close> from 32 bits on gives the same checksum: the register keeps its
  high part zero.
\<close>

lemma memcrc_step_ucast:
  assumes "32 \<le> LENGTH('l::len)"
  shows "memcrc_step (ucast (s :: 32 word) :: 'l word) b = ucast (memcrc_step s b)"
proof -
  have ff: "(0xffffffff :: 'l word) = mask 32" by (simp add: mask_eq_exp_minus_1)
  have idx: "(ucast (drop_bit 24 (ucast s :: 'l word) XOR ucast b) :: 32 word) = drop_bit 24 s XOR ucast b"
    by (rule bit_word_eqI) (use assms in \<open>auto simp: bit_simps dest: bit_imp_le_length\<close>)
  have shift: "push_bit 8 (ucast s :: 'l word) AND mask 32 = ucast (push_bit 8 s)"
    by (rule bit_word_eqI) (use assms in \<open>auto simp: bit_simps dest: bit_imp_le_length\<close>)
  have xor: "ucast x XOR ucast y = (ucast (x XOR y) :: 'l word)" for x y :: "32 word"
    by (rule bit_word_eqI) (auto simp: bit_simps)
  show ?thesis
    by (simp add: memcrc_step_def Let_def idx UNSIGNED_32)
      (simp add: UNSIGNED_def ff shift xor)
qed

lemma memcrc_length_step_ucast:
  assumes "32 \<le> LENGTH('l::len)"
  shows "memcrc_length_step (ucast (s :: 32 word) :: 'l word) b = ucast (memcrc_step s b)"
proof -
  have idx: "drop_bit 24 (ucast s :: 'l word) XOR ucast b = ucast (drop_bit 24 s XOR ucast b :: 32 word)"
    by (rule bit_word_eqI) (use assms in \<open>auto simp: bit_simps dest: bit_imp_le_length\<close>)
  have "(ucast (drop_bit 24 (ucast s :: 'l word) XOR ucast b) :: 32 word) = drop_bit 24 s XOR ucast b"
    by (rule bit_word_eqI) (use assms in \<open>auto simp: bit_simps dest: bit_imp_le_length\<close>)
  moreover have "unat (ucast (x :: 32 word) :: 'l word) = unat x" for x
  proof -
    have "unat x < 2 ^ 32" using unsigned_less [of x, where ?'a = nat] by simp
    also have "(2 :: nat) ^ 32 \<le> 2 ^ LENGTH('l)" using assms by (intro power_increasing) simp_all
    finally show ?thesis by (simp add: unsigned_ucast_eq take_bit_nat_eq_self)
  qed
  ultimately have "memcrc_length_step (ucast s :: 'l word) b = memcrc_step (ucast s) b"
    by (simp add: memcrc_length_step_def memcrc_step_def idx)
  then show ?thesis by (simp add: memcrc_step_ucast [OF assms])
qed

lemma memcrc_length_ucast:
  assumes "32 \<le> LENGTH('l::len)"
  shows "memcrc_length (ucast (s :: 32 word) :: 'l word) n = ucast (memcrc_length s n)"
proof (induction n arbitrary: s rule: less_induct)
  case (less n)
  then show ?case
    by (subst (1 2) memcrc_length.simps)
      (simp add: memcrc_length_step_ucast [OF assms] memcrc_length_step_32 Let_def)
qed

lemma memcrc_ucast:
  assumes "32 \<le> LENGTH('l::len)"
  shows "(memcrc b n :: 'l word) = ucast (memcrc b n :: 32 word)"
proof -
  have loop: "fold (\<lambda>i s. memcrc_step s (b ! i)) is (ucast (s :: 32 word) :: 'l word)
      = ucast (fold (\<lambda>i s. memcrc_step s (b ! i)) is s)" for "is" s
    by (induction "is" arbitrary: s) (simp_all add: memcrc_step_ucast [OF assms])
  have ff: "(0xffffffff :: 'l word) = mask 32" by (simp add: mask_eq_exp_minus_1)
  have neg: "UNSIGNED (NOT (ucast (s :: 32 word) :: 'l word)) = ucast (UNSIGNED (NOT s))" for s
    unfolding UNSIGNED_32 unfolding UNSIGNED_def ff
    by (rule bit_word_eqI) (use assms in \<open>auto simp: bit_simps dest: bit_imp_le_length\<close>)
  from loop [of "[0..<n]" 0] show ?thesis
    by (simp add: memcrc_def Let_def memcrc_length_ucast [OF assms] neg)
qed

section \<open>The server's integers are the client's words\<close>

lemma py_step_uint: "py_step (uint s) (uint b) = uint (memcrc_step (s :: 32 word) b)"
proof -
  have ff: "(0xffffffff :: int) = mask 32" by (simp add: mask_eq_exp_minus_1)
  have idx: "drop_bit 24 (uint s) XOR uint b = uint (drop_bit 24 s XOR ucast b :: 32 word)"
    by (rule bit_eqI) (auto simp: bit_simps dest: bit_imp_le_length)
  have nth: "py_crctab ! unat i = uint (crctab ! 0 ! unat i)" if "unat i < 256" for i :: "32 word"
    using that by (simp add: py_crctab_eq length_crctab0 crctab_def)
  have shift: "push_bit 8 (uint s) AND mask 32 = uint (push_bit 8 s)"
    by (rule bit_eqI) (auto simp: bit_simps)
  have xor: "uint x XOR uint y = uint (x XOR y)" for x y :: "32 word"
    by (rule bit_eqI) (auto simp: bit_simps)
  show ?thesis
    using client_table.index_bound [of s b]
    by (simp add: py_step_def memcrc_step_def Let_def idx nth py_UNSIGNED_def ff shift xor UNSIGNED_32
        flip: unat_eq_nat_uint)
qed

lemma py_length_uint: "py_length (uint s) n = uint (memcrc_length (s :: 32 word) n)"
proof (induction n arbitrary: s rule: less_induct)
  case (less n)
  have "int (n mod 256) = uint (of_nat (n mod 256) :: byte)"
    by (simp add: unsigned_of_nat take_bit_eq_mod of_nat_mod)
  with less show ?case
    by (subst py_length.simps, subst memcrc_length.simps) (simp add: py_step_uint memcrc_length_step_32 Let_def)
qed

lemma py_memcrc_uint: "py_memcrc b = uint (memcrc b (length b) :: 32 word)"
proof -
  have loop: "foldl (\<lambda>s ch. py_step s (uint ch)) (uint (s :: 32 word)) b
      = uint (foldl memcrc_step s b)" for s
    by (induction b arbitrary: s) (simp_all add: py_step_uint)
  have ff: "(0xffffffff :: int) = mask 32" by (simp add: mask_eq_exp_minus_1)
  have neg: "py_UNSIGNED (NOT (uint (s :: 32 word))) = uint (UNSIGNED (NOT s))" for s
    unfolding UNSIGNED_32 py_UNSIGNED_def ff
    by (rule bit_eqI) (auto simp: bit_simps)
  from loop [of 0] show ?thesis
    by (simp add: py_memcrc_def memcrc_def Let_def fold_nth py_length_uint neg)
qed


section \<open>What the checksum detects\<close>

text \<open>
  Up to four bytes, placed in the register at the positions where the division meets them.
\<close>

fun place :: "bytes \<Rightarrow> 32 word" where
  "place [] = 0"
| "place (b # bs) = push_bit 24 (ucast b) XOR drop_bit 8 (place bs)"

lemma place_low: "length bs \<le> 4 \<Longrightarrow> n + 8 * length bs < 32 \<Longrightarrow> \<not> bit (place bs) n"
proof (induction bs arbitrary: n)
  case Nil
  then show ?case by simp
next
  case (Cons b bs)
  then have "\<not> bit (place bs) (8 + n)" by simp
  with Cons.prems show ?case by (simp add: bit_simps)
qed

lemma drop_place: "length bs \<le> 3 \<Longrightarrow> push_bit 8 (drop_bit 8 (place bs)) = place bs"
proof (rule bit_word_eqI)
  fix n assume "length bs \<le> 3" and "n < LENGTH(32)"
  then show "bit (push_bit 8 (drop_bit 8 (place bs))) n = bit (place bs) n"
    using place_low [of bs n] by (cases "n < 8") (simp_all add: bit_simps)
qed

lemma foldl_ref_step_place:
  "length bs \<le> 4 \<Longrightarrow> foldl ref_step s bs = (crc_shift8 ^^ length bs) (s XOR place bs)"
proof (induction bs arbitrary: s)
  case Nil
  then show ?case by simp
next
  case (Cons b bs)
  have low: "crc_shift8 (drop_bit 8 (place bs)) = place bs"
  proof -
    have "crc_shift8 (drop_bit 8 (place bs)) = push_bit 8 (drop_bit 8 (place bs))"
      by (rule crc_shift8_low) (auto simp: bit_simps dest: bit_imp_le_length)
    with Cons.prems show ?thesis by (simp add: drop_place)
  qed
  have "ref_step s b XOR place bs = crc_shift8 (s XOR place (b # bs))"
    by (simp add: ref_step_def crc_shift8_xor low xor.assoc)
  with Cons show ?case by (simp add: funpow_swap1)
qed

lemma place_top: "drop_bit 24 (place (b # bs)) = ucast b"
  by (rule bit_word_eqI) (auto simp: bit_simps dest: bit_imp_le_length)

lemma ucast_byte_inj:
  fixes x y :: byte
  assumes "(ucast x :: 32 word) = ucast y"
  shows "x = y"
proof (rule bit_word_eqI)
  fix n assume "n < LENGTH(8)"
  then show "bit x n = bit y n"
    using arg_cong [OF assms, of "\<lambda>w. bit w n"] by (simp add: bit_simps)
qed

lemma place_inj:
  assumes "length xs = length ys" and "length xs \<le> 4" and "place xs = place ys"
  shows "xs = ys"
  using assms
proof (induction xs arbitrary: ys)
  case Nil
  from Nil.prems(1) show ?case by simp
next
  case (Cons x xs)
  from Cons.prems(1) obtain y ys' where ys: "ys = y # ys'" by (cases ys) auto
  have len: "length xs \<le> 3" "length ys' \<le> 3" "length xs = length ys'"
    using Cons.prems(1,2) ys by auto
  have "ucast x = (ucast y :: 32 word)"
    using Cons.prems(3) place_top [of x xs] place_top [of y ys'] by (simp only: ys)
  then have xy: "x = y" by (rule ucast_byte_inj)
  have "drop_bit 8 (place xs) = drop_bit 8 (place ys')"
    using Cons.prems(3) unfolding ys xy place.simps by (rule xor_cancel_left)
  then have "push_bit 8 (drop_bit 8 (place xs)) = push_bit 8 (drop_bit 8 (place ys'))"
    by (rule arg_cong)
  then have "place xs = place ys'"
    unfolding drop_place [OF len(1)] drop_place [OF len(2)] .
  with Cons.IH [of ys'] len have "xs = ys'" by simp
  with xy ys show ?case by simp
qed

lemma funpow_crc_shift8_inj: "(crc_shift8 ^^ n) x = (crc_shift8 ^^ n) y \<Longrightarrow> x = y"
  by (induction n) (auto dest: crc_shift8_inj)

lemma burst_changes_register:
  assumes "length xs = length ys" and "length xs \<le> 4" and "xs \<noteq> ys"
  shows "foldl ref_step s xs \<noteq> foldl ref_step s ys"
proof
  assume "foldl ref_step s xs = foldl ref_step s ys"
  with assms(1,2) have "s XOR place xs = s XOR place ys"
    by (simp add: foldl_ref_step_place) (blast dest: funpow_crc_shift8_inj)
  with assms show False by (blast dest: xor_cancel_left place_inj)
qed

lemma ref_crc_detects_burst:
  assumes "length xs = length ys" and "length xs \<le> 4" and "xs \<noteq> ys"
  shows "ref_crc (p @ xs @ q) \<noteq> ref_crc (p @ ys @ q)"
proof
  assume eq: "ref_crc (p @ xs @ q) = ref_crc (p @ ys @ q)"
  have "foldl ref_step 0 ((p @ xs @ q) @ len_bytes (length (p @ xs @ q)))
      = foldl ref_step 0 ((p @ ys @ q) @ len_bytes (length (p @ ys @ q)))"
    using eq unfolding ref_crc_def by (rule bit.compl_eq_compl_iff [THEN iffD1])
  then have "foldl ref_step (foldl ref_step 0 p) xs = foldl ref_step (foldl ref_step 0 p) ys"
    using assms(1) by (auto dest!: foldl_ref_step_inj)
  with burst_changes_register [OF assms] show False by blast
qed


section \<open>Properties\<close>



text \<open>C38: the client's \<open>memcrc\<close> does not depend on the width of \<open>unsigned long\<close>: with 64 bits it
  returns the 32-bit value, zero-extended.\<close>

theorem memcrc_width_independent: "(memcrc b n :: 64 word) = ucast (memcrc b n :: 32 word)"
  by (rule memcrc_ucast) simp




end
