(* ===== verification/Codec.thy ===== *)
theory Codec
  imports Prelude
begin

text \<open>
  The wire representation both sides share: little-endian integers
  (\<open>boost::endian::store_little_u16/u32\<close> and \<open>little_uint..._buf_t\<close> on the client,
  \<open>int.to_bytes\<close> and \<open>int.from_bytes\<close> with \<open>byteorder='little'\<close> on the server) and strings
  padded with NUL bytes, and the interface \<open>codec\<close> that every encoder and decoder pair of the
  protocol implements: decoding takes exactly the encoded bytes off the front of the stream.
\<close>

section \<open>Little-endian integers\<close>

fun le_bytes :: "nat \<Rightarrow> nat \<Rightarrow> bytes" where
  "le_bytes 0 v = []"
| "le_bytes (Suc n) v = of_nat v # le_bytes n (v div 256)"

fun le_nat :: "bytes \<Rightarrow> nat" where
  "le_nat [] = 0"
| "le_nat (b # bs) = unat b + 256 * le_nat bs"

lemma length_le_bytes [simp]: "length (le_bytes n v) = n"
  by (induction n arbitrary: v) auto

lemma le_nat_le_bytes: "le_nat (le_bytes n v) = v mod 256 ^ n"
proof (induction n arbitrary: v)
  case 0
  then show ?case by simp
next
  case (Suc n)
  have "unat (of_nat v :: 8 word) = v mod 256"
    by (simp add: unat_of_nat)
  with Suc show ?case
    by (simp add: mod_mult2_eq)
qed

lemma le_bytes_le_nat: "le_bytes (length bs) (le_nat bs) = bs"
proof (induction bs)
  case Nil
  then show ?case by simp
next
  case (Cons b bs)
  have "unat b < 256" using unsigned_less [of b] by simp
  then have "(unat b + 256 * le_nat bs) div 256 = le_nat bs" by simp
  moreover have "(of_nat (256 * le_nat bs) :: 8 word) = 0"
    using word_of_nat_eq_0_iff [of "256 * le_nat bs", where 'a = 8] by simp
  ultimately show ?case using Cons by simp
qed

lemma le_nat_less: "le_nat bs < 256 ^ length bs"
proof (induction bs)
  case Nil
  then show ?case by simp
next
  case (Cons b bs)
  have "unat b < 256" using unsigned_less [of b] by simp
  with Cons show ?case by simp
qed

definition store_little_u16 :: "16 word \<Rightarrow> bytes" where
  "store_little_u16 w = le_bytes 2 (unat w)"

definition store_little_u32 :: "32 word \<Rightarrow> bytes" where
  "store_little_u32 w = le_bytes 4 (unat w)"

definition load_little_u16 :: "bytes \<Rightarrow> 16 word" where
  "load_little_u16 bs = of_nat (le_nat bs)"

definition load_little_u32 :: "bytes \<Rightarrow> 32 word" where
  "load_little_u32 bs = of_nat (le_nat bs)"

lemma length_store_little [simp]:
  "length (store_little_u16 v) = 2" "length (store_little_u32 w) = 4"
  by (simp_all add: store_little_u16_def store_little_u32_def)

lemma load_store_little [simp]:
  "load_little_u16 (store_little_u16 v) = v" "load_little_u32 (store_little_u32 w) = w"
proof -
  have "unat v < 2 ^ 16" using unsigned_less [of v] by simp
  then show "load_little_u16 (store_little_u16 v) = v"
    by (simp add: load_little_u16_def store_little_u16_def le_nat_le_bytes)
  have "unat w < 2 ^ 32" using unsigned_less [of w] by simp
  then show "load_little_u32 (store_little_u32 w) = w"
    by (simp add: load_little_u32_def store_little_u32_def le_nat_le_bytes)
qed

section \<open>NUL-padded strings\<close>

definition pad_nul :: "nat \<Rightarrow> bytes \<Rightarrow> bytes" where
  "pad_nul n s = s @ replicate (n - length s) 0"

definition until_nul :: "bytes \<Rightarrow> bytes" where
  "until_nul s = takeWhile (\<lambda>b. b \<noteq> 0) s"

definition strip_nul :: "bytes \<Rightarrow> bytes" where
  "strip_nul s = filter (\<lambda>b. b \<noteq> 0) s"

lemma length_pad_nul [simp]: "length (pad_nul n s) = max n (length s)"
  by (simp add: pad_nul_def)

lemma until_nul_id: "0 \<notin> set s \<Longrightarrow> until_nul s = s"
  by (metis (mono_tags, lifting) takeWhile_eq_all_conv until_nul_def)

lemma until_nul_no_nul: "0 \<notin> set (until_nul s)"
  by (auto simp: until_nul_def dest: set_takeWhileD)

lemma until_nul_append_nul: "0 \<notin> set s \<Longrightarrow> until_nul (s @ 0 # r) = s"
  by (induction s) (simp_all add: until_nul_def)

lemma until_nul_pad: "0 \<notin> set s \<Longrightarrow> until_nul (pad_nul n s) = s"
  by (cases "n - length s")
    (simp_all add: pad_nul_def until_nul_id until_nul_append_nul)

lemma strip_nul_id: "0 \<notin> set s \<Longrightarrow> strip_nul s = s"
  by (auto simp: strip_nul_def intro: filter_True)

lemma strip_nul_pad: "0 \<notin> set s \<Longrightarrow> strip_nul (pad_nul n s) = s"
  using strip_nul_id [of s] by (simp add: pad_nul_def strip_nul_def)

lemma until_nul_eq_iff: "until_nul s = s \<longleftrightarrow> 0 \<notin> set s"
  by (metis until_nul_id until_nul_no_nul)

section \<open>The interface of an encoder and its decoder\<close>

locale codec =
  fixes enc :: "'a \<Rightarrow> bytes"
    and dec :: "bytes \<Rightarrow> ('a \<times> bytes) option"
    and wf :: "'a \<Rightarrow> bool"
  assumes dec_enc: "wf x \<Longrightarrow> dec (enc x @ r) = Some (x, r)"
begin

lemma dec_exact: "wf x \<Longrightarrow> dec (enc x) = Some (x, [])"
  using dec_enc [of x "[]"] by simp

lemma enc_inj: "wf x \<Longrightarrow> wf y \<Longrightarrow> enc x = enc y \<Longrightarrow> x = y"
  by (metis Pair_inject dec_exact option.inject)

text \<open>No encoding is a proper prefix of another one, so a stream of them splits in one way.\<close>

lemma prefix_free: "wf x \<Longrightarrow> wf y \<Longrightarrow> enc x @ r = enc y @ r' \<Longrightarrow> x = y \<and> r = r'"
  by (metis Pair_inject dec_enc option.inject)

lemma stream_unique:
  assumes "list_all wf xs" and "list_all wf ys" and "length xs = length ys"
    and "concat (map enc xs) @ r = concat (map enc ys) @ r'"
  shows "xs = ys \<and> r = r'"
  using assms(3,1,2,4)
proof (induction xs ys rule: list_induct2)
  case Nil
  then show ?case by simp
next
  case (Cons x xs y ys)
  have "x = y \<and> concat (map enc xs) @ r = concat (map enc ys) @ r'"
    by (rule prefix_free) (use Cons.prems in simp_all)
  with Cons show ?case by simp
qed

end

text \<open>
  A codec of fixed width: the decoder takes \<open>width\<close> bytes off the stream, whatever they are.
\<close>

definition fixed_dec :: "(bytes \<Rightarrow> 'a) \<Rightarrow> nat \<Rightarrow> bytes \<Rightarrow> ('a \<times> bytes) option" where
  "fixed_dec of_bytes width bs =
     (if width \<le> length bs then Some (of_bytes (take width bs), drop width bs) else None)"

locale fixed_codec =
  fixes enc :: "'a \<Rightarrow> bytes"
    and of_bytes :: "bytes \<Rightarrow> 'a"
    and width :: nat
    and wf :: "'a \<Rightarrow> bool"
  assumes enc_width: "wf x \<Longrightarrow> length (enc x) = width"
    and of_enc: "wf x \<Longrightarrow> of_bytes (enc x) = x"
begin

lemma dec_eq: "wf x \<Longrightarrow> fixed_dec of_bytes width (enc x @ r) = Some (x, r)"
  by (simp add: fixed_dec_def enc_width of_enc)

lemma take_enc: "wf x \<Longrightarrow> of_bytes (take width (enc x @ r)) = x"
  by (simp add: enc_width of_enc)

lemma drop_enc: "wf x \<Longrightarrow> drop width (enc x @ r) = r"
  by (simp add: enc_width)

end

sublocale fixed_codec \<subseteq> codec enc "fixed_dec of_bytes width" wf
  by unfold_locales (rule dec_eq)

interpretation u16: fixed_codec store_little_u16 load_little_u16 2 "\<lambda>_. True"
  by unfold_locales simp_all

interpretation u32: fixed_codec store_little_u32 load_little_u32 4 "\<lambda>_. True"
  by unfold_locales simp_all

interpretation le_int: fixed_codec "le_bytes n" le_nat n "\<lambda>v. v < 256 ^ n" for n
  by unfold_locales (simp_all add: le_nat_le_bytes)

text \<open>
  A name in a field of \<open>n\<close> bytes: the client pads it with NUL bytes, the server takes the field
  and removes every NUL byte.
\<close>

interpretation padded: fixed_codec "pad_nul n" strip_nul n "\<lambda>s. length s \<le> n \<and> 0 \<notin> set s" for n
  by unfold_locales (auto simp: strip_nul_pad)

text \<open>The way back: the server pads, the client cuts at the first NUL byte.\<close>

interpretation padded_cut: fixed_codec "pad_nul n" until_nul n "\<lambda>s. length s \<le> n \<and> 0 \<notin> set s" for n
  by unfold_locales (auto simp: until_nul_pad)

end
