(* ===== verification/Global.thy ===== *)
theory Global
  imports Prelude
begin

text \<open>
  The constants of \<open>src/Client/global.h\<close>: the protocol version, the limits, the field sizes and
  the two enumerations of message codes. The code compares and stores the enumerators as \<open>int\<close>s,
  so each enumeration comes with its value function.
\<close>

definition VERSION :: nat where [simp]: "VERSION = 3"
definition MAX_TRIES :: int where [simp]: "MAX_TRIES = 4"
definition TRY_AGAIN :: int where [simp]: "TRY_AGAIN = 0"

definition NAME_OF_CLIENT_MAX_SIZE :: nat where [simp]: "NAME_OF_CLIENT_MAX_SIZE = 100"
definition NAME_OF_CLIENT_SIZE :: nat where [simp]: "NAME_OF_CLIENT_SIZE = 255"
definition NAME_OF_FILE_SIZE :: nat where [simp]: "NAME_OF_FILE_SIZE = 255"
definition PAYLOAD_SIZE_SIZE :: nat where [simp]: "PAYLOAD_SIZE_SIZE = 4"
definition CODE_SIZE :: nat where [simp]: "CODE_SIZE = 2"
definition VERSION_SIZE :: nat where [simp]: "VERSION_SIZE = 1"
definition CLIENT_ID_SIZE :: nat where [simp]: "CLIENT_ID_SIZE = 16"
definition REQUEST_HEADER_SIZE :: nat where [simp]: "REQUEST_HEADER_SIZE = 23"
definition PACKET_MAX_SIZE :: nat where [simp]: "PACKET_MAX_SIZE = 4096"
definition CONTENT_SIZE_SIZE :: nat where [simp]: "CONTENT_SIZE_SIZE = 4"
definition ORIG_FILE_SIZE_SIZE :: nat where [simp]: "ORIG_FILE_SIZE_SIZE = 4"
definition PACKET_NUMBER_SIZE :: nat where [simp]: "PACKET_NUMBER_SIZE = 2"
definition TOTAL_PACKETS_SIZE :: nat where [simp]: "TOTAL_PACKETS_SIZE = 2"
definition FILE_NAME_SIZE :: nat where [simp]: "FILE_NAME_SIZE = 255"
definition CRC_SIZE :: nat where [simp]: "CRC_SIZE = 4"
definition SIZE_32_BITS :: nat where [simp]: "SIZE_32_BITS = 4"
definition SIZE_16_BITS :: nat where [simp]: "SIZE_16_BITS = 2"

datatype Answer_codes =
    INVALID_RECONNECT_1606
  | GENERAL_ERROR_1607
  | VALID_RECONNECT_1605
  | VALID_FILE_AND_CRC_1603
  | THANK_YOU_1604
  | REGISTERING_FAILED_1601
  | REGISTERING_DONE_1600
  | GET_PUBLIC_KEY_SEND_AES_1602

primrec answer_code :: "Answer_codes \<Rightarrow> int" where
  "answer_code INVALID_RECONNECT_1606 = 1606"
| "answer_code GENERAL_ERROR_1607 = 1607"
| "answer_code VALID_RECONNECT_1605 = 1605"
| "answer_code VALID_FILE_AND_CRC_1603 = 1603"
| "answer_code THANK_YOU_1604 = 1604"
| "answer_code REGISTERING_FAILED_1601 = 1601"
| "answer_code REGISTERING_DONE_1600 = 1600"
| "answer_code GET_PUBLIC_KEY_SEND_AES_1602 = 1602"

datatype Request_codes =
    RECONNECT_827
  | SEND_FILE_828
  | VALID_CRC_900
  | WRONG_CRC_TRY_AGAIN_901
  | WRONG_CRC_4TH_902
  | REGISTERING_825
  | SEND_PUBLIC_KEY_826

primrec request_code :: "Request_codes \<Rightarrow> int" where
  "request_code RECONNECT_827 = 827"
| "request_code SEND_FILE_828 = 828"
| "request_code VALID_CRC_900 = 900"
| "request_code WRONG_CRC_TRY_AGAIN_901 = 901"
| "request_code WRONG_CRC_4TH_902 = 902"
| "request_code REGISTERING_825 = 825"
| "request_code SEND_PUBLIC_KEY_826 = 826"

lemma answer_code_inj: "answer_code a = answer_code b \<longleftrightarrow> a = b"
  by (cases a; cases b) simp_all

lemma request_code_inj: "request_code a = request_code b \<longleftrightarrow> a = b"
  by (cases a; cases b) simp_all

end
