(* ===== verification/Client_Util.thy ===== *)
theory Client_Util
  imports Global "HOL-Library.Signed_Division"
begin

text \<open>
  The pure functions of \<open>src/Client/various_functions.cpp\<close>: packet counting on C++ \<open>int\<close>s, the
  file name in a path, the hexadecimal text of a client id and its reader, and line reading.
\<close>

section \<open>Packet counting\<close>

text \<open>A \<open>size_t\<close> passed where an \<open>int\<close> is expected keeps its low 32 bits, read as signed.\<close>

definition int_of_size :: "nat \<Rightarrow> int" where
  "int_of_size n = sint (of_nat n :: 32 word)"

text \<open>
  \<open>calculate_total_packets\<close>: \<open>None\<close> is the exit with "File size is too big". Division and remainder
  of \<open>int\<close>s truncate towards zero.
\<close>

definition calculate_total_packets :: "int \<Rightarrow> int option" where
  "calculate_total_packets file_size =
     (let total_packets = file_size sdiv int PACKET_MAX_SIZE;
          total_packets = (if file_size smod int PACKET_MAX_SIZE \<noteq> 0 then total_packets + 1
                           else total_packets)
      in if total_packets > 65535 then None else Some total_packets)"

section \<open>Paths\<close>

definition backslash :: byte where
  "backslash = 92"

text \<open>\<open>find_last_of\<close>: the position of the last occurrence, \<open>None\<close> for \<open>npos\<close>.\<close>

definition find_last_of :: "byte \<Rightarrow> bytes \<Rightarrow> nat option" where
  "find_last_of c s =
     (case filter (\<lambda>i. s ! i = c) [0..<length s] of [] \<Rightarrow> None | i # is \<Rightarrow> Some (last (i # is)))"

definition find_file_name :: "bytes \<Rightarrow> bytes" where
  "find_file_name path_to_file =
     (case find_last_of backslash path_to_file of
        None \<Rightarrow> path_to_file
      | Some pos_file_name \<Rightarrow> drop (pos_file_name + 1) path_to_file)"

section \<open>Hexadecimal text\<close>

definition hex_digit :: "nat \<Rightarrow> byte" where
  "hex_digit d = of_nat (if d < 10 then 48 + d else 87 + d)"

text \<open>One byte through \<open>std::hex\<close>, \<open>std::setw(2)\<close> and \<open>std::setfill('0')\<close>.\<close>

definition hex_of_byte :: "byte \<Rightarrow> bytes" where
  "hex_of_byte b =
     (let n = unat b
      in if n < 16 then [48, hex_digit n] else [hex_digit (n div 16), hex_digit (n mod 16)])"

definition convert_string_to_hex :: "bytes \<Rightarrow> bytes" where
  "convert_string_to_hex s = concat (map hex_of_byte s)"

definition isspace :: "byte \<Rightarrow> bool" where
  "isspace c \<longleftrightarrow> c = 32 \<or> 9 \<le> unat c \<and> unat c \<le> 13"

definition digit_value :: "byte \<Rightarrow> nat option" where
  "digit_value c =
     (let n = unat c
      in if 48 \<le> n \<and> n \<le> 57 then Some (n - 48)
         else if 65 \<le> n \<and> n \<le> 70 then Some (n - 55)
         else if 97 \<le> n \<and> n \<le> 102 then Some (n - 87)
         else None)"

fun read_digits :: "int \<Rightarrow> bytes \<Rightarrow> int" where
  "read_digits acc [] = acc"
| "read_digits acc (c # cs) =
     (case digit_value c of None \<Rightarrow> acc | Some d \<Rightarrow> read_digits (16 * acc + int d) cs)"

text \<open>
  \<open>strtol(s, NULL, 16)\<close> on the short strings the code gives it: white space, a sign, an optional
  \<open>0x\<close> that a digit must follow, then digits up to the first other character.
\<close>

definition skip_0x :: "bytes \<Rightarrow> bytes" where
  "skip_0x s =
     (case s of
        z # x # d # r \<Rightarrow>
          (if z = 48 \<and> (x = 120 \<or> x = 88) \<and> digit_value d \<noteq> None then d # r else s)
      | _ \<Rightarrow> s)"

definition strtol16 :: "bytes \<Rightarrow> int" where
  "strtol16 s =
     (case dropWhile isspace s of
        [] \<Rightarrow> 0
      | c # r \<Rightarrow>
          if c = 45 then - read_digits 0 (skip_0x r)
          else if c = 43 then read_digits 0 (skip_0x r)
          else read_digits 0 (skip_0x (c # r)))"

text \<open>\<open>convert_hex_to_bytes\<close> takes two characters at a time; an odd last one is read alone.\<close>

fun convert_hex_to_bytes :: "bytes \<Rightarrow> bytes" where
  "convert_hex_to_bytes [] = []"
| "convert_hex_to_bytes [a] = [word_of_int (strtol16 [a])]"
| "convert_hex_to_bytes (a # b # hex) =
     word_of_int (strtol16 [a, b]) # convert_hex_to_bytes hex"

section \<open>Lines\<close>

definition newline :: byte where
  "newline = 10"

text \<open>\<open>getline\<close>: the characters up to the next newline, and what follows it; it fails at the end.\<close>

definition getline :: "bytes \<Rightarrow> (bytes \<times> bytes) option" where
  "getline s =
     (if s = [] then None
      else Some (takeWhile (\<lambda>c. c \<noteq> newline) s, drop 1 (dropWhile (\<lambda>c. c \<noteq> newline) s)))"

text \<open>A call whose result is ignored leaves the (empty) string as it was when it fails.\<close>

definition get_line :: "bytes \<Rightarrow> bytes \<times> bytes" where
  "get_line s = (case getline s of None \<Rightarrow> ([], []) | Some r \<Rightarrow> r)"

text \<open>The loop \<open>while (getline(f, res)) acc += res\<close>.\<close>

function join_lines :: "bytes \<Rightarrow> bytes \<Rightarrow> bytes" where
  "join_lines acc s =
     (case getline s of None \<Rightarrow> acc | Some (res, rest) \<Rightarrow> join_lines (acc @ res) rest)"
  by pat_completeness auto

lemma getline_shorter: "getline s = Some (res, rest) \<Longrightarrow> length rest < length s"
proof -
  assume "getline s = Some (res, rest)"
  then have "s \<noteq> []" and rest: "rest = drop 1 (dropWhile (\<lambda>c. c \<noteq> newline) s)"
    by (auto simp: getline_def split: if_splits)
  have "length (dropWhile (\<lambda>c. c \<noteq> newline) s) \<le> length s"
    by (rule length_dropWhile_le)
  with \<open>s \<noteq> []\<close> rest show ?thesis
    by (cases "dropWhile (\<lambda>c. c \<noteq> newline) s") auto
qed

termination join_lines
  by (relation "measure (\<lambda>(acc, s). length s)") (auto dest: getline_shorter)

declare join_lines.simps [simp del]

section \<open>Lemmas\<close>

lemma int_of_size_small: "n < 2 ^ 31 \<Longrightarrow> int_of_size n = int n"
  by (simp add: int_of_size_def signed_of_nat signed_take_bit_int_eq_self)

lemma int_of_size_large: "2 ^ 31 \<le> n \<Longrightarrow> n < 2 ^ 32 \<Longrightarrow> int_of_size n = int n - 2 ^ 32"
proof -
  assume n: "2 ^ 31 \<le> n" "n < 2 ^ 32"
  have "int_of_size n = signed_take_bit 31 (int n)"
    by (simp add: int_of_size_def signed_of_nat)
  also have "\<dots> = signed_take_bit 31 (int n - 2 ^ 32)"
    by (simp add: signed_take_bit_eq_iff_take_bit_eq take_bit_eq_mod)
  also have "\<dots> = int n - 2 ^ 32"
    by (rule signed_take_bit_int_eq_self) (use n in simp_all)
  finally show ?thesis .
qed

lemma calculate_total_packets_nonneg:
  "0 \<le> n \<Longrightarrow> calculate_total_packets n =
     (let t = (n + 4095) div 4096 in if t > 65535 then None else Some t)"
proof -
  assume n: "0 \<le> n"
  have d: "n sdiv 4096 = n div 4096" "n smod 4096 = n mod 4096"
    using n by (cases "n = 0", simp_all add: signed_divide_int_def signed_modulo_int_def sgn_if)
  define q r where "q = n div 4096" and "r = n mod 4096"
  have nqr: "n = 4096 * q + r" "0 \<le> r" "r < 4096" by (simp_all add: q_def r_def)
  have "(n + 4095) div 4096 = (if r \<noteq> 0 then q + 1 else q)"
    by (rule int_div_pos_eq [where r = "if r \<noteq> 0 then r - 1 else 4095"]) (use nqr in auto)
  then show ?thesis by (simp add: calculate_total_packets_def d Let_def flip: q_def r_def)
qed

lemma total_packets_bound:
  "(n + 4095) div 4096 \<le> (65535 :: nat) \<longleftrightarrow> n \<le> 65535 * 4096"
  using div_less_iff_less_mult [of 4096 "n + 4095" 65536] by simp arith

lemma split_at_newline:
  "newline \<notin> set x \<Longrightarrow> takeWhile (\<lambda>c. c \<noteq> newline) (x @ newline # r) = x"
  "newline \<notin> set x \<Longrightarrow> dropWhile (\<lambda>c. c \<noteq> newline) (x @ newline # r) = newline # r"
  by (induction x) auto

lemma get_line_line [simp]: "newline \<notin> set x \<Longrightarrow> get_line (x @ newline # r) = (x, r)"
  by (simp add: get_line_def getline_def split_at_newline)

lemma join_lines_filter: "join_lines acc s = acc @ filter (\<lambda>c. c \<noteq> newline) s"
proof (induction acc s rule: join_lines.induct)
  case (1 acc s)
  show ?case
  proof (cases "getline s")
    case None
    then have "s = []" by (simp add: getline_def split: if_splits)
    with None show ?thesis by (simp add: join_lines.simps)
  next
    case (Some r)
    obtain res rest where r: "r = (res, rest)" by (cases r)
    from Some r have res: "res = takeWhile (\<lambda>c. c \<noteq> newline) s"
      and rest: "rest = drop 1 (dropWhile (\<lambda>c. c \<noteq> newline) s)"
      by (auto simp: getline_def split: if_splits)
    have "filter (\<lambda>c. c \<noteq> newline) s = res @ filter (\<lambda>c. c \<noteq> newline) rest"
      unfolding res rest by (induction s) auto
    with 1 Some r show ?thesis by (simp add: join_lines.simps [of acc s])
  qed
qed

lemma find_last_of_eq:
  "find_last_of c s =
     (let is = filter (\<lambda>i. s ! i = c) [0..<length s] in if is = [] then None else Some (last is))"
  by (auto simp: find_last_of_def Let_def split: list.split)

lemma find_last_of_None: "find_last_of c s = None \<longleftrightarrow> c \<notin> set s"
  by (auto simp: find_last_of_eq Let_def filter_empty_conv in_set_conv_nth)

lemma sorted_wrt_last: "sorted_wrt (<) is \<Longrightarrow> j \<in> set is \<Longrightarrow> j \<le> last is" for j :: nat
  by (induction "is") (auto intro: less_imp_le)

lemma find_last_of_Some:
  assumes "find_last_of c s = Some i"
  shows "i < length s" and "s ! i = c" and "c \<notin> set (drop (Suc i) s)"
proof -
  let ?is = "filter (\<lambda>i. s ! i = c) [0..<length s]"
  have ne: "?is \<noteq> []" and i: "last ?is = i"
    using assms by (auto simp: find_last_of_eq Let_def split: if_splits)
  have "last ?is \<in> set ?is" using ne by (rule last_in_set)
  with i show "i < length s" and "s ! i = c" by auto
  have max: "j \<le> i" if "j < length s" "s ! j = c" for j
    using sorted_wrt_last [of ?is j] that unfolding i by (simp add: sorted_wrt_filter)
  show "c \<notin> set (drop (Suc i) s)"
  proof
    assume "c \<in> set (drop (Suc i) s)"
    then obtain k where "k < length s - Suc i" "s ! (Suc i + k) = c"
      by (auto simp: in_set_conv_nth)
    with max [of "Suc i + k"] show False by (simp add: less_diff_conv add.commute)
  qed
qed

lemma find_file_name_no_backslash: "backslash \<notin> set (find_file_name p)"
  by (auto simp: find_file_name_def find_last_of_None dest: find_last_of_Some(3) split: option.split)

lemma find_file_name_suffix:
  "find_file_name p = p \<or> (\<exists>d. p = d @ [backslash] @ find_file_name p)"
proof (cases "find_last_of backslash p")
  case None
  then show ?thesis by (simp add: find_file_name_def)
next
  case (Some i)
  then have "p = take i p @ p ! i # drop (Suc i) p"
    using id_take_nth_drop [OF find_last_of_Some(1) [OF Some]] by simp
  with Some find_last_of_Some(2) [OF Some] show ?thesis
    by (auto simp: find_file_name_def)
qed

text \<open>Hexadecimal digits.\<close>

lemma unat_hex_digit: "d < 16 \<Longrightarrow> unat (hex_digit d) = (if d < 10 then 48 + d else 87 + d)"
  by (auto simp: hex_digit_def unsigned_of_nat take_bit_nat_eq_self)

lemma digit_value_hex_digit [simp]: "d < 16 \<Longrightarrow> digit_value (hex_digit d) = Some d"
  by (auto simp: digit_value_def Let_def unat_hex_digit)

lemma hex_digit_plain:
  assumes "d < 16"
  shows "\<not> isspace (hex_digit d)" and "hex_digit d \<noteq> 45" and "hex_digit d \<noteq> 43"
    and "hex_digit d \<noteq> newline" and "hex_digit d \<noteq> 0"
proof -
  have ge: "48 \<le> unat (hex_digit d)" using assms by (simp add: unat_hex_digit)
  then show "\<not> isspace (hex_digit d)" and "hex_digit d \<noteq> 45" and "hex_digit d \<noteq> 43"
    and "hex_digit d \<noteq> newline" and "hex_digit d \<noteq> 0"
    by (auto simp: isspace_def newline_def)
qed

lemma hex_of_byte_digits: "hex_of_byte b = [hex_digit (unat b div 16), hex_digit (unat b mod 16)]"
  by (auto simp: hex_of_byte_def Let_def hex_digit_def)

lemma unat_byte_less: "unat (b :: byte) < 256"
  using unsigned_less [of b] by simp

lemma strtol16_digits:
  "h < 16 \<Longrightarrow> l < 16 \<Longrightarrow> strtol16 [hex_digit h, hex_digit l] = int (16 * h + l)"
  by (simp add: strtol16_def hex_digit_plain skip_0x_def)

lemma strtol16_byte: "strtol16 [hex_digit (unat b div 16), hex_digit (unat b mod 16)] = int (unat b)"
  for b :: byte
proof -
  have "unat b div 16 < 16" using unat_byte_less [of b] by simp
  then have "strtol16 [hex_digit (unat b div 16), hex_digit (unat b mod 16)]
      = int (16 * (unat b div 16) + unat b mod 16)"
    by (rule strtol16_digits) simp
  also have "\<dots> = int (unat b)" by (simp only: mult_div_mod_eq)
  finally show ?thesis .
qed

lemma convert_hex_roundtrip: "convert_hex_to_bytes (convert_string_to_hex s) = s"
proof (induction s)
  case Nil
  then show ?case by (simp add: convert_string_to_hex_def)
next
  case (Cons b s)
  have "convert_string_to_hex (b # s) =
      hex_digit (unat b div 16) # hex_digit (unat b mod 16) # convert_string_to_hex s"
    by (simp add: convert_string_to_hex_def hex_of_byte_digits)
  with Cons show ?case by (simp add: strtol16_byte)
qed

lemma convert_string_to_hex_text:
  "c \<in> set (convert_string_to_hex s) \<Longrightarrow> c \<noteq> newline \<and> c \<noteq> 0"
  using unat_byte_less
  by (auto simp: convert_string_to_hex_def hex_of_byte_digits hex_digit_plain
      less_mult_imp_div_less)

lemma length_convert_string_to_hex: "length (convert_string_to_hex s) = 2 * length s"
  by (induction s) (simp_all add: convert_string_to_hex_def hex_of_byte_digits)

end
