(* ===== verification/Crypto.thy ===== *)
theory Crypto
  imports Global
begin

text \<open>
  The client's wrappers around Crypto++ (\<open>src/Client/RSAWrapper\<close>, \<open>AESWrapper\<close> and
  \<open>Base64Wrapper\<close>). Crypto++ itself is not part of the repository: what the wrappers call of it is
  the record \<open>cryptopp\<close>, a parameter of every definition that uses it. \<open>None\<close> is an exception of
  the library.
\<close>

datatype cpp_exception = Length_error | Crypto_exception | Network_exception

record ('sk, 'pk) cryptopp =
  rsa_initialize :: "nat \<Rightarrow> nat \<Rightarrow> 'sk" \<comment> \<open>\<open>PrivateKey::Initialize\<close>: random input, key bits\<close>
  rsa_load_private :: "bytes \<Rightarrow> 'sk option" \<comment> \<open>\<open>PrivateKey::Load\<close>\<close>
  rsa_save_private :: "'sk \<Rightarrow> bytes" \<comment> \<open>\<open>PrivateKey::Save\<close>\<close>
  rsa_function :: "'sk \<Rightarrow> 'pk" \<comment> \<open>\<open>RSAFunction publicKey(privateKey)\<close>\<close>
  rsa_load_public :: "bytes \<Rightarrow> 'pk option" \<comment> \<open>\<open>PublicKey::Load\<close>\<close>
  rsa_save_public :: "'pk \<Rightarrow> bytes" \<comment> \<open>\<open>PublicKey::Save\<close>, \<open>RSAFunction::Save\<close>\<close>
  oaep_encrypt :: "'pk \<Rightarrow> nat \<Rightarrow> bytes \<Rightarrow> bytes option" \<comment> \<open>\<open>RSAES_OAEP_SHA_Encryptor\<close>, random input\<close>
  oaep_decrypt :: "'sk \<Rightarrow> bytes \<Rightarrow> bytes option" \<comment> \<open>\<open>RSAES_OAEP_SHA_Decryptor\<close>\<close>
  cbc_encrypt :: "bytes \<Rightarrow> bytes \<Rightarrow> bytes \<Rightarrow> bytes" \<comment> \<open>AES-CBC stream filter: key, iv, plain text\<close>
  cbc_decrypt :: "bytes \<Rightarrow> bytes \<Rightarrow> bytes \<Rightarrow> bytes option" \<comment> \<open>key, iv, cipher text\<close>
  base64_encoder :: "bytes \<Rightarrow> bytes"
  base64_decoder :: "bytes \<Rightarrow> bytes"
  rdrand32_step :: "nat \<Rightarrow> 32 word" \<comment> \<open>the \<open>n\<close>-th value of the processor's generator\<close>

section \<open>Base64Wrapper\<close>

definition Base64Wrapper_encode :: "('sk, 'pk) cryptopp \<Rightarrow> bytes \<Rightarrow> bytes" where
  "Base64Wrapper_encode C str = base64_encoder C str"

definition Base64Wrapper_decode :: "('sk, 'pk) cryptopp \<Rightarrow> bytes \<Rightarrow> bytes" where
  "Base64Wrapper_decode C str = base64_decoder C str"

section \<open>RSAPrivateWrapper and RSAPublicWrapper\<close>

definition RSA_BITS :: nat where
  "RSA_BITS = 1024"

definition RSAPrivateWrapper :: "('sk, 'pk) cryptopp \<Rightarrow> nat \<Rightarrow> 'sk" where
  "RSAPrivateWrapper C rng = rsa_initialize C rng RSA_BITS"

definition RSAPrivateWrapper_of_string :: "('sk, 'pk) cryptopp \<Rightarrow> bytes \<Rightarrow> 'sk option" where
  "RSAPrivateWrapper_of_string C key = rsa_load_private C key"

definition RSAPrivateWrapper_of_buffer :: "('sk, 'pk) cryptopp \<Rightarrow> bytes \<Rightarrow> nat \<Rightarrow> 'sk option" where
  "RSAPrivateWrapper_of_buffer C key len = rsa_load_private C (take len key)"

definition RSAPrivateWrapper_getPrivateKey :: "('sk, 'pk) cryptopp \<Rightarrow> 'sk \<Rightarrow> bytes" where
  "RSAPrivateWrapper_getPrivateKey C privateKey = rsa_save_private C privateKey"

definition RSAPrivateWrapper_getPublicKey :: "('sk, 'pk) cryptopp \<Rightarrow> 'sk \<Rightarrow> bytes" where
  "RSAPrivateWrapper_getPublicKey C privateKey =
     (let publicKey = rsa_function C privateKey in rsa_save_public C publicKey)"

text \<open>
  The overloads that write a key into a buffer of the caller: an \<open>ArraySink\<close> takes what fits in
  \<open>len\<close> bytes and leaves the rest of the buffer as it is.
\<close>

definition array_sink :: "bytes \<Rightarrow> nat \<Rightarrow> bytes \<Rightarrow> bytes" where
  "array_sink keyout len key = take len key @ drop (min len (length key)) keyout"

definition RSAPrivateWrapper_getPrivateKey_array ::
    "('sk, 'pk) cryptopp \<Rightarrow> 'sk \<Rightarrow> bytes \<Rightarrow> nat \<Rightarrow> bytes" where
  "RSAPrivateWrapper_getPrivateKey_array C privateKey keyout len =
     array_sink keyout len (rsa_save_private C privateKey)"

definition RSAPrivateWrapper_getPublicKey_array ::
    "('sk, 'pk) cryptopp \<Rightarrow> 'sk \<Rightarrow> bytes \<Rightarrow> nat \<Rightarrow> bytes" where
  "RSAPrivateWrapper_getPublicKey_array C privateKey keyout len =
     (let publicKey = rsa_function C privateKey in array_sink keyout len (rsa_save_public C publicKey))"

definition RSAPrivateWrapper_decrypt :: "('sk, 'pk) cryptopp \<Rightarrow> 'sk \<Rightarrow> bytes \<Rightarrow> bytes option" where
  "RSAPrivateWrapper_decrypt C privateKey cipher = oaep_decrypt C privateKey cipher"

definition RSAPrivateWrapper_decrypt_buffer ::
    "('sk, 'pk) cryptopp \<Rightarrow> 'sk \<Rightarrow> bytes \<Rightarrow> nat \<Rightarrow> bytes option" where
  "RSAPrivateWrapper_decrypt_buffer C privateKey cipher len = oaep_decrypt C privateKey (take len cipher)"

definition RSAPublicWrapper_of_string :: "('sk, 'pk) cryptopp \<Rightarrow> bytes \<Rightarrow> 'pk option" where
  "RSAPublicWrapper_of_string C key = rsa_load_public C key"

definition RSAPublicWrapper_getPublicKey :: "('sk, 'pk) cryptopp \<Rightarrow> 'pk \<Rightarrow> bytes" where
  "RSAPublicWrapper_getPublicKey C publicKey = rsa_save_public C publicKey"

definition RSAPublicWrapper_of_buffer :: "('sk, 'pk) cryptopp \<Rightarrow> bytes \<Rightarrow> nat \<Rightarrow> 'pk option" where
  "RSAPublicWrapper_of_buffer C key len = rsa_load_public C (take len key)"

definition RSAPublicWrapper_getPublicKey_array ::
    "('sk, 'pk) cryptopp \<Rightarrow> 'pk \<Rightarrow> bytes \<Rightarrow> nat \<Rightarrow> bytes" where
  "RSAPublicWrapper_getPublicKey_array C publicKey keyout len =
     array_sink keyout len (rsa_save_public C publicKey)"

definition RSAPublicWrapper_encrypt ::
    "('sk, 'pk) cryptopp \<Rightarrow> 'pk \<Rightarrow> nat \<Rightarrow> bytes \<Rightarrow> bytes option" where
  "RSAPublicWrapper_encrypt C publicKey rng plain = oaep_encrypt C publicKey rng plain"

definition RSAPublicWrapper_encrypt_buffer ::
    "('sk, 'pk) cryptopp \<Rightarrow> 'pk \<Rightarrow> nat \<Rightarrow> bytes \<Rightarrow> nat \<Rightarrow> bytes option" where
  "RSAPublicWrapper_encrypt_buffer C publicKey rng plain len = oaep_encrypt C publicKey rng (take len plain)"

section \<open>AESWrapper\<close>

definition DEFAULT_KEYLENGTH :: nat where
  "DEFAULT_KEYLENGTH = 32"

definition BLOCKSIZE :: nat where
  "BLOCKSIZE = 16"

text \<open>
  The constructor from a key: a length other than 32 throws (the message says 16), otherwise the
  \<open>length\<close> bytes are copied into the key buffer. The object is its key buffer.
\<close>

definition AESWrapper :: "bytes \<Rightarrow> nat \<Rightarrow> cpp_exception + bytes" where
  "AESWrapper key len =
     (if len \<noteq> DEFAULT_KEYLENGTH then Inl Length_error else Inr (take len key))"

text \<open>
  \<open>GenerateKey(buffer, length)\<close> writes four random bytes at every fourth index below \<open>length\<close>.
  The last write ends after \<open>length\<close> when \<open>length\<close> is not a multiple of four: \<open>None\<close> is a write
  outside the buffer.
\<close>

function generate_from :: "('sk, 'pk) cryptopp \<Rightarrow> nat \<Rightarrow> nat \<Rightarrow> nat \<Rightarrow> bytes \<Rightarrow> bytes option" where
  "generate_from C rng len i buffer =
     (if i < len then
        if length buffer < i + 4 then None
        else generate_from C (rng + 1) len (i + 4)
               (take i buffer @
                map (\<lambda>k. ucast (drop_bit (8 * k) (rdrand32_step C rng))) [0, 1, 2, 3] @
                drop (i + 4) buffer)
      else Some buffer)"
  by pat_completeness auto

termination generate_from
  by (relation "measure (\<lambda>(C, rng, len, i, buffer). len - i)") auto

declare generate_from.simps [simp del]

definition AESWrapper_GenerateKey ::
    "('sk, 'pk) cryptopp \<Rightarrow> nat \<Rightarrow> bytes \<Rightarrow> nat \<Rightarrow> bytes option" where
  "AESWrapper_GenerateKey C rng buffer len = generate_from C rng len 0 buffer"

text \<open>The constructor without arguments: a generated key; \<open>key\<close> is the uninitialised member.\<close>

definition AESWrapper_default :: "('sk, 'pk) cryptopp \<Rightarrow> nat \<Rightarrow> bytes \<Rightarrow> bytes option" where
  "AESWrapper_default C rng key = AESWrapper_GenerateKey C rng key DEFAULT_KEYLENGTH"

definition AESWrapper_encrypt ::
    "('sk, 'pk) cryptopp \<Rightarrow> bytes \<Rightarrow> bytes \<Rightarrow> nat \<Rightarrow> bytes" where
  "AESWrapper_encrypt C key plain len =
     (let iv = replicate BLOCKSIZE 0 in cbc_encrypt C key iv (take len plain))"

definition AESWrapper_decrypt ::
    "('sk, 'pk) cryptopp \<Rightarrow> bytes \<Rightarrow> bytes \<Rightarrow> nat \<Rightarrow> bytes option" where
  "AESWrapper_decrypt C key cipher len =
     (let iv = replicate BLOCKSIZE 0 in cbc_decrypt C key iv (take len cipher))"

section \<open>Lemmas\<close>

lemma generate_from_length:
  "generate_from C rng len i buffer = Some b \<Longrightarrow> length b = length buffer"
proof (induction C rng len i buffer rule: generate_from.induct)
  case (1 C rng len i buffer)
  then show ?case
    by (subst (asm) (2) generate_from.simps) (auto split: if_splits)
qed

text \<open>The generator fills a buffer of a multiple of four bytes and never leaves it.\<close>

lemma generate_from_total:
  "length buffer = 4 * n \<Longrightarrow> i = 4 * k \<Longrightarrow> k \<le> n \<Longrightarrow> generate_from C rng (4 * n) i buffer \<noteq> None"
proof (induction "n - k" arbitrary: k i rng buffer)
  case 0
  then show ?case by (subst generate_from.simps) simp
next
  case (Suc m)
  then have "k < n" by simp
  with Suc.prems have "i + 4 = 4 * Suc k" "i + 4 \<le> length buffer" by simp_all
  moreover have "m = n - Suc k" using Suc.hyps(2) by simp
  ultimately show ?case
    using Suc.prems \<open>k < n\<close> by (subst generate_from.simps) (simp add: Suc.hyps(1))
qed

lemma AESWrapper_ok: "length key = 32 \<Longrightarrow> AESWrapper key (length key) = Inr key"
  by (simp add: AESWrapper_def DEFAULT_KEYLENGTH_def)

end
