(* ===== verification/Request.thy ===== *)
theory Request
  imports Codec Global
begin

text \<open>
  The request object of \<open>src/Client/request.h\<close> and \<open>request.cpp\<close>: the header fields as the byte
  arrays the class keeps, the payload vector, the failure counter, and the bytes
  \<open>send_to_server\<close> writes.
\<close>

record request =
  num_of_failures :: int
  rq_client_id :: bytes
  rq_version :: bytes
  rq_code :: bytes
  rq_payload_size :: bytes
  rq_payload :: bytes

definition new_request :: request where
  "new_request =
     \<lparr>num_of_failures = 0,
      rq_client_id = replicate CLIENT_ID_SIZE 0,
      rq_version = [of_nat VERSION],
      rq_code = replicate CODE_SIZE 0,
      rq_payload_size = replicate PAYLOAD_SIZE_SIZE 0,
      rq_payload = []\<rparr>"

text \<open>\<open>memcpy\<close> of the two code bytes into a zeroed little-endian \<open>int\<close>.\<close>

definition getCode :: "request \<Rightarrow> int" where
  "getCode r = int (le_nat (rq_code r))"

text \<open>Reads \<open>id[0]\<close> to \<open>id[15]\<close>; \<open>None\<close> when one of them is outside the string.\<close>

definition setClientID :: "bytes \<Rightarrow> request \<Rightarrow> request option" where
  "setClientID cid r =
     map_option (\<lambda>bs. r\<lparr>rq_client_id := bs\<rparr>) (those (map (str_at cid) [0..<CLIENT_ID_SIZE]))"

definition setCode :: "int \<Rightarrow> request \<Rightarrow> request" where
  "setCode code r = r\<lparr>rq_code := store_little_u16 (word_of_int code)\<rparr>"

definition setPayloadSize :: "int \<Rightarrow> request \<Rightarrow> request" where
  "setPayloadSize psize r = r\<lparr>rq_payload_size := store_little_u32 (word_of_int psize)\<rparr>"

definition appendStringPayload :: "bytes \<Rightarrow> nat \<Rightarrow> request \<Rightarrow> request" where
  "appendStringPayload payload wanted_size r =
     r\<lparr>rq_payload := rq_payload r @ payload @ replicate (wanted_size - length payload) 0\<rparr>"

text \<open>\<open>send_to_server\<close> builds this message and writes its first 23 + payload bytes.\<close>

definition request_message :: "request \<Rightarrow> bytes" where
  "request_message r =
     (let massage = take CLIENT_ID_SIZE (rq_client_id r) @ take VERSION_SIZE (rq_version r) @
            take CODE_SIZE (rq_code r) @ take PAYLOAD_SIZE_SIZE (rq_payload_size r) @ rq_payload r
      in take (REQUEST_HEADER_SIZE + length (rq_payload r)) massage)"

definition getNumFailurs :: "request \<Rightarrow> int" where
  "getNumFailurs r = num_of_failures r"

definition addFailure :: "request \<Rightarrow> request" where
  "addFailure r = r\<lparr>num_of_failures := num_of_failures r + 1\<rparr>"

definition restartFailures :: "request \<Rightarrow> request" where
  "restartFailures r = r\<lparr>num_of_failures := 0\<rparr>"

definition clearPayload :: "request \<Rightarrow> request" where
  "clearPayload r = r\<lparr>rq_payload := []\<rparr>"

definition appendNumberPayload :: "int \<Rightarrow> nat \<Rightarrow> request \<Rightarrow> request" where
  "appendNumberPayload num nbytes r =
     (let content =
            (if nbytes = SIZE_32_BITS then store_little_u32 (word_of_int num)
             else if nbytes = SIZE_16_BITS then store_little_u16 (word_of_int num)
             else replicate nbytes 0)
      in r\<lparr>rq_payload := rq_payload r @ content\<rparr>)"

text \<open>
  Appends \<open>encrypted_file[i]\<close> for \<open>begin \<le> i < end\<close>; \<open>None\<close> when one of them is outside the string.
\<close>

definition appendFileSlice :: "bytes \<Rightarrow> int \<Rightarrow> int \<Rightarrow> request \<Rightarrow> request option" where
  "appendFileSlice encrypted_file begin_index end_index r =
     map_option (\<lambda>bs. r\<lparr>rq_payload := rq_payload r @ bs\<rparr>)
       (those (map (\<lambda>i. if i < 0 then None else str_at encrypted_file (nat i))
                 [begin_index..end_index - 1]))"

section \<open>Lemmas\<close>

text \<open>The class invariant: every header array has its declared size.\<close>

definition wf_request :: "request \<Rightarrow> bool" where
  "wf_request r \<longleftrightarrow>
     length (rq_client_id r) = 16 \<and> rq_version r = [3] \<and>
     length (rq_code r) = 2 \<and> length (rq_payload_size r) = 4"

lemma wf_new_request [simp]: "wf_request new_request"
  by (simp add: wf_request_def new_request_def)

lemma those_map_Some: "(\<And>x. x \<in> set xs \<Longrightarrow> f x = Some (g x)) \<Longrightarrow> those (map f xs) = Some (map g xs)"
  by (induction xs) auto

lemma setClientID_eq: "length cid = 16 \<Longrightarrow> setClientID cid r = Some (r\<lparr>rq_client_id := cid\<rparr>)"
proof -
  assume len: "length cid = 16"
  have "those (map (str_at cid) [0..<16]) = Some (map ((!) cid) [0..<16])"
    by (rule those_map_Some) (simp add: str_at_def len)
  also have "map ((!) cid) [0..<16] = cid"
    using map_nth [of cid] len by simp
  finally show ?thesis by (simp add: setClientID_def)
qed

lemma setClientID_long:
  assumes "16 \<le> length cid"
  shows "setClientID cid r = Some (r\<lparr>rq_client_id := take 16 cid\<rparr>)"
proof -
  have "those (map (str_at cid) [0..<16]) = Some (map ((!) cid) [0..<16])"
    by (rule those_map_Some) (use assms in \<open>simp add: str_at_def\<close>)
  also have "map ((!) cid) [0..<16] = take 16 cid"
    using assms by (intro nth_equalityI) simp_all
  finally show ?thesis by (simp add: setClientID_def)
qed

lemma appendFileSlice_eq:
  assumes "b \<le> e" and "e \<le> length s"
  shows "appendFileSlice s (int b) (int e) r =
    Some (r\<lparr>rq_payload := rq_payload r @ take (e - b) (drop b s)\<rparr>)"
proof -
  have ix: "[int b..int e - 1] = map int [b..<e]"
    by (rule nth_equalityI) (use assms in \<open>auto simp: nth_upto\<close>)
  have "those (map (\<lambda>i. if i < 0 then None else str_at s (nat i)) (map int [b..<e]))
      = those (map (\<lambda>i. str_at s i) [b..<e])"
    by (simp add: comp_def)
  also have "\<dots> = Some (map ((!) s) [b..<e])"
    by (rule those_map_Some) (use assms in \<open>auto simp: str_at_def\<close>)
  also have "map ((!) s) [b..<e] = take (e - b) (drop b s)"
    using assms by (intro nth_equalityI) simp_all
  finally show ?thesis by (simp add: appendFileSlice_def ix)
qed

lemmas request_defs = setCode_def setPayloadSize_def appendStringPayload_def
  appendNumberPayload_def clearPayload_def addFailure_def restartFailures_def getNumFailurs_def

lemma wf_request_updates [simp]:
  "wf_request r \<Longrightarrow> wf_request (setCode c r)"
  "wf_request r \<Longrightarrow> wf_request (setPayloadSize n r)"
  "wf_request r \<Longrightarrow> wf_request (appendStringPayload s k r)"
  "wf_request r \<Longrightarrow> wf_request (appendNumberPayload i k r)"
  "wf_request r \<Longrightarrow> wf_request (clearPayload r)"
  "wf_request r \<Longrightarrow> wf_request (addFailure r)"
  "wf_request r \<Longrightarrow> wf_request (restartFailures r)"
  by (simp_all add: wf_request_def request_defs)

lemma those_length: "those xs = Some ys \<Longrightarrow> length ys = length xs"
  by (induction xs arbitrary: ys) (auto split: option.splits)

lemma wf_request_setClientID: "wf_request r \<Longrightarrow> setClientID cid r = Some r' \<Longrightarrow> wf_request r'"
  by (auto simp: setClientID_def wf_request_def dest: those_length)

lemma request_message_eq:
  "wf_request r \<Longrightarrow> request_message r =
     rq_client_id r @ [3] @ rq_code r @ rq_payload_size r @ rq_payload r"
  by (simp add: request_message_def wf_request_def Let_def)

lemma num_of_failures_updates [simp]:
  "num_of_failures (setCode c r) = num_of_failures r"
  "num_of_failures (setPayloadSize n r) = num_of_failures r"
  "num_of_failures (appendStringPayload s k r) = num_of_failures r"
  "num_of_failures (appendNumberPayload i k r) = num_of_failures r"
  "num_of_failures (clearPayload r) = num_of_failures r"
  "num_of_failures (addFailure r) = num_of_failures r + 1"
  "num_of_failures (restartFailures r) = 0"
  "num_of_failures new_request = 0"
  by (simp_all add: request_defs new_request_def)

lemma num_of_failures_setClientID:
  "setClientID cid r = Some r' \<Longrightarrow> num_of_failures r' = num_of_failures r"
  by (auto simp: setClientID_def)

lemma num_of_failures_appendFileSlice:
  "appendFileSlice s b e r = Some r' \<Longrightarrow> num_of_failures r' = num_of_failures r"
  by (auto simp: appendFileSlice_def)

end
