(* ===== verification/Client_World.thy ===== *)
theory Client_World
  imports Codec Client_Util Crypto Request
begin

text \<open>
  The client object (\<open>src/Client/client_ob.h\<close>, \<open>client_ob.cpp\<close>), the state a run of the client
  program works on, the ways it stops, and the operations on the socket and the local files:
  \<open>Request::send_to_server\<close> and the file functions of \<open>various_functions.cpp\<close>.
\<close>

section \<open>The client object\<close>

text \<open>The class keeps its members private and returns them by the methods named after the record.\<close>

record client =
  name_client :: bytes
  client_file_name :: bytes
  client_id :: bytes
  path_to_file :: bytes
  encrypted_aes :: bytes
  priv_key :: bytes
  crc_value :: "32 word"

definition new_client :: client where
  "new_client =
     \<lparr>name_client = [], client_file_name = [], client_id = [], path_to_file = [],
      encrypted_aes = [], priv_key = [], crc_value = 0\<rparr>"

abbreviation getClientName :: "client \<Rightarrow> bytes" where
  "getClientName c \<equiv> name_client c"

abbreviation getClientID :: "client \<Rightarrow> bytes" where
  "getClientID c \<equiv> client_id c"

abbreviation client_getEncryptedAes :: "client \<Rightarrow> bytes" where
  "client_getEncryptedAes c \<equiv> encrypted_aes c"

abbreviation getPrivateKey :: "client \<Rightarrow> bytes" where
  "getPrivateKey c \<equiv> priv_key c"

abbreviation getPath :: "client \<Rightarrow> bytes" where
  "getPath c \<equiv> path_to_file c"

abbreviation getFileName :: "client \<Rightarrow> bytes" where
  "getFileName c \<equiv> client_file_name c"

abbreviation getCRC :: "client \<Rightarrow> 32 word" where
  "getCRC c \<equiv> crc_value c"

text \<open>Where \<open>exit(1)\<close> is called from, and the other ways the process ends early.\<close>

datatype exit_site =
    Client_id_size
  | Read_failed
  | Server_version
  | Wrong_information
  | Wrong_content_size
  | Code_not_recognized
  | Too_many_tries
  | File_too_big
  | No_priv_key
  | No_file
  | Name_too_long
  | File_name_too_long
  | No_transfer_info
  | Name_mismatch

text \<open>
  \<open>Uncaught\<close>: an exception no handler catches. \<open>Bad_copy\<close>: \<open>strcpy_s\<close> is given a string that does
  not fit and ends the process. \<open>Undefined\<close>: undefined behaviour (an index outside a string, a
  signed overflow).
\<close>

datatype stop =
    Exit1 exit_site
  | Uncaught cpp_exception
  | Bad_copy
  | Undefined

definition setClientName :: "bytes \<Rightarrow> client \<Rightarrow> client" where
  "setClientName name c = c\<lparr>name_client := name\<rparr>"

text \<open>
  \<open>setFileName\<close>: \<open>strcpy_s\<close> copies \<open>name\<close> up to its first NUL into a buffer of 255 bytes, if it
  fits with its NUL; the rest is padded with NULs, and the string is read back up to the first.
\<close>

definition setFileName :: "bytes \<Rightarrow> client \<Rightarrow> client option" where
  "setFileName name c =
     (let cstr = until_nul name
      in if NAME_OF_FILE_SIZE < length cstr + 1 then None
         else Some (c\<lparr>client_file_name := until_nul (pad_nul NAME_OF_FILE_SIZE cstr)\<rparr>))"

definition setPath :: "bytes \<Rightarrow> client \<Rightarrow> client" where
  "setPath path c = c\<lparr>path_to_file := path\<rparr>"

definition setPrivateKey :: "bytes \<Rightarrow> client \<Rightarrow> client" where
  "setPrivateKey privKey c = c\<lparr>priv_key := privKey\<rparr>"

text \<open>\<open>Client::setClientID\<close>; \<open>None\<close> is the exit on an id that has not 16 bytes.\<close>

definition client_setClientID :: "bytes \<Rightarrow> client \<Rightarrow> client option" where
  "client_setClientID cid c = (if length cid \<noteq> CLIENT_ID_SIZE then None else Some (c\<lparr>client_id := cid\<rparr>))"

definition setEncryptedAes :: "bytes \<Rightarrow> client \<Rightarrow> client" where
  "setEncryptedAes aes c = c\<lparr>encrypted_aes := aes\<rparr>"

definition setCRC :: "32 word \<Rightarrow> client \<Rightarrow> client" where
  "setCRC crc c = c\<lparr>crc_value := crc\<rparr>"

lemmas client_setters = setClientName_def setPath_def setPrivateKey_def setEncryptedAes_def setCRC_def

lemma setFileName_eq:
  "setFileName name c =
     (if length (until_nul name) < 255 then Some (c\<lparr>client_file_name := until_nul name\<rparr>) else None)"
  by (simp add: setFileName_def Let_def until_nul_pad until_nul_no_nul)

section \<open>The world of a run\<close>

text \<open>
  The one \<open>Client\<close> object that \<open>main\<close> passes around by reference, the files of the working
  directory, the peer at the other end of the socket, the bytes it has sent and the client has not
  read, how much randomness is used up, and the messages written so far.
\<close>

record 'p world =
  the_client :: client
  files :: "bytes \<Rightarrow> bytes option"
  peer :: 'p
  inbuf :: bytes
  rng :: nat
  sent :: "bytes list"

text \<open>
  The network: connecting to an address and port, and what a complete write makes the peer do (its
  new state and the bytes it sends back). \<open>None\<close> is an exception of boost::asio.
\<close>

record 'p net =
  net_connect :: "bytes \<Rightarrow> bytes \<Rightarrow> 'p \<Rightarrow> 'p option"
  net_write :: "bytes \<Rightarrow> 'p \<Rightarrow> ('p \<times> bytes) option"

record ('sk, 'pk, 'p) env =
  crypto :: "('sk, 'pk) cryptopp"
  net :: "'p net"

type_synonym ('p, 'a) cprog = "('p world, stop, 'a) prog"

definition clientP :: "(client \<Rightarrow> 'a) \<Rightarrow> ('p, 'a) cprog" where
  "clientP f = getP (\<lambda>w. f (the_client w))"

definition set_clientP :: "(client \<Rightarrow> client) \<Rightarrow> ('p, unit) cprog" where
  "set_clientP f = modP (\<lambda>w. w\<lparr>the_client := f (the_client w)\<rparr>)"

text \<open>A setter that may stop the program.\<close>

definition try_set_clientP :: "stop \<Rightarrow> (client \<Rightarrow> client option) \<Rightarrow> ('p, unit) cprog" where
  "try_set_clientP e f w =
     (case f (the_client w) of
        None \<Rightarrow> throwP e w
      | Some c \<Rightarrow> retP () (w\<lparr>the_client := c\<rparr>))"

text \<open>
  \<open>boost::asio::read(s, buffer(b, n))\<close> returns when it has exactly \<open>n\<close> bytes. When the peer has
  sent fewer and its stream ends there, it throws, which the caller turns into \<open>e\<close>.
\<close>

definition asio_read :: "stop \<Rightarrow> nat \<Rightarrow> ('p, bytes) cprog" where
  "asio_read e n w =
     (if n \<le> length (inbuf w) then retP (take n (inbuf w)) (w\<lparr>inbuf := drop n (inbuf w)\<rparr>)
      else throwP e w)"

text \<open>\<open>Request::send_to_server\<close>: an exception of the write is printed and the program goes on.\<close>

definition send_to_server :: "('sk, 'pk, 'p) env \<Rightarrow> request \<Rightarrow> ('p, unit) cprog" where
  "send_to_server E r w =
     (let massage = request_message r
      in case net_write (net E) massage (peer w) of
           None \<Rightarrow> retP () w
         | Some (p, reply) \<Rightarrow>
             retP () (w\<lparr>peer := p, inbuf := inbuf w @ reply, sent := sent w @ [massage]\<rparr>))"

section \<open>Local files\<close>

definition write_file :: "bytes \<Rightarrow> bytes \<Rightarrow> ('p, unit) cprog" where
  "write_file name content = modP (\<lambda>w. w\<lparr>files := (files w)(name \<mapsto> content)\<rparr>)"

definition read_priv_key :: "('sk, 'pk, 'p) env \<Rightarrow> ('p, bytes) cprog" where
  "read_priv_key E w =
     (case files w (lit ''priv.key'') of
        None \<Rightarrow> throwP (Exit1 No_priv_key) w
      | Some text \<Rightarrow> retP (Base64Wrapper_decode (crypto E) (join_lines [] text)) w)"

definition file_by_path :: "bytes \<Rightarrow> ('p, bytes) cprog" where
  "file_by_path path w =
     (case files w path of
        None \<Rightarrow> throwP (Exit1 No_file) w
      | Some content \<Rightarrow> retP content w)"

definition create_me_info :: "('sk, 'pk, 'p) env \<Rightarrow> bytes \<Rightarrow> bytes \<Rightarrow> bytes \<Rightarrow> ('p, unit) cprog" where
  "create_me_info E cname private_key cid =
     write_file (lit ''me.info'')
       (cname @ [newline] @ convert_string_to_hex cid @ [newline] @
        Base64Wrapper_encode (crypto E) private_key @ [newline])"

definition create_priv_key_file :: "('sk, 'pk, 'p) env \<Rightarrow> bytes \<Rightarrow> ('p, unit) cprog" where
  "create_priv_key_file E private_key =
     write_file (lit ''priv.key'') (Base64Wrapper_encode (crypto E) private_key @ [newline])"

text \<open>
  \<open>encrypt_file\<close>: open the AES key with the private key, then encrypt. Every exception on the way is
  uncaught. The length parameter of \<open>encrypt\<close> is an \<open>unsigned int\<close>.
\<close>

definition encrypt_file :: "('sk, 'pk, 'p) env \<Rightarrow> bytes \<Rightarrow> bytes \<Rightarrow> bytes \<Rightarrow> cpp_exception + bytes" where
  "encrypt_file E enc_aes privkey fcontent =
     (case RSAPrivateWrapper_of_string (crypto E) privkey of
        None \<Rightarrow> Inl Crypto_exception
      | Some priv_key_ob \<Rightarrow>
          (case RSAPrivateWrapper_decrypt (crypto E) priv_key_ob enc_aes of
             None \<Rightarrow> Inl Crypto_exception
           | Some decrypted_aes \<Rightarrow>
               (case AESWrapper decrypted_aes (length decrypted_aes) of
                  Inl ex \<Rightarrow> Inl ex
                | Inr aes_key_ob \<Rightarrow>
                    Inr (AESWrapper_encrypt (crypto E) aes_key_ob fcontent
                           (unat (of_nat (length fcontent) :: 32 word))))))"

section \<open>Lemmas\<close>

lemma wp_client [wp_rules]: "wp (clientP f) N S w = N (f (the_client w)) w"
  by (simp add: clientP_def wp_rules)

lemma wp_set_client [wp_rules]:
  "wp (set_clientP f) N S w = N () (w\<lparr>the_client := f (the_client w)\<rparr>)"
  by (simp add: set_clientP_def wp_rules)

lemma wp_try_set_client [wp_rules]:
  "wp (try_set_clientP e f) N S w =
     (case f (the_client w) of None \<Rightarrow> S e w | Some c \<Rightarrow> N () (w\<lparr>the_client := c\<rparr>))"
  by (simp add: wp_def try_set_clientP_def throwP_def retP_def split: option.split)

lemma wp_asio_read [wp_rules]:
  "wp (asio_read e n) N S w =
     (if n \<le> length (inbuf w) then N (take n (inbuf w)) (w\<lparr>inbuf := drop n (inbuf w)\<rparr>) else S e w)"
  by (simp add: wp_def asio_read_def throwP_def retP_def)

text \<open>What one \<open>send_to_server\<close> leaves behind; it neither stops the program nor diverges.\<close>

definition after_send :: "('sk, 'pk, 'p) env \<Rightarrow> request \<Rightarrow> 'p world \<Rightarrow> 'p world" where
  "after_send E r w =
     (case net_write (net E) (request_message r) (peer w) of
        None \<Rightarrow> w
      | Some (p, reply) \<Rightarrow>
          w\<lparr>peer := p, inbuf := inbuf w @ reply, sent := sent w @ [request_message r]\<rparr>)"

lemma run_send: "send_to_server E r w = Some (Inr (), after_send E r w)"
  by (simp add: send_to_server_def after_send_def Let_def retP_def split: option.split prod.split)

lemma after_send_frame [simp]:
  "the_client (after_send E r w) = the_client w"
  "files (after_send E r w) = files w"
  "rng (after_send E r w) = rng w"
  by (simp_all add: after_send_def split: option.split prod.split)

lemma fold_after_send_frame [simp]:
  "the_client (fold (after_send E) rs w) = the_client w"
  "files (fold (after_send E) rs w) = files w"
  "rng (fold (after_send E) rs w) = rng w"
  by (induction rs arbitrary: w) simp_all

lemma wp_send [wp_rules]: "wp (send_to_server E r) N S w = N () (after_send E r w)"
  by (simp add: wp_def run_send)

lemma wp_write_file [wp_rules]:
  "wp (write_file n c) N S w = N () (w\<lparr>files := (files w)(n \<mapsto> c)\<rparr>)"
  by (simp add: write_file_def wp_rules)

lemma wp_read_priv_key [wp_rules]:
  "wp (read_priv_key E) N S w =
     (case files w (lit ''priv.key'') of
        None \<Rightarrow> S (Exit1 No_priv_key) w
      | Some text \<Rightarrow> N (Base64Wrapper_decode (crypto E) (join_lines [] text)) w)"
  by (simp add: wp_def read_priv_key_def throwP_def retP_def split: option.split)

lemma wp_file_by_path [wp_rules]:
  "wp (file_by_path p) N S w =
     (case files w p of None \<Rightarrow> S (Exit1 No_file) w | Some c \<Rightarrow> N c w)"
  by (simp add: wp_def file_by_path_def throwP_def retP_def split: option.split)

lemma wp_create_me_info [wp_rules]:
  "wp (create_me_info E n k i) N S w =
     N () (w\<lparr>files := (files w)(lit ''me.info'' \<mapsto>
        n @ [newline] @ convert_string_to_hex i @ [newline] @
        Base64Wrapper_encode (crypto E) k @ [newline])\<rparr>)"
  by (simp add: create_me_info_def wp_rules)

lemma wp_create_priv_key_file [wp_rules]:
  "wp (create_priv_key_file E k) N S w =
     N () (w\<lparr>files := (files w)(lit ''priv.key'' \<mapsto> Base64Wrapper_encode (crypto E) k @ [newline])\<rparr>)"
  by (simp add: create_priv_key_file_def wp_rules)

end
