(* ===== verification/Answer.thy ===== *)
theory Answer
  imports Client_World
begin

text \<open>
  The answer object of \<open>src/Client/answer.h\<close> and \<open>answer.cpp\<close>: the header it keeps and the
  operations that read the rest of the server's message off the socket. Every failed read ends the
  process with \<open>exit(1)\<close>.
\<close>

record answer =
  ans_version :: int
  ans_code :: int
  ans_payload_size :: int

abbreviation answer_getCode :: "answer \<Rightarrow> int" where
  "answer_getCode a \<equiv> ans_code a"

definition get_header_from_server :: "('p, answer) cprog" where
  "get_header_from_server =
     bindP (asio_read (Exit1 Read_failed) VERSION_SIZE) (\<lambda>buffer_version.
     bindP (asio_read (Exit1 Read_failed) CODE_SIZE) (\<lambda>buffer_code.
     bindP (asio_read (Exit1 Read_failed) PAYLOAD_SIZE_SIZE) (\<lambda>buffer_payload_size.
     let version = int (le_nat buffer_version)
     in if version \<noteq> int VERSION then throwP (Exit1 Server_version)
        else retP \<lparr>ans_version = version,
                   ans_code = uint (load_little_u16 buffer_code),
                   ans_payload_size = sint (load_little_u32 buffer_payload_size)\<rparr>)))"

definition read_string_and_check :: "bytes \<Rightarrow> nat \<Rightarrow> ('p, unit) cprog" where
  "read_string_and_check expected_string nbytes =
     bindP (asio_read (Exit1 Read_failed) nbytes) (\<lambda>received_string.
     if until_nul received_string \<noteq> expected_string then throwP (Exit1 Wrong_information)
     else retP ())"

text \<open>
  \<open>getEncryptedAes\<close>: the length \<open>_payload_size - CLIENT_ID_SIZE\<close> is an \<open>int\<close> given to a
  \<open>size_t\<close> parameter; a negative one makes the string constructor throw.
\<close>

definition getEncryptedAes :: "answer \<Rightarrow> ('p, bytes) cprog" where
  "getEncryptedAes a =
     (let n = ans_payload_size a - int CLIENT_ID_SIZE
      in if n < 0 then throwP (Exit1 Read_failed) else asio_read (Exit1 Read_failed) (nat n))"

text \<open>\<open>getNumber\<close> is called for 4-byte numbers only.\<close>

definition getNumber :: "nat \<Rightarrow> ('p, 32 word) cprog" where
  "getNumber num_of_bytes =
     bindP (asio_read (Exit1 Read_failed) num_of_bytes) (\<lambda>buffer. retP (load_little_u32 buffer))"

definition answer_getClientID :: "('p, bytes) cprog" where
  "answer_getClientID = asio_read (Exit1 Read_failed) CLIENT_ID_SIZE"

section \<open>Lemmas\<close>

lemma wp_get_header [wp_rules]:
  "wp get_header_from_server N S w =
     (let b = inbuf w in
      if 1 \<le> length b then
        if 3 \<le> length b then
          if 7 \<le> length b then
            if b ! 0 = 3 then
              N \<lparr>ans_version = 3, ans_code = uint (load_little_u16 (take 2 (drop 1 b))),
                 ans_payload_size = sint (load_little_u32 (take 4 (drop 3 b)))\<rparr>
                (w\<lparr>inbuf := drop 7 b\<rparr>)
            else S (Exit1 Server_version) (w\<lparr>inbuf := drop 7 b\<rparr>)
          else S (Exit1 Read_failed) (w\<lparr>inbuf := drop 3 b\<rparr>)
        else S (Exit1 Read_failed) (w\<lparr>inbuf := drop 1 b\<rparr>)
      else S (Exit1 Read_failed) w)"
proof (cases "inbuf w")
  case Nil
  then show ?thesis by (simp add: get_header_from_server_def wp_rules)
next
  case (Cons v b)
  have v: "unat v = 3 \<longleftrightarrow> v = 3"
    by (simp add: word_unat_eq_iff)
  have n: "2 \<le> length b \<and> 4 \<le> length b - 2 \<longleftrightarrow> 6 \<le> length b" by arith
  show ?thesis
    using n by (cases "v = 3"; cases "6 \<le> length b"; cases "2 \<le> length b")
      (simp_all add: Cons get_header_from_server_def wp_rules Let_def v)
qed

end
