(* ===== verification/Client.thy ===== *)
theory Client
  imports Answer Cksum
begin

text \<open>
  The client program of \<open>src/Client/client.cpp\<close>, function by function. Every function is a program
  over the world of \<open>Client_World\<close>; objects passed by reference come back in the result. The five
  functions that call themselves to try again are \<^theory_text>\<open>partial_function\<close>s: \<open>None\<close> would be a
  run that never stops trying.
\<close>

section \<open>Errors and retries\<close>

text \<open>
  \<open>general_error_handle\<close>: counts the failure; the fourth one ends the process, before that the
  caller is told to try again.
\<close>

definition general_error_handle :: "answer \<Rightarrow> request \<Rightarrow> ('p, int \<times> request) cprog" where
  "general_error_handle a r =
     (let r = addFailure r
      in if getNumFailurs r = MAX_TRIES then throwP (Exit1 Too_many_tries)
         else retP (TRY_AGAIN, r))"

section \<open>Start-up\<close>

text \<open>The address before the first colon and the port after it; without a colon both are the line.\<close>

definition split_address :: "bytes \<Rightarrow> bytes \<times> bytes" where
  "split_address d =
     (if 58 \<in> set d then (takeWhile (\<lambda>c. c \<noteq> 58) d, drop 1 (dropWhile (\<lambda>c. c \<noteq> 58) d))
      else (d, d))"

definition connect_to_server :: "('sk, 'pk, 'p) env \<Rightarrow> bytes \<Rightarrow> bytes \<Rightarrow> ('p, unit) cprog" where
  "connect_to_server E ip_address port w =
     (case net_connect (net E) ip_address port (peer w) of
        None \<Rightarrow> throwP (Uncaught Network_exception) w
      | Some p \<Rightarrow> retP () (w\<lparr>peer := p\<rparr>))"

definition read_transfer :: "('sk, 'pk, 'p) env \<Rightarrow> ('p, unit) cprog" where
  "read_transfer E =
     bindP (getP (\<lambda>w. files w (lit ''transfer.info''))) (\<lambda>transfer.
     case transfer of
       None \<Rightarrow> throwP (Exit1 No_transfer_info)
     | Some text \<Rightarrow>
         (let (connection_details, text) = get_line text;
              (cname, text) = get_line text;
              (path, text) = get_line text;
              fname = find_file_name path;
              (ip_address, port) = split_address connection_details
          in if length cname > NAME_OF_CLIENT_MAX_SIZE then throwP (Exit1 Name_too_long)
             else
               bindP (set_clientP (setClientName cname)) (\<lambda>_.
               if length fname = FILE_NAME_SIZE then throwP (Exit1 File_name_too_long)
               else
                 bindP (try_set_clientP Bad_copy (setFileName fname)) (\<lambda>_.
                 bindP (set_clientP (setPath path)) (\<lambda>_.
                 connect_to_server E ip_address port)))))"

definition get_aes_key_from_server :: "answer \<Rightarrow> ('p, unit) cprog" where
  "get_aes_key_from_server a =
     bindP (clientP getClientID) (\<lambda>cid.
     bindP (read_string_and_check cid CLIENT_ID_SIZE) (\<lambda>_.
     bindP (getEncryptedAes a) (\<lambda>aes.
     set_clientP (setEncryptedAes aes))))"

section \<open>Sending the file\<close>

definition payload_size_without_massage :: int where
  "payload_size_without_massage =
     int (CONTENT_SIZE_SIZE + ORIG_FILE_SIZE_SIZE + PACKET_NUMBER_SIZE + TOTAL_PACKETS_SIZE + FILE_NAME_SIZE)"

text \<open>
  The \<open>while\<close> loop of \<open>send_file\<close>: \<open>counter\<close> is \<open>encrypted_file_size_counter\<close>, the bytes left; the
  slice \<open>[begin, end)\<close> moves by \<open>PACKET_MAX_SIZE\<close>.
\<close>

function send_packets ::
    "('sk, 'pk, 'p) env \<Rightarrow> bytes \<Rightarrow> nat \<Rightarrow> int \<Rightarrow> request \<Rightarrow> int \<Rightarrow> int \<Rightarrow> int \<Rightarrow> int \<Rightarrow>
     ('p, request) cprog" where
  "send_packets E encrypted_file orig_size total_packets r packet_number begin_index end_index counter =
     (if counter > 0 then
        (let r = setPayloadSize (payload_size_without_massage + counter) r;
             r = (if counter > int PACKET_MAX_SIZE
                  then setPayloadSize (payload_size_without_massage + int PACKET_MAX_SIZE) r else r);
             r = appendNumberPayload (int_of_size (length encrypted_file)) CONTENT_SIZE_SIZE r;
             r = appendNumberPayload (int_of_size orig_size) ORIG_FILE_SIZE_SIZE r;
             r = appendNumberPayload packet_number PACKET_NUMBER_SIZE r;
             r = appendNumberPayload total_packets TOTAL_PACKETS_SIZE r
         in bindP (clientP getFileName) (\<lambda>fname.
            bindP (optP Undefined
                     (let r = appendStringPayload fname NAME_OF_CLIENT_SIZE r
                      in if counter > int PACKET_MAX_SIZE
                         then appendFileSlice encrypted_file begin_index end_index r
                         else appendFileSlice encrypted_file begin_index (begin_index + counter) r)) (\<lambda>r.
            bindP (send_to_server E r) (\<lambda>_.
            send_packets E encrypted_file orig_size total_packets (clearPayload r) (packet_number + 1)
              (begin_index + int PACKET_MAX_SIZE) (end_index + int PACKET_MAX_SIZE)
              (counter - int PACKET_MAX_SIZE)))))
      else retP r)"
  by pat_completeness auto

termination send_packets
  by (relation "measure (\<lambda>(E, f, z, t, r, n, b, e, counter). nat counter)") auto

declare send_packets.simps [simp del]

text \<open>
  The verdict of \<open>crc_checking\<close> once the answer is known to be about this file: the finish code,
  with the two requests it changes, after the finish request is sent.
\<close>

definition crc_verdict ::
    "('sk, 'pk, 'p) env \<Rightarrow> request \<Rightarrow> request \<Rightarrow> ('p, int \<times> request \<times> request) cprog" where
  "crc_verdict E crc_packet_request finish_request =
     bindP (clientP getClientID) (\<lambda>cid.
     bindP (optP Undefined (setClientID cid finish_request)) (\<lambda>finish_request.
     bindP (clientP getCRC) (\<lambda>my_crc.
     bindP (getNumber CRC_SIZE) (\<lambda>crc.
     let (finish_code, r) =
           (if my_crc \<noteq> crc then
              (let r = addFailure crc_packet_request
               in if getNumFailurs r = MAX_TRIES then (request_code WRONG_CRC_4TH_902, r)
                  else (request_code WRONG_CRC_TRY_AGAIN_901, r))
            else (request_code VALID_CRC_900, crc_packet_request))
     in bindP (clientP getFileName) (\<lambda>fname.
        let finish_request = setCode finish_code finish_request;
            finish_request = setPayloadSize (int NAME_OF_FILE_SIZE) finish_request;
            finish_request = appendStringPayload fname NAME_OF_CLIENT_SIZE finish_request
        in bindP (send_to_server E finish_request) (\<lambda>_.
           retP (finish_code, r, finish_request)))))))"

text \<open>
  \<open>crc_checking\<close>. The size comparison converts the \<open>int\<close> to the unsigned 32-bit type of
  \<open>getNumber\<close>.
\<close>

definition crc_checking ::
    "('sk, 'pk, 'p) env \<Rightarrow> request \<Rightarrow> int \<Rightarrow> request \<Rightarrow> ('p, int \<times> request \<times> request) cprog" where
  "crc_checking E crc_packet_request encrypted_file_size finish_request =
     bindP get_header_from_server (\<lambda>a.
     if answer_getCode a = answer_code GENERAL_ERROR_1607 then
       bindP (general_error_handle a crc_packet_request) (\<lambda>(result, r).
       retP (result, r, finish_request))
     else if answer_getCode a \<noteq> answer_code VALID_FILE_AND_CRC_1603 then throwP (Exit1 Code_not_recognized)
     else
       bindP (clientP getClientID) (\<lambda>cid.
       bindP (read_string_and_check cid CLIENT_ID_SIZE) (\<lambda>_.
       bindP (getNumber CONTENT_SIZE_SIZE) (\<lambda>content_size.
       if word_of_int encrypted_file_size \<noteq> content_size then throwP (Exit1 Wrong_content_size)
       else
         bindP (clientP getFileName) (\<lambda>fname.
         bindP (read_string_and_check fname FILE_NAME_SIZE) (\<lambda>_.
         crc_verdict E crc_packet_request finish_request))))))"

text \<open>\<open>the_end\<close>: the last answer. Its \<open>result\<close> argument only selects a message to print.\<close>

partial_function (option) the_end ::
    "('sk, 'pk, 'p) env \<Rightarrow> int \<Rightarrow> request \<Rightarrow> 'p world \<Rightarrow> ((stop + unit) \<times> 'p world) option" where
  "the_end E result finish_request w =
     bindP get_header_from_server (\<lambda>a.
     let rest =
           bindP (clientP getClientID) (\<lambda>cid. read_string_and_check cid CLIENT_ID_SIZE)
     in if answer_getCode a = answer_code GENERAL_ERROR_1607 then
          bindP (general_error_handle a finish_request) (\<lambda>(again, r).
            if again = TRY_AGAIN then
              bindP (send_to_server E r) (\<lambda>_ w. the_end E result r w)
            else rest)
        else if answer_getCode a \<noteq> answer_code THANK_YOU_1604 then throwP (Exit1 Code_not_recognized)
        else rest) w"

text \<open>
  What \<open>send_file\<close> does before it waits for the answer. \<open>memcrc\<close> counts with an \<open>int\<close>: a buffer of
  more than \<open>2\<^sup>3\<^sup>1 - 1\<close> bytes overflows it.
\<close>

definition send_file_packets :: "('sk, 'pk, 'p) env \<Rightarrow> request \<Rightarrow> ('p, request \<times> nat) cprog" where
  "send_file_packets E r =
     bindP (clientP getPath) (\<lambda>path.
     bindP (file_by_path path) (\<lambda>original_file.
     bindP (guardP (length original_file \<le> 2147483647) Undefined) (\<lambda>_.
     bindP (set_clientP (setCRC (memcrc original_file (length original_file)))) (\<lambda>_.
     bindP (clientP client_getEncryptedAes) (\<lambda>aes.
     bindP (clientP getPrivateKey) (\<lambda>key.
     case encrypt_file E aes key original_file of
       Inl ex \<Rightarrow> throwP (Uncaught ex)
     | Inr encrypted_file \<Rightarrow>
         bindP (clientP getClientID) (\<lambda>cid.
         bindP (optP Undefined (setClientID cid r)) (\<lambda>r.
         let r = setCode (request_code SEND_FILE_828) r
         in bindP (optP (Exit1 File_too_big)
                     (calculate_total_packets (int_of_size (length encrypted_file)))) (\<lambda>total_packets.
            bindP (send_packets E encrypted_file (length original_file) total_packets r 1 0
                     (int PACKET_MAX_SIZE) (int_of_size (length encrypted_file))) (\<lambda>r.
            retP (r, length encrypted_file)))))))))))"

partial_function (option) send_file ::
    "('sk, 'pk, 'p) env \<Rightarrow> request \<Rightarrow> 'p world \<Rightarrow> ((stop + unit) \<times> 'p world) option" where
  "send_file E r w =
     bindP (send_file_packets E r) (\<lambda>(r, encrypted_size).
     bindP (crc_checking E r (int_of_size encrypted_size) new_request) (\<lambda>(finish_code, r, finish_request).
     if finish_code = request_code WRONG_CRC_TRY_AGAIN_901 \<or> finish_code = TRY_AGAIN
     then (\<lambda>w. send_file E (clearPayload r) w)
     else the_end E finish_code finish_request)) w"

section \<open>Keys, registration, reconnection\<close>

partial_function (option) send_public_key_get_aes ::
    "('sk, 'pk, 'p) env \<Rightarrow> request \<Rightarrow> 'p world \<Rightarrow> ((stop + unit) \<times> 'p world) option" where
  "send_public_key_get_aes E r w =
     bindP (getP rng) (\<lambda>n.
     bindP (modP (\<lambda>w. w\<lparr>rng := n + 1\<rparr>)) (\<lambda>_.
     let priv_key_ob = RSAPrivateWrapper (crypto E) n
     in bindP (set_clientP (setPrivateKey (RSAPrivateWrapper_getPrivateKey (crypto E) priv_key_ob))) (\<lambda>_.
        bindP (clientP getClientName) (\<lambda>cname.
        bindP (clientP getPrivateKey) (\<lambda>key.
        bindP (clientP getClientID) (\<lambda>cid.
        bindP (create_me_info E cname key cid) (\<lambda>_.
        bindP (create_priv_key_file E key) (\<lambda>_.
        let public_key = RSAPrivateWrapper_getPublicKey (crypto E) priv_key_ob
        in bindP (optP Undefined (setClientID cid r)) (\<lambda>r.
           let r = setCode (request_code SEND_PUBLIC_KEY_826) r;
               r = setPayloadSize (int (NAME_OF_CLIENT_SIZE + length public_key)) r;
               r = appendStringPayload cname NAME_OF_CLIENT_SIZE r;
               r = appendStringPayload public_key (length public_key) r
           in bindP (send_to_server E r) (\<lambda>_.
              bindP get_header_from_server (\<lambda>a.
              if answer_getCode a = answer_code GENERAL_ERROR_1607 then
                bindP (general_error_handle a r) (\<lambda>(again, r).
                  if again = TRY_AGAIN then (\<lambda>w. send_public_key_get_aes E (clearPayload r) w)
                  else get_aes_key_from_server a)
              else if answer_getCode a \<noteq> answer_code GET_PUBLIC_KEY_SEND_AES_1602
              then throwP (Exit1 Code_not_recognized)
              else get_aes_key_from_server a))))))))))) w"

text \<open>The part of \<open>registering\<close> after a positive answer.\<close>

definition registered :: "('sk, 'pk, 'p) env \<Rightarrow> ('p, unit) cprog" where
  "registered E =
     bindP answer_getClientID (\<lambda>cid.
     bindP (try_set_clientP (Exit1 Client_id_size) (client_setClientID cid)) (\<lambda>_.
     bindP (send_public_key_get_aes E new_request) (\<lambda>_.
     send_file E new_request)))"

partial_function (option) registering ::
    "('sk, 'pk, 'p) env \<Rightarrow> request \<Rightarrow> 'p world \<Rightarrow> ((stop + unit) \<times> 'p world) option" where
  "registering E r w =
     bindP (optP Undefined (setClientID (replicate 32 0) r)) (\<lambda>r.
     bindP (clientP getClientName) (\<lambda>cname.
     let r = setCode (request_code REGISTERING_825) r;
         r = setPayloadSize (int NAME_OF_CLIENT_SIZE) r;
         r = appendStringPayload cname NAME_OF_CLIENT_SIZE r
     in bindP (send_to_server E r) (\<lambda>_.
        bindP get_header_from_server (\<lambda>a.
        if answer_getCode a = answer_code GENERAL_ERROR_1607 \<or>
           answer_getCode a = answer_code REGISTERING_FAILED_1601 then
          bindP (general_error_handle a r) (\<lambda>(again, r).
            if again = TRY_AGAIN then (\<lambda>w. registering E (clearPayload r) w)
            else registered E)
        else if answer_getCode a \<noteq> answer_code REGISTERING_DONE_1600
        then throwP (Exit1 Code_not_recognized)
        else registered E)))) w"

text \<open>The part of \<open>reconnection\<close> after a positive answer.\<close>

definition reconnected ::
    "('sk, 'pk, 'p) env \<Rightarrow> answer \<Rightarrow> request \<Rightarrow> ('p, Answer_codes \<times> request) cprog" where
  "reconnected E a r =
     bindP (get_aes_key_from_server a) (\<lambda>_.
     bindP (send_file E new_request) (\<lambda>_.
     retP (VALID_RECONNECT_1605, r)))"

partial_function (option) reconnection ::
    "('sk, 'pk, 'p) env \<Rightarrow> request \<Rightarrow> 'p world \<Rightarrow>
     ((stop + Answer_codes \<times> request) \<times> 'p world) option" where
  "reconnection E r w =
     bindP (read_priv_key E) (\<lambda>key.
     bindP (set_clientP (setPrivateKey key)) (\<lambda>_.
     bindP (getP (\<lambda>w. files w (lit ''me.info''))) (\<lambda>me_info.
     bindP (clientP getClientName) (\<lambda>cname.
     let (file_client_name, text) = get_line (case me_info of None \<Rightarrow> [] | Some text \<Rightarrow> text)
     in if cname \<noteq> file_client_name then throwP (Exit1 Name_mismatch)
        else
          (let (client_id_hex, _) = get_line text
           in bindP (try_set_clientP (Exit1 Client_id_size)
                       (client_setClientID (convert_hex_to_bytes client_id_hex))) (\<lambda>_.
              bindP (clientP getClientID) (\<lambda>cid.
              bindP (optP Undefined (setClientID cid r)) (\<lambda>r.
              let r = setCode (request_code RECONNECT_827) r;
                  r = setPayloadSize (int NAME_OF_CLIENT_SIZE) r;
                  r = appendStringPayload cname NAME_OF_CLIENT_SIZE r
              in bindP (send_to_server E r) (\<lambda>_.
                 bindP get_header_from_server (\<lambda>a.
                 if answer_getCode a = answer_code GENERAL_ERROR_1607 then
                   bindP (general_error_handle a r) (\<lambda>(again, r).
                     if again = TRY_AGAIN then (\<lambda>w. reconnection E (clearPayload r) w)
                     else reconnected E a r)
                 else if answer_getCode a = answer_code INVALID_RECONNECT_1606 then
                   bindP (asio_read (Uncaught Network_exception) CLIENT_ID_SIZE) (\<lambda>_.
                   retP (INVALID_RECONNECT_1606, restartFailures (clearPayload r)))
                 else if answer_getCode a \<noteq> answer_code VALID_RECONNECT_1605
                 then throwP (Exit1 Code_not_recognized)
                 else reconnected E a r)))))))))) w"

section \<open>The main function\<close>

definition client_main :: "('sk, 'pk, 'p) env \<Rightarrow> ('p, unit) cprog" where
  "client_main E =
     bindP (read_transfer E) (\<lambda>_.
     bindP (getP (\<lambda>w. files w (lit ''me.info'') \<noteq> None)) (\<lambda>me_info_good.
     bindP (if me_info_good then reconnection E new_request
            else retP (VALID_RECONNECT_1605, new_request)) (\<lambda>(ans, r).
     if \<not> me_info_good \<or> ans = INVALID_RECONNECT_1606 then registering E r
     else retP ())))"

end
