(* ===== verification/Client_Packets.thy ===== *)
theory Client_Packets
  imports Client
begin

text \<open>
  The packets of a file transfer as a list, and the refinement: the loop \<open>send_packets\<close> with its
  indices and counter sends exactly this list.
\<close>

section \<open>The packets of a file\<close>

definition chunk :: "bytes \<Rightarrow> nat \<Rightarrow> bytes" where
  "chunk body k = take 4096 (drop (4096 * k) body)"

definition packet_count :: "bytes \<Rightarrow> nat" where
  "packet_count body = (length body + 4095) div 4096"

text \<open>
  The \<open>k\<close>-th packet (counted from 0): the sizes, the packet number and the number of packets, the
  file name, and one chunk of the encrypted file.
\<close>

definition packet_payload :: "int \<Rightarrow> int \<Rightarrow> int \<Rightarrow> bytes \<Rightarrow> bytes \<Rightarrow> nat \<Rightarrow> bytes" where
  "packet_payload content_size orig_size tot fname body k =
     store_little_u32 (word_of_int content_size) @ store_little_u32 (word_of_int orig_size) @
     store_little_u16 (of_nat (Suc k)) @ store_little_u16 (word_of_int tot) @
     pad_nul 255 fname @ chunk body k"

definition packet_request ::
    "request \<Rightarrow> int \<Rightarrow> int \<Rightarrow> int \<Rightarrow> bytes \<Rightarrow> bytes \<Rightarrow> nat \<Rightarrow> request" where
  "packet_request r content_size orig_size tot fname body k =
     r\<lparr>rq_payload_size := store_little_u32 (of_nat (267 + length (chunk body k))),
       rq_payload := packet_payload content_size orig_size tot fname body k\<rparr>"

lemma length_chunk: "length (chunk body k) = min 4096 (length body - 4096 * k)"
  by (simp add: chunk_def)

lemma concat_chunks_from:
  "4096 * k \<le> length body \<Longrightarrow>
   concat (map (chunk body) [k..<packet_count body]) = drop (4096 * k) body"
proof (induction "packet_count body - k" arbitrary: k)
  case 0
  then have "length body \<le> 4096 * k" by (simp add: packet_count_def)
  with 0 show ?case by (simp add: packet_count_def)
next
  case (Suc n)
  then have k: "k < packet_count body" by simp
  have n: "n = packet_count body - Suc k" using Suc.hyps(2) by simp
  have split: "map (chunk body) [k..<packet_count body]
      = chunk body k # map (chunk body) [Suc k..<packet_count body]"
    using k by (simp add: upt_rec)
  show ?case
  proof (cases "4096 * Suc k \<le> length body")
    case True
    have "drop (4096 * k) body = chunk body k @ drop (4096 * Suc k) body"
      by (metis append_take_drop_id chunk_def drop_drop mult_Suc_right)
    then show ?thesis using Suc.hyps(1) [OF n True] by (simp add: split)
  next
    case False
    then have "packet_count body \<le> Suc k" by (simp add: packet_count_def)
    with False show ?thesis by (simp add: split chunk_def)
  qed
qed

lemma concat_chunks: "concat (map (chunk body) [0..<packet_count body]) = body"
  using concat_chunks_from [of 0 body] by simp

lemma chunk_bounds: "k < packet_count body \<Longrightarrow> 0 < length (chunk body k) \<and> length (chunk body k) \<le> 4096"
  by (simp add: length_chunk packet_count_def)

lemma chunk_full: "Suc k < packet_count body \<Longrightarrow> length (chunk body k) = 4096"
  by (simp add: length_chunk packet_count_def)

section \<open>The loop sends the packets\<close>

lemma payload_without_massage: "payload_size_without_massage = 267"
  by (simp add: payload_size_without_massage_def)

text \<open>One round of the loop builds one packet.\<close>

lemma round_eq:
  assumes m: "m \<le> length f" and k: "4096 * k < m" and r: "rq_payload r = []"
  shows "(let r = setPayloadSize (payload_size_without_massage + int (m - 4096 * k)) r;
              r = (if int (m - 4096 * k) > int PACKET_MAX_SIZE
                   then setPayloadSize (payload_size_without_massage + int PACKET_MAX_SIZE) r else r);
              r = appendNumberPayload cs CONTENT_SIZE_SIZE r;
              r = appendNumberPayload os ORIG_FILE_SIZE_SIZE r;
              r = appendNumberPayload (int (Suc k)) PACKET_NUMBER_SIZE r;
              r = appendNumberPayload tot TOTAL_PACKETS_SIZE r;
              r = appendStringPayload fname NAME_OF_CLIENT_SIZE r
          in if int (m - 4096 * k) > int PACKET_MAX_SIZE
             then appendFileSlice f (int (4096 * k)) (int (4096 * Suc k)) r
             else appendFileSlice f (int (4096 * k)) (int (4096 * k) + int (m - 4096 * k)) r)
       = Some (packet_request r cs os tot fname (take m f) k)"
proof (cases "m - 4096 * k > 4096")
  case True
  then have le: "4096 * Suc k \<le> length f" using m by simp
  have len: "length (chunk (take m f) k) = 4096" using m True by (simp add: length_chunk)
  have ch: "take (4096 * Suc k - 4096 * k) (drop (4096 * k) f) = chunk (take m f) k"
    using True by (simp add: chunk_def drop_take)
  have sl: "appendFileSlice f (int (4096 * k)) (int (4096 * Suc k)) q
      = Some (q\<lparr>rq_payload := rq_payload q @ chunk (take m f) k\<rparr>)" for q
    using appendFileSlice_eq [of "4096 * k" "4096 * Suc k" f q] le unfolding ch by simp
  have gt: "int (m - 4096 * k) > int PACKET_MAX_SIZE" using True by simp
  show ?thesis
    unfolding Let_def if_P [OF gt] sl
    by (simp add: request_defs packet_request_def packet_payload_def payload_without_massage len
        pad_nul_def r)
next
  case False
  have e: "int (4096 * k) + int (m - 4096 * k) = int m" using k by simp
  have len: "length (chunk (take m f) k) = m - 4096 * k" using m False by (simp add: length_chunk)
  have ch: "take (m - 4096 * k) (drop (4096 * k) f) = chunk (take m f) k"
    using False by (simp add: chunk_def drop_take)
  have sl: "appendFileSlice f (int (4096 * k)) (int m) q
      = Some (q\<lparr>rq_payload := rq_payload q @ chunk (take m f) k\<rparr>)" for q
    using appendFileSlice_eq [of "4096 * k" m f q] m k unfolding ch by simp
  have ngt: "\<not> int (m - 4096 * k) > int PACKET_MAX_SIZE" using False by simp
  show ?thesis
    unfolding Let_def if_not_P [OF ngt] e sl
    by (simp add: request_defs packet_request_def packet_payload_def payload_without_massage len
        pad_nul_def r)
qed

lemma run_clientP: "bindP (clientP f) k w = k (f (the_client w)) w"
  by (simp add: bindP_def clientP_def getP_def)

lemma run_sendP: "bindP (send_to_server E r) k w = k () (after_send E r w)"
  by (simp add: bindP_def run_send)

lemma opt_Some: "optP e (Some x) = retP x"
  by (simp add: optP_def)

lemma packet_request_again:
  "packet_request (clearPayload (packet_request r cs os tot fname body k)) cs os tot fname body
   = packet_request r cs os tot fname body"
  by (rule ext) (simp add: packet_request_def clearPayload_def)

definition last_request :: "request \<Rightarrow> int \<Rightarrow> int \<Rightarrow> int \<Rightarrow> bytes \<Rightarrow> bytes \<Rightarrow> nat \<Rightarrow> request" where
  "last_request r cs os tot fname body k =
     (if k < packet_count body
      then clearPayload (packet_request r cs os tot fname body (packet_count body - 1)) else r)"

lemma send_packets_from:
  assumes "m \<le> length f" and "rq_payload r = []"
  shows "send_packets E f n tot r (int (Suc k)) (int (4096 * k)) (int (4096 * Suc k))
           (int m - int (4096 * k)) w =
         (let cs = int_of_size (length f); os = int_of_size n; body = take m f;
              fname = client_file_name (the_client w)
          in Some (Inr (last_request r cs os tot fname body k),
               fold (after_send E) (map (packet_request r cs os tot fname body)
                 [k..<packet_count body]) w))"
  using assms
proof (induction "packet_count (take m f) - k" arbitrary: k r w)
  case 0
  then have "int m - int (4096 * k) \<le> 0" by (simp add: packet_count_def)
  with 0 show ?case
    by (subst send_packets.simps) (simp add: last_request_def retP_def Let_def)
next
  case (Suc d)
  let ?body = "take m f" and ?cs = "int_of_size (length f)" and ?os = "int_of_size n"
  let ?fn = "client_file_name (the_client w)"
  let ?P = "packet_request r ?cs ?os tot ?fn ?body"
  have k: "4096 * k < m" and kc: "k < packet_count ?body"
    using Suc.hyps(2) Suc.prems(1) by (simp_all add: packet_count_def)
  have cnt: "int m - int (4096 * k) = int (m - 4096 * k)" "int (m - 4096 * k) > 0"
    using k by simp_all
  note round = round_eq [OF Suc.prems(1) k Suc.prems(2), of ?cs ?os tot ?fn]
  have next_index: "int (Suc k) + 1 = int (Suc (Suc k))"
    "int (4096 * k) + int PACKET_MAX_SIZE = int (4096 * Suc k)"
    "int (4096 * Suc k) + int PACKET_MAX_SIZE = int (4096 * Suc (Suc k))"
    "int (m - 4096 * k) - int PACKET_MAX_SIZE = int m - int (4096 * Suc k)"
    using k by simp_all
  have step: "send_packets E f n tot r (int (Suc k)) (int (4096 * k)) (int (4096 * Suc k))
           (int m - int (4096 * k)) w
      = send_packets E f n tot (clearPayload (?P k)) (int (Suc (Suc k)))
          (int (4096 * Suc k)) (int (4096 * Suc (Suc k))) (int m - int (4096 * Suc k))
          (after_send E (?P k) w)"
    unfolding send_packets.simps [of E f n tot r] cnt(1) if_P [OF cnt(2)] Let_def run_clientP
      round [unfolded Let_def] opt_Some run_bind run_sendP next_index ..
  have d: "d = packet_count ?body - Suc k" using Suc.hyps(2) by simp
  have pay: "rq_payload (clearPayload (?P k)) = []" by (simp add: clearPayload_def)
  have last: "last_request (clearPayload (?P k)) ?cs ?os tot ?fn ?body (Suc k)
      = last_request r ?cs ?os tot ?fn ?body k"
  proof (cases "Suc k < packet_count ?body")
    case True
    then show ?thesis using kc by (simp add: last_request_def packet_request_again)
  next
    case False
    then have "packet_count ?body - 1 = k" using kc by simp
    with False kc show ?thesis by (simp add: last_request_def)
  qed
  have upt: "[k..<packet_count ?body] = k # [Suc k..<packet_count ?body]"
    using kc by (simp add: upt_rec)
  show ?case
    unfolding step using Suc.hyps(1) [OF d Suc.prems(1) pay, of "after_send E (?P k) w"]
    by (simp add: Let_def last upt packet_request_again)
qed

lemma wf_packet_request: "wf_request r \<Longrightarrow> wf_request (packet_request r cs os tot fname body k)"
  by (simp add: wf_request_def packet_request_def)

lemma last_request_frame:
  "num_of_failures (last_request r cs os tot fname body k) = num_of_failures r"
  "wf_request r \<Longrightarrow> wf_request (last_request r cs os tot fname body k)"
  "rq_payload r = [] \<Longrightarrow> rq_payload (last_request r cs os tot fname body k) = []"
  by (simp_all add: last_request_def wf_packet_request)
    (simp_all add: packet_request_def clearPayload_def)

end
