(* ===== verification/Client_Safety.thy ===== *)
theory Client_Safety
  imports Client_Packets
begin

text \<open>
  What the client program guarantees whatever the server answers: it returns, it sends every
  request a bounded number of times, and it has defined behaviour unless the file is too large for
  the checksum's loop counter.
\<close>

section \<open>The interface of an operation that tries again\<close>

text \<open>
  An attempt of \<open>run\<close> either finishes by itself or goes on as \<open>run\<close> with one more failure counted
  and fewer than \<open>MAX_TRIES\<close> of them. Its client may use \<open>run\<close> as a plain terminating operation.
\<close>

locale bounded_retry =
  fixes run :: "'r \<Rightarrow> ('s, 'e, 'a) prog"
    and fails :: "'r \<Rightarrow> int"
    and pre :: "'r \<Rightarrow> 's \<Rightarrow> bool"
    and N :: "'r \<Rightarrow> 's \<Rightarrow> 'a \<Rightarrow> 's \<Rightarrow> bool"
    and S :: "'r \<Rightarrow> 's \<Rightarrow> 'e \<Rightarrow> 's \<Rightarrow> bool"
  assumes attempt:
    "pre r s \<Longrightarrow> fails r < MAX_TRIES \<Longrightarrow>
     (\<And>r' s'. fails r' = fails r + 1 \<Longrightarrow> fails r' < MAX_TRIES \<Longrightarrow> pre r' s' \<Longrightarrow>
        wp (run r') (N r' s') (S r' s') s') \<Longrightarrow>
     wp (run r) (N r s) (S r s) s"
begin

lemma retries_end:
  assumes "pre r s" and "fails r < MAX_TRIES"
  shows "wp (run r) (N r s) (S r s) s"
  using assms
proof (induction "nat (MAX_TRIES - fails r)" arbitrary: r s rule: less_induct)
  case less
  show ?case
  proof (rule attempt [OF less.prems])
    fix r' s'
    assume "fails r' = fails r + 1" and "fails r' < MAX_TRIES" and "pre r' s'"
    then show "wp (run r') (N r' s') (S r' s') s'"
      using less.prems(2) by (intro less.hyps) simp_all
  qed
qed

lemma terminates:
  assumes "pre r s" and "fails r < MAX_TRIES"
  shows "returns (run r) s"
  unfolding returns_def by (rule wp_conseq [OF retries_end [OF assms]]) simp_all

end

section \<open>Counting the messages of each kind\<close>

text \<open>
  The kind of a message: its code and, for a file packet, its packet number, read at their offsets
  in the bytes sent.
\<close>

definition msg_code :: "bytes \<Rightarrow> nat" where
  "msg_code m = le_nat (take 2 (drop 17 m))"

definition msg_kind :: "bytes \<Rightarrow> nat \<times> nat" where
  "msg_kind m = (msg_code m, if msg_code m = 828 then le_nat (take 2 (drop 31 m)) else 0)"

definition sent_count :: "nat \<times> nat \<Rightarrow> 'p world \<Rightarrow> nat" where
  "sent_count k w = count_list (map msg_kind (sent w)) k"

text \<open>From \<open>w\<close> to \<open>w'\<close> at most \<open>B k\<close> messages of kind \<open>k\<close> were sent.\<close>

definition spent :: "(nat \<times> nat \<Rightarrow> nat) \<Rightarrow> 'p world \<Rightarrow> 'p world \<Rightarrow> bool" where
  "spent B w w' \<longleftrightarrow> (\<forall>k. sent_count k w' \<le> sent_count k w + B k)"

definition only :: "nat \<times> nat \<Rightarrow> nat \<Rightarrow> nat \<times> nat \<Rightarrow> nat" where
  "only k n k' = (if k' = k then n else 0)"

lemma spent_refl [intro]: "spent B w w"
  by (simp add: spent_def)

lemma spent_same: "sent w' = sent w \<Longrightarrow> spent B w w'"
  by (simp add: spent_def sent_count_def)

lemma spent_trans:
  "spent B w w' \<Longrightarrow> spent B' w' w'' \<Longrightarrow> (\<And>k. B k + B' k \<le> B'' k) \<Longrightarrow> spent B'' w w''"
proof -
  assume "spent B w w'" and "spent B' w' w''" and B: "\<And>k. B k + B' k \<le> B'' k"
  then have "sent_count k w' \<le> sent_count k w + B k"
    and "sent_count k w'' \<le> sent_count k w' + B' k" for k
    unfolding spent_def by blast+
  with B have "sent_count k w'' \<le> sent_count k w + B'' k" for k
    by (meson add_le_mono add_left_mono le_trans order_refl add.assoc [THEN eq_refl])
  then show ?thesis unfolding spent_def by blast
qed

lemma spent_mono: "spent B w w' \<Longrightarrow> (\<And>k. B k \<le> B' k) \<Longrightarrow> spent B' w w'"
  unfolding spent_def by (meson add_le_cancel_left le_trans)

lemma count_list_snoc: "count_list (xs @ [x]) y = count_list xs y + (if x = y then 1 else 0)"
  by (induction xs) auto

lemma spent_after_send: "spent (only (msg_kind (request_message r)) 1) w (after_send E r w)"
  by (auto simp: spent_def sent_count_def after_send_def only_def count_list_snoc
      split: option.split prod.split)

lemma msg_code_request: "wf_request r \<Longrightarrow> msg_code (request_message r) = nat (getCode r)"
proof -
  assume r: "wf_request r"
  then have "drop 17 (request_message r) = rq_code r @ rq_payload_size r @ rq_payload r"
    by (simp add: request_message_eq) (simp add: wf_request_def)
  with r show ?thesis by (simp add: msg_code_def getCode_def wf_request_def)
qed

lemma getCode_setCode: "0 \<le> c \<Longrightarrow> c < 65536 \<Longrightarrow> getCode (setCode c r) = c"
proof -
  assume c: "0 \<le> c" "c < 65536"
  then have "unat (word_of_int c :: 16 word) = nat c"
    by (simp add: unat_eq_nat_uint unsigned_of_int take_bit_int_eq_self)
  then show ?thesis
    using c by (simp add: getCode_def setCode_def store_little_u16_def le_nat_le_bytes)
qed

lemma getCode_updates [simp]:
  "getCode (setPayloadSize n r) = getCode r"
  "getCode (appendStringPayload s k r) = getCode r"
  "getCode (appendNumberPayload i k r) = getCode r"
  "getCode (clearPayload r) = getCode r"
  "getCode (addFailure r) = getCode r"
  "getCode (packet_request r cs os tot fname body j) = getCode r"
  by (simp_all add: getCode_def request_defs packet_request_def)

lemma msg_kind_request:
  "wf_request r \<Longrightarrow> getCode r = c \<Longrightarrow> c \<noteq> 828 \<Longrightarrow> 0 \<le> c \<Longrightarrow>
   msg_kind (request_message r) = (nat c, 0)"
  by (auto simp: msg_kind_def msg_code_request)

lemma msg_kind_packet:
  assumes r: "wf_request r" and c: "getCode r = 828" and j: "j < 65535"
  shows "msg_kind (request_message (packet_request r cs os tot fname body j)) = (828, Suc j)"
proof -
  let ?q = "packet_request r cs os tot fname body j"
  have q: "wf_request ?q" by (rule wf_packet_request [OF r])
  have "drop 23 (request_message ?q) = rq_payload ?q"
    using q by (simp add: request_message_eq) (simp add: wf_request_def)
  moreover have "drop 31 (request_message ?q) = drop 8 (drop 23 (request_message ?q))" by simp
  ultimately have "drop 31 (request_message ?q) = drop 8 (rq_payload ?q)" by simp
  then have "take 2 (drop 31 (request_message ?q)) = store_little_u16 (of_nat (Suc j))"
    by (simp add: packet_request_def packet_payload_def)
  moreover have "le_nat (store_little_u16 (of_nat (Suc j))) = Suc j"
  proof -
    have "unat (of_nat (Suc j) :: 16 word) = Suc j"
      unfolding unat_of_nat using j by simp
    with j show ?thesis by (simp add: store_little_u16_def le_nat_le_bytes del: of_nat_Suc)
  qed
  ultimately show ?thesis
    using msg_code_request [OF q] c by (simp add: msg_kind_def)
qed


section \<open>Safe programs\<close>

text \<open>The file to send is larger than the largest \<open>int\<close>.\<close>

definition big_file :: "'p world \<Rightarrow> bool" where
  "big_file w \<longleftrightarrow> (\<exists>c. files w (path_to_file (the_client w)) = Some c \<and> 2147483647 < length c)"

definition id16 :: "'p world \<Rightarrow> bool" where
  "id16 w \<longleftrightarrow> length (client_id (the_client w)) = CLIENT_ID_SIZE"

text \<open>
  Started in \<open>w\<close> the program returns; it sends at most \<open>T\<close> messages, a value it returns satisfies
  \<open>Q\<close>, and it runs into undefined behaviour only with a file that is too large.
\<close>

definition safe ::
    "(nat \<times> nat \<Rightarrow> nat) \<Rightarrow> ('a \<Rightarrow> 'p world \<Rightarrow> bool) \<Rightarrow> ('p, 'a) cprog \<Rightarrow> 'p world \<Rightarrow> bool" where
  "safe T Q m w =
     wp m (\<lambda>x w'. Q x w' \<and> spent T w w') (\<lambda>e w'. spent T w w' \<and> (e = Undefined \<longrightarrow> big_file w')) w"

lemma safe_bind:
  assumes "safe T Q m w" and "\<And>x w'. Q x w' \<Longrightarrow> safe T' R (k x) w'"
    and "\<And>j. T j + T' j \<le> T'' j"
  shows "safe T'' R (bindP m k) w"
  unfolding safe_def wp_bind
proof (rule wp_conseq [OF assms(1) [unfolded safe_def]])
  fix x w' assume x: "Q x w' \<and> spent T w w'"
  show "wp (k x) (\<lambda>x w'. R x w' \<and> spent T'' w w')
      (\<lambda>e w'. spent T'' w w' \<and> (e = Undefined \<longrightarrow> big_file w')) w'"
    by (rule wp_conseq [OF assms(2) [of x w', unfolded safe_def]])
      (use x assms(3) in \<open>auto intro: spent_trans\<close>)
next
  fix e w' assume "spent T w w' \<and> (e = Undefined \<longrightarrow> big_file w')"
  then show "spent T'' w w' \<and> (e = Undefined \<longrightarrow> big_file w')"
    using assms(3) by (metis add_leD1 spent_mono)
qed

lemma safe_conseq:
  assumes "safe T Q m w" and "\<And>x w'. Q x w' \<Longrightarrow> R x w'" and "\<And>j. T j \<le> T' j"
  shows "safe T' R m w"
  unfolding safe_def
  by (rule wp_conseq [OF assms(1) [unfolded safe_def]])
    (use assms(2,3) in \<open>auto intro: spent_mono\<close>)

lemma spent_sent [simp]: "sent w' = sent w \<Longrightarrow> spent B w w'"
  by (rule spent_same)

lemma wp_general_error [wp_rules]:
  "wp (general_error_handle a r) N S w =
     (if num_of_failures r + 1 = 4 then S (Exit1 Too_many_tries) w else N (0, addFailure r) w)"
  by (simp add: general_error_handle_def wp_rules Let_def getNumFailurs_def)

lemma wp_read_string [wp_rules]:
  "wp (read_string_and_check x n) N S w =
     (if n \<le> length (inbuf w) then
        if until_nul (take n (inbuf w)) = x then N () (w\<lparr>inbuf := drop n (inbuf w)\<rparr>)
        else S (Exit1 Wrong_information) (w\<lparr>inbuf := drop n (inbuf w)\<rparr>)
      else S (Exit1 Read_failed) w)"
  by (simp add: read_string_and_check_def wp_rules)

lemma wp_getNumber [wp_rules]:
  "wp (getNumber n) N S w =
     (if n \<le> length (inbuf w)
      then N (load_little_u32 (take n (inbuf w))) (w\<lparr>inbuf := drop n (inbuf w)\<rparr>)
      else S (Exit1 Read_failed) w)"
  by (simp add: getNumber_def wp_rules)

lemma wp_getEncryptedAes [wp_rules]:
  "wp (getEncryptedAes a) N S w =
     (let n = ans_payload_size a - 16 in
      if n < 0 then S (Exit1 Read_failed) w
      else if nat n \<le> length (inbuf w)
        then N (take (nat n) (inbuf w)) (w\<lparr>inbuf := drop (nat n) (inbuf w)\<rparr>)
        else S (Exit1 Read_failed) w)"
  by (simp add: getEncryptedAes_def wp_rules Let_def)

subsection \<open>Rules for the sequences the client is made of\<close>

named_theorems safe_rules "introduction rules for safe programs"

text \<open>Reading an answer changes nothing but the input buffer.\<close>

definition same_but_inbuf :: "'p world \<Rightarrow> 'p world \<Rightarrow> bool" where
  "same_but_inbuf w w' \<longleftrightarrow> the_client w' = the_client w \<and> files w' = files w \<and> sent w' = sent w"

lemma safe_same:
  assumes "same_but_inbuf w w'" and "safe T Q m w'"
  shows "wp m (\<lambda>x v. Q x v \<and> spent T w v) (\<lambda>e v. spent T w v \<and> (e = Undefined \<longrightarrow> big_file v)) w'"
  by (rule wp_conseq [OF assms(2) [unfolded safe_def]])
    (use assms(1) in \<open>auto simp: same_but_inbuf_def spent_def sent_count_def\<close>)

lemma safe_ret [safe_rules]: "Q x w \<Longrightarrow> safe T Q (retP x) w"
  by (simp add: safe_def wp_rules)

lemma safe_throw [safe_rules]: "e \<noteq> Undefined \<Longrightarrow> safe T Q (throwP e) w"
  by (simp add: safe_def wp_rules)

lemma safe_if [safe_rules]:
  "(b \<Longrightarrow> safe T Q m w) \<Longrightarrow> (\<not> b \<Longrightarrow> safe T Q n w) \<Longrightarrow> safe T Q (if b then m else n) w"
  by simp

lemma safe_client [safe_rules]:
  "safe T Q (k (f (the_client w))) w \<Longrightarrow> safe T Q (bindP (clientP f) k) w"
  by (simp add: safe_def wp_rules)

lemma safe_send [safe_rules]:
  assumes "safe T' Q (k ()) (after_send E r w)"
    and "\<And>j. only (msg_kind (request_message r)) 1 j + T' j \<le> T j"
  shows "safe T Q (bindP (send_to_server E r) k) w"
  unfolding safe_def wp_bind wp_send
  by (rule wp_conseq [OF assms(1) [unfolded safe_def]])
    (use assms(2) in \<open>auto intro: spent_trans [OF spent_after_send]\<close>)

lemma safe_header [safe_rules]:
  assumes "\<And>a w'. same_but_inbuf w w' \<Longrightarrow> safe T Q (k a) w'"
  shows "safe T Q (bindP get_header_from_server k) w"
proof -
  have "wp get_header_from_server (\<lambda>a w'. same_but_inbuf w w')
      (\<lambda>e w'. spent T w w' \<and> (e = Undefined \<longrightarrow> big_file w')) w"
    by (simp add: wp_rules Let_def same_but_inbuf_def)
  then show ?thesis
    unfolding safe_def wp_bind
    by (rule wp_conseq) (auto intro: safe_same assms)
qed

lemma safe_general_error [safe_rules]:
  "(num_of_failures r + 1 \<noteq> 4 \<Longrightarrow> safe T Q (k (0, addFailure r)) w) \<Longrightarrow>
   safe T Q (bindP (general_error_handle a r) k) w"
  by (simp add: safe_def wp_rules)

lemma safe_setClientID [safe_rules]:
  assumes "16 \<le> length cid"
    and "\<And>r'. wf_request r \<Longrightarrow> wf_request r' \<Longrightarrow> num_of_failures r' = num_of_failures r \<Longrightarrow>
      getCode r' = getCode r \<Longrightarrow> rq_payload r' = rq_payload r \<Longrightarrow> safe T Q (k r') w"
    and "wf_request r"
  shows "safe T Q (bindP (optP e (setClientID cid r)) k) w"
  using assms(2) [of "r\<lparr>rq_client_id := take 16 cid\<rparr>"] assms(1,3)
  by (simp add: safe_def wp_rules setClientID_long wf_request_def getCode_def)

lemma safe_read_string [safe_rules]: "safe T (\<lambda>_ w'. same_but_inbuf w w') (read_string_and_check x n) w"
  by (simp add: safe_def wp_rules same_but_inbuf_def)

lemma safe_get_aes: "id16 w \<Longrightarrow> safe (\<lambda>_. 0) (\<lambda>_ w'. id16 w') (get_aes_key_from_server a) w"
  by (simp add: safe_def get_aes_key_from_server_def wp_rules Let_def id16_def setEncryptedAes_def)

lemma safe_True: "safe T Q m w \<Longrightarrow> safe T (\<lambda>_ _. True) m w"
  by (erule safe_conseq [where T' = T and R = "\<lambda>_ _. True"]) (rule TrueI, rule order_refl)

section \<open>The last answer\<close>

lemmas the_end_eq = ext [OF the_end.simps]

definition end_budget :: "request \<Rightarrow> nat \<times> nat \<Rightarrow> nat" where
  "end_budget r = only (nat (getCode r), 0) (nat (3 - num_of_failures r))"

definition end_pre :: "request \<Rightarrow> bool" where
  "end_pre r \<longleftrightarrow> wf_request r \<and> 0 \<le> getCode r \<and> getCode r \<noteq> 828"

lemma the_end_attempt:
  assumes pre: "end_pre r" and less: "num_of_failures r < MAX_TRIES"
    and again: "\<And>r' w'. num_of_failures r' = num_of_failures r + 1 \<Longrightarrow> num_of_failures r' < MAX_TRIES \<Longrightarrow>
      end_pre r' \<Longrightarrow> safe (end_budget r') (\<lambda>_ _. True) (the_end E result r') w'"
  shows "safe (end_budget r) (\<lambda>_ _. True) (the_end E result r) w"
proof -
  have kind: "msg_kind (request_message (addFailure r)) = (nat (getCode r), 0)"
    using pre by (intro msg_kind_request) (simp_all add: end_pre_def)
  have "only (msg_kind (request_message (addFailure r))) 1 j + end_budget (addFailure r) j
      \<le> end_budget r j" if "num_of_failures r + 1 \<noteq> 4" for j
    using that less by (simp add: kind end_budget_def only_def) arith
  moreover have "safe (end_budget (addFailure r)) (\<lambda>_ _. True) (the_end E result (addFailure r)) w'"
    if "num_of_failures r + 1 \<noteq> 4" for w'
    by (rule again) (use that less pre in \<open>simp_all add: end_pre_def\<close>)
  ultimately show ?thesis
    by (subst the_end_eq) (auto simp: Let_def intro!: safe_rules intro: safe_True safe_read_string)
qed

interpretation end_retry: bounded_retry "the_end E result" num_of_failures "\<lambda>r _. end_pre r"
  "\<lambda>r w _ w'. True \<and> spent (end_budget r) w w'"
  "\<lambda>r w e w'. spent (end_budget r) w w' \<and> (e = Undefined \<longrightarrow> big_file w')" for E result
  by unfold_locales (rule the_end_attempt [unfolded safe_def])


section \<open>The answer with the checksum\<close>

text \<open>What \<open>crc_checking\<close> decides, counts and sends.\<close>

definition crc_outcome :: "request \<Rightarrow> 'p world \<Rightarrow> int \<times> request \<times> request \<Rightarrow> 'p world \<Rightarrow> bool" where
  "crc_outcome r w = (\<lambda>(code, r', fin) w'.
     the_client w' = the_client w \<and> files w' = files w \<and>
     wf_request r' \<and> getCode r' = getCode r \<and>
     (code = 0 \<and> num_of_failures r' = num_of_failures r + 1 \<and> num_of_failures r' \<noteq> 4 \<and> sent w' = sent w \<or>
      code = 901 \<and> num_of_failures r' = num_of_failures r + 1 \<and> num_of_failures r' \<noteq> 4 \<and>
        spent (only (901, 0) 1) w w' \<or>
      (code = 900 \<or> code = 902) \<and> wf_request fin \<and> getCode fin = code \<and> num_of_failures fin = 0 \<and>
        spent (only (nat code, 0) 1) w w'))"

text \<open>Operations that only read from the socket.\<close>

definition quiet :: "('p, 'a) cprog \<Rightarrow> bool" where
  "quiet m \<longleftrightarrow>
     (\<forall>w. wp m (\<lambda>_ w'. same_but_inbuf w w') (\<lambda>e w'. same_but_inbuf w w' \<and> e \<noteq> Undefined) w)"

lemma quiet_reads:
  "quiet get_header_from_server" "quiet (read_string_and_check x n)" "quiet (getNumber n)"
  by (simp_all add: quiet_def wp_rules Let_def same_but_inbuf_def)

lemma quiet_bind:
  assumes "quiet m"
    and "\<And>x w'. same_but_inbuf w w' \<Longrightarrow> wp (k x) N S w'"
    and "\<And>e w'. same_but_inbuf w w' \<Longrightarrow> e \<noteq> Undefined \<Longrightarrow> S e w'"
  shows "wp (bindP m k) N S w"
proof -
  from assms(1) have "wp m (\<lambda>_ w'. same_but_inbuf w w') (\<lambda>e w'. same_but_inbuf w w' \<and> e \<noteq> Undefined) w"
    by (simp add: quiet_def)
  then show ?thesis unfolding wp_bind by (rule wp_conseq) (simp_all add: assms(2,3))
qed

lemma same_but_inbuf_trans:
  "same_but_inbuf w w' \<Longrightarrow> same_but_inbuf w' w'' \<Longrightarrow> same_but_inbuf w w''"
  by (simp add: same_but_inbuf_def)

lemma quiet_next:
  assumes "quiet m" and "same_but_inbuf v w"
    and "\<And>x w'. same_but_inbuf v w' \<Longrightarrow> wp (k x) N S w'"
    and "\<And>e w'. same_but_inbuf v w' \<Longrightarrow> e \<noteq> Undefined \<Longrightarrow> S e w'"
  shows "wp (bindP m k) N S w"
  using assms(1) by (rule quiet_bind) (use assms(2-4) in \<open>blast intro: same_but_inbuf_trans\<close>)+

lemma wp_ifI: "(b \<Longrightarrow> wp m N S w) \<Longrightarrow> (\<not> b \<Longrightarrow> wp n N S w) \<Longrightarrow> wp (if b then m else n) N S w"
  by simp

lemma wp_client_sameI:
  "same_but_inbuf v w \<Longrightarrow> wp (k (f (the_client v))) N S w \<Longrightarrow> wp (bindP (clientP f) k) N S w"
  by (simp add: wp_rules same_but_inbuf_def)

lemma spent_after_send':
  assumes "wf_request r" and "getCode r = c" and "c \<noteq> 828" and "0 \<le> c" and "sent w' = sent w"
  shows "spent (only (nat c, 0) 1) w (after_send E r w')"
  using spent_after_send [of r w' E] assms
  by (simp add: msg_kind_request spent_def sent_count_def)

lemma finish_request_ok:
  assumes "length cid = 16" and "setClientID cid new_request = Some fin" and "0 \<le> c" and "c < 65536"
  shows "wf_request (appendStringPayload f 255 (setPayloadSize 255 (setCode c fin)))"
    and "getCode (appendStringPayload f 255 (setPayloadSize 255 (setCode c fin))) = c"
    and "num_of_failures (appendStringPayload f 255 (setPayloadSize 255 (setCode c fin))) = 0"
  using assms wf_request_setClientID [of new_request cid fin] num_of_failures_setClientID [of cid new_request fin]
  by (simp_all add: getCode_setCode)

lemma wp_crc_verdict:
  assumes cid: "id16 v" and r: "wf_request r" and same: "same_but_inbuf v w"
  shows "wp (crc_verdict E r new_request) (crc_outcome r v) (\<lambda>e w'. sent w' = sent v \<and> e \<noteq> Undefined) w"
proof -
  let ?cid = "client_id (the_client v)"
  have len: "length ?cid = 16" using cid by (simp add: id16_def)
  obtain fin where fin: "setClientID ?cid new_request = Some fin"
    using setClientID_eq [OF len] by blast
  note ok = finish_request_ok [OF len fin]
  have outcome: "crc_outcome r v (c, r', fin') (after_send E fin' w')"
    if "same_but_inbuf v w'"
      and "fin' = appendStringPayload f 255 (setPayloadSize 255 (setCode c fin))"
      and "c = 900 \<and> r' = r \<or> c = 902 \<and> r' = addFailure r \<or>
        c = 901 \<and> r' = addFailure r \<and> num_of_failures r + 1 \<noteq> 4" for c r' fin' f w'
    using that r ok [of c f] spent_after_send' [of fin' c w' v E]
    by (auto simp: crc_outcome_def same_but_inbuf_def)
  have w: "the_client w = the_client v" "sent w = sent v" "files w = files v"
    using same by (simp_all add: same_but_inbuf_def)
  have read: "same_but_inbuf v (w\<lparr>inbuf := b\<rparr>)" for b
    using same by (simp add: same_but_inbuf_def)
  show ?thesis
    unfolding crc_verdict_def
    by (auto simp: wp_rules Let_def w fin getNumFailurs_def intro!: outcome read)
qed

lemma wp_crc_checking:
  assumes cid: "id16 w" and r: "wf_request r"
  shows "wp (crc_checking E r sz new_request) (crc_outcome r w) (\<lambda>e w'. sent w' = sent w \<and> e \<noteq> Undefined) w"
proof -
  let ?S = "\<lambda>e w'. sent w' = sent w \<and> e \<noteq> Undefined"
  have again: "crc_outcome r w (0, addFailure r, fin') w'"
    if "same_but_inbuf w w'" and "num_of_failures r \<noteq> 3" for fin' w'
    using that r by (simp add: crc_outcome_def same_but_inbuf_def)
  have stop: "?S e w'" if "same_but_inbuf w w'" and "e \<noteq> Undefined" for e w'
    using that by (simp add: same_but_inbuf_def)
  have sent: "sent w' = sent w" if "same_but_inbuf w w'" for w'
    using that by (simp add: same_but_inbuf_def)
  note step = wp_ifI wp_client_sameI [where v = w] quiet_next [where v = w, OF quiet_reads(2)]
    quiet_next [where v = w, OF quiet_reads(3)] wp_crc_verdict [OF cid r] stop
  show ?thesis
    unfolding crc_checking_def
    by (rule quiet_bind [OF quiet_reads(1)])
      ((rule step | assumption | (simp add: wp_rules sent again; fail))+)
qed


section \<open>Sending the file\<close>

text \<open>Every packet number is sent at most once per transfer.\<close>

definition packets_budget :: "nat \<times> nat \<Rightarrow> nat" where
  "packets_budget j = (if fst j = 828 then 1 else 0)"

lemma sent_count_fold:
  "sent_count j (fold (after_send E) rs w)
   \<le> sent_count j w + count_list (map (\<lambda>r. msg_kind (request_message r)) rs) j"
proof (induction rs arbitrary: w)
  case Nil
  then show ?case by simp
next
  case (Cons r rs)
  have "sent_count j (after_send E r w) \<le> sent_count j w + only (msg_kind (request_message r)) 1 j"
    using spent_after_send [of r w E] unfolding spent_def by blast
  with Cons [of "after_send E r w"] show ?case by (simp add: only_def split: if_splits)
qed

lemma count_list_distinct: "distinct xs \<Longrightarrow> count_list xs x \<le> 1"
  by (induction xs) (auto simp: count_list_0_iff)

lemma spent_packets:
  assumes r: "wf_request r" "getCode r = 828" and K: "K \<le> 65535"
  shows "spent packets_budget w
    (fold (after_send E) (map (packet_request r cs os tot fname body) [0..<K]) w)"
  unfolding spent_def
proof
  fix j
  have kinds: "map (\<lambda>r. msg_kind (request_message r)) (map (packet_request r cs os tot fname body) [0..<K])
      = map (\<lambda>k. (828, Suc k)) [0..<K]"
    using msg_kind_packet [OF r] K by (simp add: comp_def)
  have "distinct (map (\<lambda>k. (828 :: nat, Suc k)) [0..<K])"
    by (simp add: distinct_map inj_on_def)
  then have "count_list (map (\<lambda>k. (828, Suc k)) [0..<K]) j \<le> packets_budget j"
    using count_list_distinct [of "map (\<lambda>k. (828, Suc k)) [0..<K]" j]
    by (auto simp: packets_budget_def count_list_0_iff)
  with sent_count_fold [of j E "map (packet_request r cs os tot fname body) [0..<K]" w]
  show "sent_count j (fold (after_send E) (map (packet_request r cs os tot fname body) [0..<K]) w)
      \<le> sent_count j w + packets_budget j"
    unfolding kinds by linarith
qed

lemma int_of_size_le: "int_of_size n \<le> int n"
  by (simp add: int_of_size_def signed_of_nat signed_take_bit_int_less_eq_self_iff)

lemma calculate_total_packets_bound:
  assumes "calculate_total_packets n = Some t" and "0 \<le> n"
  shows "(n + 4095) div 4096 \<le> 65535"
  using assms by (simp add: calculate_total_packets_nonneg Let_def split: if_splits)

definition file_request :: "request \<Rightarrow> bool" where
  "file_request r \<longleftrightarrow> wf_request r \<and> rq_payload r = []"

lemma safe_send_packets:
  assumes r: "file_request r" "getCode r = 828"
    and t: "calculate_total_packets (int_of_size (length f)) = Some tot"
  shows "safe packets_budget (\<lambda>r' w'. file_request r' \<and> num_of_failures r' = num_of_failures r \<and>
      the_client w' = the_client w \<and> files w' = files w)
    (send_packets E f n tot r 1 0 (int PACKET_MAX_SIZE) (int_of_size (length f))) w"
proof (cases "int_of_size (length f) > 0")
  case False
  then show ?thesis
    using r by (subst send_packets.simps) (simp add: safe_def wp_rules)
next
  case True
  define m where "m = nat (int_of_size (length f))"
  have m: "int_of_size (length f) = int m" "m \<le> length f"
    using True int_of_size_le [of "length f"] by (simp_all add: m_def)
  have "(int m + 4095) div 4096 \<le> 65535"
    using calculate_total_packets_bound [OF t] m by simp
  moreover have "int (packet_count (take m f)) = (int m + 4095) div 4096"
    using m by (simp add: packet_count_def zdiv_int)
  ultimately have K: "packet_count (take m f) \<le> 65535" by linarith
  have run: "send_packets E f n tot r 1 0 (int PACKET_MAX_SIZE) (int_of_size (length f)) w
      = Some (Inr (last_request r (int_of_size (length f)) (int_of_size n) tot
                (client_file_name (the_client w)) (take m f) 0),
             fold (after_send E) (map (packet_request r (int_of_size (length f)) (int_of_size n) tot
                (client_file_name (the_client w)) (take m f)) [0..<packet_count (take m f)]) w)"
    using send_packets_from [OF m(2), of r E n tot 0 w] r m(1)
    by (simp add: file_request_def Let_def)
  show ?thesis
    unfolding safe_def wp_run [where m = "send_packets E f n tot r 1 0 (int PACKET_MAX_SIZE) (int_of_size (length f))", OF run]
    using r K spent_packets [of r] by (simp add: file_request_def last_request_frame)
qed

lemma safe_path [safe_rules]:
  "(\<And>c. files w p = Some c \<Longrightarrow> safe T Q (k c) w) \<Longrightarrow> safe T Q (bindP (file_by_path p) k) w"
  by (simp add: safe_def wp_rules split: option.split)

lemma safe_set_client:
  "safe T Q (k ()) (w\<lparr>the_client := f (the_client w)\<rparr>) \<Longrightarrow> safe T Q (bindP (set_clientP f) k) w"
  by (simp add: safe_def wp_rules spent_def sent_count_def)

lemma safe_opt [safe_rules]:
  "(\<And>x. v = Some x \<Longrightarrow> safe T Q (k x) w) \<Longrightarrow> e \<noteq> Undefined \<Longrightarrow> safe T Q (bindP (optP e v) k) w"
  by (simp add: safe_def wp_rules split: option.split)

lemma safe_guard:
  "(b \<Longrightarrow> safe T Q (k ()) w) \<Longrightarrow> (\<not> b \<Longrightarrow> big_file w) \<Longrightarrow> safe T Q (bindP (guardP b e) k) w"
  by (simp add: safe_def wp_rules)

lemma safe_encrypted:
  assumes r: "file_request r" and w: "id16 w"
  shows "safe packets_budget
      (\<lambda>(r', n) w'. file_request r' \<and> num_of_failures r' = num_of_failures r \<and> id16 w')
     (bindP (clientP client_id) (\<lambda>cid.
      bindP (optP Undefined (setClientID cid r)) (\<lambda>r.
      bindP (optP (Exit1 File_too_big) (calculate_total_packets (int_of_size (length f)))) (\<lambda>total_packets.
      bindP (send_packets E f n total_packets (setCode (request_code SEND_FILE_828) r) 1 0
               (int PACKET_MAX_SIZE) (int_of_size (length f))) (\<lambda>r.
      retP (r, length f)))))) w"
proof (rule safe_client, rule safe_setClientID)
  show "16 \<le> length (client_id (the_client w))" using w by (simp add: id16_def)
  show "wf_request r" using r by (simp add: file_request_def)
  fix r' assume r': "wf_request r'" "num_of_failures r' = num_of_failures r" "rq_payload r' = rq_payload r"
  let ?r = "setCode (request_code SEND_FILE_828) r'"
  have fr: "file_request ?r" "getCode ?r = 828" "num_of_failures ?r = num_of_failures r"
    using r r' by (simp_all add: file_request_def getCode_setCode) (simp add: setCode_def)
  show "safe packets_budget
      (\<lambda>(r', n) w'. file_request r' \<and> num_of_failures r' = num_of_failures r \<and> id16 w')
     (bindP (optP (Exit1 File_too_big) (calculate_total_packets (int_of_size (length f)))) (\<lambda>total_packets.
      bindP (send_packets E f n total_packets ?r 1 0
               (int PACKET_MAX_SIZE) (int_of_size (length f))) (\<lambda>r.
      retP (r, length f)))) w"
  proof (rule safe_opt)
    fix tot assume t: "calculate_total_packets (int_of_size (length f)) = Some tot"
    show "safe packets_budget
      (\<lambda>(r', n) w'. file_request r' \<and> num_of_failures r' = num_of_failures r \<and> id16 w')
      (bindP (send_packets E f n tot ?r 1 0 (int PACKET_MAX_SIZE) (int_of_size (length f)))
        (\<lambda>r. retP (r, length f))) w"
      by (rule safe_bind [OF safe_send_packets [OF fr(1,2) t], where T' = "\<lambda>_. 0"])
        (use fr(3) w in \<open>auto intro!: safe_ret simp: id16_def\<close>)
  qed simp
qed

lemma safe_send_file_packets:
  assumes r: "file_request r" and w: "id16 w"
  shows "safe packets_budget
      (\<lambda>(r', n) w'. file_request r' \<and> num_of_failures r' = num_of_failures r \<and> id16 w')
     (send_file_packets E r) w"
proof -
  have big: "big_file w" if "files w (path_to_file (the_client w)) = Some f" and "\<not> length f \<le> 2147483647" for f
    using that by (simp add: big_file_def)
  have w': "id16 (w\<lparr>the_client := setCRC c (the_client w)\<rparr>)" for c
    using w by (simp add: id16_def setCRC_def)
  show ?thesis
    unfolding send_file_packets_def
    by (intro safe_client safe_path safe_guard safe_set_client)
      (auto intro: big safe_throw safe_encrypted [OF r w', simplified] simp: Let_def split: sum.split)
qed


lemma safe_crc:
  assumes cid: "id16 w" and r: "wf_request r"
    and again: "\<And>code r' fin w'. code = 0 \<or> code = 901 \<Longrightarrow> wf_request r' \<Longrightarrow>
      num_of_failures r' = num_of_failures r + 1 \<Longrightarrow> num_of_failures r' \<noteq> 4 \<Longrightarrow> id16 w' \<Longrightarrow>
      safe T1 Q (k (code, r', fin)) w'"
    and fine: "\<And>code r' fin w'. code = 900 \<or> code = 902 \<Longrightarrow> wf_request fin \<Longrightarrow> getCode fin = code \<Longrightarrow>
      num_of_failures fin = 0 \<Longrightarrow> safe (end_budget fin) Q (k (code, r', fin)) w'"
    and T1: "\<And>j. num_of_failures r + 1 \<noteq> 4 \<Longrightarrow> only (901, 0) 1 j + T1 j \<le> T j"
    and T2: "\<And>j. j = (900, 0) \<or> j = (902, 0) \<Longrightarrow> 4 \<le> T j"
  shows "safe T Q (bindP (crc_checking E r sz new_request) k) w"
proof -
  let ?N = "\<lambda>x v. Q x v \<and> spent T w v" and ?S = "\<lambda>e v. spent T w v \<and> (e = Undefined \<longrightarrow> big_file v)"
  have more: "wp m ?N ?S w'"
    if m: "safe T' Q m w'" and w': "spent B w w'" and le: "\<And>j. B j + T' j \<le> T j" for m w' T' B
    by (rule wp_conseq [OF m [unfolded safe_def]]) (use w' le in \<open>auto intro: spent_trans\<close>)
  have tail: "only (nat code, 0) 1 j + end_budget fin j \<le> T j"
    if "code = 900 \<or> code = 902" and "getCode fin = code" and "num_of_failures fin = 0" for code fin j
    using that T2 [of j] by (auto simp: end_budget_def only_def)
  have "wp (k x) ?N ?S w'" if x: "crc_outcome r w x w'" for x w'
  proof -
    obtain code r' fin where [simp]: "x = (code, r', fin)" by (cases x)
    have w': "id16 w'" and r': "wf_request r'" using x cid by (simp_all add: crc_outcome_def id16_def)
    from x consider
        (wait) "code = 0" "sent w' = sent w" "num_of_failures r' = num_of_failures r + 1" "num_of_failures r' \<noteq> 4"
      | (wrong) "code = 901" "spent (only (901, 0) 1) w w'" "num_of_failures r' = num_of_failures r + 1" "num_of_failures r' \<noteq> 4"
      | (final) "code = 900 \<or> code = 902" "wf_request fin" "getCode fin = code" "num_of_failures fin = 0"
          "spent (only (nat code, 0) 1) w w'"
      by (auto simp: crc_outcome_def)
    then show ?thesis
    proof cases
      case wait
      then show ?thesis
        using again [of code r' w' fin] r' w' T1
        by (intro more [of T1 "k x" w' "only (901, 0) 1"]) simp_all
    next
      case wrong
      then show ?thesis
        using again [of code r' w' fin] r' w' T1
        by (intro more [of T1 "k x" w' "only (901, 0) 1"]) simp_all
    next
      case final
      then show ?thesis
        using fine [of code fin r' w'] tail [of code fin]
        by (intro more [of "end_budget fin" "k x" w' "only (nat code, 0) 1"]) simp_all
    qed
  qed
  then show ?thesis
    unfolding safe_def wp_bind
    by (rule wp_conseq [OF wp_crc_checking [OF cid r]]) (auto intro: spent_same)
qed

lemmas send_file_eq = ext [OF send_file.simps]

text \<open>
  With \<open>f\<close> failures counted: each packet goes out at most \<open>4 - f\<close> times, the request for another
  try at most \<open>3 - f\<close> times, each of the two final requests at most four times.
\<close>

definition file_budget :: "request \<Rightarrow> nat \<times> nat \<Rightarrow> nat" where
  "file_budget r j =
     (if fst j = 828 then nat (4 - num_of_failures r)
      else if j = (901, 0) then nat (3 - num_of_failures r)
      else if j = (900, 0) \<or> j = (902, 0) then 4 else 0)"

lemma send_file_attempt:
  assumes r: "file_request r" and less: "num_of_failures r < MAX_TRIES" and w: "id16 w"
    and again: "\<And>r' w'. num_of_failures r' = num_of_failures r + 1 \<Longrightarrow> num_of_failures r' < MAX_TRIES \<Longrightarrow>
      file_request r' \<and> id16 w' \<Longrightarrow> safe (file_budget r') (\<lambda>_ _. True) (send_file E r') w'"
  shows "safe (file_budget r) (\<lambda>_ _. True) (send_file E r) w"
proof -
  let ?T = "file_budget (addFailure r)"
  let ?R = "\<lambda>j. if fst j = 828 then nat (3 - num_of_failures r) else file_budget r j"
  have retry: "safe ?T (\<lambda>_ _. True) (send_file E (clearPayload r')) w'"
    if "wf_request r'" "num_of_failures r' = num_of_failures r + 1" "num_of_failures r \<noteq> 3" "id16 w'" for r' w'
  proof -
    have "file_budget (clearPayload r') = ?T" using that(2) by (simp add: file_budget_def fun_eq_iff)
    moreover have "safe (file_budget (clearPayload r')) (\<lambda>_ _. True) (send_file E (clearPayload r')) w'"
      by (rule again) (use that less in \<open>simp_all add: file_request_def\<close>, simp add: clearPayload_def)
    ultimately show ?thesis by simp
  qed
  have finish: "safe (end_budget fin) (\<lambda>_ _. True) (the_end E code fin) w'"
    if "code = 900 \<or> code = 902" "wf_request fin" "getCode fin = code" "num_of_failures fin = 0" for code fin w'
    unfolding safe_def by (rule end_retry.retries_end) (use that in \<open>auto simp: end_pre_def\<close>)
  have budget: "packets_budget j + ?R j \<le> file_budget r j" for j
    using less by (auto simp: packets_budget_def file_budget_def)
  have R1: "only (901, 0) 1 j + ?T j \<le> ?R j" if "num_of_failures r + 1 \<noteq> 4" for j
    using that less by (auto simp: file_budget_def only_def)
  have R2: "4 \<le> ?R j" if "j = (900, 0) \<or> j = (902, 0)" for j
    using that by (auto simp: file_budget_def)
  show ?thesis
    by (subst send_file_eq)
      (auto intro!: safe_bind [OF safe_send_file_packets [OF r w] _ budget] safe_crc [OF _ _ _ _ R1 R2]
        intro: retry finish simp: file_request_def)
qed


interpretation file_retry: bounded_retry "send_file E" num_of_failures "\<lambda>r w. file_request r \<and> id16 w"
  "\<lambda>r w _ w'. True \<and> spent (file_budget r) w w'"
  "\<lambda>r w e w'. spent (file_budget r) w w' \<and> (e = Undefined \<longrightarrow> big_file w')" for E
  by unfold_locales (use send_file_attempt [unfolded safe_def] in blast)

lemma safe_send_new_file: "id16 w \<Longrightarrow> safe (file_budget new_request) (\<lambda>_ _. True) (send_file E new_request) w"
  unfolding safe_def
  by (rule file_retry.retries_end) (simp_all add: file_request_def, simp add: new_request_def)

section \<open>Keys\<close>

lemma safe_get [safe_rules]: "safe T Q (k (f w)) w \<Longrightarrow> safe T Q (bindP (getP f) k) w"
  by (simp add: safe_def wp_rules)

lemma safe_mod:
  "safe T Q (k ()) (f w) \<Longrightarrow> sent (f w) = sent w \<Longrightarrow> safe T Q (bindP (modP f) k) w"
  by (simp add: safe_def wp_rules spent_def sent_count_def)

lemma safe_write_file:
  "safe T Q (k ()) (w\<lparr>files := (files w)(n \<mapsto> c)\<rparr>) \<Longrightarrow> safe T Q (bindP (write_file n c) k) w"
  by (simp add: safe_def wp_rules spent_def sent_count_def)

lemma id16_frame:
  "same_but_inbuf w w' \<Longrightarrow> id16 w' = id16 w"
  "id16 (after_send E r w) = id16 w"
  "id16 (w\<lparr>rng := n\<rparr>) = id16 w"
  "id16 (w\<lparr>files := fs\<rparr>) = id16 w"
  "id16 (w\<lparr>the_client := c\<rparr>) = (length (client_id c) = 16)"
  by (simp_all add: id16_def same_but_inbuf_def)

lemmas send_public_key_eq = ext [OF send_public_key_get_aes.simps]

text \<open>With the failures of \<open>r\<close> counted: the request \<open>c\<close> again and again, and then what \<open>R\<close> allows.\<close>

definition tries_budget :: "nat \<Rightarrow> (nat \<times> nat \<Rightarrow> nat) \<Rightarrow> request \<Rightarrow> nat \<times> nat \<Rightarrow> nat" where
  "tries_budget c R r j = only (c, 0) (nat (4 - num_of_failures r)) j + R j"

lemma tries_budget_cong: "num_of_failures r = num_of_failures q \<Longrightarrow> tries_budget c R r = tries_budget c R q"
  by (simp add: tries_budget_def fun_eq_iff)

lemma tries_rest: "safe R Q m w \<Longrightarrow> safe (tries_budget c R r) Q m w"
  by (erule safe_conseq) (simp_all add: tries_budget_def)

lemma safe_send_try:
  assumes k: "safe (tries_budget c R (addFailure r)) Q (k ()) (after_send E q w)"
    and q: "wf_request q" "getCode q = int c" "c \<noteq> 828" "num_of_failures q = num_of_failures r"
    and less: "num_of_failures r < MAX_TRIES"
  shows "safe (tries_budget c R r) Q (bindP (send_to_server E q) k) w"
proof (rule safe_send [where k = k and T' = "tries_budget c R (addFailure r)"])
  show "safe (tries_budget c R (addFailure r)) Q (k ()) (after_send E q w)" by (rule k)
  fix j
  have "msg_kind (request_message q) = (c, 0)" using q by (simp add: msg_kind_request)
  then show "only (msg_kind (request_message q)) 1 j + tries_budget c R (addFailure r) j
      \<le> tries_budget c R r j"
    using less by (auto simp: tries_budget_def only_def)
qed

abbreviation key_budget :: "request \<Rightarrow> nat \<times> nat \<Rightarrow> nat" where
  "key_budget \<equiv> tries_budget 826 (\<lambda>_. 0)"

lemma send_public_key_attempt:
  assumes r: "wf_request r" and less: "num_of_failures r < MAX_TRIES" and w: "id16 w"
    and again: "\<And>r' w'. num_of_failures r' = num_of_failures r + 1 \<Longrightarrow> num_of_failures r' < MAX_TRIES \<Longrightarrow>
      wf_request r' \<and> id16 w' \<Longrightarrow>
      safe (key_budget r') (\<lambda>_ w'. id16 w') (send_public_key_get_aes E r') w'"
  shows "safe (key_budget r) (\<lambda>_ w'. id16 w') (send_public_key_get_aes E r) w"
proof -
  have retry: "safe (key_budget (addFailure r)) (\<lambda>_ w'. id16 w')
      (send_public_key_get_aes E (clearPayload (addFailure q))) w'"
    if "wf_request q" "num_of_failures q = num_of_failures r" "num_of_failures r \<noteq> 3" "id16 w'" for q w'
    using again [of "clearPayload (addFailure q)" w'] that less
      tries_budget_cong [of "clearPayload (addFailure q)" "addFailure r" 826 "\<lambda>_. 0"] by simp
  have aes: "safe (key_budget (addFailure r)) (\<lambda>_ w'. id16 w') (get_aes_key_from_server a) w'"
    if "id16 w'" for a w'
    by (rule safe_conseq [OF safe_get_aes [OF that]]) simp_all
  have len: "length (client_id (the_client w)) = 16" using w by (simp add: id16_def)
  show ?thesis
    by (subst send_public_key_eq, unfold create_me_info_def create_priv_key_file_def Let_def,
        rule safe_get, rule safe_mod, rule safe_set_client, rule safe_client, rule safe_client, rule safe_client,
        rule safe_write_file, rule safe_write_file, rule safe_setClientID,
        simp add: setPrivateKey_def len,
        rule safe_send_try [where r = r], rule safe_header, rule safe_if, rule safe_general_error)
      (auto simp: getCode_setCode id16_frame setPrivateKey_def len r less [simplified] intro!: retry safe_throw aes)
qed

interpretation key_retry: bounded_retry "send_public_key_get_aes E" num_of_failures
  "\<lambda>r w. wf_request r \<and> id16 w"
  "\<lambda>r w _ w'. id16 w' \<and> spent (key_budget r) w w'"
  "\<lambda>r w e w'. spent (key_budget r) w w' \<and> (e = Undefined \<longrightarrow> big_file w')" for E
  by unfold_locales (use send_public_key_attempt [unfolded safe_def] in blast)

section \<open>Registration\<close>

text \<open>What a session may send after registration: the key, then the file.\<close>

definition session_budget :: "nat \<times> nat \<Rightarrow> nat" where
  "session_budget j = key_budget new_request j + file_budget new_request j"

abbreviation register_budget :: "request \<Rightarrow> nat \<times> nat \<Rightarrow> nat" where
  "register_budget \<equiv> tries_budget 825 session_budget"

lemma safe_registered: "safe session_budget (\<lambda>_ _. True) (registered E) w"
proof -
  have key: "safe (key_budget new_request) (\<lambda>_ w'. id16 w') (send_public_key_get_aes E new_request) w'"
    if "id16 w'" for w'
    unfolding safe_def by (rule key_retry.retries_end) (use that in simp_all)
  have "safe (\<lambda>_. 0) (\<lambda>cid w'. True) answer_getClientID w"
    by (simp add: safe_def answer_getClientID_def wp_rules)
  moreover have "safe (\<lambda>_. 0) (\<lambda>_ w'. id16 w') (try_set_clientP (Exit1 Client_id_size) (client_setClientID cid)) w'"
    for cid w'
    by (simp add: safe_def wp_rules client_setClientID_def id16_def)
  ultimately show ?thesis
    unfolding registered_def
    by (auto intro!: safe_bind [where T' = session_budget and T = "\<lambda>_. 0"]
        safe_bind [OF key safe_send_new_file] simp: session_budget_def)
qed

lemmas registering_eq = ext [OF registering.simps]

lemma registering_attempt:
  assumes r: "wf_request r" and less: "num_of_failures r < MAX_TRIES"
    and again: "\<And>r' w'. num_of_failures r' = num_of_failures r + 1 \<Longrightarrow> num_of_failures r' < MAX_TRIES \<Longrightarrow>
      wf_request r' \<Longrightarrow> safe (register_budget r') (\<lambda>_ _. True) (registering E r') w'"
  shows "safe (register_budget r) (\<lambda>_ _. True) (registering E r) w"
proof -
  have retry: "safe (register_budget (addFailure r)) (\<lambda>_ _. True)
      (registering E (clearPayload (addFailure q))) w'"
    if "wf_request q" "num_of_failures q = num_of_failures r" "num_of_failures r \<noteq> 3" for q w'
    using again [of "clearPayload (addFailure q)" w'] that less
      tries_budget_cong [of "clearPayload (addFailure q)" "addFailure r" 825 session_budget] by simp
  show ?thesis
    by (subst registering_eq, rule safe_setClientID, simp, rule safe_client, unfold Let_def,
        rule safe_send_try [where r = r], rule safe_header, rule safe_if, rule safe_general_error)
      (auto simp: getCode_setCode r less [simplified] intro!: retry safe_throw tries_rest [OF safe_registered])
qed

interpretation register_retry: bounded_retry "registering E" num_of_failures "\<lambda>r _. wf_request r"
  "\<lambda>r w _ w'. True \<and> spent (register_budget r) w w'"
  "\<lambda>r w e w'. spent (register_budget r) w w' \<and> (e = Undefined \<longrightarrow> big_file w')" for E
  by unfold_locales (rule registering_attempt [unfolded safe_def])

section \<open>Reconnection\<close>

text \<open>What \<open>main\<close> does with the result of \<open>reconnection\<close>.\<close>

definition after_reconnection :: "('sk, 'pk, 'p) env \<Rightarrow> Answer_codes \<times> request \<Rightarrow> ('p, unit) cprog" where
  "after_reconnection E = (\<lambda>(ans, r). if ans = INVALID_RECONNECT_1606 then registering E r else retP ())"

lemma safe_assoc: "safe T Q (bindP m (\<lambda>x. bindP (f x) k)) w \<Longrightarrow> safe T Q (bindP (bindP m f) k) w"
  by (simp add: bind_assocP)

lemma safe_bind_if:
  "(b \<Longrightarrow> safe T Q (bindP m k) w) \<Longrightarrow> (\<not> b \<Longrightarrow> safe T Q (bindP n k) w) \<Longrightarrow>
   safe T Q (bindP (if b then m else n) k) w"
  by simp

lemma safe_bind_pair:
  "(\<And>x y. p = (x, y) \<Longrightarrow> safe T Q (bindP (f x y) k) w) \<Longrightarrow>
   safe T Q (bindP (case p of (x, y) \<Rightarrow> f x y) k) w"
  by (cases p) simp

lemma safe_bind_throw: "e \<noteq> Undefined \<Longrightarrow> safe T Q (bindP (throwP e) k) w"
  by (simp add: safe_def wp_rules)

lemma safe_read_key [safe_rules]:
  "(\<And>x. safe T Q (k x) w) \<Longrightarrow> safe T Q (bindP (read_priv_key E) k) w"
  by (simp add: safe_def wp_rules split: option.split)

lemma safe_try_id:
  "(\<And>c. length (client_id c) = 16 \<Longrightarrow> safe T Q (k ()) (w\<lparr>the_client := c\<rparr>)) \<Longrightarrow>
   safe T Q (bindP (try_set_clientP (Exit1 Client_id_size) (client_setClientID cid)) k) w"
  by (simp add: safe_def wp_rules client_setClientID_def id16_def spent_def sent_count_def)

lemma safe_asio_bind:
  "(\<And>x w'. same_but_inbuf w w' \<Longrightarrow> safe T Q (k x) w') \<Longrightarrow> e \<noteq> Undefined \<Longrightarrow>
   safe T Q (bindP (asio_read e n) k) w"
  by (simp add: safe_def wp_rules same_but_inbuf_def spent_def sent_count_def)

abbreviation reconnect_budget :: "request \<Rightarrow> nat \<times> nat \<Rightarrow> nat" where
  "reconnect_budget \<equiv> tries_budget 827 (register_budget new_request)"

lemma file_budget_le: "file_budget new_request j \<le> register_budget new_request j"
  by (simp add: tries_budget_def session_budget_def)

lemma safe_reconnected:
  assumes "id16 w"
  shows "safe (register_budget new_request) (\<lambda>_ _. True)
    (bindP (reconnected E a r) (after_reconnection E)) w"
  unfolding reconnected_def
  by (rule safe_assoc, rule safe_bind [OF safe_get_aes [OF assms], where T' = "file_budget new_request"],
      rule safe_assoc, rule safe_bind [OF safe_send_new_file, where T' = "\<lambda>_. 0"])
    (auto simp: run_rules safe_def after_reconnection_def wp_rules file_budget_le)

lemma safe_after_invalid:
  assumes "wf_request r" and "num_of_failures r = 0"
  shows "safe (register_budget new_request) (\<lambda>_ _. True)
    (bindP (retP (INVALID_RECONNECT_1606, r)) (after_reconnection E)) w"
proof -
  have "safe (register_budget r) (\<lambda>_ _. True) (registering E r) w"
    unfolding safe_def by (rule register_retry.retries_end) (use assms in simp_all)
  with assms show ?thesis
    using tries_budget_cong [of r new_request 825 session_budget]
    by (simp add: safe_def wp_rules after_reconnection_def)
qed

lemmas reconnection_eq = ext [OF reconnection.simps]

lemma reconnection_attempt:
  assumes r: "wf_request r" and less: "num_of_failures r < MAX_TRIES"
    and again: "\<And>r' w'. num_of_failures r' = num_of_failures r + 1 \<Longrightarrow> num_of_failures r' < MAX_TRIES \<Longrightarrow>
      wf_request r' \<Longrightarrow>
      safe (reconnect_budget r') (\<lambda>_ _. True) (bindP (reconnection E r') (after_reconnection E)) w'"
  shows "safe (reconnect_budget r) (\<lambda>_ _. True) (bindP (reconnection E r) (after_reconnection E)) w"
proof -
  have retry: "safe (reconnect_budget (addFailure r)) (\<lambda>_ _. True)
      (bindP (reconnection E (clearPayload (addFailure q))) (after_reconnection E)) w'"
    if "wf_request q" "num_of_failures q = num_of_failures r" "num_of_failures r \<noteq> 3" for q w'
    using again [of "clearPayload (addFailure q)" w'] that less
      tries_budget_cong [of "clearPayload (addFailure q)" "addFailure r" 827 "register_budget new_request"]
    by simp
  show ?thesis
    apply (subst reconnection_eq, unfold Let_def)
    apply (rule safe_assoc, rule safe_read_key, rule safe_assoc, rule safe_set_client, rule safe_assoc, rule safe_get,
        rule safe_assoc, rule safe_client, rule safe_bind_pair, rule safe_bind_if, rule safe_bind_throw, simp,
        rule safe_bind_pair, rule safe_assoc, rule safe_try_id, rule safe_assoc, rule safe_client,
        rule safe_assoc, rule safe_setClientID, simp,
        rule safe_assoc, rule safe_send_try [where r = r], rule safe_assoc, rule safe_header,
        rule safe_bind_if, rule safe_assoc, rule safe_general_error)
    apply (auto simp: getCode_setCode r less [simplified] id16_frame intro!: retry safe_throw safe_bind_throw
      tries_rest [OF safe_reconnected] tries_rest [OF safe_after_invalid] safe_asio_bind safe_assoc)
    done
qed

interpretation reconnect_retry: bounded_retry "\<lambda>r. bindP (reconnection E r) (after_reconnection E)"
  num_of_failures "\<lambda>r _. wf_request r"
  "\<lambda>r w _ w'. True \<and> spent (reconnect_budget r) w w'"
  "\<lambda>r w e w'. spent (reconnect_budget r) w w' \<and> (e = Undefined \<longrightarrow> big_file w')" for E
  by unfold_locales (rule reconnection_attempt [unfolded safe_def])

section \<open>The whole program\<close>

text \<open>
  How often a run may send each kind of message: four times each request and each packet, three
  times the request for another try.
\<close>

definition message_limit :: "nat \<times> nat \<Rightarrow> nat" where
  "message_limit k =
     (if k \<in> {(825, 0), (826, 0), (827, 0), (900, 0), (902, 0)} \<or> fst k = 828 then 4
      else if k = (901, 0) then 3 else 0)"

lemma message_limit_eq: "reconnect_budget new_request k = message_limit k"
  by (auto simp: tries_budget_def session_budget_def message_limit_def only_def file_budget_def)

lemma safe_connect: "safe (\<lambda>_. 0) (\<lambda>_ _. True) (connect_to_server E ip port) w"
  by (simp add: safe_def wp_def connect_to_server_def throwP_def retP_def spent_def sent_count_def
      split: option.split)

lemma safe_try_name:
  "(\<And>c. safe T Q (k ()) (w\<lparr>the_client := c\<rparr>)) \<Longrightarrow> e \<noteq> Undefined \<Longrightarrow>
   safe T Q (bindP (try_set_clientP e f) k) w"
  by (simp add: safe_def wp_rules spent_def sent_count_def split: option.split)

lemma safe_read_transfer: "safe (\<lambda>_. 0) (\<lambda>_ _. True) (read_transfer E) w"
  unfolding read_transfer_def
  by (auto intro!: safe_get safe_throw safe_set_client safe_try_name safe_connect
      simp: Let_def split: option.split prod.split)

lemma safe_client_main: "safe message_limit (\<lambda>_ _. True) (client_main E) w"
proof -
  have old: "safe (reconnect_budget new_request) (\<lambda>_ _. True)
      (bindP (reconnection E new_request) (after_reconnection E)) w'" for w'
    unfolding safe_def by (rule reconnect_retry.retries_end) simp_all
  have new: "safe (reconnect_budget new_request) (\<lambda>_ _. True) (registering E new_request) w'" for w'
  proof -
    have "safe (register_budget new_request) (\<lambda>_ _. True) (registering E new_request) w'"
      unfolding safe_def by (rule register_retry.retries_end) simp_all
    then show ?thesis by (rule tries_rest)
  qed
  have "safe (reconnect_budget new_request) (\<lambda>_ _. True)
      (bindP (getP (\<lambda>w. files w (lit ''me.info'') \<noteq> None)) (\<lambda>me_info_good.
       bindP (if me_info_good then reconnection E new_request
              else retP (VALID_RECONNECT_1605, new_request)) (\<lambda>(ans, r).
       if \<not> me_info_good \<or> ans = INVALID_RECONNECT_1606 then registering E r
       else retP ()))) w'" for w'
    using old [of w'] new [of w']
    by (intro safe_get, cases "files w' (lit ''me.info'')") (simp_all add: after_reconnection_def safe_def wp_rules)
  then have "safe (reconnect_budget new_request) (\<lambda>_ _. True) (client_main E) w"
    unfolding client_main_def by (rule safe_bind [OF safe_read_transfer]) simp_all
  then show ?thesis by (rule safe_conseq) (simp_all add: message_limit_eq)
qed


text \<open>
  C6: A run sends the registration request, the public key, the reconnection request, each packet
  of the file, and each of the two final verdicts at most four times, asks for another try of the
  file at most three times, and sends nothing else.
\<close>

theorem client_main_bounded:
  "\<exists>result w'. client_main E w = Some (result, w') \<and>
     (\<forall>k. sent_count k w' \<le> sent_count k w + message_limit k)"
  using safe_client_main [of E w] by (auto simp: safe_def wp_result spent_def)


end
