(* ===== verification/Example_Env.thy ===== *)
theory Example_Env
  imports Client
begin

text \<open>
  A concrete instance of the parameters, on which the properties with hypotheses are applied: keys
  are byte strings, RSA leaves the text as it is, hexadecimal
  stands for Base64, AES-CBC pads to blocks of 16 bytes the
  way PKCS #7 does, and the peer answers every message with fixed bytes.
\<close>

definition pkcs_pad :: "bytes \<Rightarrow> bytes" where
  "pkcs_pad p = (let n = 16 - length p mod 16 in p @ replicate n (of_nat n))"

definition pkcs_unpad :: "bytes \<Rightarrow> bytes option" where
  "pkcs_unpad c = (if c = [] then None else Some (take (length c - unat (last c)) c))"

definition example_crypto :: "(bytes, bytes) cryptopp" where
  "example_crypto =
     \<lparr>rsa_initialize = (\<lambda>n bits. [of_nat n]), rsa_load_private = Some, rsa_save_private = (\<lambda>k. k),
      rsa_function = (\<lambda>k. k), rsa_load_public = Some, rsa_save_public = (\<lambda>k. k),
      oaep_encrypt = (\<lambda>k n p. Some p), oaep_decrypt = (\<lambda>k c. Some c),
      cbc_encrypt = (\<lambda>k iv p. pkcs_pad p), cbc_decrypt = (\<lambda>k iv c. pkcs_unpad c),
      base64_encoder = convert_string_to_hex, base64_decoder = convert_hex_to_bytes, rdrand32_step = of_nat\<rparr>"

definition example_env :: "bytes \<Rightarrow> (bytes, bytes, unit) env" where
  "example_env reply =
     \<lparr>crypto = example_crypto,
      net = \<lparr>net_connect = (\<lambda>ip port p. Some p), net_write = (\<lambda>m p. Some (p, reply))\<rparr>\<rparr>"

definition example_client :: client where
  "example_client =
     \<lparr>name_client = lit ''bob'', client_file_name = lit ''a.txt'', client_id = replicate 16 7,
      path_to_file = lit ''a.txt'', encrypted_aes = replicate 32 9, priv_key = [1], crc_value = 0\<rparr>"

definition example_world :: "bytes \<Rightarrow> unit world" where
  "example_world input =
     \<lparr>the_client = example_client, files = [lit ''a.txt'' \<mapsto> [1, 2, 3]], peer = (), inbuf = input,
      rng = 0, sent = []\<rparr>"

lemma pkcs_unpad_pad: "pkcs_unpad (pkcs_pad p) = Some p"
proof -
  let ?n = "16 - length p mod 16"
  have n: "0 < ?n" "?n < 256" by simp_all
  then have "last (pkcs_pad p) = of_nat ?n" by (simp add: pkcs_pad_def Let_def)
  moreover have "unat (of_nat ?n :: byte) = ?n"
    unfolding unat_of_nat using n by simp
  ultimately show ?thesis
    using n by (simp add: pkcs_unpad_def pkcs_pad_def Let_def)
qed

lemmas example_defs = example_crypto_def example_env_def example_client_def example_world_def

end
