(* ===== verification/Client_Function.thy ===== *)
theory Client_Function
  imports Client_Safety Example_Env
begin

text \<open>
  What the client does when things go right and when they go wrong in the ways its code foresees:
  the answer header, the transfer of the file, the verdict on the checksum, giving up, and the
  identity kept in the local files.
\<close>

section \<open>Answers\<close>

text \<open>The bytes of an answer: version, code, payload size, payload.\<close>

definition answer_bytes :: "nat \<Rightarrow> nat \<Rightarrow> bytes \<Rightarrow> bytes" where
  "answer_bytes code psize payload =
     [3] @ store_little_u16 (of_nat code) @ store_little_u32 (of_nat psize) @ payload"

lemma get_header_of_answer:
  assumes "inbuf w = answer_bytes code psize rest" and "code < 65536" and "psize < 2147483648"
  shows "get_header_from_server w =
    Some (Inr \<lparr>ans_version = 3, ans_code = int code, ans_payload_size = int psize\<rparr>, w\<lparr>inbuf := rest\<rparr>)"
proof -
  have "uint (of_nat code :: 16 word) = int code"
    using assms(2) by (simp add: unsigned_of_nat take_bit_nat_eq_self)
  moreover have "sint (of_nat psize :: 32 word) = int psize"
    using assms(3) int_of_size_small [of psize] by (simp add: int_of_size_def)
  ultimately show ?thesis
    using assms(1)
    by (simp add: get_header_from_server_def answer_bytes_def bindP_def asio_read_def retP_def Let_def)
qed


section \<open>The transfer of the file\<close>

lemma run_path: "files w p = Some c \<Longrightarrow> bindP (file_by_path p) k w = k c w"
  by (simp add: bindP_def file_by_path_def retP_def)

lemma run_guard: "b \<Longrightarrow> bindP (guardP b e) k w = k () w"
  by (simp add: bindP_def guardP_def retP_def)

lemma run_set_client: "bindP (set_clientP f) k w = k () (w\<lparr>the_client := f (the_client w)\<rparr>)"
  by (simp add: bindP_def set_clientP_def modP_def)

lemma run_opt: "bindP (optP e (Some x)) k w = k x w"
  by (simp add: bindP_def optP_def retP_def)

lemmas run_prefix = run_path run_guard run_set_client run_opt run_clientP run_bind

text \<open>The request a transfer starts its packets from, and the packets of a transfer.\<close>

definition transfer_request :: "client \<Rightarrow> request \<Rightarrow> request" where
  "transfer_request c r = setCode 828 (r\<lparr>rq_client_id := client_id c\<rparr>)"

definition transfer_packets :: "client \<Rightarrow> request \<Rightarrow> bytes \<Rightarrow> bytes \<Rightarrow> request list" where
  "transfer_packets c r original body =
     map (packet_request (transfer_request c r) (int (length body)) (int (length original))
            (int (packet_count body)) (client_file_name c) body) [0..<packet_count body]"

text \<open>The content of a packet message: what follows the header and the five fixed fields.\<close>

definition packet_content :: "bytes \<Rightarrow> bytes" where
  "packet_content m = drop 290 m"

lemma packet_content_chunk:
  assumes "wf_request r" and "length fname \<le> 255"
  shows "packet_content (request_message (packet_request r cs os tot fname body k)) = chunk body k"
proof -
  have q: "wf_request (packet_request r cs os tot fname body k)" by (rule wf_packet_request [OF assms(1)])
  have "drop 23 (request_message (packet_request r cs os tot fname body k))
      = packet_payload cs os tot fname body k"
    using assms(1) by (simp add: request_message_eq [OF q])
      (simp add: packet_request_def wf_request_def)
  moreover have "drop 267 (packet_payload cs os tot fname body k) = chunk body k"
    using assms(2) by (simp add: packet_payload_def)
  moreover have "packet_content m = drop 267 (drop 23 m)" for m by (simp add: packet_content_def)
  ultimately show ?thesis by metis
qed

lemma transfer_content:
  assumes r: "file_request r" and w: "length (client_id c) = 16" "length (client_file_name c) \<le> 255"
  shows "concat (map (\<lambda>q. packet_content (request_message q)) (transfer_packets c r original body)) = body"
proof -
  have "wf_request (transfer_request c r)"
    using r w by (simp add: transfer_request_def file_request_def wf_request_def setCode_def)
  then show ?thesis
    using w(2) by (simp add: transfer_packets_def comp_def packet_content_chunk concat_chunks)
qed

lemma run_send_file_packets:
  assumes f: "files w (path_to_file (the_client w)) = Some original" "length original < 2147483648"
    and enc: "encrypt_file E (encrypted_aes (the_client w)) (priv_key (the_client w)) original = Inr body"
    and body: "length body \<le> 268431360"
    and w: "id16 w" and r: "file_request r"
  shows "send_file_packets E r w =
    Some (Inr (last_request (transfer_request (the_client w) r) (int (length body)) (int (length original))
                 (int (packet_count body)) (client_file_name (the_client w)) body 0, length body),
      fold (after_send E) (transfer_packets (the_client w) r original body)
        (w\<lparr>the_client := setCRC (memcrc original (length original)) (the_client w)\<rparr>))"
proof -
  let ?c = "setCRC (memcrc original (length original)) (the_client w)"
  have big: "length original \<le> 2147483647" using f(2) by simp
  have same: "encrypted_aes ?c = encrypted_aes (the_client w)" "priv_key ?c = priv_key (the_client w)"
    "client_id ?c = client_id (the_client w)" "client_file_name ?c = client_file_name (the_client w)"
    by (simp_all add: setCRC_def)
  have cid: "setClientID (client_id (the_client w)) r = Some (r\<lparr>rq_client_id := client_id (the_client w)\<rparr>)"
    using w by (intro setClientID_eq) (simp add: id16_def)
  have sz: "int_of_size (length body) = int (length body)" "int_of_size (length original) = int (length original)"
    using body f(2) by (simp_all add: int_of_size_small)
  have "packet_count body \<le> 65535"
    using body total_packets_bound [of "length body"] by (simp add: packet_count_def)
  then have tot: "calculate_total_packets (int (length body)) = Some (int (packet_count body))"
    using calculate_total_packets_nonneg [of "int (length body)"]
    by (simp add: packet_count_def zdiv_int Let_def)
  have pay: "rq_payload (transfer_request (the_client w) r) = []"
    using r by (simp add: transfer_request_def file_request_def setCode_def)
  have run: "send_packets E body (length original) (int (packet_count body))
        (transfer_request (the_client w) r) 1 0 (int PACKET_MAX_SIZE) (int (length body)) v
      = Some (Inr (last_request (transfer_request (the_client w) r) (int (length body)) (int (length original))
            (int (packet_count body)) (client_file_name (the_client v)) body 0),
          fold (after_send E) (map (packet_request (transfer_request (the_client w) r) (int (length body))
            (int (length original)) (int (packet_count body)) (client_file_name (the_client v)) body)
              [0..<packet_count body]) v)" for v
    using send_packets_from [OF order_refl pay, where f = body and E = E and n = "length original"
        and tot = "int (packet_count body)" and k = 0 and w = v]
    by (simp add: sz Let_def)
  show ?thesis
    unfolding send_file_packets_def run_clientP run_path [OF f(1)] run_guard [OF big] run_set_client
    by (simp add: run_clientP same enc cid run_opt sz tot Let_def transfer_packets_def
        run_bind_Inr [where m = "send_packets E body (length original) (int (packet_count body))
          (transfer_request (the_client w) r) 1 0 4096 (int (length body))", OF run [simplified]] flip: transfer_request_def)
      (simp add: retP_def same transfer_packets_def)
qed


section \<open>The verdict on the checksum\<close>

lemma run_read:
  "inbuf w = b @ rest \<Longrightarrow> length b = n \<Longrightarrow> bindP (asio_read e n) k w = k b (w\<lparr>inbuf := rest\<rparr>)"
  by (simp add: bindP_def asio_read_def retP_def)

lemma run_read_string:
  "inbuf w = b @ rest \<Longrightarrow> length b = n \<Longrightarrow> until_nul b = x \<Longrightarrow>
   bindP (read_string_and_check x n) k w = k () (w\<lparr>inbuf := rest\<rparr>)"
  by (simp add: bindP_def read_string_and_check_def asio_read_def retP_def)

lemma run_getNumber:
  "inbuf w = store_little_u32 v @ rest \<Longrightarrow> bindP (getNumber 4) k w = k v (w\<lparr>inbuf := rest\<rparr>)"
  by (simp add: bindP_def getNumber_def asio_read_def retP_def)

lemma run_header:
  assumes "inbuf w = answer_bytes code psize rest" and "code < 65536" and "psize < 2147483648"
  shows "bindP get_header_from_server k w
    = k \<lparr>ans_version = 3, ans_code = int code, ans_payload_size = int psize\<rparr> (w\<lparr>inbuf := rest\<rparr>)"
  by (simp add: bindP_def get_header_of_answer [OF assms])

text \<open>The answer with the checksum as the server sends it.\<close>

definition crc_answer :: "bytes \<Rightarrow> 32 word \<Rightarrow> bytes \<Rightarrow> 32 word \<Rightarrow> bytes" where
  "crc_answer cid csize fname crc =
     answer_bytes 1603 279 (cid @ store_little_u32 csize @ pad_nul 255 fname @ store_little_u32 crc)"

text \<open>The final request of a transfer.\<close>

definition finish_request_of :: "client \<Rightarrow> int \<Rightarrow> request" where
  "finish_request_of c code =
     (case setClientID (client_id c) new_request of
        None \<Rightarrow> new_request
      | Some r \<Rightarrow> appendStringPayload (client_file_name c) 255 (setPayloadSize 255 (setCode code r)))"

definition crc_code :: "bool \<Rightarrow> int \<Rightarrow> int" where
  "crc_code same_crc failures = (if same_crc then 900 else if failures + 1 = 4 then 902 else 901)"

lemma run_crc_verdict:
  assumes w: "id16 w" and i: "inbuf w = store_little_u32 crc @ rest"
  shows "crc_verdict E r new_request w =
    (let code = crc_code (crc = crc_value (the_client w)) (num_of_failures r);
         fin = finish_request_of (the_client w) code
     in Some (Inr (code, if code = 900 then r else addFailure r, fin), after_send E fin (w\<lparr>inbuf := rest\<rparr>)))"
proof -
  have cid: "setClientID (client_id (the_client w)) new_request
      = Some (new_request\<lparr>rq_client_id := client_id (the_client w)\<rparr>)"
    using w by (intro setClientID_eq) (simp add: id16_def)
  show ?thesis
    by (simp add: crc_verdict_def run_clientP cid run_opt run_getNumber [OF i] Let_def run_sendP retP_def
        crc_code_def finish_request_of_def getNumFailurs_def)
qed

lemma run_crc_checking:
  assumes w: "id16 w" "0 \<notin> set (client_id (the_client w))"
    and n: "0 \<notin> set (client_file_name (the_client w))" "length (client_file_name (the_client w)) \<le> 255"
    and i: "inbuf w = crc_answer (client_id (the_client w)) (word_of_int sz) (client_file_name (the_client w)) crc @ rest"
  shows "crc_checking E r sz new_request w =
    (let code = crc_code (crc = crc_value (the_client w)) (num_of_failures r);
         fin = finish_request_of (the_client w) code
     in Some (Inr (code, if code = 900 then r else addFailure r, fin), after_send E fin (w\<lparr>inbuf := rest\<rparr>)))"
proof -
  let ?cid = "client_id (the_client w)" and ?fn = "client_file_name (the_client w)"
  let ?rest1 = "store_little_u32 (word_of_int sz) @ pad_nul 255 ?fn @ store_little_u32 crc @ rest"
  have h: "inbuf w = answer_bytes 1603 279 (?cid @ ?rest1)"
    using i by (simp add: crc_answer_def answer_bytes_def)
  have cid: "length ?cid = 16" "until_nul ?cid = ?cid" and fn: "until_nul (pad_nul 255 ?fn) = ?fn"
    using w n by (simp_all add: id16_def until_nul_id until_nul_pad)
  note string1 = run_read_string [where w = "w\<lparr>inbuf := ?cid @ ?rest1\<rparr>" and b = ?cid and rest = ?rest1 and n = 16]
  note number = run_getNumber [where w = "w\<lparr>inbuf := ?rest1\<rparr>" and v = "word_of_int sz"]
  note string2 = run_read_string [where w = "w\<lparr>inbuf := pad_nul 255 ?fn @ store_little_u32 crc @ rest\<rparr>"
      and b = "pad_nul 255 ?fn" and n = 255]
  have verdict: "crc_verdict E r new_request (w\<lparr>inbuf := store_little_u32 crc @ rest\<rparr>) =
    (let code = crc_code (crc = crc_value (the_client w)) (num_of_failures r);
         fin = finish_request_of (the_client w) code
     in Some (Inr (code, if code = 900 then r else addFailure r, fin), after_send E fin (w\<lparr>inbuf := rest\<rparr>)))"
    using run_crc_verdict [of "w\<lparr>inbuf := store_little_u32 crc @ rest\<rparr>" crc rest E r] w(1)
    by (simp add: id16_def)
  show ?thesis
    unfolding crc_checking_def
    using n(2)
    by (simp add: run_header [OF h] run_clientP string1 cid number string2 fn verdict)
qed


section \<open>Giving up\<close>

text \<open>A server that answers every message with the general error.\<close>

definition always_error :: "('sk, 'pk, 'p) env \<Rightarrow> bool" where
  "always_error E \<longleftrightarrow> (\<forall>m p. net_write (net E) m p = Some (p, answer_bytes 1607 0 []))"

definition registration_request :: "bytes \<Rightarrow> request \<Rightarrow> request" where
  "registration_request cname r =
     appendStringPayload cname 255 (setPayloadSize 255 (setCode 825 (r\<lparr>rq_client_id := replicate 16 0\<rparr>)))"

lemma num_of_failures_registration [simp]:
  "num_of_failures (registration_request n r) = num_of_failures r"
  by (simp add: registration_request_def)

lemma run_general_error:
  "bindP (general_error_handle a r) k w =
     (if num_of_failures r = 3 then Some (Inl (Exit1 Too_many_tries), w) else k (0, addFailure r) w)"
  by (simp add: general_error_handle_def bindP_def throwP_def retP_def Let_def getNumFailurs_def)

lemma registering_error_round:
  assumes E: "always_error E" and w: "inbuf w = []"
  shows "registering E r w =
    (let q = registration_request (name_client (the_client w)) r;
         w' = w\<lparr>sent := sent w @ [request_message q]\<rparr>
     in if num_of_failures r = 3 then Some (Inl (Exit1 Too_many_tries), w')
        else registering E (clearPayload (addFailure q)) w')"
proof -
  have cid: "setClientID (replicate 32 0) r = Some (r\<lparr>rq_client_id := replicate 16 0\<rparr>)"
    by (subst setClientID_long) simp_all
  let ?q = "registration_request (name_client (the_client w)) r"
  let ?w = "w\<lparr>inbuf := answer_bytes 1607 0 [], sent := sent w @ [request_message ?q]\<rparr>"
  have sent: "after_send E ?q w = ?w"
    using E w by (cases w) (simp add: after_send_def always_error_def)
  have empty: "?w\<lparr>inbuf := []\<rparr> = w\<lparr>sent := sent w @ [request_message ?q]\<rparr>"
    using w by (cases w) simp
  have h: "inbuf ?w = answer_bytes 1607 0 []" by simp
  show ?thesis
    unfolding registering.simps [of E r w] cid run_opt run_clientP
    by (simp add: Let_def flip: registration_request_def)
      (simp add: run_sendP sent run_header [OF h] empty run_general_error, simp add: registration_request_def)
qed

lemma registration_request_again:
  "registration_request n (clearPayload (addFailure (registration_request n r)))
   = addFailure (registration_request n (clearPayload r))"
  by (simp add: registration_request_def request_defs)

lemma request_message_failures [simp]: "request_message (addFailure r) = request_message r"
  by (simp add: request_message_def addFailure_def)

lemma registering_error:
  assumes E: "always_error E"
  shows "inbuf w = [] \<Longrightarrow> rq_payload r = [] \<Longrightarrow> num_of_failures r = 4 - int (Suc k) \<Longrightarrow>
    registering E r w = Some (Inl (Exit1 Too_many_tries), w\<lparr>sent := sent w @
      replicate (Suc k) (request_message (registration_request (name_client (the_client w)) r))\<rparr>)"
proof (induction k arbitrary: r w)
  case 0
  then show ?case by (simp add: registering_error_round [OF E])
next
  case (Suc k)
  let ?q = "registration_request (name_client (the_client w)) r"
  have q: "rq_payload (clearPayload (addFailure ?q)) = []"
      "num_of_failures (clearPayload (addFailure ?q)) = 4 - int (Suc k)"
    using Suc.prems by (simp_all add: registration_request_def request_defs)
  have clear: "clearPayload r = r" using Suc.prems(2) by (cases r) (simp add: clearPayload_def)
  have again: "request_message (registration_request (name_client (the_client w)) (clearPayload (addFailure ?q)))
      = request_message ?q"
    using clear unfolding registration_request_again by simp
  show ?case
    unfolding registering_error_round [OF E Suc.prems(1), of r]
    using Suc.prems Suc.IH [of "w\<lparr>sent := sent w @ [request_message ?q]\<rparr>", OF _ q]
    by (simp add: again Let_def)
qed


section \<open>The identity in the local files\<close>

lemma run_create_me_info:
  "bindP (create_me_info E n k i) m w = m () (w\<lparr>files := (files w)(lit ''me.info'' \<mapsto>
     n @ [newline] @ convert_string_to_hex i @ [newline] @ Base64Wrapper_encode (crypto E) k @ [newline])\<rparr>)"
  by (simp add: create_me_info_def write_file_def bindP_def modP_def)

lemma run_create_priv_key:
  "bindP (create_priv_key_file E k) m w = m () (w\<lparr>files := (files w)(lit ''priv.key'' \<mapsto>
     Base64Wrapper_encode (crypto E) k @ [newline])\<rparr>)"
  by (simp add: create_priv_key_file_def write_file_def bindP_def modP_def)

lemma run_read_priv_key:
  "files w (lit ''priv.key'') = Some t \<Longrightarrow>
   bindP (read_priv_key E) m w = m (Base64Wrapper_decode (crypto E) (join_lines [] t)) w"
  by (simp add: read_priv_key_def bindP_def retP_def)

lemma run_get: "bindP (getP f) k w = k (f w) w"
  by (simp add: bindP_def getP_def)

lemma run_try_set:
  "f (the_client w) = Some c \<Longrightarrow> bindP (try_set_clientP e f) k w = k () (w\<lparr>the_client := c\<rparr>)"
  by (simp add: bindP_def try_set_clientP_def retP_def)

lemma run_header_empty:
  "inbuf w = [] \<Longrightarrow> bindP get_header_from_server k w = Some (Inl (Exit1 Read_failed), w)"
  by (simp add: get_header_from_server_def asio_read_def bindP_def throwP_def)

text \<open>What the reconnection request looks like on the wire.\<close>

definition reconnect_message :: "bytes \<Rightarrow> bytes \<Rightarrow> bytes" where
  "reconnect_message cid cname =
     cid @ [3] @ store_little_u16 827 @ store_little_u32 255 @ pad_nul 255 cname"

lemma reconnect_message_request:
  "length cid = 16 \<Longrightarrow> request_message (appendStringPayload n 255 (setPayloadSize 255
     (setCode 827 (new_request\<lparr>rq_client_id := cid\<rparr>)))) = reconnect_message cid n"
  by (simp add: request_message_def reconnect_message_def request_defs new_request_def pad_nul_def)

text \<open>Crypto++ as the client relies on it: what is saved or encrypted is loaded or decrypted again.\<close>

definition cryptopp_ok :: "('sk, 'pk) cryptopp \<Rightarrow> bool" where
  "cryptopp_ok C \<longleftrightarrow>
     (\<forall>sk. rsa_load_private C (rsa_save_private C sk) = Some sk) \<and>
     (\<forall>key iv p. length key = 32 \<longrightarrow> cbc_decrypt C key iv (cbc_encrypt C key iv p) = Some p) \<and>
     (\<forall>b. base64_decoder C (filter (\<lambda>c. c \<noteq> newline) (base64_encoder C b)) = b)"

lemma key_text_decodes:
  "cryptopp_ok C \<Longrightarrow> Base64Wrapper_decode C (join_lines [] (Base64Wrapper_encode C k @ [newline])) = k"
  by (simp add: cryptopp_ok_def Base64Wrapper_decode_def Base64Wrapper_encode_def join_lines_filter)

lemma lit_files: "lit ''me.info'' \<noteq> lit ''priv.key''"
  by (simp add: lit_def)

lemma reconnection_silent:
  assumes key: "files w (lit ''priv.key'') = Some key_text"
    and me: "files w (lit ''me.info'') = Some (n @ newline # convert_string_to_hex i @ newline # rest)"
    and n: "newline \<notin> set n" "name_client (the_client w) = n" and i: "length i = 16"
    and E: "net_write (net E) = (\<lambda>m p. Some (p, []))" and w: "inbuf w = []"
  shows "reconnection E new_request w = Some (Inl (Exit1 Read_failed),
    w\<lparr>the_client := (the_client w)\<lparr>priv_key := Base64Wrapper_decode (crypto E) (join_lines [] key_text), client_id := i\<rparr>,
      sent := sent w @ [reconnect_message i n]\<rparr>)"
proof -
  let ?c = "(the_client w)\<lparr>priv_key := Base64Wrapper_decode (crypto E) (join_lines [] key_text)\<rparr>"
  let ?w = "w\<lparr>the_client := ?c\<lparr>client_id := i\<rparr>\<rparr>"
  have line: "get_line (convert_string_to_hex i @ newline # rest) = (convert_string_to_hex i, rest)"
    using convert_string_to_hex_text [of newline i] by (intro get_line_line) blast
  have cid: "setClientID i new_request = Some (new_request\<lparr>rq_client_id := i\<rparr>)"
    by (rule setClientID_eq [OF i])
  have setid: "client_setClientID i c = Some (c\<lparr>client_id := i\<rparr>)" for c
    using i by (simp add: client_setClientID_def)
  have sent: "after_send E q ?w = ?w\<lparr>sent := sent w @ [request_message q]\<rparr>" for q
    using E w by (cases w) (simp add: after_send_def)
  show ?thesis
    using w
    by (subst reconnection.simps, unfold run_read_priv_key [OF key])
      (simp add: run_set_client run_get me run_clientP setPrivateKey_def n line Let_def
        convert_hex_roundtrip run_try_set [OF setid] cid run_opt run_sendP sent run_header_empty
        reconnect_message_request i)
qed


lemma generate_from_overrun:
  "length buffer = m \<Longrightarrow> i = 4 * k \<Longrightarrow> i \<le> m \<Longrightarrow> m mod 4 \<noteq> 0 \<Longrightarrow> generate_from C n m i buffer = None"
proof (induction "m - i" arbitrary: k i n buffer rule: less_induct)
  case less
  have i: "i < m" using less.prems(2-4) by (cases "i = m") auto
  show ?case
  proof (cases "m < i + 4")
    case True
    with i less.prems(1) show ?thesis by (subst generate_from.simps) simp
  next
    case False
    have "generate_from C (n + 1) m (i + 4) (take i buffer @
        map (\<lambda>k. ucast (drop_bit (8 * k) (rdrand32_step C n))) [0, 1, 2, 3] @ drop (i + 4) buffer) = None"
      by (rule less.hyps [of _ _ "Suc k"]) (use False i less.prems in simp_all)
    with False i less.prems(1) show ?thesis by (subst generate_from.simps) simp
  qed
qed

section \<open>Properties\<close>

text \<open>
  C8: Sending the file: the checksum of the plain file is stored in the client object, the file is
  encrypted, and the messages written are exactly its packets, numbered from 1 to their number,
  whose contents put together are the encrypted file; nothing else of the world changes.
\<close>

theorem send_file_sends_all:
  assumes "files w (path_to_file (the_client w)) = Some original" and "length original < 2147483648"
    and "encrypt_file E (encrypted_aes (the_client w)) (priv_key (the_client w)) original = Inr body"
    and "length body \<le> 268431360"
    and "length (client_id (the_client w)) = 16" and "length (client_file_name (the_client w)) \<le> 255"
    and "wf_request r" and "rq_payload r = []"
  shows "\<exists>r'. send_file_packets E r w = Some (Inr (r', length body),
        fold (after_send E) (transfer_packets (the_client w) r original body)
          (w\<lparr>the_client := setCRC (memcrc original (length original)) (the_client w)\<rparr>)) \<and>
      num_of_failures r' = num_of_failures r \<and>
      concat (map (\<lambda>q. packet_content (request_message q))
        (transfer_packets (the_client w) r original body)) = body"
  using run_send_file_packets [of w original E body r] assms
    transfer_content [of r "the_client w" original body]
  by (simp add: id16_def file_request_def last_request_frame transfer_request_def)

theorem send_file_sends_all_witness:
  "\<exists>r'. send_file_packets (example_env []) new_request (example_world []) = Some (Inr (r', 16),
        fold (after_send (example_env []))
          (transfer_packets example_client new_request [1, 2, 3] (pkcs_pad [1, 2, 3]))
          ((example_world [])\<lparr>the_client := setCRC (memcrc [1, 2, 3] 3) example_client\<rparr>)) \<and>
      num_of_failures r' = 0 \<and>
      concat (map (\<lambda>q. packet_content (request_message q))
        (transfer_packets example_client new_request [1, 2, 3] (pkcs_pad [1, 2, 3]))) = pkcs_pad [1, 2, 3]"
proof -
  have enc: "encrypt_file (example_env []) (encrypted_aes example_client) (priv_key example_client) [1, 2, 3]
      = Inr (pkcs_pad [1, 2, 3])"
    by (simp add: encrypt_file_def example_defs RSAPrivateWrapper_of_string_def RSAPrivateWrapper_decrypt_def
        AESWrapper_def DEFAULT_KEYLENGTH_def AESWrapper_encrypt_def)
  have pad: "length (pkcs_pad [1, 2, 3]) = 16" by (simp add: pkcs_pad_def)
  show ?thesis
    using send_file_sends_all [of "example_world []" "[1, 2, 3]" "example_env []" "pkcs_pad [1, 2, 3]" new_request]
      enc pad
    by (simp add: example_world_def numeral_3_eq_3)
      (simp add: example_client_def lit_def new_request_def)
qed

text \<open>
  C9: The verdict: given the server's answer with a checksum for this file, the client answers with
  code 900 exactly when the checksum is its own; otherwise it counts a failure and answers 901, or
  902 on the fourth failure.
\<close>

theorem crc_checking_verdict:
  assumes "length (client_id (the_client w)) = 16" and "0 \<notin> set (client_id (the_client w))"
    and "0 \<notin> set (client_file_name (the_client w))" and "length (client_file_name (the_client w)) \<le> 255"
    and "inbuf w = crc_answer (client_id (the_client w)) (word_of_int sz) (client_file_name (the_client w)) crc @ rest"
  shows "crc_checking E r sz new_request w =
    (let code = (if crc = crc_value (the_client w) then 900 else if num_of_failures r + 1 = 4 then 902 else 901);
         fin = finish_request_of (the_client w) code
     in Some (Inr (code, if code = 900 then r else addFailure r, fin), after_send E fin (w\<lparr>inbuf := rest\<rparr>)))"
  using run_crc_checking [of w sz crc rest E r] assms by (simp add: id16_def crc_code_def)

theorem crc_checking_verdict_witness:
  "crc_checking (example_env []) new_request 16 new_request
      (example_world (crc_answer (replicate 16 7) 16 (lit ''a.txt'') 5 @ [])) =
    (let code = (if (5 :: 32 word) = 0 then 900 else 901);
         fin = finish_request_of example_client code
     in Some (Inr (code, if code = 900 then new_request else addFailure new_request, fin),
          after_send (example_env []) fin (example_world [])))"
  using crc_checking_verdict
    [of "example_world (crc_answer (replicate 16 7) 16 (lit ''a.txt'') 5 @ [])" 16 5 "[]" "example_env []" new_request]
  by (simp add: example_world_def example_client_def lit_def)

text \<open>
  C22: Giving up: against a server that answers everything with the general error 1607, a
  registration sends the same request four times and ends with \<open>exit(1)\<close>.
\<close>

theorem registering_gives_up:
  assumes "always_error E" and "inbuf w = []"
  shows "registering E new_request w = Some (Inl (Exit1 Too_many_tries), w\<lparr>sent := sent w @
      replicate 4 (request_message (registration_request (name_client (the_client w)) new_request))\<rparr>)"
proof -
  have new: "rq_payload new_request = []" "num_of_failures new_request = 4 - int (Suc 3)"
    by (simp_all add: new_request_def)
  show ?thesis
    using registering_error [OF assms new] by (simp add: numeral_eq_Suc)
qed

theorem registering_gives_up_witness:
  "registering (example_env (answer_bytes 1607 0 [])) new_request (example_world []) =
     Some (Inl (Exit1 Too_many_tries), (example_world [])\<lparr>sent :=
       replicate 4 (request_message (registration_request (lit ''bob'') new_request))\<rparr>)"
proof -
  have "always_error (example_env (answer_bytes 1607 0 []))"
    by (simp add: always_error_def example_env_def)
  from registering_gives_up [OF this, of "example_world []"] show ?thesis
    by (simp add: example_world_def example_client_def)
qed

text \<open>
  C23: The identity: what a registration writes to \<open>me.info\<close> and \<open>priv.key\<close> is what a later
  reconnection reads back. With these files and the same name, the client asks to reconnect with the
  stored id, and the private key and the id are back in the client object.
\<close>

theorem identity_restored:
  assumes "cryptopp_ok (crypto E)" and "newline \<notin> set (name_client (the_client w))" and "length i = 16"
    and "net_write (net E) = (\<lambda>m p. Some (p, []))" and "inbuf w = []"
  shows "\<exists>w'. bindP (create_me_info E (name_client (the_client w)) k i) (\<lambda>_.
        bindP (create_priv_key_file E k) (\<lambda>_. reconnection E new_request)) w = Some (Inl (Exit1 Read_failed), w') \<and>
      priv_key (the_client w') = k \<and> client_id (the_client w') = i \<and>
      sent w' = sent w @ [reconnect_message i (name_client (the_client w))]"
  unfolding run_create_me_info run_create_priv_key
  using assms lit_files
  by (subst reconnection_silent [OF _ _ assms(2) _ assms(3,4)]) (auto intro: key_text_decodes)

lemma example_crypto_ok: "cryptopp_ok (crypto (example_env reply))"
proof -
  have "filter (\<lambda>c. c \<noteq> newline) (convert_string_to_hex b) = convert_string_to_hex b" for b
    using convert_string_to_hex_text by (auto intro: filter_True)
  then show ?thesis
    by (simp add: cryptopp_ok_def example_env_def example_crypto_def pkcs_unpad_pad convert_hex_roundtrip)
qed

theorem identity_restored_witness:
  "\<exists>w'. bindP (create_me_info (example_env []) (lit ''bob'') [1, 2] (replicate 16 0)) (\<lambda>_.
        bindP (create_priv_key_file (example_env []) [1, 2]) (\<lambda>_.
          reconnection (example_env []) new_request)) (example_world []) = Some (Inl (Exit1 Read_failed), w') \<and>
      priv_key (the_client w') = [1, 2] \<and> client_id (the_client w') = replicate 16 0 \<and>
      sent w' = [reconnect_message (replicate 16 0) (lit ''bob'')]"
  using identity_restored [OF example_crypto_ok [of "[]"], where w = "example_world []" and i = "replicate 16 0" and k = "[1, 2]"]
  by (simp add: example_world_def example_client_def lit_def newline_def example_env_def)


text \<open>
  C33: The check of a received string stops at its first NUL: an id that contains a zero byte is
  never recognised, not even when the server sends back exactly this id.
\<close>

theorem id_with_nul_rejected:
  assumes "0 \<in> set cid" and "length cid = 16" and "inbuf w = cid @ rest"
  shows "read_string_and_check cid 16 w = Some (Inl (Exit1 Wrong_information), w\<lparr>inbuf := rest\<rparr>)"
  using assms until_nul_no_nul [of cid]
  by (auto simp: read_string_and_check_def bindP_def asio_read_def retP_def throwP_def)

theorem id_with_nul_rejected_witness:
  "read_string_and_check (0 # replicate 15 7) 16 (example_world (0 # replicate 15 7)) =
     Some (Inl (Exit1 Wrong_information), example_world [])"
  using id_with_nul_rejected [of "0 # replicate 15 7" "example_world (0 # replicate 15 7)" "[]"]
  by (simp add: example_world_def)

text \<open>
  C25: For a file of less than 2 GiB the number of packets is its size divided by 4096, rounded up,
  and the file is refused exactly when that number does not fit in the 16-bit packet counter.
\<close>

theorem total_packets_of_file:
  assumes "n < 2147483648"
  shows "calculate_total_packets (int_of_size n) =
    (if n \<le> 65535 * 4096 then Some (int ((n + 4095) div 4096)) else None)"
proof -
  have "calculate_total_packets (int n) = (if (n + 4095) div 4096 \<le> 65535 then Some (int ((n + 4095) div 4096)) else None)"
  proof -
    have "int ((n + 4095) div 4096) = (int n + 4095) div 4096" by (simp add: zdiv_int)
    then show ?thesis
      using calculate_total_packets_nonneg [of "int n"] by (simp add: Let_def)
  qed
  then show ?thesis using assms by (simp add: int_of_size_small total_packets_bound)
qed

theorem total_packets_of_file_witness:
  "calculate_total_packets (int_of_size 4097) = Some 2"
  using total_packets_of_file [of 4097] by simp

text \<open>
  C34: A file whose encryption has between 2 and 4 GiB is not refused and not sent: its size becomes
  a negative \<open>int\<close>, the limit of the packet counter is passed, and the loop ends before its first
  packet.
\<close>

theorem oversized_file_not_sent:
  assumes "2147483648 \<le> length body" and "length body < 4294967296"
  shows "\<exists>t. calculate_total_packets (int_of_size (length body)) = Some t \<and>
    send_packets E body n t r 1 0 (int PACKET_MAX_SIZE) (int_of_size (length body)) w = Some (Inr r, w)"
proof -
  let ?n = "int_of_size (length body)"
  have neg: "?n < 0" using assms int_of_size_large [of "length body"] by simp
  have "?n sdiv 4096 \<le> 0"
    using neg by (simp add: signed_divide_int_def sgn_if)
  then have "calculate_total_packets ?n \<noteq> None"
    by (simp add: calculate_total_packets_def Let_def)
  then obtain t where "calculate_total_packets ?n = Some t" by blast
  then show ?thesis
    using neg by (subst send_packets.simps) (simp add: retP_def)
qed

theorem oversized_file_not_sent_witness:
  "\<exists>t. calculate_total_packets (int_of_size 2147483648) = Some t \<and>
    send_packets (example_env []) (replicate 2147483648 0) 1 t new_request 1 0 (int PACKET_MAX_SIZE)
      (int_of_size 2147483648) (example_world []) = Some (Inr new_request, example_world [])"
  using oversized_file_not_sent [of "replicate 2147483648 0" "example_env []" 1 new_request "example_world []"]
  by (simp only: length_replicate)

text \<open>
  C24: Encrypting the file: with a private key, and an AES key of 32 bytes that this private key
  opens, the file is encrypted under the AES key with a zero initialisation vector, and decrypting
  the result under the same key gives the file back.
\<close>

theorem encrypt_file_decrypts:
  assumes "cryptopp_ok (crypto E)" and "oaep_decrypt (crypto E) sk enc_aes = Some aes"
    and "length aes = 32" and "length f < 4294967296"
  shows "\<exists>c. encrypt_file E enc_aes (RSAPrivateWrapper_getPrivateKey (crypto E) sk) f = Inr c \<and>
    AESWrapper_decrypt (crypto E) aes c (length c) = Some f"
proof -
  have "unat (of_nat (length f) :: 32 word) = length f"
    unfolding unat_of_nat using assms(4) by simp
  then show ?thesis
    using assms
    by (simp add: encrypt_file_def cryptopp_ok_def RSAPrivateWrapper_of_string_def RSAPrivateWrapper_decrypt_def
        RSAPrivateWrapper_getPrivateKey_def AESWrapper_def DEFAULT_KEYLENGTH_def AESWrapper_encrypt_def
        AESWrapper_decrypt_def Let_def)
qed

theorem encrypt_file_decrypts_witness:
  "\<exists>c. encrypt_file (example_env []) (replicate 32 9)
        (RSAPrivateWrapper_getPrivateKey (crypto (example_env [])) [1]) [1, 2, 3] = Inr c \<and>
    AESWrapper_decrypt (crypto (example_env [])) (replicate 32 9) c (length c) = Some [1, 2, 3]"
  using encrypt_file_decrypts [OF example_crypto_ok, of "[]" "[1]" "replicate 32 9" "replicate 32 9" "[1, 2, 3]"]
  by (simp add: example_env_def example_crypto_def)


text \<open>
  C37: The file name of a path is the part after its last backslash: it has no backslash, and it is
  the whole path or what follows a backslash in it.
\<close>

theorem find_file_name_spec:
  "backslash \<notin> set (find_file_name p) \<and> (\<exists>d. p = d @ find_file_name p \<and> (d = [] \<or> last d = backslash))"
  using find_file_name_no_backslash [of p] find_file_name_suffix [of p]
  by (metis append_is_Nil_conv append_self_conv2 append.assoc last_snoc)

text \<open>
  C35: A file name of more than 255 characters in \<open>transfer.info\<close> passes the length check, which
  only knows the length 255, and ends the program in \<open>strcpy_s\<close> instead of the intended exit.
\<close>

theorem long_file_name_aborts:
  assumes "files w (lit ''transfer.info'') = Some (address @ newline # cname @ newline # path @ newline # rest)"
    and "newline \<notin> set address" and "newline \<notin> set cname" and "newline \<notin> set path"
    and "length cname \<le> 100" and "0 \<notin> set path" and "255 < length (find_file_name path)"
  shows "\<exists>w'. read_transfer E w = Some (Inl Bad_copy, w')"
proof -
  let ?name = "find_file_name path"
  have "0 \<notin> set ?name"
    using find_file_name_suffix [of path] assms(6) by (metis Un_iff set_append)
  then have name: "setFileName ?name c = None" for c
    using assms(7) by (simp add: setFileName_eq until_nul_id)
  obtain ip port where addr: "split_address address = (ip, port)" by (cases "split_address address")
  have "read_transfer E w = Some (Inl Bad_copy, w\<lparr>the_client := setClientName cname (the_client w)\<rparr>)"
    using assms(2-5,7)
    by (simp add: read_transfer_def run_get assms(1) Let_def addr run_set_client)
      (simp add: bindP_def try_set_clientP_def name throwP_def)
  then show ?thesis by blast
qed

theorem long_file_name_aborts_witness:
  "\<exists>w'. read_transfer (example_env []) ((example_world [])\<lparr>files := [lit ''transfer.info'' \<mapsto>
      lit ''1:2'' @ newline # lit ''bob'' @ newline # replicate 256 97 @ newline # []]\<rparr>)
    = Some (Inl Bad_copy, w')"
proof -
  have "find_last_of backslash (replicate 256 97) = None"
    by (simp add: find_last_of_None backslash_def)
  then have "find_file_name (replicate 256 97) = replicate 256 97"
    by (simp add: find_file_name_def)
  then show ?thesis
    by (intro long_file_name_aborts [where path = "replicate 256 97" and cname = "lit ''bob''"
        and address = "lit ''1:2''" and rest = "[]"])
      (simp_all add: newline_def lit_def)
qed



end
