(* ===== verification/Server_Data.thy ===== *)
theory Server_Data
  imports Codec
begin

text \<open>
  The data of the server (\<open>src/Server/clients.py\<close>, \<open>files.py\<close>, \<open>sql.py\<close>): the client and file
  objects, the two tables of the database, the directory tree it stores files in, and the state its
  handlers work on. A Python string is the list of its UTF-8 bytes.
\<close>

section \<open>Objects and rows\<close>

record sfile =
  sf_client_id :: bytes
  sf_name :: bytes
  sf_path :: bytes
  sf_valid_crc :: bool

record sclient =
  sc_id :: bytes
  sc_name :: bytes
  sc_public_key :: bytes
  sc_last_seen :: nat
  sc_aes_key :: bytes
  sc_files :: "sfile list"

text \<open>The rows \<open>clients(client_id, client_name, public_key, last_seen_date, aes_key)\<close> and
  \<open>files(client_id, file_name, path, valid_crc)\<close>.\<close>

record client_row =
  cr_id :: bytes
  cr_name :: bytes
  cr_public_key :: bytes
  cr_last_seen :: nat
  cr_aes_key :: bytes

record file_row =
  fr_client_id :: bytes
  fr_name :: bytes
  fr_path :: bytes
  fr_valid_crc :: bool

section \<open>The directory tree\<close>

text \<open>
  A path is resolved from the working directory component by component: empty components and \<open>.\<close>
  stay where they are, \<open>..\<close> goes up, and every component but the last must be a directory. The
  directories above the working directory are the paths of \<open>..\<close> only.
\<close>

type_synonym dir_path = "bytes list"

datatype node = Dir | Regular bytes

type_synonym disk = "dir_path \<Rightarrow> node option"

definition slash :: byte where
  "slash = 47"

fun split_path :: "bytes \<Rightarrow> bytes list" where
  "split_path [] = [[]]"
| "split_path (c # cs) =
     (if c = slash then [] # split_path cs
      else (case split_path cs of [] \<Rightarrow> [[c]] | p # ps \<Rightarrow> (c # p) # ps))"

definition is_dir :: "disk \<Rightarrow> dir_path \<Rightarrow> bool" where
  "is_dir d p \<longleftrightarrow> p = [] \<or> last p = lit ''..'' \<or> d p = Some Dir"

definition go :: "dir_path \<Rightarrow> bytes \<Rightarrow> dir_path" where
  "go here c =
     (if c = [] \<or> c = lit ''.'' then here
      else if c = lit ''..'' then
        (if here = [] \<or> last here = lit ''..'' then here @ [lit ''..''] else butlast here)
      else here @ [c])"

fun resolve_from :: "disk \<Rightarrow> dir_path \<Rightarrow> bytes list \<Rightarrow> dir_path option" where
  "resolve_from d here [] = Some here"
| "resolve_from d here (c # cs) =
     (if is_dir d here then resolve_from d (go here c) cs else None)"

definition resolve :: "disk \<Rightarrow> bytes \<Rightarrow> dir_path option" where
  "resolve d path = resolve_from d [] (split_path path)"

text \<open>\<open>os.path.exists\<close>, \<open>os.mkdir\<close>, \<open>open\<close> for reading and writing, \<open>os.remove\<close>; \<open>None\<close> raises.\<close>

definition path_exists :: "disk \<Rightarrow> bytes \<Rightarrow> bool" where
  "path_exists d path =
     (case resolve d path of None \<Rightarrow> False | Some p \<Rightarrow> is_dir d p \<or> d p \<noteq> None)"

text \<open>\<open>mkdir\<close> takes a new name with slashes behind it, which no other call does.\<close>

definition strip_slashes :: "bytes \<Rightarrow> bytes" where
  "strip_slashes path = rev (dropWhile (\<lambda>c. c = slash) (rev path))"

definition mkdir :: "disk \<Rightarrow> bytes \<Rightarrow> disk option" where
  "mkdir d path =
     (case resolve d (strip_slashes path) of
        None \<Rightarrow> None
      | Some p \<Rightarrow> if is_dir d p \<or> d p \<noteq> None then None else Some (d(p \<mapsto> Dir)))"

definition read_path :: "disk \<Rightarrow> bytes \<Rightarrow> bytes option" where
  "read_path d path =
     (case resolve d path of
        None \<Rightarrow> None
      | Some p \<Rightarrow> (case d p of Some (Regular b) \<Rightarrow> Some b | _ \<Rightarrow> None))"

text \<open>\<open>open(path, "wb")\<close> and \<open>open(path, "ab")\<close> with the one \<open>write\<close> that follows.\<close>

definition write_path :: "disk \<Rightarrow> bytes \<Rightarrow> bytes \<Rightarrow> disk option" where
  "write_path d path content =
     (case resolve d path of
        None \<Rightarrow> None
      | Some p \<Rightarrow> if is_dir d p then None else Some (d(p \<mapsto> Regular content)))"

definition append_path :: "disk \<Rightarrow> bytes \<Rightarrow> bytes \<Rightarrow> disk option" where
  "append_path d path content =
     (case resolve d path of
        None \<Rightarrow> None
      | Some p \<Rightarrow>
          if is_dir d p then None
          else Some (d(p \<mapsto> Regular ((case d p of Some (Regular b) \<Rightarrow> b | _ \<Rightarrow> []) @ content))))"

definition remove_path :: "disk \<Rightarrow> bytes \<Rightarrow> disk option" where
  "remove_path d path =
     (case resolve d path of
        None \<Rightarrow> None
      | Some p \<Rightarrow> (case d p of Some (Regular b) \<Rightarrow> Some (d(p := None)) | _ \<Rightarrow> None))"

text \<open>\<open>folder + '/' + client_name\<close> and \<open>folder + '/' + client_name + '/' + file_name\<close>.\<close>

definition folder :: bytes where
  "folder = lit ''clients files''"

definition client_dir :: "bytes \<Rightarrow> bytes" where
  "client_dir cname = folder @ [slash] @ cname"

definition file_path :: "bytes \<Rightarrow> bytes \<Rightarrow> bytes" where
  "file_path cname fname = folder @ [slash] @ cname @ [slash] @ fname"

section \<open>The tables\<close>

definition db_insert_client :: "client_row \<Rightarrow> client_row list \<Rightarrow> client_row list option" where
  "db_insert_client row t = (if cr_id row \<in> cr_id ` set t then None else Some (t @ [row]))"

definition db_insert_file :: "file_row \<Rightarrow> file_row list \<Rightarrow> file_row list option" where
  "db_insert_file row t =
     (if (fr_client_id row, fr_name row) \<in> (\<lambda>r. (fr_client_id r, fr_name r)) ` set t then None
      else Some (t @ [row]))"

definition db_update :: "('r \<Rightarrow> bool) \<Rightarrow> ('r \<Rightarrow> 'r) \<Rightarrow> 'r list \<Rightarrow> 'r list" where
  "db_update p f t = map (\<lambda>r. if p r then f r else r) t"

section \<open>The state of the server\<close>

text \<open>
  One connection: the bytes that have arrived and are not read yet, the bytes sent, whether the
  socket blocks, whether the peer has closed its side, whether it is still registered, and what the
  network brings while the server is at work on it. Then the data
  shared by all connections. \<open>entropy\<close> and \<open>clock\<close> count the random values and times drawn so far.
\<close>

datatype arrival = Chunk bytes | Hang_up

record server =
  rx :: bytes
  tx :: bytes
  blocking :: bool
  peer_closed :: bool
  registered_conn :: bool
  pending :: "arrival list"
  clients_list :: "sclient list"
  db_clients :: "client_row list"
  db_files :: "file_row list"
  disk :: disk
  entropy :: nat
  clock :: nat

datatype py_error =
    ValueError
  | TypeError
  | UnicodeDecodeError
  | BlockingIOError
  | OSError
  | IntegrityError
  | CryptoError

type_synonym 'a sprog = "(server, py_error, 'a) prog"

text \<open>The third-party functions of the server; \<open>None\<close> is an exception.\<close>

record 'pk pycrypto =
  uuid4_bytes :: "nat \<Rightarrow> bytes"
  get_random_bytes :: "nat \<Rightarrow> nat \<Rightarrow> bytes"
  import_key :: "bytes \<Rightarrow> 'pk option"
  pkcs1_oaep_encrypt :: "'pk \<Rightarrow> nat \<Rightarrow> bytes \<Rightarrow> bytes option"
  aes_cbc_decrypt :: "bytes \<Rightarrow> bytes \<Rightarrow> bytes \<Rightarrow> bytes option"
  unpad :: "bytes \<Rightarrow> nat \<Rightarrow> bytes option"

end
