(* ===== verification/Server_World.thy ===== *)
theory Server_World
  imports Server_Data
begin

text \<open>
  The operations the server's handlers are built from: the socket, the database calls of
  \<open>src/Server/sql.py\<close>, the file operations, and \<open>src/Server/answer.py\<close> and
  \<open>various_functions.py\<close>.
\<close>

section \<open>Numbers and strings\<close>

definition convert_byte_to_int :: "bytes \<Rightarrow> int" where
  "convert_byte_to_int data_in_bytes = int (le_nat data_in_bytes)"

text \<open>\<open>to_bytes\<close> raises \<open>OverflowError\<close> (here \<open>None\<close>) on a number that does not fit.\<close>

definition convert_int_to_byte :: "int \<Rightarrow> nat \<Rightarrow> bytes option" where
  "convert_int_to_byte int_data len =
     (if 0 \<le> int_data \<and> int_data < 256 ^ len then Some (le_bytes len (nat int_data)) else None)"

text \<open>Well-formed UTF-8, with the ranges of the Unicode standard.\<close>

definition in_range :: "nat \<Rightarrow> nat \<Rightarrow> byte \<Rightarrow> bool" where
  "in_range lo hi b \<longleftrightarrow> lo \<le> unat b \<and> unat b \<le> hi"

definition utf8_two :: "byte \<Rightarrow> byte \<Rightarrow> bool" where
  "utf8_two a b \<longleftrightarrow> in_range 0xC2 0xDF a \<and> in_range 0x80 0xBF b"

definition utf8_three :: "byte \<Rightarrow> byte \<Rightarrow> byte \<Rightarrow> bool" where
  "utf8_three a b c \<longleftrightarrow>
     in_range 0xE0 0xEF a \<and>
     in_range (if unat a = 0xE0 then 0xA0 else 0x80) (if unat a = 0xED then 0x9F else 0xBF) b \<and>
     in_range 0x80 0xBF c"

definition utf8_four :: "byte \<Rightarrow> byte \<Rightarrow> byte \<Rightarrow> byte \<Rightarrow> bool" where
  "utf8_four a b c d \<longleftrightarrow>
     in_range 0xF0 0xF4 a \<and>
     in_range (if unat a = 0xF0 then 0x90 else 0x80) (if unat a = 0xF4 then 0x8F else 0xBF) b \<and>
     in_range 0x80 0xBF c \<and> in_range 0x80 0xBF d"

text \<open>The lead bytes of the four forms are different, so at most one alternative holds.\<close>

fun utf8_valid :: "bytes \<Rightarrow> bool" where
  "utf8_valid [] = True"
| "utf8_valid [a] = in_range 0 0x7F a"
| "utf8_valid [a, b] =
     (in_range 0 0x7F a \<and> utf8_valid [b] \<or> utf8_two a b)"
| "utf8_valid [a, b, c] =
     (in_range 0 0x7F a \<and> utf8_valid [b, c] \<or> utf8_two a b \<and> utf8_valid [c] \<or> utf8_three a b c)"
| "utf8_valid (a # b # c # d # r) =
     (in_range 0 0x7F a \<and> utf8_valid (b # c # d # r) \<or>
      utf8_two a b \<and> utf8_valid (c # d # r) \<or>
      utf8_three a b c \<and> utf8_valid (d # r) \<or>
      utf8_four a b c d \<and> utf8_valid r)"

text \<open>\<open>.decode('utf-8').replace('\0', '')\<close>\<close>

definition decode_name :: "bytes \<Rightarrow> bytes sprog" where
  "decode_name b =
     (if utf8_valid b then retP (strip_nul b) else throwP UnicodeDecodeError)"

section \<open>The socket\<close>

text \<open>Bytes that arrive are put behind the others; nothing comes after the peer has closed.\<close>

fun arrive :: "arrival \<Rightarrow> server \<Rightarrow> server" where
  "arrive (Chunk b) s = (if peer_closed s then s else s\<lparr>rx := rx s @ b\<rparr>)"
| "arrive Hang_up s = s\<lparr>peer_closed := True\<rparr>"

text \<open>
  What a call of \<open>recv\<close> finds: the next event has happened since the last call (it may be an empty
  chunk), and a blocking socket waits for more as long as there is nothing to return.
\<close>

fun listen :: "arrival list \<Rightarrow> server \<Rightarrow> server" where
  "listen [] s = s\<lparr>pending := []\<rparr>"
| "listen (a # as) s =
     (let s = arrive a s
      in if blocking s \<and> rx s = [] \<and> \<not> peer_closed s then listen as s else s\<lparr>pending := as\<rparr>)"

lemma listen_quiet: "pending s = [] \<Longrightarrow> listen [] s = s"
  by (cases s) simp

declare listen.simps(1) [simp del]

text \<open>
  \<open>conn.recv(n)\<close> takes what has arrived, at most \<open>n\<close> bytes. With nothing there it returns nothing
  when the peer has closed, raises on a non-blocking socket, and on a blocking one it has waited in
  vain: it does not return as long as the peer sends nothing. \<open>n\<close> is an \<open>int\<close>; a negative one raises.
\<close>

definition recv :: "int \<Rightarrow> bytes sprog" where
  "recv n s =
     (if n < 0 then throwP ValueError s
      else if n = 0 then retP [] s
      else
        let s = listen (pending s) s
        in if rx s \<noteq> [] then retP (take (nat n) (rx s)) (s\<lparr>rx := drop (nat n) (rx s)\<rparr>)
           else if peer_closed s then retP [] s
           else if blocking s then divergeP s
           else throwP BlockingIOError s)"

definition sendall :: "bytes \<Rightarrow> unit sprog" where
  "sendall b = modP (\<lambda>s. s\<lparr>tx := tx s @ b\<rparr>)"

definition send_header_to_client :: "int \<Rightarrow> int \<Rightarrow> unit sprog" where
  "send_header_to_client code payload_size =
     bindP (optP ValueError (convert_int_to_byte 3 1)) (\<lambda>b1.
     bindP (sendall b1) (\<lambda>_.
     bindP (optP ValueError (convert_int_to_byte code 2)) (\<lambda>b2.
     bindP (sendall b2) (\<lambda>_.
     bindP (optP ValueError (convert_int_to_byte payload_size 4)) (\<lambda>b3.
     sendall b3)))))"

text \<open>Events on the socket change nothing but the socket.\<close>

lemma arrive_data [simp]:
  "clients_list (arrive a s) = clients_list s" "db_clients (arrive a s) = db_clients s"
  "db_files (arrive a s) = db_files s" "disk (arrive a s) = disk s" "entropy (arrive a s) = entropy s"
  "tx (arrive a s) = tx s" "blocking (arrive a s) = blocking s"
  by (cases a; simp)+

lemma listen_data [simp]:
  "clients_list (listen as s) = clients_list s" "db_clients (listen as s) = db_clients s"
  "db_files (listen as s) = db_files s" "disk (listen as s) = disk s" "entropy (listen as s) = entropy s"
  "tx (listen as s) = tx s" "blocking (listen as s) = blocking s"
  by (induction as arbitrary: s) (simp_all add: Let_def listen.simps)

text \<open>The bytes that can still be read: those that have arrived and those that will.\<close>

fun chunk_size :: "arrival \<Rightarrow> nat" where
  "chunk_size (Chunk b) = length b"
| "chunk_size Hang_up = 0"

definition bytes_left :: "server \<Rightarrow> nat" where
  "bytes_left s = length (rx s) + sum_list (map chunk_size (pending s))"

lemma arrive_size: "length (rx (arrive a s)) \<le> length (rx s) + chunk_size a"
  by (cases a) simp_all

lemma listen_pending: "bytes_left (listen as s) \<le> length (rx s) + sum_list (map chunk_size as)"
proof (induction as arbitrary: s)
  case (Cons a as)
  show ?case using Cons [of "arrive a s"] arrive_size [of a s] by (simp add: Let_def bytes_left_def)
qed (simp add: bytes_left_def listen.simps)

lemma listen_less: "bytes_left (listen (pending s) s) \<le> bytes_left s"
  using listen_pending [of "pending s" s] by (simp add: bytes_left_def)

text \<open>
  \<open>clean_buffer\<close>: on a socket that does not block, reads 4096 bytes at a time until nothing is there
  (at the end of the stream \<open>recv\<close> returns nothing, otherwise it raises), and leaves the
  socket in blocking mode.
\<close>

function drain :: "server \<Rightarrow> server" where
  "drain s =
     (let s = listen (pending s) s
      in if rx s = [] then s else drain (s\<lparr>rx := drop 4096 (rx s)\<rparr>))"
  by pat_completeness auto

termination drain
proof (relation "measure bytes_left")
  fix s :: server and x
  assume x: "x = listen (pending s) s" and ne: "rx x \<noteq> []"
  have "bytes_left (x\<lparr>rx := drop 4096 (rx x)\<rparr>) < bytes_left x"
    using ne by (cases "rx x") (simp_all add: bytes_left_def)
  also have "\<dots> \<le> bytes_left s" unfolding x by (rule listen_less)
  finally show "(x\<lparr>rx := drop 4096 (rx x)\<rparr>, s) \<in> measure bytes_left" by simp
qed simp

declare drain.simps [simp del]

lemma drain_data [simp]:
  "clients_list (drain s) = clients_list s" "db_clients (drain s) = db_clients s"
  "db_files (drain s) = db_files s" "disk (drain s) = disk s" "entropy (drain s) = entropy s"
  "tx (drain s) = tx s" "blocking (drain s) = blocking s" "rx (drain s) = []"
  by (induction s rule: drain.induct; subst drain.simps; simp add: Let_def)+

lemma drain_quiet: "rx s = [] \<Longrightarrow> pending s = [] \<Longrightarrow> drain s = s"
  by (subst drain.simps) (simp add: listen_quiet)

definition clean_buffer :: "unit sprog" where
  "clean_buffer = modP (\<lambda>s. (drain (s\<lparr>blocking := False\<rparr>))\<lparr>blocking := True\<rparr>)"

section \<open>Random values and the clock\<close>

definition draw :: "(nat \<Rightarrow> 'a) \<Rightarrow> 'a sprog" where
  "draw f s = Some (Inr (f (entropy s)), s\<lparr>entropy := entropy s + 1\<rparr>)"

definition datetime_now :: "nat sprog" where
  "datetime_now s = Some (Inr (clock s), s\<lparr>clock := clock s + 1\<rparr>)"

section \<open>The database\<close>

definition set_lastseen_date :: "bytes \<Rightarrow> unit sprog" where
  "set_lastseen_date cid =
     bindP datetime_now (\<lambda>t.
     modP (\<lambda>s. s\<lparr>db_clients := db_update (\<lambda>r. cr_id r = cid) (cr_last_seen_update (\<lambda>_. t)) (db_clients s)\<rparr>))"

text \<open>The WHERE clause names the client only.\<close>

definition set_valid_crc :: "bytes \<Rightarrow> bool \<Rightarrow> unit sprog" where
  "set_valid_crc cid b =
     modP (\<lambda>s. s\<lparr>db_files := db_update (\<lambda>r. fr_client_id r = cid) (fr_valid_crc_update (\<lambda>_. b)) (db_files s)\<rparr>)"

text \<open>The WHERE clause names the file only; no row deleted is an error.\<close>

definition delete_file :: "bytes \<Rightarrow> unit sprog" where
  "delete_file fname =
     bindP (getP db_files) (\<lambda>t.
     if filter (\<lambda>r. fr_name r = fname) t = [] then throwP ValueError
     else modP (\<lambda>s. s\<lparr>db_files := filter (\<lambda>r. fr_name r \<noteq> fname) t\<rparr>))"

definition add_client_db :: "sclient \<Rightarrow> unit sprog" where
  "add_client_db c =
     bindP (getP db_clients) (\<lambda>t.
     bindP (optP IntegrityError
       (db_insert_client \<lparr>cr_id = sc_id c, cr_name = sc_name c, cr_public_key = sc_public_key c,
          cr_last_seen = sc_last_seen c, cr_aes_key = sc_aes_key c\<rparr> t)) (\<lambda>t.
     modP (\<lambda>s. s\<lparr>db_clients := t\<rparr>)))"

definition add_file_db :: "sfile \<Rightarrow> unit sprog" where
  "add_file_db f =
     bindP (getP db_files) (\<lambda>t.
     bindP (optP IntegrityError
       (db_insert_file \<lparr>fr_client_id = sf_client_id f, fr_name = sf_name f, fr_path = sf_path f,
          fr_valid_crc = sf_valid_crc f\<rparr> t)) (\<lambda>t.
     modP (\<lambda>s. s\<lparr>db_files := t\<rparr>)))"

definition set_aes_key :: "bytes \<Rightarrow> bytes \<Rightarrow> unit sprog" where
  "set_aes_key key cid =
     modP (\<lambda>s. s\<lparr>db_clients := db_update (\<lambda>r. cr_id r = cid) (cr_aes_key_update (\<lambda>_. key)) (db_clients s)\<rparr>)"

definition set_public_key :: "bytes \<Rightarrow> bytes \<Rightarrow> unit sprog" where
  "set_public_key key cid =
     modP (\<lambda>s. s\<lparr>db_clients := db_update (\<lambda>r. cr_id r = cid) (cr_public_key_update (\<lambda>_. key)) (db_clients s)\<rparr>)"

section \<open>Objects and files\<close>

text \<open>The object at position \<open>i\<close> of \<open>clients_list\<close> is changed in place.\<close>

definition mod_client :: "nat \<Rightarrow> (sclient \<Rightarrow> sclient) \<Rightarrow> unit sprog" where
  "mod_client i f = modP (\<lambda>s. s\<lparr>clients_list := (clients_list s)[i := f (clients_list s ! i)]\<rparr>)"

definition mod_file :: "nat \<Rightarrow> nat \<Rightarrow> (sfile \<Rightarrow> sfile) \<Rightarrow> unit sprog" where
  "mod_file i j f = mod_client i (\<lambda>c. c\<lparr>sc_files := (sc_files c)[j := f (sc_files c ! j)]\<rparr>)"

definition on_disk :: "(disk \<Rightarrow> disk option) \<Rightarrow> unit sprog" where
  "on_disk f =
     bindP (getP disk) (\<lambda>d. bindP (optP OSError (f d)) (\<lambda>d. modP (\<lambda>s. s\<lparr>disk := d\<rparr>)))"

definition open_read :: "bytes \<Rightarrow> bytes sprog" where
  "open_read path = bindP (getP disk) (\<lambda>d. optP OSError (read_path d path))"

text \<open>The constructor of \<open>Client\<close> in \<open>clients.py\<close>.\<close>

definition new_sclient :: "'pk pycrypto \<Rightarrow> bytes \<Rightarrow> sclient sprog" where
  "new_sclient P cname =
     bindP (draw (uuid4_bytes P)) (\<lambda>cid.
     bindP datetime_now (\<lambda>t.
     bindP (getP (\<lambda>s. path_exists (disk s) (client_dir cname))) (\<lambda>there.
     bindP (if there then retP () else on_disk (\<lambda>d. mkdir d (client_dir cname))) (\<lambda>_.
     retP \<lparr>sc_id = cid, sc_name = cname, sc_public_key = [], sc_last_seen = t, sc_aes_key = [],
       sc_files = []\<rparr>))))"

section \<open>Keys and decryption\<close>

definition check_id :: "bytes \<Rightarrow> bytes \<Rightarrow> unit sprog" where
  "check_id old_client_id new_client_id = guardP (old_client_id = new_client_id) ValueError"

definition encrypt_by_public_key :: "'pk pycrypto \<Rightarrow> bytes \<Rightarrow> bytes \<Rightarrow> bytes sprog" where
  "encrypt_by_public_key P public_key aes_key =
     bindP (optP CryptoError (import_key P public_key)) (\<lambda>rsa_key.
     bindP (draw (\<lambda>n. pkcs1_oaep_encrypt P rsa_key n aes_key)) (optP CryptoError))"

text \<open>Reads the temporary file, decrypts it and writes the result over it.\<close>

definition create_decrypted_file :: "'pk pycrypto \<Rightarrow> bytes \<Rightarrow> bytes \<Rightarrow> bytes sprog" where
  "create_decrypted_file P path aes_key =
     bindP (open_read path) (\<lambda>encrypted_file_content.
     bindP (optP CryptoError (aes_cbc_decrypt P aes_key (replicate 16 0) encrypted_file_content)) (\<lambda>d.
     bindP (optP CryptoError (unpad P d 16)) (\<lambda>decrypted_content.
     bindP (on_disk (\<lambda>d. write_path d path decrypted_content)) (\<lambda>_.
     retP decrypted_content))))"

end
