(* ===== verification/Server_Request.thy ===== *)
theory Server_Request
  imports Server_World Cksum
begin

text \<open>
  The request handlers of \<open>src/Server/request.py\<close>, one definition per method, with the loops over
  \<open>clients_list\<close> and \<open>files_list\<close> as a search for the first match and an update at its position.
\<close>

text \<open>The first position whose element satisfies \<open>p\<close>: what a loop with \<open>break\<close> works on.\<close>

fun first_index :: "('a \<Rightarrow> bool) \<Rightarrow> 'a list \<Rightarrow> nat option" where
  "first_index p [] = None"
| "first_index p (x # xs) = (if p x then Some 0 else map_option Suc (first_index p xs))"

text \<open>\<open>last_seen\<close>: the database, then the object, each with its own call of the clock.\<close>

definition last_seen :: "nat \<Rightarrow> sclient \<Rightarrow> unit sprog" where
  "last_seen i client =
     bindP (set_lastseen_date (sc_id client)) (\<lambda>_.
     bindP datetime_now (\<lambda>t. mod_client i (sc_last_seen_update (\<lambda>_. t))))"

definition create_send_aes :: "'pk pycrypto \<Rightarrow> int \<Rightarrow> nat \<Rightarrow> unit sprog" where
  "create_send_aes P code i =
     bindP (draw (\<lambda>n. get_random_bytes P n 32)) (\<lambda>key.
     bindP (mod_client i (sc_aes_key_update (\<lambda>_. key))) (\<lambda>_.
     bindP (getP (\<lambda>s. clients_list s ! i)) (\<lambda>client.
     bindP (set_aes_key (sc_aes_key client) (sc_id client)) (\<lambda>_.
     bindP (encrypt_by_public_key P (sc_public_key client) (sc_aes_key client)) (\<lambda>encrypted_aes_key.
     bindP (send_header_to_client code (16 + int (length encrypted_aes_key))) (\<lambda>_.
     bindP (sendall (sc_id client)) (\<lambda>_.
     sendall encrypted_aes_key)))))))"

text \<open>After the last packet: decrypt, compare the size, answer with the checksum.\<close>

definition last_packet :: "'pk pycrypto \<Rightarrow> sfile \<Rightarrow> sclient \<Rightarrow> int \<Rightarrow> int \<Rightarrow> unit sprog" where
  "last_packet P file client content_size orig_file_size =
     bindP (create_decrypted_file P (sf_path file) (sc_aes_key client)) (\<lambda>content.
     if orig_file_size \<noteq> int (length content) then throwP ValueError
     else
       (let crc = py_memcrc content
        in bindP (send_header_to_client 1603 (16 + 4 + 255 + 4)) (\<lambda>_.
           bindP (sendall (sc_id client)) (\<lambda>_.
           bindP (optP ValueError (convert_int_to_byte content_size 4)) (\<lambda>size_bytes.
           bindP (sendall size_bytes) (\<lambda>_.
           bindP (sendall (pad_nul 255 (sf_name file))) (\<lambda>_.
           bindP (optP ValueError (convert_int_to_byte crc 4)) sendall)))))))"

definition thank_you_answer :: "bytes \<Rightarrow> unit sprog" where
  "thank_you_answer cid = bindP (send_header_to_client 1604 16) (\<lambda>_. sendall cid)"

section \<open>The header\<close>

record srequest =
  sr_client_id :: bytes
  sr_version :: int
  sr_code :: int
  sr_payload_size :: int

text \<open>\<open>getHeader\<close>; \<open>None\<close> is \<open>END\<close>: the client has closed the connection.\<close>

definition getHeader :: "srequest option sprog" where
  "getHeader =
     bindP (recv 16) (\<lambda>byte_id_for_check.
     if byte_id_for_check = [] then retP None
     else
       bindP (recv 1) (\<lambda>v.
       bindP (recv 2) (\<lambda>c.
       bindP (recv 4) (\<lambda>n.
       retP (Some \<lparr>sr_client_id = byte_id_for_check, sr_version = convert_byte_to_int v,
         sr_code = convert_byte_to_int c, sr_payload_size = convert_byte_to_int n\<rparr>)))))"

text \<open>The message adds a string and an \<open>int\<close>, which raises before the intended exception.\<close>

definition header_validation :: "srequest \<Rightarrow> unit sprog" where
  "header_validation r = guardP (sr_version r = 3) TypeError"

section \<open>The handlers\<close>

definition registration_request_825 :: "'pk pycrypto \<Rightarrow> unit sprog" where
  "registration_request_825 P =
     bindP (recv 255) (\<lambda>field.
     bindP (decode_name field) (\<lambda>new_client_name.
     bindP (getP clients_list) (\<lambda>cs.
     case first_index (\<lambda>c. sc_name c = new_client_name) cs of
       Some i \<Rightarrow> bindP (last_seen i (cs ! i)) (\<lambda>_. throwP ValueError)
     | None \<Rightarrow>
         bindP (new_sclient P new_client_name) (\<lambda>new_client.
         bindP (modP (\<lambda>s. s\<lparr>clients_list := clients_list s @ [new_client]\<rparr>)) (\<lambda>_.
         bindP (add_client_db new_client) (\<lambda>_.
         bindP (send_header_to_client 1600 16) (\<lambda>_.
         sendall (sc_id new_client))))))))"

definition reconnection_request_827 :: "'pk pycrypto \<Rightarrow> srequest \<Rightarrow> unit sprog" where
  "reconnection_request_827 P r =
     bindP (recv 255) (\<lambda>field.
     bindP (decode_name field) (\<lambda>new_client_name.
     bindP (getP clients_list) (\<lambda>cs.
     case first_index (\<lambda>c. sc_name c = new_client_name) cs of
       Some i \<Rightarrow>
         bindP (check_id (sr_client_id r) (sc_id (cs ! i))) (\<lambda>_.
         bindP (last_seen i (cs ! i)) (\<lambda>_.
         case import_key P (sc_public_key (cs ! i)) of
           None \<Rightarrow>
             bindP (send_header_to_client 1606 16) (\<lambda>_. sendall (sc_id (cs ! i)))
         | Some _ \<Rightarrow> create_send_aes P 1605 i))
     | None \<Rightarrow> bindP (send_header_to_client 1606 16) (\<lambda>_. sendall (sr_client_id r)))))"

definition send_public_key_request_826 :: "'pk pycrypto \<Rightarrow> srequest \<Rightarrow> unit sprog" where
  "send_public_key_request_826 P r =
     bindP (recv 255) (\<lambda>field.
     bindP (decode_name field) (\<lambda>new_client_name.
     bindP (getP clients_list) (\<lambda>cs.
     case first_index (\<lambda>c. sc_name c = new_client_name) cs of
       Some i \<Rightarrow>
         bindP (check_id (sr_client_id r) (sc_id (cs ! i))) (\<lambda>_.
         bindP (recv 160) (\<lambda>key.
         bindP (mod_client i (sc_public_key_update (\<lambda>_. key))) (\<lambda>_.
         bindP (set_public_key key (sc_id (cs ! i))) (\<lambda>_.
         bindP (last_seen i (cs ! i)) (\<lambda>_.
         create_send_aes P 1602 i)))))
     | None \<Rightarrow> throwP ValueError)))"

text \<open>
  A packet is written to the file before anything is checked; then the file object is updated or
  created. The result is the file object.
\<close>

definition store_packet :: "nat \<Rightarrow> sclient \<Rightarrow> int \<Rightarrow> bytes \<Rightarrow> bytes \<Rightarrow> sfile sprog" where
  "store_packet i client packet_number file_name content =
     (let path = file_path (sc_name client) file_name
      in bindP (if packet_number = 1 then on_disk (\<lambda>d. write_path d path content)
                else on_disk (\<lambda>d. append_path d path content)) (\<lambda>_.
         bindP (last_seen i client) (\<lambda>_.
         case first_index (\<lambda>f. sf_name f = file_name) (sc_files client) of
           Some j \<Rightarrow>
             bindP (if packet_number = 1 then
                      bindP (mod_file i j (sf_valid_crc_update (\<lambda>_. False))) (\<lambda>_.
                      set_valid_crc (sc_id client) False)
                    else retP ()) (\<lambda>_.
             retP (sc_files client ! j))
         | None \<Rightarrow>
             if packet_number \<noteq> 1 then throwP ValueError
             else
               (let new_file = \<lparr>sf_client_id = sc_id client, sf_name = file_name, sf_path = path,
                      sf_valid_crc = False\<rparr>
                in bindP (add_file_db new_file) (\<lambda>_.
                   bindP (mod_client i (\<lambda>c. c\<lparr>sc_files := sc_files c @ [new_file]\<rparr>)) (\<lambda>_.
                   retP new_file))))))"

definition send_file_request_828 :: "'pk pycrypto \<Rightarrow> srequest \<Rightarrow> unit sprog" where
  "send_file_request_828 P r =
     bindP (recv 4) (\<lambda>b. let content_size = convert_byte_to_int b in
     bindP (recv 4) (\<lambda>b. let orig_file_size = convert_byte_to_int b in
     bindP (recv 2) (\<lambda>b. let packet_number = convert_byte_to_int b in
     bindP (recv 2) (\<lambda>b. let total_packets = convert_byte_to_int b in
     bindP (recv 255) (\<lambda>field.
     bindP (decode_name field) (\<lambda>file_name.
     let current_packet_size = sr_payload_size r - 4 - 4 - 2 - 2 - 255 in
     bindP (recv current_packet_size) (\<lambda>encrypted_packet_content.
     bindP (getP clients_list) (\<lambda>cs.
     case first_index (\<lambda>c. sc_id c = sr_client_id r) cs of
       None \<Rightarrow> throwP ValueError
     | Some i \<Rightarrow>
         bindP (store_packet i (cs ! i) packet_number file_name encrypted_packet_content) (\<lambda>file.
         if packet_number = total_packets then last_packet P file (cs ! i) content_size orig_file_size
         else retP ())))))))))"

definition crc_response_900_901_902 :: "srequest \<Rightarrow> unit sprog" where
  "crc_response_900_901_902 r =
     bindP (recv 255) (\<lambda>field.
     bindP (decode_name field) (\<lambda>file_name.
     bindP (getP clients_list) (\<lambda>cs.
     case first_index (\<lambda>c. sc_id c = sr_client_id r) cs of
       None \<Rightarrow> throwP ValueError
     | Some i \<Rightarrow>
         (let client = cs ! i
          in bindP (last_seen i client) (\<lambda>_.
             case first_index (\<lambda>f. sf_name f = file_name) (sc_files client) of
               None \<Rightarrow> throwP ValueError
             | Some j \<Rightarrow>
                 (let file = sc_files client ! j
                  in if sf_valid_crc file then throwP ValueError
                     else if sr_code r = 900 then
                       bindP (mod_file i j (sf_valid_crc_update (\<lambda>_. True))) (\<lambda>_.
                       bindP (set_valid_crc (sc_id client) True) (\<lambda>_.
                       thank_you_answer (sc_id client)))
                     else if sr_code r = 902 then
                       bindP (on_disk (\<lambda>d. remove_path d (sf_path file))) (\<lambda>_.
                       bindP (mod_client i (\<lambda>c. c\<lparr>sc_files := take j (sc_files c) @ drop (Suc j) (sc_files c)\<rparr>)) (\<lambda>_.
                       bindP (delete_file file_name) (\<lambda>_.
                       thank_you_answer (sc_id client))))
                     else retP ()))))))"

section \<open>One call of the server's \<open>read\<close>\<close>

text \<open>
  \<open>server.py\<close>: \<open>read\<close> is called when the connection is readable. The handler is chosen by the
  request code. An exception of a registration is answered with 1601, every other one with 1607,
  after the input is thrown away.
\<close>

definition handle_request :: "'pk pycrypto \<Rightarrow> srequest \<Rightarrow> unit sprog" where
  "handle_request P r =
     (if sr_code r = 825 then
        catchP (registration_request_825 P) (\<lambda>_.
          bindP clean_buffer (\<lambda>_. send_header_to_client 1601 0))
      else if sr_code r = 827 then reconnection_request_827 P r
      else if sr_code r = 826 then send_public_key_request_826 P r
      else if sr_code r = 828 then send_file_request_828 P r
      else if sr_code r = 900 \<or> sr_code r = 901 \<or> sr_code r = 902 then crc_response_900_901_902 r
      else throwP ValueError)"

definition server_read :: "'pk pycrypto \<Rightarrow> unit sprog" where
  "server_read P =
     catchP
       (bindP getHeader (\<lambda>h.
        case h of
          None \<Rightarrow> modP (\<lambda>s. s\<lparr>registered_conn := False\<rparr>)
        | Some r \<Rightarrow> bindP (header_validation r) (\<lambda>_. handle_request P r)))
       (\<lambda>_. bindP clean_buffer (\<lambda>_. send_header_to_client 1607 0))"

text \<open>\<open>create_data_base\<close> in \<open>sql.py\<close>: two empty tables.\<close>

definition create_data_base :: "unit sprog" where
  "create_data_base = modP (\<lambda>s. s\<lparr>db_clients := [], db_files := []\<rparr>)"

text \<open>
  \<open>data_base_handle\<close> once there is a database: the lists are rebuilt from the tables. Every row makes a \<open>Client\<close> object, so
  its constructor runs; the values are then replaced by those of the row. A missing main folder is
  created last.
\<close>

fun load_clients :: "'pk pycrypto \<Rightarrow> client_row list \<Rightarrow> unit sprog" where
  "load_clients P [] = retP ()"
| "load_clients P (row # rows) =
     bindP (new_sclient P (cr_name row)) (\<lambda>c.
     bindP (modP (\<lambda>s. s\<lparr>clients_list := clients_list s @
       [c\<lparr>sc_id := cr_id row, sc_public_key := cr_public_key row, sc_last_seen := cr_last_seen row,
          sc_aes_key := cr_aes_key row\<rparr>]\<rparr>)) (\<lambda>_.
     load_clients P rows))"

definition load_file :: "file_row \<Rightarrow> sclient list \<Rightarrow> sclient list" where
  "load_file row cs =
     map (\<lambda>c. if sc_id c = fr_client_id row
              then c\<lparr>sc_files := sc_files c @ [\<lparr>sf_client_id = fr_client_id row, sf_name = fr_name row,
                     sf_path = fr_path row, sf_valid_crc = fr_valid_crc row\<rparr>]\<rparr>
              else c) cs"

definition data_base_handle :: "'pk pycrypto \<Rightarrow> unit sprog" where
  "data_base_handle P =
     bindP (getP db_clients) (\<lambda>rows.
     bindP (load_clients P rows) (\<lambda>_.
     bindP (modP (\<lambda>s. s\<lparr>clients_list := fold load_file (db_files s) (clients_list s)\<rparr>)) (\<lambda>_.
     bindP (getP (\<lambda>s. path_exists (disk s) folder)) (\<lambda>there.
     if there then retP () else on_disk (\<lambda>d. mkdir d folder)))))"

text \<open>The whole of \<open>data_base_handle\<close>: whether the file of the database is there is the argument.\<close>

definition start_data_base :: "'pk pycrypto \<Rightarrow> bool \<Rightarrow> unit sprog" where
  "start_data_base P there = bindP (if there then retP () else create_data_base) (\<lambda>_. data_base_handle P)"

end
