(* ===== verification/Server.thy ===== *)
theory Server
  imports Server_Request
begin

text \<open>
  The server as the peer of a client: accepting a connection, the loop that calls \<open>read\<close> as long as
  something has arrived, and the results of its handlers on the messages a client sends.
\<close>

section \<open>The loop of one connection\<close>

text \<open>\<open>accept\<close> in \<open>server.py\<close>: a new socket, in non-blocking mode.\<close>

definition accept :: "server \<Rightarrow> server" where
  "accept s = s\<lparr>rx := [], tx := [], blocking := False, peer_closed := False, registered_conn := True, pending := []\<rparr>"

text \<open>
  The loop of the main program restricted to one connection: while the socket is readable, \<open>read\<close> is
  called. It does not return when a call of \<open>read\<close> waits for ever.
\<close>

partial_function (option) serve :: "'pk pycrypto \<Rightarrow> server \<Rightarrow> server option" where
  "serve P s =
     (if rx s = [] then Some s
      else Option.bind (server_read P s) (\<lambda>(r, s'). serve P s'))"

section \<open>Running the handlers\<close>

lemma srun_get: "bindP (getP f) k s = k (f s) s"
  by (simp add: bindP_def getP_def)

lemma srun_mod: "bindP (modP f) k s = k () (f s)"
  by (simp add: bindP_def modP_def)

lemma srun_opt: "bindP (optP e (Some x)) k s = k x s"
  by (simp add: bindP_def optP_def retP_def)

lemma srun_guard: "b \<Longrightarrow> bindP (guardP b e) k s = k () s"
  by (simp add: bindP_def guardP_def retP_def)

lemma srun_ret: "bindP (retP x) k s = k x s"
  by (simp add: bindP_def retP_def)

lemma srun_draw: "bindP (draw f) k s = k (f (entropy s)) (s\<lparr>entropy := entropy s + 1\<rparr>)"
  by (simp add: bindP_def draw_def)

lemma srun_now: "bindP datetime_now k s = k (clock s) (s\<lparr>clock := clock s + 1\<rparr>)"
  by (simp add: bindP_def datetime_now_def)

text \<open>With nothing on its way, \<open>recv\<close> deals with what has arrived.\<close>

lemma srun_recv:
  "rx s = b @ rest \<Longrightarrow> pending s = [] \<Longrightarrow> int (length b) = n \<Longrightarrow> 0 < n \<Longrightarrow>
   bindP (recv n) k s = k b (s\<lparr>rx := rest\<rparr>)"
  by (auto simp: bindP_def recv_def retP_def listen_quiet Let_def)

text \<open>\<open>recv\<close> does not wait for the bytes that are missing.\<close>

lemma srun_recv_short:
  "rx s = b \<Longrightarrow> b \<noteq> [] \<Longrightarrow> pending s = [] \<Longrightarrow> int (length b) \<le> n \<Longrightarrow>
   bindP (recv n) k s = k b (s\<lparr>rx := []\<rparr>)"
  by (auto simp: bindP_def recv_def retP_def listen_quiet Let_def)

lemma srun_send: "bindP (sendall b) k s = k () (s\<lparr>tx := tx s @ b\<rparr>)"
  by (simp add: bindP_def sendall_def modP_def)

lemma srun_name: "utf8_valid b \<Longrightarrow> bindP (decode_name b) k s = k (strip_nul b) s"
  by (simp add: bindP_def decode_name_def retP_def)

lemma srun_disk: "f (disk s) = Some d \<Longrightarrow> bindP (on_disk f) k s = k () (s\<lparr>disk := d\<rparr>)"
  by (simp add: bindP_def on_disk_def getP_def optP_def retP_def modP_def)

text \<open>The header of an answer.\<close>

definition header_bytes :: "nat \<Rightarrow> nat \<Rightarrow> bytes" where
  "header_bytes code psize = [3] @ le_bytes 2 code @ le_bytes 4 psize"

lemma send_header:
  assumes "code < 65536" and "psize < 4294967296"
  shows "send_header_to_client (int code) (int psize) s = Some (Inr (), s\<lparr>tx := tx s @ header_bytes code psize\<rparr>)"
proof -
  have "convert_int_to_byte 3 1 = Some [3]"
    by (simp add: convert_int_to_byte_def)
  moreover have "convert_int_to_byte (int code) 2 = Some (le_bytes 2 code)"
    "convert_int_to_byte (int psize) 4 = Some (le_bytes 4 psize)"
    using assms by (simp_all add: convert_int_to_byte_def)
  ultimately show ?thesis
    by (simp add: send_header_to_client_def srun_opt srun_send header_bytes_def)
      (simp add: sendall_def modP_def)
qed

lemma srun_header:
  "code < 65536 \<Longrightarrow> psize < 4294967296 \<Longrightarrow>
   bindP (send_header_to_client (int code) (int psize)) k s = k () (s\<lparr>tx := tx s @ header_bytes code psize\<rparr>)"
  by (simp add: bindP_def send_header)

text \<open>The bytes of a request as the server reads them.\<close>

definition request_bytes :: "bytes \<Rightarrow> nat \<Rightarrow> nat \<Rightarrow> bytes \<Rightarrow> bytes" where
  "request_bytes cid code psize payload = cid @ [3] @ le_bytes 2 code @ le_bytes 4 psize @ payload"

lemma srun_getHeader:
  assumes "rx s = request_bytes cid code psize payload" and "length cid = 16"
    and "code < 65536" and "psize < 4294967296" and quiet: "pending s = []"
  shows "bindP getHeader k s =
    k (Some \<lparr>sr_client_id = cid, sr_version = 3, sr_code = int code, sr_payload_size = int psize\<rparr>)
      (s\<lparr>rx := payload\<rparr>)"
proof -
  have ne: "cid \<noteq> []" using assms(2) by auto
  have rx: "rx s = cid @ [3] @ le_bytes 2 code @ le_bytes 4 psize @ payload"
    using assms(1) by (simp add: request_bytes_def)
  have run: "getHeader s =
      Some (Inr (Some \<lparr>sr_client_id = cid, sr_version = 3, sr_code = int code, sr_payload_size = int psize\<rparr>),
        s\<lparr>rx := payload\<rparr>)"
    unfolding getHeader_def
    using ne assms(2-4)
    by (subst srun_recv [OF rx quiet])
      (simp_all add: quiet srun_recv [where b = "[3]"] srun_recv [where b = "le_bytes 2 code"]
        srun_recv [where b = "le_bytes 4 psize"] retP_def convert_byte_to_int_def le_nat_le_bytes)
  show ?thesis by (simp add: bindP_def run)
qed


lemma utf8_valid_forms:
  "in_range 0 0x7F a \<Longrightarrow> utf8_valid r \<Longrightarrow> utf8_valid (a # r)"
  "utf8_two a b \<Longrightarrow> utf8_valid r \<Longrightarrow> utf8_valid (a # b # r)"
  "utf8_three a b c \<Longrightarrow> utf8_valid r \<Longrightarrow> utf8_valid (a # b # c # r)"
  by (cases r rule: utf8_valid.cases; simp)+

lemma utf8_append: "utf8_valid a \<Longrightarrow> utf8_valid b \<Longrightarrow> utf8_valid (a @ b)"
  by (induction a rule: utf8_valid.induct) (auto intro: utf8_valid_forms)

lemma utf8_nul: "utf8_valid (replicate n 0)"
  by (induction n) (simp_all add: utf8_valid_forms in_range_def)

lemma utf8_pad: "utf8_valid a \<Longrightarrow> utf8_valid (pad_nul n a)"
  by (simp add: pad_nul_def utf8_append utf8_nul)

end
