(* ===== verification/Server_Runs.thy ===== *)
theory Server_Runs
  imports Server
begin

text \<open>
  The server's handlers on well-formed requests: what each leaves in the lists, the tables and on the
  disk, and what it sends back.
\<close>

section \<open>Names and paths\<close>

text \<open>A name that is a single component of a path.\<close>

definition plain_name :: "bytes \<Rightarrow> bool" where
  "plain_name n \<longleftrightarrow>
     n \<noteq> [] \<and> utf8_valid n \<and> 0 \<notin> set n \<and> slash \<notin> set n \<and> n \<noteq> lit ''.'' \<and> n \<noteq> lit ''..'' \<and> length n \<le> 255"

lemma split_path_slash: "slash \<notin> set x \<Longrightarrow> split_path (x @ slash # r) = x # split_path r"
  by (induction x) auto

lemma split_path_plain: "slash \<notin> set x \<Longrightarrow> split_path x = [x]"
  by (induction x) auto

lemma folder_plain: "slash \<notin> set folder" "folder \<noteq> []" "folder \<noteq> lit ''.''" "folder \<noteq> lit ''..''"
  by (simp_all add: folder_def lit_def slash_def)

lemma go_plain: "plain_name n \<Longrightarrow> go here n = here @ [n]"
  by (simp add: go_def plain_name_def)

lemma go_folder: "go here folder = here @ [folder]"
  by (simp add: go_def folder_plain)

lemma resolve_client_dir:
  "plain_name n \<Longrightarrow> d [folder] = Some Dir \<Longrightarrow> resolve d (client_dir n) = Some [folder, n]"
  by (simp add: resolve_def client_dir_def split_path_slash folder_plain split_path_plain plain_name_def [of n]
      is_dir_def go_folder) (simp add: go_plain plain_name_def)

lemma strip_client_dir: "plain_name n \<Longrightarrow> strip_slashes (client_dir n) = client_dir n"
  by (cases n rule: rev_cases) (auto simp: strip_slashes_def client_dir_def plain_name_def)

lemma plain_not_up: "plain_name n \<Longrightarrow> n \<noteq> lit ''..''"
  by (simp add: plain_name_def)

lemma resolve_file_path:
  "plain_name n \<Longrightarrow> plain_name f \<Longrightarrow> d [folder] = Some Dir \<Longrightarrow> d [folder, n] = Some Dir \<Longrightarrow>
   resolve d (file_path n f) = Some [folder, n, f]"
  by (simp add: resolve_def file_path_def split_path_slash folder_plain split_path_plain plain_name_def [of n]
      plain_name_def [of f] is_dir_def go_folder) (simp add: go_plain plain_name_def is_dir_def)

text \<open>A name that a field of 255 bytes can carry.\<close>

definition field_name :: "bytes \<Rightarrow> bool" where
  "field_name n \<longleftrightarrow> utf8_valid n \<and> 0 \<notin> set n \<and> length n \<le> 255"

lemma plain_field: "plain_name n \<Longrightarrow> field_name n"
  by (simp add: plain_name_def field_name_def)

lemma decode_field: "field_name n \<Longrightarrow> bindP (decode_name (pad_nul 255 n)) k s = k n s"
  by (simp add: srun_name utf8_pad field_name_def strip_nul_pad)

lemma srun_recv_field:
  "rx s = pad_nul 255 n @ rest \<Longrightarrow> field_name n \<Longrightarrow> pending s = [] \<Longrightarrow>
   bindP (recv 255) k s = k (pad_nul 255 n) (s\<lparr>rx := rest\<rparr>)"
  by (rule srun_recv) (simp_all add: field_name_def)

lemmas decode_padded = decode_field [OF plain_field]

lemma srun_recv_padded:
  "rx s = pad_nul 255 n @ rest \<Longrightarrow> plain_name n \<Longrightarrow> pending s = [] \<Longrightarrow>
   bindP (recv 255) k s = k (pad_nul 255 n) (s\<lparr>rx := rest\<rparr>)"
  by (rule srun_recv_field [OF _ plain_field])

section \<open>Registration\<close>

lemma first_index_None: "first_index p xs = None \<longleftrightarrow> (\<forall>x \<in> set xs. \<not> p x)"
  by (induction xs) auto

lemma first_index_Some:
  "first_index p xs = Some i \<Longrightarrow> i < length xs \<and> p (xs ! i)"
  by (induction xs arbitrary: i) (auto split: if_splits)

lemma first_index_last: "\<forall>x \<in> set xs. \<not> p x \<Longrightarrow> p y \<Longrightarrow> first_index p (xs @ [y]) = Some (length xs)"
  by (induction xs) auto

text \<open>The directory of a new client is there or can be made.\<close>

definition dir_ready :: "disk \<Rightarrow> bytes \<Rightarrow> bool" where
  "dir_ready d n \<longleftrightarrow> d [folder] = Some Dir \<and> (d [folder, n] = None \<or> d [folder, n] = Some Dir)"

definition new_client_object :: "'pk pycrypto \<Rightarrow> bytes \<Rightarrow> server \<Rightarrow> sclient" where
  "new_client_object P n s =
     \<lparr>sc_id = uuid4_bytes P (entropy s), sc_name = n, sc_public_key = [], sc_last_seen = clock s,
      sc_aes_key = [], sc_files = []\<rparr>"

definition row_of_client :: "sclient \<Rightarrow> client_row" where
  "row_of_client c =
     \<lparr>cr_id = sc_id c, cr_name = sc_name c, cr_public_key = sc_public_key c,
      cr_last_seen = sc_last_seen c, cr_aes_key = sc_aes_key c\<rparr>"

lemma srun_new_sclient:
  assumes n: "plain_name n" and d: "dir_ready (disk s) n"
  shows "bindP (new_sclient P n) k s = k (new_client_object P n s)
    (s\<lparr>entropy := entropy s + 1, clock := clock s + 1, disk := (disk s)([folder, n] \<mapsto> Dir)\<rparr>)"
proof -
  have r: "resolve (disk s) (client_dir n) = Some [folder, n]"
    using n d by (simp add: resolve_client_dir dir_ready_def)
  have new: "new_sclient P n s = Some (Inr (new_client_object P n s),
      s\<lparr>entropy := entropy s + 1, clock := clock s + 1, disk := (disk s)([folder, n] \<mapsto> Dir)\<rparr>)"
  proof (cases "disk s [folder, n] = None")
    case True
    then have "\<not> path_exists (disk s) (client_dir n)"
      "mkdir (disk s) (client_dir n) = Some ((disk s)([folder, n] \<mapsto> Dir))"
      using n by (simp_all add: path_exists_def mkdir_def r is_dir_def strip_client_dir plain_not_up)
    then show ?thesis
      by (simp add: new_sclient_def srun_draw srun_now srun_get srun_disk new_client_object_def)
        (simp add: retP_def)
  next
    case False
    with d have dir: "disk s [folder, n] = Some Dir" by (simp add: dir_ready_def)
    then have "(disk s)([folder, n] \<mapsto> Dir) = disk s" by (rule fun_upd_idem)
    moreover have "path_exists (disk s) (client_dir n)"
      using dir by (simp add: path_exists_def r is_dir_def)
    ultimately show ?thesis
      by (simp add: new_sclient_def srun_draw srun_now srun_get srun_ret new_client_object_def)
        (simp add: retP_def)
  qed
  show ?thesis by (simp add: bindP_def new)
qed

lemma srun_add_client_db:
  "sc_id c \<notin> cr_id ` set (db_clients s) \<Longrightarrow>
   bindP (add_client_db c) k s = k () (s\<lparr>db_clients := db_clients s @ [row_of_client c]\<rparr>)"
  by (simp add: add_client_db_def bindP_def getP_def db_insert_client_def optP_def retP_def modP_def
      row_of_client_def)

lemmas srun_1600 = srun_header [of 1600 16, simplified]

lemma run_registration:
  assumes rx: "rx s = pad_nul 255 n" "pending s = []" and n: "plain_name n" and d: "dir_ready (disk s) n"
    and new: "\<forall>c \<in> set (clients_list s). sc_name c \<noteq> n"
    and cid: "uuid4_bytes P (entropy s) \<notin> cr_id ` set (db_clients s)"
  shows "registration_request_825 P s = Some (Inr (),
    s\<lparr>rx := [], entropy := entropy s + 1, clock := clock s + 1, disk := (disk s)([folder, n] \<mapsto> Dir),
      clients_list := clients_list s @ [new_client_object P n s],
      db_clients := db_clients s @ [row_of_client (new_client_object P n s)],
      tx := tx s @ header_bytes 1600 16 @ uuid4_bytes P (entropy s)\<rparr>)"
proof -
  have rx': "rx s = pad_nul 255 n @ []" using rx(1) by simp
  have i: "first_index (\<lambda>c. sc_name c = n) (clients_list s) = None"
    using new by (simp add: first_index_None)
  have cid': "sc_id (new_client_object P n s) = uuid4_bytes P (entropy s)"
    "new_client_object P n (s\<lparr>rx := []\<rparr>) = new_client_object P n s"
    by (simp_all add: new_client_object_def)
  show ?thesis
    unfolding registration_request_825_def
    using d cid rx(2)
    by (simp add: srun_1600 srun_recv_padded [OF rx' n] decode_padded [OF n] srun_get i srun_new_sclient [OF n]
        srun_mod srun_add_client_db cid')
      (simp add: sendall_def modP_def)
qed


section \<open>The public key\<close>

lemma srun_last_seen:
  "bindP (last_seen i c) k s = k () (s\<lparr>
     db_clients := db_update (\<lambda>r. cr_id r = sc_id c) (cr_last_seen_update (\<lambda>_. clock s)) (db_clients s),
     clock := clock s + 2,
     clients_list := (clients_list s)[i := (clients_list s ! i)\<lparr>sc_last_seen := clock s + 1\<rparr>]\<rparr>)"
  by (simp add: last_seen_def set_lastseen_date_def mod_client_def bindP_def datetime_now_def modP_def)

lemma srun_mod_client:
  "bindP (mod_client i f) k s = k () (s\<lparr>clients_list := (clients_list s)[i := f (clients_list s ! i)]\<rparr>)"
  by (simp add: mod_client_def bindP_def modP_def)

lemma srun_set_aes_key:
  "bindP (set_aes_key key cid) k s = k () (s\<lparr>db_clients :=
     db_update (\<lambda>r. cr_id r = cid) (cr_aes_key_update (\<lambda>_. key)) (db_clients s)\<rparr>)"
  by (simp add: set_aes_key_def bindP_def modP_def)

lemma srun_set_public_key:
  "bindP (set_public_key key cid) k s = k () (s\<lparr>db_clients :=
     db_update (\<lambda>r. cr_id r = cid) (cr_public_key_update (\<lambda>_. key)) (db_clients s)\<rparr>)"
  by (simp add: set_public_key_def bindP_def modP_def)

lemma srun_check_id: "a = b \<Longrightarrow> bindP (check_id a b) k s = k () s"
  by (simp add: check_id_def srun_guard)

lemma srun_encrypt_key:
  "import_key P key = Some pk \<Longrightarrow> pkcs1_oaep_encrypt P pk (entropy s) aes = Some c \<Longrightarrow>
   bindP (encrypt_by_public_key P key aes) k s = k c (s\<lparr>entropy := entropy s + 1\<rparr>)"
  by (simp add: encrypt_by_public_key_def bind_assocP srun_opt srun_draw)

lemma run_create_send_aes:
  assumes i: "i < length (clients_list s)" and c: "clients_list s ! i = c"
    and pk: "import_key P (sc_public_key c) = Some pk"
    and aes: "get_random_bytes P (entropy s) 32 = aes"
    and enc: "pkcs1_oaep_encrypt P pk (entropy s + 1) aes = Some enc"
    and len: "length enc = l" "l < 4294967280" and code: "code = int m" "m < 65536"
  shows "create_send_aes P code i s = Some (Inr (), s\<lparr>entropy := entropy s + 2,
      clients_list := (clients_list s)[i := c\<lparr>sc_aes_key := aes\<rparr>],
      db_clients := db_update (\<lambda>r. cr_id r = sc_id c) (cr_aes_key_update (\<lambda>_. aes)) (db_clients s),
      tx := tx s @ header_bytes m (16 + l) @ sc_id c @ enc\<rparr>)"
proof -
  have h: "send_header_to_client code (16 + int l) v = Some (Inr (), v\<lparr>tx := tx v @ header_bytes m (16 + l)\<rparr>)" for v
    using send_header [of m "16 + l" v] code len by simp
  have h': "bindP (send_header_to_client code (16 + int l)) k v = k () (v\<lparr>tx := tx v @ header_bytes m (16 + l)\<rparr>)"
    for k :: "unit \<Rightarrow> unit sprog" and v
    by (simp add: bindP_def h)
  have pk': "import_key P (sc_public_key (c\<lparr>sc_aes_key := aes\<rparr>)) = Some pk" using pk by simp
  show ?thesis
    unfolding create_send_aes_def
    using i enc aes
    by (simp add: srun_draw srun_mod_client srun_get c srun_set_aes_key len h'
        srun_encrypt_key [OF pk', simplified] srun_send)
      (simp add: sendall_def modP_def)
qed


lemma run_public_key:
  assumes rx: "rx s = pad_nul 255 n @ key" and quiet: "pending s = []" and key: "length key = 160" and n: "plain_name n"
    and i: "first_index (\<lambda>c. sc_name c = n) (clients_list s) = Some i" and c: "clients_list s ! i = c"
    and cid: "sr_client_id r = sc_id c"
    and pk: "import_key P key = Some pk"
    and aes: "get_random_bytes P (entropy s) 32 = aes"
    and enc: "pkcs1_oaep_encrypt P pk (entropy s + 1) aes = Some enc" and len: "length enc = 128"
  shows "send_public_key_request_826 P r s = Some (Inr (), s\<lparr>
      rx := [],
      clients_list := (clients_list s)[i := c\<lparr>sc_public_key := key, sc_last_seen := clock s + 1, sc_aes_key := aes\<rparr>],
      db_clients := db_update (\<lambda>r. cr_id r = sc_id c) (cr_aes_key_update (\<lambda>_. aes))
        (db_update (\<lambda>r. cr_id r = sc_id c) (cr_last_seen_update (\<lambda>_. clock s))
          (db_update (\<lambda>r. cr_id r = sc_id c) (cr_public_key_update (\<lambda>_. key)) (db_clients s))),
      clock := clock s + 2, entropy := entropy s + 2,
      tx := tx s @ header_bytes 1602 144 @ sc_id c @ enc\<rparr>)"
proof -
  have il: "i < length (clients_list s)" using first_index_Some [OF i] by simp
  have rx2: "rx (s\<lparr>rx := key\<rparr>) = key @ []" by simp
  let ?c = "c\<lparr>sc_public_key := key, sc_last_seen := clock s + 1\<rparr>"
  let ?s = "s\<lparr>rx := [],
      db_clients := db_update (\<lambda>r. cr_id r = sc_id c) (cr_last_seen_update (\<lambda>_. clock s))
          (db_update (\<lambda>r. cr_id r = sc_id c) (cr_public_key_update (\<lambda>_. key)) (db_clients s)),
      clock := clock s + 2,
      clients_list := (clients_list s)[i := ?c]\<rparr>"
  have "send_public_key_request_826 P r s = create_send_aes P 1602 i ?s"
    unfolding send_public_key_request_826_def
    using il key quiet
    by (simp add: srun_recv_padded [OF rx n] decode_padded [OF n] srun_get i srun_check_id cid c
        srun_recv [OF rx2] srun_mod_client srun_set_public_key srun_last_seen)
  also have "\<dots> = Some (Inr (), ?s\<lparr>entropy := entropy ?s + 2,
      clients_list := (clients_list ?s)[i := ?c\<lparr>sc_aes_key := aes\<rparr>],
      db_clients := db_update (\<lambda>r. cr_id r = sc_id ?c) (cr_aes_key_update (\<lambda>_. aes)) (db_clients ?s),
      tx := tx ?s @ header_bytes 1602 (16 + 128) @ sc_id ?c @ enc\<rparr>)"
    by (rule run_create_send_aes [where pk = pk]) (use il pk aes enc len in simp_all)
  finally show ?thesis using il by simp
qed

section \<open>One packet of a file\<close>

text \<open>The payload of a packet.\<close>

definition packet_bytes :: "nat \<Rightarrow> nat \<Rightarrow> nat \<Rightarrow> nat \<Rightarrow> bytes \<Rightarrow> bytes \<Rightarrow> bytes" where
  "packet_bytes content_size orig_size number total_number fname content =
     le_bytes 4 content_size @ le_bytes 4 orig_size @ le_bytes 2 number @ le_bytes 2 total_number @
     pad_nul 255 fname @ content"

lemma srun_recv_le:
  "rx s = le_bytes m v @ rest \<Longrightarrow> n = int m \<Longrightarrow> 0 < m \<Longrightarrow> pending s = [] \<Longrightarrow>
   bindP (recv n) k s = k (le_bytes m v) (s\<lparr>rx := rest\<rparr>)"
  by (rule srun_recv) simp_all

lemma convert_le: "v < 256 ^ m \<Longrightarrow> convert_byte_to_int (le_bytes m v) = int v"
  by (simp add: convert_byte_to_int_def le_nat_le_bytes)

text \<open>A packet of which only a part of the content has arrived is handled like a shorter one.\<close>

lemma run_short_packet:
  assumes rx: "rx s = packet_bytes csize osize k tot f content" and quiet: "pending s = []"
    and r: "sr_payload_size r = int (267 + m)" "sr_client_id r = sc_id c" and part: "length content \<le> m"
    and small: "csize < 4294967296" "osize < 4294967296" "k < 65536" "tot < 65536" and f: "field_name f"
    and content: "content \<noteq> []"
    and i: "first_index (\<lambda>c. sc_id c = sr_client_id r) (clients_list s) = Some i" and c: "clients_list s ! i = c"
  shows "send_file_request_828 P r s =
    bindP (store_packet i c (int k) f content) (\<lambda>file.
      if k = tot then last_packet P file c (int csize) (int osize) else retP ()) (s\<lparr>rx := []\<rparr>)"
proof -
  have rx1: "rx s = le_bytes 4 csize @ le_bytes 4 osize @ le_bytes 2 k @ le_bytes 2 tot @ pad_nul 255 f @ content"
    using rx by (simp add: packet_bytes_def)
  have last: "bindP (recv (int m)) g (v\<lparr>rx := content\<rparr>) = g content (v\<lparr>rx := []\<rparr>)"
    if "pending v = []" for g :: "bytes \<Rightarrow> unit sprog" and v
    by (rule srun_recv_short [THEN trans]) (use content part that in simp_all)
  have conv: "convert_byte_to_int (le_bytes 4 csize) = int csize" "convert_byte_to_int (le_bytes 4 osize) = int osize"
    "convert_byte_to_int (le_bytes 2 k) = int k" "convert_byte_to_int (le_bytes 2 tot) = int tot"
    using small by (simp_all add: convert_le)
  show ?thesis
    unfolding send_file_request_828_def
    using quiet
    by (simp add: srun_recv_le [OF rx1] srun_recv_le [where m = 4 and v = osize] srun_recv_le [where m = 2 and v = k]
        srun_recv_le [where m = 2 and v = tot] srun_recv_field [OF _ f] decode_field [OF f] Let_def
        conv last srun_get i [unfolded r(2)] r c cong: if_cong)
qed

lemmas run_packet = run_short_packet [OF _ _ _ _ le_refl]

end
