(* ===== verification/Server_Transfer.thy ===== *)
theory Server_Transfer
  imports Server_Runs
begin

text \<open>
  A file transfer on the server: what the lists and the disk hold before it, between two packets and
  after the verdict, and that each handler goes from one of these situations to the next.
\<close>

section \<open>The situations of a transfer\<close>

text \<open>The client \<open>cid\<close> named \<open>n\<close> is known, at position \<open>i\<close>, with the AES key \<open>aes\<close>.\<close>

definition known :: "server \<Rightarrow> nat \<Rightarrow> bytes \<Rightarrow> bytes \<Rightarrow> bytes \<Rightarrow> bool" where
  "known s i cid n aes \<longleftrightarrow>
     first_index (\<lambda>c. sc_id c = cid) (clients_list s) = Some i \<and>
     sc_name (clients_list s ! i) = n \<and> sc_aes_key (clients_list s ! i) = aes \<and>
     disk s [folder] = Some Dir \<and> disk s [folder, n] = Some Dir"

text \<open>The client has a file object for \<open>f\<close> with this path.\<close>

definition has_file :: "sclient \<Rightarrow> bytes \<Rightarrow> bool \<Rightarrow> bool" where
  "has_file c f valid \<longleftrightarrow>
     (\<exists>j. first_index (\<lambda>x. sf_name x = f) (sc_files c) = Some j \<and>
        sf_path (sc_files c ! j) = file_path (sc_name c) f \<and> sf_valid_crc (sc_files c ! j) = valid)"

text \<open>Before the first packet of \<open>f\<close>: there is an object for it, or neither an object nor a row.\<close>

definition may_start :: "server \<Rightarrow> nat \<Rightarrow> bytes \<Rightarrow> bytes \<Rightarrow> bytes \<Rightarrow> bytes \<Rightarrow> bool" where
  "may_start s i cid n aes f \<longleftrightarrow>
     known s i cid n aes \<and> disk s [folder, n, f] \<noteq> Some Dir \<and>
     (case first_index (\<lambda>x. sf_name x = f) (sc_files (clients_list s ! i)) of
        None \<Rightarrow> (cid, f) \<notin> (\<lambda>r. (fr_client_id r, fr_name r)) ` set (db_files s)
      | Some j \<Rightarrow> sf_path (sc_files (clients_list s ! i) ! j) = file_path n f)"

text \<open>After some packets: the file object is there, not verified, and the file holds \<open>acc\<close>.\<close>

definition holds :: "server \<Rightarrow> nat \<Rightarrow> bytes \<Rightarrow> bytes \<Rightarrow> bytes \<Rightarrow> bytes \<Rightarrow> bool \<Rightarrow> bytes \<Rightarrow> bool" where
  "holds s i cid n aes f valid acc \<longleftrightarrow>
     known s i cid n aes \<and> has_file (clients_list s ! i) f valid \<and>
     disk s [folder, n, f] = Some (Regular acc)"

text \<open>What a transfer leaves alone: the socket but for its buffers, every other client object and
  every other file.\<close>

definition others_same :: "nat \<Rightarrow> dir_path \<Rightarrow> server \<Rightarrow> server \<Rightarrow> bool" where
  "others_same i p s s' \<longleftrightarrow>
     blocking s' = blocking s \<and> pending s' = pending s \<and> peer_closed s' = peer_closed s \<and> registered_conn s' = registered_conn s \<and>
     length (clients_list s') = length (clients_list s) \<and>
     (\<forall>k. k \<noteq> i \<longrightarrow> clients_list s' ! k = clients_list s ! k) \<and>
     (\<forall>q. q \<noteq> p \<longrightarrow> disk s' q = disk s q)"

lemma others_same_refl [simp]: "others_same i p s s"
  by (simp add: others_same_def)

lemma others_same_trans: "others_same i p s s' \<Longrightarrow> others_same i p s' s'' \<Longrightarrow> others_same i p s s''"
  by (simp add: others_same_def)

lemma first_index_update:
  assumes "first_index p xs = Some i" and "p y \<longleftrightarrow> p (xs ! i)"
  shows "first_index p (xs[i := y]) = Some i"
  using assms by (induction xs arbitrary: i) (auto split: if_splits)

lemma first_index_append: "first_index p xs = Some i \<Longrightarrow> first_index p (xs @ ys) = Some i"
  by (induction xs arbitrary: i) (auto split: if_splits)

section \<open>Weakest preconditions of the operations on clients and files\<close>

lemma wp_last_seen [wp_rules]:
  "wp (last_seen i c) N S s = N () (s\<lparr>
     db_clients := db_update (\<lambda>r. cr_id r = sc_id c) (cr_last_seen_update (\<lambda>_. clock s)) (db_clients s),
     clock := clock s + 2,
     clients_list := (clients_list s)[i := (clients_list s ! i)\<lparr>sc_last_seen := clock s + 1\<rparr>]\<rparr>)"
  by (simp add: last_seen_def set_lastseen_date_def mod_client_def datetime_now_def wp_rules wp_def bindP_def modP_def)

lemma wp_mod_client [wp_rules]:
  "wp (mod_client i f) N S s = N () (s\<lparr>clients_list := (clients_list s)[i := f (clients_list s ! i)]\<rparr>)"
  by (simp add: mod_client_def wp_rules)

lemma wp_mod_file [wp_rules]:
  "wp (mod_file i j f) N S s = N () (s\<lparr>clients_list := (clients_list s)[i :=
     (clients_list s ! i)\<lparr>sc_files := (sc_files (clients_list s ! i))[j := f (sc_files (clients_list s ! i) ! j)]\<rparr>]\<rparr>)"
  by (simp add: mod_file_def wp_rules)

lemma wp_set_valid_crc [wp_rules]:
  "wp (set_valid_crc cid b) N S s =
     N () (s\<lparr>db_files := db_update (\<lambda>r. fr_client_id r = cid) (fr_valid_crc_update (\<lambda>_. b)) (db_files s)\<rparr>)"
  by (simp add: set_valid_crc_def wp_rules)

lemma wp_on_disk [wp_rules]:
  "wp (on_disk f) N S s = (case f (disk s) of None \<Rightarrow> S OSError s | Some d \<Rightarrow> N () (s\<lparr>disk := d\<rparr>))"
  by (simp add: on_disk_def wp_rules split: option.split)

lemma wp_add_file_db [wp_rules]:
  "wp (add_file_db f) N S s =
     (if (sf_client_id f, sf_name f) \<in> (\<lambda>r. (fr_client_id r, fr_name r)) ` set (db_files s)
      then S IntegrityError s
      else N () (s\<lparr>db_files := db_files s @ [\<lparr>fr_client_id = sf_client_id f, fr_name = sf_name f,
             fr_path = sf_path f, fr_valid_crc = sf_valid_crc f\<rparr>]\<rparr>))"
  by (simp add: add_file_db_def db_insert_file_def wp_rules)

lemma wp_sendall [wp_rules]: "wp (sendall b) N S s = N () (s\<lparr>tx := tx s @ b\<rparr>)"
  by (simp add: sendall_def wp_rules)

lemma wp_header [wp_rules]:
  "code < 65536 \<Longrightarrow> psize < 4294967296 \<Longrightarrow>
   wp (send_header_to_client (int code) (int psize)) N S s = N () (s\<lparr>tx := tx s @ header_bytes code psize\<rparr>)"
  by (simp add: wp_def send_header)

lemmas wp_headers [wp_rules] =
  wp_header [of 1600 16, simplified] wp_header [of 1603 279, simplified] wp_header [of 1604 16, simplified]
  wp_header [of 1606 16, simplified] wp_header [of 1601 0, simplified] wp_header [of 1607 0, simplified]

section \<open>Storing a packet\<close>

lemma path_of:
  assumes "known s i cid n aes" and "plain_name n" and "plain_name f"
  shows "resolve (disk s) (file_path n f) = Some [folder, n, f]"
  using assms by (simp add: known_def resolve_file_path)

lemma known_index: "known s i cid n aes \<Longrightarrow> i < length (clients_list s) \<and> sc_id (clients_list s ! i) = cid"
  using first_index_Some by (fastforce simp: known_def)

lemma plain_name_ne: "plain_name n \<Longrightarrow> plain_name f \<Longrightarrow> [folder, n, f] \<noteq> [folder] \<and> [folder, n, f] \<noteq> [folder, n]"
  by simp

definition stored_packet ::
    "server \<Rightarrow> nat \<Rightarrow> bytes \<Rightarrow> bytes \<Rightarrow> bytes \<Rightarrow> bytes \<Rightarrow> bytes \<Rightarrow> sfile \<Rightarrow> server \<Rightarrow> bool" where
  "stored_packet s i cid n aes f acc file s' \<longleftrightarrow>
     holds s' i cid n aes f False acc \<and> sf_path file = file_path n f \<and> sf_name file = f \<and>
     others_same i [folder, n, f] s s' \<and> rx s' = rx s \<and> tx s' = tx s \<and> entropy s' = entropy s"

lemma wp_first_packet:
  assumes s: "may_start s i cid n aes f" and n: "plain_name n" "plain_name f" and c: "clients_list s ! i = c"
  shows "wp (store_packet i c 1 f content) (stored_packet s i cid n aes f content) (\<lambda>_ _. False) s"
proof -
  have k: "known s i cid n aes" using s by (simp add: may_start_def)
  note idx = known_index [OF k]
  have path: "resolve (disk s) (file_path n f) = Some [folder, n, f]" by (rule path_of [OF k n])
  have wr: "write_path (disk s) (file_path n f) content = Some ((disk s)([folder, n, f] \<mapsto> Regular content))"
    using s n by (simp add: write_path_def path may_start_def is_dir_def plain_not_up)
  have cn: "sc_name c = n" "sc_id c = cid" using k idx c by (auto simp: known_def)
  have fi: "first_index (\<lambda>c. sc_id c = cid) ((clients_list s)[i := y]) = Some i" if "sc_id y = cid" for y
    using k idx that by (intro first_index_update) (simp_all add: known_def)
  show ?thesis
  proof (cases "first_index (\<lambda>x. sf_name x = f) (sc_files c)")
    case None
    with s c have new: "(cid, f) \<notin> (\<lambda>r. (fr_client_id r, fr_name r)) ` set (db_files s)"
      by (simp add: may_start_def)
    have last_obj: "first_index (\<lambda>x. sf_name x = f) (sc_files c @ [y]) = Some (length (sc_files c))"
      if "sf_name y = f" for y
      using None that by (intro first_index_last) (simp_all add: first_index_None)
    show ?thesis
      unfolding store_packet_def Let_def
      using new idx c k n
      by (simp add: wp_rules cn wr None)
        (auto simp: stored_packet_def holds_def known_def has_file_def others_same_def fi last_obj idx)
  next
    case (Some j)
    have j: "j < length (sc_files c)" "sf_name (sc_files c ! j) = f" using first_index_Some [OF Some] by auto
    have pj: "sf_path (sc_files c ! j) = file_path n f" using s c Some by (simp add: may_start_def)
    have upd: "first_index (\<lambda>x. sf_name x = f) ((sc_files c)[j := y]) = Some j" if "sf_name y = f" for y
      using Some j that by (intro first_index_update) simp_all
    show ?thesis
      unfolding store_packet_def Let_def
      using idx c k n j pj
      by (simp add: wp_rules cn wr Some)
        (auto simp: stored_packet_def holds_def known_def has_file_def others_same_def fi upd idx)
  qed
qed

lemma wp_next_packet:
  assumes s: "holds s i cid n aes f False acc" and n: "plain_name n" "plain_name f" and c: "clients_list s ! i = c"
    and number: "number \<noteq> 1"
  shows "wp (store_packet i c number f content) (stored_packet s i cid n aes f (acc @ content)) (\<lambda>_ _. False) s"
proof -
  have k: "known s i cid n aes" using s by (simp add: holds_def)
  note idx = known_index [OF k]
  have path: "resolve (disk s) (file_path n f) = Some [folder, n, f]" by (rule path_of [OF k n])
  have wr: "append_path (disk s) (file_path n f) content = Some ((disk s)([folder, n, f] \<mapsto> Regular (acc @ content)))"
    using s n by (simp add: append_path_def path holds_def is_dir_def plain_not_up)
  have cn: "sc_name c = n" "sc_id c = cid" using k idx c by (auto simp: known_def)
  have fi: "first_index (\<lambda>c. sc_id c = cid) ((clients_list s)[i := y]) = Some i" if "sc_id y = cid" for y
    using k idx that by (intro first_index_update) (simp_all add: known_def)
  obtain j where j: "first_index (\<lambda>x. sf_name x = f) (sc_files c) = Some j"
    "sf_path (sc_files c ! j) = file_path n f" "\<not> sf_valid_crc (sc_files c ! j)"
    using s c cn by (auto simp: holds_def has_file_def)
  have "sf_name (sc_files c ! j) = f" using first_index_Some [OF j(1)] by simp
  then show ?thesis
    unfolding store_packet_def Let_def
    using idx c k n j number
    by (simp add: wp_rules cn wr)
      (auto simp: stored_packet_def holds_def known_def has_file_def others_same_def fi idx)
qed


section \<open>The last packet and the verdict\<close>

text \<open>The answer with the checksum, as the server sends it.\<close>

definition crc_answer_bytes :: "bytes \<Rightarrow> nat \<Rightarrow> bytes \<Rightarrow> bytes \<Rightarrow> bytes" where
  "crc_answer_bytes cid csize f content =
     header_bytes 1603 279 @ cid @ le_bytes 4 csize @ pad_nul 255 f @
     le_bytes 4 (unat (memcrc content (length content) :: 32 word))"

lemma crc_to_bytes:
  "convert_int_to_byte (py_memcrc b) 4 = Some (le_bytes 4 (unat (memcrc b (length b) :: 32 word)))"
proof -
  have "uint (memcrc b (length b) :: 32 word) < 2 ^ 32"
    using unsigned_less [of "memcrc b (length b) :: 32 word"] by simp
  then show ?thesis
    by (simp add: py_memcrc_uint convert_int_to_byte_def flip: unat_eq_nat_uint)
qed

lemma wp_last_packet:
  assumes s: "holds s i cid n aes f False body" and n: "plain_name n" "plain_name f"
    and fil: "sf_path file = file_path n f" "sf_name file = f"
    and c: "sc_id c = cid" "sc_aes_key c = aes"
    and dec: "aes_cbc_decrypt P aes (replicate 16 0) body = Some d" "unpad P d 16 = Some original"
    and size: "csize < 4294967296" "osize = int (length original)"
  shows "wp (last_packet P file c (int csize) osize)
    (\<lambda>_ s'. holds s' i cid n aes f False original \<and> others_same i [folder, n, f] s s' \<and> rx s' = rx s \<and>
       tx s' = tx s @ crc_answer_bytes cid csize f original)
    (\<lambda>_ _. False) s"
proof -
  have k: "known s i cid n aes" using s by (simp add: holds_def)
  have path: "resolve (disk s) (file_path n f) = Some [folder, n, f]" by (rule path_of [OF k n])
  have rd: "read_path (disk s) (file_path n f) = Some body"
    using s by (simp add: read_path_def path holds_def)
  have wr: "write_path (disk s) (file_path n f) original = Some ((disk s)([folder, n, f] \<mapsto> Regular original))"
    using s n by (simp add: write_path_def path holds_def is_dir_def plain_not_up)
  have sz: "convert_int_to_byte (int csize) 4 = Some (le_bytes 4 csize)"
    using size by (simp add: convert_int_to_byte_def)
  show ?thesis
    unfolding last_packet_def create_decrypted_file_def Let_def
    using s size(2)
    by (simp add: wp_rules fil c rd dec wr sz open_read_def crc_to_bytes)
      (auto simp: holds_def known_def has_file_def others_same_def crc_answer_bytes_def)
qed

lemma has_file_update:
  assumes "has_file c f b" and "first_index (\<lambda>x. sf_name x = f) (sc_files c) = Some j"
  shows "has_file (c\<lparr>sc_last_seen := t, sc_files := (sc_files c)[j := (sc_files c ! j)\<lparr>sf_valid_crc := v\<rparr>]\<rparr>) f v"
proof -
  have j: "j < length (sc_files c)" using first_index_Some [OF assms(2)] by simp
  have "first_index (\<lambda>x. sf_name x = f) ((sc_files c)[j := (sc_files c ! j)\<lparr>sf_valid_crc := v\<rparr>]) = Some j"
    using assms(2) by (intro first_index_update) simp_all
  with assms j show ?thesis by (auto simp: has_file_def)
qed

lemma wp_valid_crc:
  assumes s: "holds s i cid n aes f False original" and f: "plain_name f"
    and rx: "rx s = pad_nul 255 f" "pending s = []" and r: "sr_client_id r = cid" "sr_code r = 900"
  shows "wp (crc_response_900_901_902 r)
    (\<lambda>_ s'. holds s' i cid n aes f True original \<and> others_same i [folder, n, f] s s' \<and> rx s' = [] \<and>
       tx s' = tx s @ header_bytes 1604 16 @ cid)
    (\<lambda>_ _. False) s"
proof -
  have k: "known s i cid n aes" using s by (simp add: holds_def)
  note idx = known_index [OF k]
  have rx': "rx s = pad_nul 255 f @ []" using rx(1) by simp
  have i: "first_index (\<lambda>c. sc_id c = cid) (clients_list s) = Some i" using k by (simp add: known_def)
  have fi: "first_index (\<lambda>c. sc_id c = cid) ((clients_list s)[i := y]) = Some i" if "sc_id y = cid" for y
    using i idx that by (intro first_index_update) simp_all
  obtain j where j: "first_index (\<lambda>x. sf_name x = f) (sc_files (clients_list s ! i)) = Some j"
    "\<not> sf_valid_crc (sc_files (clients_list s ! i) ! j)"
    using s by (auto simp: holds_def has_file_def)
  have hf: "has_file (clients_list s ! i) f False" using s by (simp add: holds_def)
  have "crc_response_900_901_902 r s =
      (bindP (last_seen i (clients_list s ! i)) (\<lambda>_.
       bindP (mod_file i j (sf_valid_crc_update (\<lambda>_. True))) (\<lambda>_.
       bindP (set_valid_crc cid True) (\<lambda>_. thank_you_answer cid)))) (s\<lparr>rx := []\<rparr>)"
    unfolding crc_response_900_901_902_def
    using idx j rx(2) by (simp add: srun_recv_padded [OF rx' f] decode_padded [OF f] srun_get r i Let_def)
  then have "wp (crc_response_900_901_902 r) N S s =
      wp (bindP (last_seen i (clients_list s ! i)) (\<lambda>_.
       bindP (mod_file i j (sf_valid_crc_update (\<lambda>_. True))) (\<lambda>_.
       bindP (set_valid_crc cid True) (\<lambda>_. thank_you_answer cid)))) N S (s\<lparr>rx := []\<rparr>)" for N S
    by (simp add: wp_def)
  then show ?thesis
    using idx s has_file_update [OF hf j(1), where v = True and t = "Suc (clock s)"]
    by (simp add: wp_rules thank_you_answer_def)
      (auto simp: holds_def known_def others_same_def fi idx)
qed


section \<open>Messages through the loop\<close>

lemma serve_request:
  assumes rx: "rx s = request_bytes cid code psize payload" and cid: "length cid = 16"
    and small: "code < 65536" "psize < 4294967296" and quiet: "pending s = []"
    and h: "wp (handle_request P \<lparr>sr_client_id = cid, sr_version = 3, sr_code = int code, sr_payload_size = int psize\<rparr>)
      (\<lambda>_ s'. Q s' \<and> rx s' = []) (\<lambda>_ _. False) (s\<lparr>rx := payload\<rparr>)"
  shows "\<exists>s'. serve P s = Some s' \<and> Q s' \<and> rx s' = []"
proof -
  let ?r = "\<lparr>sr_client_id = cid, sr_version = 3, sr_code = int code, sr_payload_size = int psize\<rparr>"
  obtain s' where s': "handle_request P ?r (s\<lparr>rx := payload\<rparr>) = Some (Inr (), s')" "Q s'" "rx s' = []"
    using h by (auto simp: wp_result)
  have ne: "rx s \<noteq> []" using rx cid by (auto simp: request_bytes_def)
  have "server_read P s = Some (Inr (), s')"
    unfolding server_read_def catchP_def srun_getHeader [OF rx cid small quiet]
    by (simp add: header_validation_def srun_guard s'(1))
  then have "serve P s = Some s'"
    using ne s'(3) by (simp add: serve.simps [of P s] serve.simps [of P s'])
  with s' show ?thesis by blast
qed

end
