(* ===== verification/Server_Actions.thy ===== *)
theory Server_Actions
  imports Server_Transfer
begin

text \<open>
  What one call of the server's \<open>read\<close> may do to the data all connections share, as a relation with
  one rule per kind of change, and the proof that the handlers do nothing else. The invariants of the
  server are then proved once per kind of change.
\<close>

section \<open>The actions\<close>

text \<open>Only the connection and the counters of randomness and time change.\<close>

definition same_data :: "server \<Rightarrow> server \<Rightarrow> bool" where
  "same_data s s' \<longleftrightarrow>
     clients_list s' = clients_list s \<and> db_clients s' = db_clients s \<and> db_files s' = db_files s \<and>
     disk s' = disk s \<and> entropy s \<le> entropy s'"

text \<open>The object at position \<open>i\<close> and the rows with its id change together.\<close>

definition change_client ::
    "nat \<Rightarrow> (sclient \<Rightarrow> sclient) \<Rightarrow> (client_row \<Rightarrow> client_row) \<Rightarrow> server \<Rightarrow> server" where
  "change_client i f g s = s\<lparr>
     clients_list := (clients_list s)[i := f (clients_list s ! i)],
     db_clients := db_update (\<lambda>r. cr_id r = sc_id (clients_list s ! i)) g (db_clients s)\<rparr>"

definition change_files :: "nat \<Rightarrow> (sfile list \<Rightarrow> sfile list) \<Rightarrow> server \<Rightarrow> server" where
  "change_files i f s = s\<lparr>clients_list := (clients_list s)[i :=
     (clients_list s ! i)\<lparr>sc_files := f (sc_files (clients_list s ! i))\<rparr>]\<rparr>"

text \<open>The object and the row of a client that registers, and the directory that may be made for it.\<close>

definition enrolled_in :: "'pk pycrypto \<Rightarrow> bytes \<Rightarrow> disk \<Rightarrow> server \<Rightarrow> server" where
  "enrolled_in P n d s = s\<lparr>
     entropy := entropy s + 1, clock := clock s + 1, disk := d,
     clients_list := clients_list s @ [new_client_object P n s]\<rparr>"

definition dir_made :: "bytes \<Rightarrow> disk \<Rightarrow> disk \<Rightarrow> bool" where
  "dir_made n d d' \<longleftrightarrow>
     path_exists d (client_dir n) \<and> d' = d \<or>
     \<not> path_exists d (client_dir n) \<and> mkdir d (client_dir n) = Some d'"

definition file_object :: "sclient \<Rightarrow> bytes \<Rightarrow> sfile" where
  "file_object c f =
     \<lparr>sf_client_id = sc_id c, sf_name = f, sf_path = file_path (sc_name c) f, sf_valid_crc = False\<rparr>"

definition file_row_of :: "sfile \<Rightarrow> file_row" where
  "file_row_of x =
     \<lparr>fr_client_id = sf_client_id x, fr_name = sf_name x, fr_path = sf_path x, fr_valid_crc = sf_valid_crc x\<rparr>"

definition row_key :: "file_row \<Rightarrow> bytes \<times> bytes" where
  "row_key r = (fr_client_id r, fr_name r)"

text \<open>A name as the server decodes it from a field of 255 bytes.\<close>

definition wire_name :: "bytes \<Rightarrow> bool" where
  "wire_name n \<longleftrightarrow> 0 \<notin> set n \<and> length n \<le> 255"

inductive act :: "'pk pycrypto \<Rightarrow> server \<Rightarrow> server \<Rightarrow> bool" for P where
  act_io: "same_data s s' \<Longrightarrow> act P s s'"
| act_seen: "i < length (clients_list s) \<Longrightarrow>
    act P s (change_client i (sc_last_seen_update (\<lambda>_. t)) (cr_last_seen_update (\<lambda>_. t')) s)"
| act_public_key: "i < length (clients_list s) \<Longrightarrow> length k \<le> 160 \<Longrightarrow>
    act P s (change_client i (sc_public_key_update (\<lambda>_. k)) (cr_public_key_update (\<lambda>_. k)) s)"
| act_aes_key: "i < length (clients_list s) \<Longrightarrow> k = get_random_bytes P m 32 \<Longrightarrow>
    act P s (change_client i (sc_aes_key_update (\<lambda>_. k)) (cr_aes_key_update (\<lambda>_. k)) s)"
| act_enroll: "wire_name n \<Longrightarrow> n \<notin> sc_name ` set (clients_list s) \<Longrightarrow> dir_made n (disk s) d \<Longrightarrow>
    uuid4_bytes P (entropy s) \<notin> cr_id ` set (db_clients s) \<Longrightarrow>
    act P s (enrolled_in P n d s\<lparr>db_clients := db_clients s @ [row_of_client (new_client_object P n s)]\<rparr>)"
| act_enroll_clash: "wire_name n \<Longrightarrow> n \<notin> sc_name ` set (clients_list s) \<Longrightarrow> dir_made n (disk s) d \<Longrightarrow>
    uuid4_bytes P (entropy s) \<in> cr_id ` set (db_clients s) \<Longrightarrow> act P s (enrolled_in P n d s)"
| act_store: "i < length (clients_list s) \<Longrightarrow>
    resolve (disk s) (file_path (sc_name (clients_list s ! i)) f) = Some p \<Longrightarrow> \<not> is_dir (disk s) p \<Longrightarrow>
    act P s (s\<lparr>disk := (disk s)(p \<mapsto> Regular b)\<rparr>)"
| act_decrypt: "i < length (clients_list s) \<Longrightarrow> x \<in> set (sc_files (clients_list s ! i)) \<Longrightarrow>
    resolve (disk s) (sf_path x) = Some p \<Longrightarrow> \<not> is_dir (disk s) p \<Longrightarrow>
    act P s (s\<lparr>disk := (disk s)(p \<mapsto> Regular b)\<rparr>)"
| act_add_file: "i < length (clients_list s) \<Longrightarrow> wire_name f \<Longrightarrow> f \<notin> sf_name ` set (sc_files (clients_list s ! i)) \<Longrightarrow>
    (sc_id (clients_list s ! i), f) \<notin> row_key ` set (db_files s) \<Longrightarrow>
    act P s (change_files i (\<lambda>fs. fs @ [file_object (clients_list s ! i) f])
      (s\<lparr>db_files := db_files s @ [file_row_of (file_object (clients_list s ! i) f)]\<rparr>))"
| act_valid: "i < length (clients_list s) \<Longrightarrow> j < length (sc_files (clients_list s ! i)) \<Longrightarrow>
    act P s (change_files i (\<lambda>fs. fs[j := (fs ! j)\<lparr>sf_valid_crc := b\<rparr>])
      (s\<lparr>db_files := db_update (\<lambda>r. fr_client_id r = sc_id (clients_list s ! i)) (fr_valid_crc_update (\<lambda>_. b)) (db_files s)\<rparr>))"
| act_drop: "i < length (clients_list s) \<Longrightarrow> j < length (sc_files (clients_list s ! i)) \<Longrightarrow>
    x = sc_files (clients_list s ! i) ! j \<Longrightarrow> remove_path (disk s) (sf_path x) = Some d \<Longrightarrow>
    act P s (change_files i (\<lambda>fs. take j fs @ drop (Suc j) fs)
      (s\<lparr>disk := d, db_files := filter (\<lambda>r. fr_name r \<noteq> sf_name x) (db_files s)\<rparr>))"

abbreviation acts :: "'pk pycrypto \<Rightarrow> server \<Rightarrow> server \<Rightarrow> bool" where
  "acts P \<equiv> (act P)\<^sup>*\<^sup>*"

section \<open>Programs that only act\<close>

text \<open>
  Started where \<open>A\<close> holds, the program only acts, whether it returns or is stopped; when it returns,
  \<open>B\<close> holds of its value and of the state.
\<close>

definition does :: "'pk pycrypto \<Rightarrow> (server \<Rightarrow> bool) \<Rightarrow> 'a sprog \<Rightarrow> ('a \<Rightarrow> server \<Rightarrow> bool) \<Rightarrow> bool" where
  "does P A m B \<longleftrightarrow>
     (\<forall>s r s'. A s \<longrightarrow> m s = Some (r, s') \<longrightarrow> acts P s s' \<and> (\<forall>x. r = Inr x \<longrightarrow> B x s'))"

named_theorems does_rules "rules for programs that only act"

lemma bindP_cases:
  assumes "bindP m k s = Some (r, s')"
  obtains (Stop) e where "m s = Some (Inl e, s')" "r = Inl e"
  | (Go) x s1 where "m s = Some (Inr x, s1)" "k x s1 = Some (r, s')"
  using assms by (auto simp: bindP_def split: option.splits prod.splits sum.splits)

lemma catchP_cases:
  assumes "catchP m h s = Some (r, s')"
  obtains (Caught) e s1 where "m s = Some (Inl e, s1)" "h e s1 = Some (r, s')"
  | (Ok) x where "m s = Some (Inr x, s')" "r = Inr x"
  using assms by (auto simp: catchP_def split: option.splits prod.splits sum.splits)

lemma does_bind:
  assumes m: "does P A m B" and k: "\<And>x. does P (B x) (k x) C"
  shows "does P A (bindP m k) C"
  unfolding does_def
proof (intro allI impI)
  fix s r s' assume A: "A s" and run: "bindP m k s = Some (r, s')"
  from run show "acts P s s' \<and> (\<forall>x. r = Inr x \<longrightarrow> C x s')"
  proof (cases rule: bindP_cases)
    case (Stop e)
    then show ?thesis using m A by (auto simp: does_def)
  next
    case (Go x s1)
    then have "acts P s s1" "B x s1" using m A by (auto simp: does_def)
    then show ?thesis using k Go(2) by (auto simp: does_def intro: rtranclp_trans)
  qed
qed

lemma does_bind2:
  assumes "does P A (bindP m l) B" and "\<And>y. does P (B y) (k y) C"
  shows "does P A (bindP m (\<lambda>x. bindP (l x) k)) C"
  using does_bind [OF assms] by (simp add: bind_assocP)

lemma does_catch:
  assumes m: "does P A m B" and h: "\<And>e. does P (\<lambda>_. True) (h e) B"
  shows "does P A (catchP m h) B"
  unfolding does_def
proof (intro allI impI)
  fix s r s' assume A: "A s" and run: "catchP m h s = Some (r, s')"
  from run show "acts P s s' \<and> (\<forall>x. r = Inr x \<longrightarrow> B x s')"
  proof (cases rule: catchP_cases)
    case (Caught e s1)
    then have "acts P s s1" using m A by (auto simp: does_def)
    then show ?thesis using h Caught(2) by (auto simp: does_def intro: rtranclp_trans)
  next
    case (Ok x)
    then show ?thesis using m A by (auto simp: does_def)
  qed
qed

lemma does_pre: "does P A m B \<Longrightarrow> (\<And>s. A' s \<Longrightarrow> A s) \<Longrightarrow> does P A' m B"
  by (auto simp: does_def)

lemma does_post: "does P A m B \<Longrightarrow> (\<And>x s. B x s \<Longrightarrow> B' x s) \<Longrightarrow> does P A m B'"
  by (auto simp: does_def)

lemma does_here: "(\<And>s. A s \<Longrightarrow> does P (\<lambda>t. t = s) m B) \<Longrightarrow> does P A m B"
  by (auto simp: does_def)

lemma does_move:
  "m s = m' s' \<Longrightarrow> acts P s s' \<Longrightarrow> A s' \<Longrightarrow> does P A m' B \<Longrightarrow> does P (\<lambda>t. t = s) m B"
  by (auto simp: does_def intro: rtranclp_trans)

lemma does_ret [does_rules]: "(\<And>s. A s \<Longrightarrow> B x s) \<Longrightarrow> does P A (retP x) B"
  by (auto simp: does_def retP_def)

lemma does_throw [does_rules]: "does P A (throwP e) B"
  by (auto simp: does_def throwP_def)

lemma does_get: "(\<And>s. does P (\<lambda>t. t = s \<and> A s) (k (f s)) B) \<Longrightarrow> does P A (bindP (getP f) k) B"
  by (auto simp: does_def bindP_def getP_def)

lemma does_opt [does_rules]: "(\<And>s x. A s \<Longrightarrow> v = Some x \<Longrightarrow> B x s) \<Longrightarrow> does P A (optP e v) B"
  by (auto simp: does_def optP_def retP_def throwP_def split: option.splits)

lemma does_guard [does_rules]: "(\<And>s. A s \<Longrightarrow> b \<Longrightarrow> B () s) \<Longrightarrow> does P A (guardP b e) B"
  by (auto simp: does_def guardP_def retP_def throwP_def split: if_splits)

lemma does_act: "(\<And>s. A s \<Longrightarrow> act P s (f s) \<and> B () (f s)) \<Longrightarrow> does P A (modP f) B"
  by (auto simp: does_def modP_def)

text \<open>Assertions on the shared data that the input and output leave alone.\<close>

definition data_only :: "(server \<Rightarrow> bool) \<Rightarrow> bool" where
  "data_only A \<longleftrightarrow> (\<forall>s s'. clients_list s' = clients_list s \<longrightarrow> A s \<longrightarrow> A s')"

lemma does_io:
  assumes "data_only A" and "\<And>s r s'. m s = Some (r, s') \<Longrightarrow> same_data s s'"
  shows "does P A m (\<lambda>_. A)"
  using assms by (fastforce simp: does_def data_only_def same_data_def intro: act_io)

lemma does_fact: "(Q \<Longrightarrow> does P A m B) \<Longrightarrow> does P (\<lambda>s. A s \<and> Q) m B"
  by (auto simp: does_def)

lemma recv_cases:
  assumes "recv n s = Some (r, s')"
  shows "same_data s s' \<and> (\<forall>b. r = Inr b \<longrightarrow> length b \<le> nat n)"
  using assms by (auto simp: recv_def throwP_def retP_def divergeP_def same_data_def Let_def split: if_splits)

lemma does_recv [does_rules]: "data_only A \<Longrightarrow> does P A (recv n) (\<lambda>_. A)"
  by (rule does_io) (auto dest: recv_cases)

lemma decode_cases:
  assumes "decode_name b s = Some (r, s')"
  shows "same_data s s' \<and> (\<forall>x. r = Inr x \<longrightarrow> 0 \<notin> set x \<and> length x \<le> length b)"
  using assms by (auto simp: decode_name_def throwP_def retP_def same_data_def strip_nul_def split: if_splits)

lemma does_decode [does_rules]: "data_only A \<Longrightarrow> does P A (decode_name b) (\<lambda>_. A)"
  by (rule does_io) (auto dest: decode_cases)

text \<open>Reading \<open>n\<close> bytes gives at most \<open>n\<close>; decoding the field of a name gives a name.\<close>

lemma does_bind_recv:
  assumes "data_only A" and "\<And>b. length b \<le> nat n \<Longrightarrow> does P A (k b) C"
  shows "does P A (bindP (recv n) k) C"
proof -
  have "does P A (recv n) (\<lambda>b s. A s \<and> length b \<le> nat n)"
    using does_recv [OF assms(1), of P n] by (auto simp: does_def dest: recv_cases)
  then show ?thesis by (rule does_bind) (rule does_fact [OF assms(2)])
qed

lemma does_bind_name:
  assumes "data_only A" and "length b \<le> 255" and "\<And>x. wire_name x \<Longrightarrow> does P A (k x) C"
  shows "does P A (bindP (decode_name b) k) C"
proof -
  have "does P A (decode_name b) (\<lambda>x s. A s \<and> wire_name x)"
    using does_decode [OF assms(1), of P b] assms(2)
    by (fastforce simp: does_def wire_name_def dest: decode_cases)
  then show ?thesis by (rule does_bind) (rule does_fact [OF assms(3)])
qed

lemma does_bind_field:
  assumes "\<And>x. wire_name x \<Longrightarrow> does P (\<lambda>_. True) (k x) C"
  shows "does P (\<lambda>_. True) (bindP (recv 255) (\<lambda>b. bindP (decode_name b) k)) C"
  by (intro does_bind_recv does_bind_name assms) (simp_all add: data_only_def)

lemma does_sendall [does_rules]: "data_only A \<Longrightarrow> does P A (sendall b) (\<lambda>_. A)"
  by (rule does_io) (auto simp: sendall_def modP_def same_data_def)

lemma does_draw [does_rules]: "data_only A \<Longrightarrow> does P A (draw f) (\<lambda>_. A)"
  by (rule does_io) (auto simp: draw_def same_data_def)

lemma does_clean [does_rules]: "data_only A \<Longrightarrow> does P A clean_buffer (\<lambda>_. A)"
  by (rule does_io) (auto simp: clean_buffer_def modP_def same_data_def)

lemma does_header [does_rules]:
  assumes "data_only A"
  shows "does P A (send_header_to_client code n) (\<lambda>_. A)"
  by (rule does_io [OF assms])
    (auto simp: send_header_to_client_def bindP_def sendall_def modP_def optP_def throwP_def retP_def same_data_def
      split: option.splits)


section \<open>The operations of the handlers\<close>

text \<open>Position \<open>i\<close> holds a client that agrees with \<open>c\<close> on all a handler reads from it.\<close>

definition client_at :: "nat \<Rightarrow> sclient \<Rightarrow> server \<Rightarrow> bool" where
  "client_at i c s \<longleftrightarrow> i < length (clients_list s) \<and>
     sc_id (clients_list s ! i) = sc_id c \<and> sc_name (clients_list s ! i) = sc_name c \<and>
     sc_files (clients_list s ! i) = sc_files c"

definition has_client :: "nat \<Rightarrow> server \<Rightarrow> bool" where
  "has_client i s \<longleftrightarrow> i < length (clients_list s)"

definition path_at :: "nat \<Rightarrow> bytes \<Rightarrow> server \<Rightarrow> bool" where
  "path_at i path s \<longleftrightarrow>
     i < length (clients_list s) \<and> path \<in> sf_path ` set (sc_files (clients_list s ! i))"

lemma data_only_assertions [does_rules]:
  "data_only (client_at i c)" "data_only (has_client i)" "data_only (path_at i p)" "data_only (\<lambda>_. True)"
  by (auto simp: data_only_def client_at_def has_client_def path_at_def)

lemma client_at_has: "client_at i c s \<Longrightarrow> has_client i s"
  by (simp add: client_at_def has_client_def)

lemma does_search:
  assumes "\<And>cs. \<forall>c \<in> set cs. \<not> p c \<Longrightarrow> does P (\<lambda>s. clients_list s = cs) (none cs) B"
    and "\<And>cs i. i < length cs \<Longrightarrow> p (cs ! i) \<Longrightarrow> does P (client_at i (cs ! i)) (some cs i) B"
  shows "does P (\<lambda>_. True) (bindP (getP clients_list) (\<lambda>cs.
    case first_index p cs of None \<Rightarrow> none cs | Some i \<Rightarrow> some cs i)) B"
proof (rule does_get)
  fix s
  show "does P (\<lambda>t. t = s \<and> True)
      (case first_index p (clients_list s) of None \<Rightarrow> none (clients_list s) | Some i \<Rightarrow> some (clients_list s) i) B"
  proof (cases "first_index p (clients_list s)")
    case None
    with assms(1) [of "clients_list s"] have "does P (\<lambda>t. clients_list t = clients_list s) (none (clients_list s)) B"
      by (simp add: first_index_None)
    then show ?thesis unfolding None option.case by (rule does_pre) simp
  next
    case (Some i)
    have "does P (client_at i (clients_list s ! i)) (some (clients_list s) i) B"
      using first_index_Some [OF Some] by (intro assms(2)) simp_all
    then show ?thesis
      unfolding Some option.case by (rule does_pre) (use first_index_Some [OF Some] in \<open>simp add: client_at_def\<close>)
  qed
qed

lemma does_last_seen: "does P (client_at i c) (last_seen i c) (\<lambda>_. client_at i c)"
proof -
  have run: "last_seen i c s = Some (Inr (),
      (change_client i (sc_last_seen_update (\<lambda>_. clock s + 1)) (cr_last_seen_update (\<lambda>_. clock s)) s)\<lparr>clock := clock s + 2\<rparr>)"
    if "client_at i c s" for s
    using that srun_last_seen [of i c retP s]
    by (simp add: change_client_def client_at_def last_seen_def bindP_def retP_def set_lastseen_date_def datetime_now_def
        modP_def mod_client_def)
  show ?thesis
    unfolding does_def
  proof (intro allI impI)
    fix s r s' assume c: "client_at i c s" and "last_seen i c s = Some (r, s')"
    then have s': "s' = (change_client i (sc_last_seen_update (\<lambda>_. clock s + 1)) (cr_last_seen_update (\<lambda>_. clock s)) s)\<lparr>clock := clock s + 2\<rparr>"
      by (simp add: run)
    have "act P s (change_client i (sc_last_seen_update (\<lambda>_. clock s + 1)) (cr_last_seen_update (\<lambda>_. clock s)) s)"
      using c by (intro act_seen) (simp add: client_at_def)
    moreover have "act P (change_client i (sc_last_seen_update (\<lambda>_. clock s + 1)) (cr_last_seen_update (\<lambda>_. clock s)) s) s'"
      by (rule act_io) (simp add: s' same_data_def)
    ultimately show "acts P s s' \<and> (\<forall>x. r = Inr x \<longrightarrow> client_at i c s')"
      using c by (auto simp: s' client_at_def change_client_def)
  qed
qed

lemma does_encrypt: "data_only A \<Longrightarrow> does P A (encrypt_by_public_key Q pk key) (\<lambda>_. A)"
  by (rule does_io)
    (auto simp: encrypt_by_public_key_def bindP_def optP_def throwP_def retP_def draw_def same_data_def
      split: option.splits)

lemma does_create_send_aes: "does Q (has_client i) (create_send_aes Q code i) (\<lambda>_. has_client i)"
proof -
  let ?tail = "\<lambda>key pk cid.
      bindP (modP (change_client i (sc_aes_key_update (\<lambda>_. key)) (cr_aes_key_update (\<lambda>_. key)))) (\<lambda>_.
      bindP (encrypt_by_public_key Q pk key) (\<lambda>e.
      bindP (send_header_to_client code (16 + int (length e))) (\<lambda>_.
      bindP (sendall cid) (\<lambda>_. sendall e))))"
  have tail: "does Q (has_client i) (?tail (get_random_bytes Q m 32) pk cid) (\<lambda>_. has_client i)" for m pk cid
    by (intro does_bind [where B = "\<lambda>_. has_client i"] does_act does_encrypt does_rules)
      (auto simp: has_client_def change_client_def intro: act_aes_key [unfolded change_client_def])
  have run: "create_send_aes Q code i s = ?tail (get_random_bytes Q (entropy s) 32)
      (sc_public_key (clients_list s ! i)) (sc_id (clients_list s ! i)) (s\<lparr>entropy := entropy s + 1\<rparr>)"
    if "has_client i s" for s
    using that
    by (simp add: create_send_aes_def srun_draw mod_client_def srun_mod srun_get set_aes_key_def has_client_def
        change_client_def)
  show ?thesis
  proof (rule does_here)
    fix s assume c: "has_client i s"
    have "acts Q s (s\<lparr>entropy := entropy s + 1\<rparr>)"
      by (rule r_into_rtranclp, rule act_io) (simp add: same_data_def)
    then show "does Q (\<lambda>t. t = s) (create_send_aes Q code i) (\<lambda>_. has_client i)"
      using c
      by (intro does_move [where A = "has_client i" and s' = "s\<lparr>entropy := entropy s + 1\<rparr>"
            and m' = "?tail (get_random_bytes Q (entropy s) 32) (sc_public_key (clients_list s ! i)) (sc_id (clients_list s ! i))"]
          run tail) (simp_all add: has_client_def)
  qed
qed

lemma does_public_key:
  assumes "sc_id c = cid" and "length key \<le> 160"
  shows "does P (client_at i c) (bindP (mod_client i (sc_public_key_update (\<lambda>_. key))) (\<lambda>_. set_public_key key cid))
    (\<lambda>_. client_at i c)"
proof -
  have run: "bindP (mod_client i (sc_public_key_update (\<lambda>_. key))) (\<lambda>_. set_public_key key cid) s
      = Some (Inr (), change_client i (sc_public_key_update (\<lambda>_. key)) (cr_public_key_update (\<lambda>_. key)) s)"
    if "client_at i c s" for s
    using that assms by (simp add: mod_client_def srun_mod set_public_key_def modP_def change_client_def client_at_def)
  show ?thesis
    unfolding does_def
    using assms(2)
    by (auto simp: run intro!: r_into_rtranclp act_public_key) (auto simp: client_at_def change_client_def)
qed

lemma does_public_key_request: "does P (\<lambda>_. True) (send_public_key_request_826 P r) (\<lambda>_ _. True)"
proof -
  have after: "does P (client_at i c)
      (bindP (mod_client i (sc_public_key_update (\<lambda>_. key))) (\<lambda>_.
       bindP (set_public_key key (sc_id c)) (\<lambda>_.
       bindP (last_seen i c) (\<lambda>_.
       create_send_aes P 1602 i)))) (\<lambda>_ _. True)" if "length key \<le> 160" for i c key
    using that
    by (intro does_bind2 [where B = "\<lambda>_. client_at i c"] does_bind [where B = "\<lambda>_. client_at i c"]
        does_public_key does_last_seen does_post [OF does_pre [OF does_create_send_aes client_at_has]]) simp_all
  have found: "does P (client_at i c)
      (bindP (check_id (sr_client_id r) (sc_id c)) (\<lambda>_.
       bindP (recv 160) (\<lambda>key.
       bindP (mod_client i (sc_public_key_update (\<lambda>_. key))) (\<lambda>_.
       bindP (set_public_key key (sc_id c)) (\<lambda>_.
       bindP (last_seen i c) (\<lambda>_.
       create_send_aes P 1602 i)))))) (\<lambda>_ _. True)" for i c
    unfolding check_id_def
    by (intro does_bind [where B = "\<lambda>_. client_at i c"] does_bind_recv after does_rules) simp_all
  show ?thesis
    unfolding send_public_key_request_826_def
    by (intro does_bind_field does_search does_throw found)
qed

lemma does_reply: "does P A (bindP (send_header_to_client code n) (\<lambda>_. sendall b)) (\<lambda>_ _. True)"
  by (rule does_pre [of P "\<lambda>_. True"])
    (intro does_bind [where B = "\<lambda>_ _. True"] does_rules TrueI)+

lemma does_reconnection: "does P (\<lambda>_. True) (reconnection_request_827 P r) (\<lambda>_ _. True)"
proof -
  have found: "does P (client_at i c)
      (bindP (check_id (sr_client_id r) (sc_id c)) (\<lambda>_.
       bindP (last_seen i c) (\<lambda>_.
       case import_key P (sc_public_key c) of
         None \<Rightarrow> bindP (send_header_to_client 1606 16) (\<lambda>_. sendall (sc_id c))
       | Some _ \<Rightarrow> create_send_aes P 1605 i))) (\<lambda>_ _. True)" for i c
    unfolding check_id_def
    by (intro does_bind [where B = "\<lambda>_. client_at i c"] does_last_seen does_rules)
      (auto split: option.splits intro!: does_bind [where B = "\<lambda>_ _. True"] does_rules
        intro: does_post [OF does_pre [OF does_create_send_aes client_at_has]] does_post [OF does_header] does_pre)
  show ?thesis
    unfolding reconnection_request_827_def
    by (intro does_bind_field does_search does_reply found)
qed

lemma new_sclient_cases:
  assumes "new_sclient Q n s = Some (r, s')"
  shows "(\<exists>e. r = Inl e \<and> same_data s s') \<or>
    (\<exists>d. r = Inr (new_client_object Q n s) \<and> dir_made n (disk s) d \<and>
       s' = s\<lparr>entropy := entropy s + 1, clock := clock s + 1, disk := d\<rparr>)"
  using assms
  by (auto simp: new_sclient_def draw_def datetime_now_def dir_made_def new_client_object_def on_disk_def
      same_data_def bindP_def optP_def getP_def retP_def throwP_def modP_def split: if_splits option.splits)

definition enrol :: "'pk pycrypto \<Rightarrow> bytes \<Rightarrow> sclient sprog" where
  "enrol P n = bindP (new_sclient P n) (\<lambda>c.
     bindP (modP (\<lambda>s. s\<lparr>clients_list := clients_list s @ [c]\<rparr>)) (\<lambda>_.
     bindP (add_client_db c) (\<lambda>_. retP c)))"

lemma enrol_cases:
  assumes "enrol P n s = Some (r, s')"
  shows "same_data s s' \<or> (\<exists>d. dir_made n (disk s) d \<and>
     (if uuid4_bytes P (entropy s) \<in> cr_id ` set (db_clients s) then s' = enrolled_in P n d s
      else s' = enrolled_in P n d s\<lparr>db_clients := db_clients s @ [row_of_client (new_client_object P n s)]\<rparr>))"
  using assms unfolding enrol_def
proof (cases rule: bindP_cases)
  case (Stop e)
  then show ?thesis using new_sclient_cases [OF Stop(1)] by auto
next
  case (Go x s1)
  have id: "sc_id (new_client_object P n s) = uuid4_bytes P (entropy s)" by (simp add: new_client_object_def)
  obtain d where x: "x = new_client_object P n s" "dir_made n (disk s) d"
    "s1 = s\<lparr>entropy := entropy s + 1, clock := clock s + 1, disk := d\<rparr>"
    using new_sclient_cases [OF Go(1)] by auto
  have "s' = (if uuid4_bytes P (entropy s) \<in> cr_id ` set (db_clients s) then enrolled_in P n d s
      else enrolled_in P n d s\<lparr>db_clients := db_clients s @ [row_of_client (new_client_object P n s)]\<rparr>)"
    using Go(2) unfolding x srun_mod
    by (auto simp: id add_client_db_def bindP_def getP_def db_insert_client_def optP_def throwP_def retP_def
        modP_def enrolled_in_def row_of_client_def split: if_splits)
  with x(2) show ?thesis by (intro disjI2 exI [of _ d]) simp
qed

lemma does_enrol: "wire_name n \<Longrightarrow> does P (\<lambda>s. n \<notin> sc_name ` set (clients_list s)) (enrol P n) (\<lambda>_ _. True)"
  unfolding does_def
proof (intro allI impI)
  fix s r s' assume n: "wire_name n" and fresh: "n \<notin> sc_name ` set (clients_list s)" and run: "enrol P n s = Some (r, s')"
  from enrol_cases [OF run] have "act P s s'"
  proof (elim disjE exE conjE)
    fix d assume d: "dir_made n (disk s) d"
      and s': "if uuid4_bytes P (entropy s) \<in> cr_id ` set (db_clients s) then s' = enrolled_in P n d s
        else s' = enrolled_in P n d s\<lparr>db_clients := db_clients s @ [row_of_client (new_client_object P n s)]\<rparr>"
    show "act P s s'"
      using s' act_enroll_clash [OF n fresh d] act_enroll [OF n fresh d] by (simp split: if_splits)
  qed (rule act_io)
  then show "acts P s s' \<and> (\<forall>x. r = Inr x \<longrightarrow> True)" by blast
qed

lemma does_registration: "does P (\<lambda>_. True) (registration_request_825 P) (\<lambda>_ _. True)"
proof -
  have regroup: "bindP (new_sclient P n) (\<lambda>c.
      bindP (modP (\<lambda>s. s\<lparr>clients_list := clients_list s @ [c]\<rparr>)) (\<lambda>_.
      bindP (add_client_db c) (\<lambda>_. k c))) = bindP (enrol P n) k" for n and k :: "sclient \<Rightarrow> unit sprog"
  proof -
    have "bindP (retP x) k = k x" for x :: sclient by (rule ext) (rule run_bind)
    then show ?thesis by (simp add: enrol_def bind_assocP)
  qed
  have taken: "does P (client_at i c) (bindP (last_seen i c) (\<lambda>_. throwP ValueError)) (\<lambda>_ _. True)" for i c
    by (intro does_bind [OF does_last_seen] does_throw)
  have new: "does P (\<lambda>s. clients_list s = cs) (bindP (enrol P n) (\<lambda>c.
      bindP (send_header_to_client 1600 16) (\<lambda>_. sendall (sc_id c)))) (\<lambda>_ _. True)"
    if "\<forall>c \<in> set cs. sc_name c \<noteq> n" "wire_name n" for n cs
    by (rule does_bind [OF does_pre [OF does_enrol] does_reply]) (use that in auto)
  show ?thesis
    unfolding registration_request_825_def regroup
    by (intro does_bind_field does_search new taken)
qed

section \<open>Files\<close>

text \<open>\<open>g\<close> writes a file at \<open>path\<close>, if it does anything.\<close>

definition writes :: "(disk \<Rightarrow> disk option) \<Rightarrow> bytes \<Rightarrow> bool" where
  "writes g path \<longleftrightarrow> (\<forall>d d'. g d = Some d' \<longrightarrow>
     (\<exists>p b. resolve d path = Some p \<and> \<not> is_dir d p \<and> d' = d(p \<mapsto> Regular b)))"

lemma writesD:
  assumes "writes g path" and "g d = Some d'"
  obtains p b where "resolve d path = Some p" "\<not> is_dir d p" "d' = d(p \<mapsto> Regular b)"
  using assms unfolding writes_def by metis

lemma writes_write: "writes (\<lambda>d. write_path d path b) path"
  by (auto simp: writes_def write_path_def split: option.splits if_splits)

lemma writes_append: "writes (\<lambda>d. append_path d path b) path"
  by (auto simp: writes_def append_path_def split: option.splits if_splits)

lemma on_disk_cases:
  assumes "on_disk g s = Some (r, s')"
  shows "s' = s \<or> (\<exists>d. g (disk s) = Some d \<and> s' = s\<lparr>disk := d\<rparr>)"
  using assms
  by (auto simp: on_disk_def bindP_def getP_def optP_def throwP_def retP_def modP_def split: option.splits)

lemma data_only_disk: "data_only A \<Longrightarrow> A s \<Longrightarrow> A (s\<lparr>disk := d\<rparr>)"
  by (simp add: data_only_def)

lemma does_store:
  assumes "writes g (file_path (sc_name c) f)"
  shows "does P (client_at i c) (on_disk g) (\<lambda>_. client_at i c)"
  unfolding does_def
proof (intro allI impI)
  fix s r s' assume c: "client_at i c s" and run: "on_disk g s = Some (r, s')"
  have "acts P s s' \<and> client_at i c s'"
    using on_disk_cases [OF run]
  proof (elim disjE exE conjE)
    fix d assume d: "g (disk s) = Some d" "s' = s\<lparr>disk := d\<rparr>"
    obtain p b where p: "resolve (disk s) (file_path (sc_name c) f) = Some p" "\<not> is_dir (disk s) p"
      "d = (disk s)(p \<mapsto> Regular b)"
      by (rule writesD [OF assms d(1)])
    have "act P s s'"
      unfolding d(2) p(3) by (rule act_store [of i _ f]) (use c p in \<open>simp_all add: client_at_def\<close>)
    moreover have "client_at i c s'"
      unfolding d(2) by (rule data_only_disk [OF data_only_assertions(1) c])
    ultimately show ?thesis by blast
  qed (use c in simp)
  then show "acts P s s' \<and> (\<forall>x. r = Inr x \<longrightarrow> client_at i c s')" by blast
qed

lemma does_rewrite:
  assumes "writes g path"
  shows "does P (path_at i path) (on_disk g) (\<lambda>_ _. True)"
  unfolding does_def
proof (intro allI impI)
  fix s r s' assume c: "path_at i path s" and run: "on_disk g s = Some (r, s')"
  have "acts P s s'"
    using on_disk_cases [OF run]
  proof (elim disjE exE conjE)
    fix d assume d: "g (disk s) = Some d" "s' = s\<lparr>disk := d\<rparr>"
    obtain p b where p: "resolve (disk s) path = Some p" "\<not> is_dir (disk s) p" "d = (disk s)(p \<mapsto> Regular b)"
      by (rule writesD [OF assms d(1)])
    obtain x where x: "x \<in> set (sc_files (clients_list s ! i))" "sf_path x = path" using c by (auto simp: path_at_def)
    have "act P s s'"
      unfolding d(2) p(3) by (rule act_decrypt [of i _ x]) (use c p x in \<open>simp_all add: path_at_def\<close>)
    then show ?thesis by blast
  qed simp
  then show "acts P s s' \<and> (\<forall>x. r = Inr x \<longrightarrow> True)" by blast
qed

lemma does_add_file:
  assumes w: "wire_name f" and f: "f \<notin> sf_name ` set (sc_files c)" and x: "x = file_object c f"
  shows "does P (client_at i c)
    (bindP (add_file_db x) (\<lambda>_. mod_client i (\<lambda>c. c\<lparr>sc_files := sc_files c @ [x]\<rparr>))) (\<lambda>_. path_at i (sf_path x))"
proof -
  have run: "bindP (add_file_db x) (\<lambda>_. mod_client i (\<lambda>c. c\<lparr>sc_files := sc_files c @ [x]\<rparr>)) s =
      (if (sc_id c, f) \<in> row_key ` set (db_files s) then Some (Inl IntegrityError, s)
       else Some (Inr (), change_files i (\<lambda>fs. fs @ [x]) (s\<lparr>db_files := db_files s @ [file_row_of x]\<rparr>)))" for s
    by (simp add: add_file_db_def bindP_def getP_def db_insert_file_def optP_def throwP_def retP_def modP_def
        mod_client_def change_files_def x file_object_def row_key_def [abs_def] file_row_of_def)
  have act: "act P s (change_files i (\<lambda>fs. fs @ [x]) (s\<lparr>db_files := db_files s @ [file_row_of x]\<rparr>))"
    if "client_at i c s" "(sc_id c, f) \<notin> row_key ` set (db_files s)" for s
  proof -
    have "file_object (clients_list s ! i) f = x" using that by (simp add: x file_object_def client_at_def)
    then show ?thesis using act_add_file [of i s f P] that f w by (simp add: client_at_def)
  qed
  have post: "path_at i (sf_path x) (change_files i (\<lambda>fs. fs @ [x]) (s\<lparr>db_files := db_files s @ [file_row_of x]\<rparr>))"
    if "client_at i c s" for s
    using that by (auto simp: path_at_def client_at_def change_files_def)
  show ?thesis
    unfolding does_def run using act post by (auto split: if_splits)
qed

lemma does_set_valid:
  assumes "sc_id c = cid" and "j < length (sc_files c)"
  shows "does P (client_at i c)
    (bindP (mod_file i j (sf_valid_crc_update (\<lambda>_. b))) (\<lambda>_. set_valid_crc cid b))
    (\<lambda>_. path_at i (sf_path (sc_files c ! j)))"
proof -
  have run: "bindP (mod_file i j (sf_valid_crc_update (\<lambda>_. b))) (\<lambda>_. set_valid_crc cid b) s = Some (Inr (),
      change_files i (\<lambda>fs. fs[j := (fs ! j)\<lparr>sf_valid_crc := b\<rparr>])
      (s\<lparr>db_files := db_update (\<lambda>r. fr_client_id r = cid) (fr_valid_crc_update (\<lambda>_. b)) (db_files s)\<rparr>))" for s
    by (simp add: mod_file_def mod_client_def srun_mod set_valid_crc_def modP_def change_files_def)
  have act: "act P s (change_files i (\<lambda>fs. fs[j := (fs ! j)\<lparr>sf_valid_crc := b\<rparr>])
      (s\<lparr>db_files := db_update (\<lambda>r. fr_client_id r = cid) (fr_valid_crc_update (\<lambda>_. b)) (db_files s)\<rparr>))"
    if "client_at i c s" for s
    using act_valid [of i s j P b] that assms by (simp add: client_at_def)
  have "sf_path (sc_files c ! j) \<in> sf_path ` set ((sc_files c)[j := (sc_files c ! j)\<lparr>sf_valid_crc := b\<rparr>])"
    using assms(2) by (intro image_eqI [where x = "(sc_files c ! j)\<lparr>sf_valid_crc := b\<rparr>"]) (simp_all add: set_update_memI)
  then show ?thesis
    unfolding does_def run using act by (auto simp: path_at_def client_at_def change_files_def)
qed

lemma does_drop:
  assumes j: "j < length (sc_files c)" and x: "x = sc_files c ! j"
  shows "does P (client_at i c)
    (bindP (on_disk (\<lambda>d. remove_path d (sf_path x))) (\<lambda>_.
     bindP (mod_client i (\<lambda>c. c\<lparr>sc_files := take j (sc_files c) @ drop (Suc j) (sc_files c)\<rparr>)) (\<lambda>_.
     delete_file (sf_name x)))) (\<lambda>_ _. True)"
  unfolding does_def
proof (intro allI impI)
  fix s r s'
  assume c: "client_at i c s" and run: "bindP (on_disk (\<lambda>d. remove_path d (sf_path x))) (\<lambda>_.
     bindP (mod_client i (\<lambda>c. c\<lparr>sc_files := take j (sc_files c) @ drop (Suc j) (sc_files c)\<rparr>)) (\<lambda>_.
     delete_file (sf_name x))) s = Some (r, s')"
  have all: "filter (\<lambda>r. fr_name r = f) t = [] \<Longrightarrow> filter (\<lambda>r. fr_name r \<noteq> f) t = t" for f and t :: "file_row list"
    by (metis (mono_tags, lifting) filter_True filter_empty_conv)
  have "s' = s \<or> (\<exists>d. remove_path (disk s) (sf_path x) = Some d \<and>
      s' = change_files i (\<lambda>fs. take j fs @ drop (Suc j) fs)
      (s\<lparr>disk := d, db_files := filter (\<lambda>r. fr_name r \<noteq> sf_name x) (db_files s)\<rparr>))"
    using run
    by (auto simp: on_disk_def bindP_def getP_def optP_def throwP_def retP_def modP_def mod_client_def delete_file_def
        change_files_def all split: option.splits if_splits)
  then have "acts P s s'"
  proof (elim disjE exE conjE)
    fix d assume d: "remove_path (disk s) (sf_path x) = Some d"
      and s': "s' = change_files i (\<lambda>fs. take j fs @ drop (Suc j) fs)
        (s\<lparr>disk := d, db_files := filter (\<lambda>r. fr_name r \<noteq> sf_name x) (db_files s)\<rparr>)"
    have "act P s s'"
      unfolding s' by (rule act_drop [OF _ _ _ d]) (use c j x in \<open>simp_all add: client_at_def\<close>)
    then show ?thesis by blast
  qed simp
  then show "acts P s s' \<and> (\<forall>x. r = Inr x \<longrightarrow> True)" by blast
qed

section \<open>Packets and verdicts\<close>

lemma does_store_packet:
  "wire_name f \<Longrightarrow> does P (client_at i c) (store_packet i c num f content) (\<lambda>x. path_at i (sf_path x))"
proof -
  assume w: "wire_name f"
  have stored: "does P (client_at i c)
      (if num = 1 then on_disk (\<lambda>d. write_path d (file_path (sc_name c) f) content)
       else on_disk (\<lambda>d. append_path d (file_path (sc_name c) f) content)) (\<lambda>_. client_at i c)"
    by (auto intro: does_store [OF writes_write] does_store [OF writes_append])
  have old: "does P (client_at i c)
      (bindP (if num = 1 then
                bindP (mod_file i j (sf_valid_crc_update (\<lambda>_. False))) (\<lambda>_. set_valid_crc (sc_id c) False)
              else retP ()) (\<lambda>_. retP (sc_files c ! j))) (\<lambda>x. path_at i (sf_path x))"
    if "j < length (sc_files c)" for j
  proof (rule does_bind [where B = "\<lambda>_. path_at i (sf_path (sc_files c ! j))"])
    show "does P (client_at i c)
      (if num = 1 then bindP (mod_file i j (sf_valid_crc_update (\<lambda>_. False))) (\<lambda>_. set_valid_crc (sc_id c) False)
       else retP ()) (\<lambda>_. path_at i (sf_path (sc_files c ! j)))"
      using that by (auto simp: path_at_def client_at_def intro!: does_set_valid does_ret)
  qed (rule does_ret)
  have new: "does P (client_at i c)
      (bindP (add_file_db x) (\<lambda>_.
       bindP (mod_client i (\<lambda>c. c\<lparr>sc_files := sc_files c @ [x]\<rparr>)) (\<lambda>_. retP x))) (\<lambda>x. path_at i (sf_path x))"
    if "f \<notin> sf_name ` set (sc_files c)" and "x = file_object c f" for x
    by (rule does_bind2 [OF does_add_file [OF w that]]) (rule does_ret)
  show ?thesis
    unfolding store_packet_def Let_def
  proof (rule does_bind [OF stored does_bind [OF does_last_seen]])
    fix x y
    show "does P (client_at i c) (case first_index (\<lambda>x. sf_name x = f) (sc_files c) of
        None \<Rightarrow> if num \<noteq> 1 then throwP ValueError
          else bindP (add_file_db \<lparr>sf_client_id = sc_id c, sf_name = f, sf_path = file_path (sc_name c) f, sf_valid_crc = False\<rparr>) (\<lambda>_.
            bindP (mod_client i (\<lambda>ca. ca\<lparr>sc_files := sc_files ca @
              [\<lparr>sf_client_id = sc_id c, sf_name = f, sf_path = file_path (sc_name c) f, sf_valid_crc = False\<rparr>]\<rparr>)) (\<lambda>_.
            retP \<lparr>sf_client_id = sc_id c, sf_name = f, sf_path = file_path (sc_name c) f, sf_valid_crc = False\<rparr>))
      | Some j \<Rightarrow> bindP (if num = 1 then
            bindP (mod_file i j (sf_valid_crc_update (\<lambda>_. False))) (\<lambda>_. set_valid_crc (sc_id c) False)
          else retP ()) (\<lambda>_. retP (sc_files c ! j))) (\<lambda>x. path_at i (sf_path x))"
    proof (cases "first_index (\<lambda>x. sf_name x = f) (sc_files c)")
      case None
      then have "f \<notin> sf_name ` set (sc_files c)" by (auto simp: first_index_None)
      then show ?thesis unfolding None option.case by (simp add: does_throw new file_object_def)
    next
      case (Some j)
      then show ?thesis unfolding Some option.case using first_index_Some [OF Some] by (intro old) simp
    qed
  qed
qed

lemma does_decrypt: "does P (path_at i path) (create_decrypted_file Q path key) (\<lambda>_ _. True)"
proof -
  have read: "does P (path_at i path) (open_read path) (\<lambda>_. path_at i path)"
    by (rule does_io [OF data_only_assertions(3)])
      (auto simp: open_read_def bindP_def getP_def optP_def throwP_def retP_def same_data_def split: option.splits)
  show ?thesis
    unfolding create_decrypted_file_def
    by (rule does_bind [OF read does_bind [OF does_opt [where B = "\<lambda>_. path_at i path"]
        does_bind [OF does_opt [where B = "\<lambda>_. path_at i path"]
          does_bind [OF does_rewrite [OF writes_write] does_ret]]]]) simp_all
qed

lemma does_last_packet: "does P (path_at i (sf_path x)) (last_packet Q x c csize osize) (\<lambda>_ _. True)"
proof -
  have reply: "does P (\<lambda>_. True) (bindP (send_header_to_client 1603 279) (\<lambda>_.
      bindP (sendall cid) (\<lambda>_.
      bindP (optP ValueError b) (\<lambda>size_bytes.
      bindP (sendall size_bytes) (\<lambda>_.
      bindP (sendall name) (\<lambda>_.
      bindP (optP ValueError e) sendall)))))) (\<lambda>_ _. True)" for cid b name e
    by (intro does_bind [where B = "\<lambda>_ _. True"] does_rules TrueI)
  show ?thesis
    unfolding last_packet_def Let_def
    by (rule does_bind [OF does_decrypt]) (use reply does_throw in auto)
qed

lemma does_send_file: "does P (\<lambda>_. True) (send_file_request_828 Q r) (\<lambda>_ _. True)"
proof -
  have found: "does P (client_at i c) (bindP (store_packet i c num f content) (\<lambda>x.
      if num = tot then last_packet Q x c csize osize else retP ())) (\<lambda>_ _. True)"
    if "wire_name f" for i c num f content tot csize osize
    by (rule does_bind [OF does_store_packet [OF that]]) (auto intro: does_last_packet does_ret)
  show ?thesis
    unfolding send_file_request_828_def Let_def
    by (intro does_bind_field does_bind_recv [OF data_only_assertions(4)] does_search does_throw found)
qed

lemma does_crc_response: "does P (\<lambda>_. True) (crc_response_900_901_902 r) (\<lambda>_ _. True)"
proof -
  have valid: "does P (client_at i c)
      (bindP (mod_file i j (sf_valid_crc_update (\<lambda>_. True))) (\<lambda>_.
       bindP (set_valid_crc (sc_id c) True) (\<lambda>_. thank_you_answer (sc_id c)))) (\<lambda>_ _. True)"
    if "j < length (sc_files c)" for i c j
    unfolding thank_you_answer_def by (rule does_bind2 [OF does_set_valid does_reply]) (simp_all add: that)
  have drop: "does P (client_at i c)
      (bindP (on_disk (\<lambda>d. remove_path d (sf_path x))) (\<lambda>_.
       bindP (mod_client i (\<lambda>c. c\<lparr>sc_files := take j (sc_files c) @ drop (Suc j) (sc_files c)\<rparr>)) (\<lambda>_.
       bindP (delete_file f) (\<lambda>_. thank_you_answer (sc_id c))))) (\<lambda>_ _. True)"
    if "j < length (sc_files c)" "x = sc_files c ! j" "f = sf_name x" for i c j x f
    using does_bind [OF does_drop [OF that(1,2)] does_reply] unfolding thank_you_answer_def that(3)
    by (simp add: bind_assocP)
  have found: "does P (client_at i c) (bindP (last_seen i c) (\<lambda>_.
      case first_index (\<lambda>f. sf_name f = file_name) (sc_files c) of
        None \<Rightarrow> throwP ValueError
      | Some j \<Rightarrow>
          (if sf_valid_crc (sc_files c ! j) then throwP ValueError
           else if sr_code r = 900 then
             bindP (mod_file i j (sf_valid_crc_update (\<lambda>_. True))) (\<lambda>_.
             bindP (set_valid_crc (sc_id c) True) (\<lambda>_. thank_you_answer (sc_id c)))
           else if sr_code r = 902 then
             bindP (on_disk (\<lambda>d. remove_path d (sf_path (sc_files c ! j)))) (\<lambda>_.
             bindP (mod_client i (\<lambda>c. c\<lparr>sc_files := take j (sc_files c) @ drop (Suc j) (sc_files c)\<rparr>)) (\<lambda>_.
             bindP (delete_file file_name) (\<lambda>_. thank_you_answer (sc_id c))))
           else retP ()))) (\<lambda>_ _. True)" for i c file_name
  proof (rule does_bind [OF does_last_seen])
    show "does P (client_at i c) (case first_index (\<lambda>f. sf_name f = file_name) (sc_files c) of
        None \<Rightarrow> throwP ValueError
      | Some j \<Rightarrow>
          (if sf_valid_crc (sc_files c ! j) then throwP ValueError
           else if sr_code r = 900 then
             bindP (mod_file i j (sf_valid_crc_update (\<lambda>_. True))) (\<lambda>_.
             bindP (set_valid_crc (sc_id c) True) (\<lambda>_. thank_you_answer (sc_id c)))
           else if sr_code r = 902 then
             bindP (on_disk (\<lambda>d. remove_path d (sf_path (sc_files c ! j)))) (\<lambda>_.
             bindP (mod_client i (\<lambda>c. c\<lparr>sc_files := take j (sc_files c) @ drop (Suc j) (sc_files c)\<rparr>)) (\<lambda>_.
             bindP (delete_file file_name) (\<lambda>_. thank_you_answer (sc_id c))))
           else retP ())) (\<lambda>_ _. True)" for x
    proof (cases "first_index (\<lambda>f. sf_name f = file_name) (sc_files c)")
      case (Some j)
      then have "j < length (sc_files c)" "file_name = sf_name (sc_files c ! j)" using first_index_Some [OF Some] by auto
      then show ?thesis
        unfolding Some option.case using valid drop by (simp add: does_throw does_ret)
    qed (simp add: does_throw)
  qed
  show ?thesis
    unfolding crc_response_900_901_902_def Let_def
    by (intro does_bind_field does_search does_throw found)
qed

section \<open>One call of \<open>read\<close>\<close>

lemma does_error_reply: "does P (\<lambda>_. True) (bindP clean_buffer (\<lambda>_. send_header_to_client code n)) (\<lambda>_ _. True)"
  by (intro does_bind [where B = "\<lambda>_ _. True"] does_rules)

lemma does_handle: "does P (\<lambda>_. True) (handle_request P r) (\<lambda>_ _. True)"
  unfolding handle_request_def
  using does_catch [OF does_registration does_error_reply] does_reconnection does_public_key_request does_send_file
    does_crc_response does_throw
  by (auto simp: does_throw)

lemma does_getHeader: "does P (\<lambda>_. True) getHeader (\<lambda>_ _. True)"
proof -
  have "does P (\<lambda>_. True) (if b = [] then retP None else bindP (recv 1) (\<lambda>v. bindP (recv 2) (\<lambda>c. bindP (recv 4) (\<lambda>n.
      retP (Some \<lparr>sr_client_id = b, sr_version = convert_byte_to_int v, sr_code = convert_byte_to_int c,
        sr_payload_size = convert_byte_to_int n\<rparr>))))) (\<lambda>_ _. True)" for b
    by (simp add: does_ret) (intro conjI impI does_bind [OF does_recv [OF data_only_assertions(4)]] does_ret TrueI)
  then show ?thesis
    unfolding getHeader_def by (intro does_bind [OF does_recv [OF data_only_assertions(4)]])
qed

lemma does_server_read: "does P (\<lambda>_. True) (server_read P) (\<lambda>_ _. True)"
proof -
  have body: "does P (\<lambda>_. True) (case h of
      None \<Rightarrow> modP (\<lambda>s. s\<lparr>registered_conn := False\<rparr>)
    | Some r \<Rightarrow> bindP (header_validation r) (\<lambda>_. handle_request P r)) (\<lambda>_ _. True)" for h
  proof (cases h)
    case None
    then show ?thesis by (auto intro!: does_act act_io simp: same_data_def)
  next
    case (Some r)
    then show ?thesis
      unfolding Some option.case header_validation_def by (intro does_bind [OF does_guard does_handle] TrueI)
  qed
  show ?thesis
    unfolding server_read_def by (rule does_catch [OF does_bind [OF does_getHeader body] does_error_reply])
qed

lemma server_read_acts: "server_read P s = Some (r, s') \<Longrightarrow> acts P s s'"
  using does_server_read by (auto simp: does_def)

end
