(* ===== verification/Server_Loop.thy ===== *)
theory Server_Loop
  imports Server_Actions
begin

text \<open>
  The main loop of the server: several connections, the arrival of bytes, the calls of \<open>read\<close> and the
  restart of the program, as a step relation; and the contract by which an invariant of the actions
  becomes an invariant of the loop.
\<close>

section \<open>The connections\<close>

record connection =
  c_rx :: bytes
  c_tx :: bytes
  c_blocking :: bool
  c_peer_closed :: bool
  c_registered :: bool

text \<open>
  The server with a connection selected and the events that will happen on it during the call, and
  the connection it leaves.
\<close>

definition attach :: "connection \<Rightarrow> arrival list \<Rightarrow> server \<Rightarrow> server" where
  "attach c events s = s\<lparr>rx := c_rx c, tx := c_tx c, blocking := c_blocking c, peer_closed := c_peer_closed c,
     registered_conn := c_registered c, pending := events\<rparr>"

definition detach :: "server \<Rightarrow> connection" where
  "detach s = \<lparr>c_rx = rx s, c_tx = tx s, c_blocking = blocking s, c_peer_closed = peer_closed s,
     c_registered = registered_conn s\<rparr>"

text \<open>\<open>sel.select()\<close> reports a registered connection with input, or with its end of file.\<close>

definition readable :: "connection \<Rightarrow> bool" where
  "readable c \<longleftrightarrow> c_registered c \<and> (c_rx c \<noteq> [] \<or> c_peer_closed c)"

section \<open>The steps\<close>

record loop_state =
  connections :: "connection list"
  data :: server

text \<open>
  \<open>Serve\<close> is one call of \<open>read\<close>, which the loop does not interrupt; any events may happen on its
  connection meanwhile, between any two of its reads. \<open>Restart\<close> is the end of the program
  between two calls and its next start: the connections and the objects are gone, the tables and the
  disk stay.
\<close>

inductive loop_step :: "'pk pycrypto \<Rightarrow> loop_state \<Rightarrow> loop_state \<Rightarrow> bool" for P where
  Accept: "loop_step P st (st\<lparr>connections := connections st @ [detach (accept (data st))]\<rparr>)"
| Arrive: "i < length (connections st) \<Longrightarrow> \<not> c_peer_closed (connections st ! i) \<Longrightarrow>
    loop_step P st (st\<lparr>connections := (connections st)[i := (connections st ! i)\<lparr>c_rx := c_rx (connections st ! i) @ b\<rparr>]\<rparr>)"
| Close: "i < length (connections st) \<Longrightarrow>
    loop_step P st (st\<lparr>connections := (connections st)[i := (connections st ! i)\<lparr>c_peer_closed := True\<rparr>]\<rparr>)"
| Serve: "i < length (connections st) \<Longrightarrow> readable (connections st ! i) \<Longrightarrow>
    server_read P (attach (connections st ! i) events (data st)) = Some (r, s') \<Longrightarrow>
    loop_step P st \<lparr>connections = (connections st)[i := detach s'], data = s'\<rparr>"
| Restart: "data_base_handle P ((data st)\<lparr>clients_list := []\<rparr>) = Some (Inr (), s') \<Longrightarrow>
    loop_step P st \<lparr>connections = [], data = s'\<rparr>"

inductive reachable :: "'pk pycrypto \<Rightarrow> loop_state \<Rightarrow> loop_state \<Rightarrow> bool" for P st0 where
  reach_start: "reachable P st0 st0"
| reach_step: "reachable P st0 st \<Longrightarrow> loop_step P st st' \<Longrightarrow> reachable P st0 st'"

inductive_cases loop_stepE: "loop_step P st st'"

section \<open>Invariants of the actions are invariants of the loop\<close>

locale action_invariant =
  fixes P :: "'pk pycrypto" and I :: "server \<Rightarrow> bool"
  assumes keeps: "act P s s' \<Longrightarrow> I s \<Longrightarrow> I s'"
begin

lemma acts_keep: "acts P s s' \<Longrightarrow> I s \<Longrightarrow> I s'"
  by (induction rule: rtranclp_induct) (auto intro: keeps)

lemma read_keeps: "server_read P s = Some (r, s') \<Longrightarrow> I s \<Longrightarrow> I s'"
  by (blast intro: acts_keep server_read_acts)

lemma attach_keeps: "I s \<Longrightarrow> I (attach c events s)"
  by (rule keeps [OF act_io]) (simp_all add: attach_def same_data_def)

lemma serve_step_keeps:
  "server_read P (attach c events s) = Some (r, s') \<Longrightarrow> I s \<Longrightarrow> I s'"
  by (blast intro: read_keeps attach_keeps)

end

text \<open>An invariant that the restart keeps as well holds in every reachable state.\<close>

locale loop_invariant = action_invariant +
  assumes restart: "data_base_handle P (s\<lparr>clients_list := []\<rparr>) = Some (Inr (), s') \<Longrightarrow> I s \<Longrightarrow> I s'"
begin

lemma step_keeps: "loop_step P st st' \<Longrightarrow> I (data st) \<Longrightarrow> I (data st')"
  by (erule loop_stepE) (auto intro: serve_step_keeps restart)

lemma reachable_keeps:
  assumes "reachable P st0 st" and "I (data st0)"
  shows "I (data st)"
  using assms by induction (auto intro: step_keeps)

end

section \<open>The bookkeeping invariant\<close>

definition row_data :: "client_row \<Rightarrow> bytes \<times> bytes \<times> bytes \<times> bytes" where
  "row_data r = (cr_id r, cr_name r, cr_public_key r, cr_aes_key r)"

definition client_data :: "sclient \<Rightarrow> bytes \<times> bytes \<times> bytes \<times> bytes" where
  "client_data c = (sc_id c, sc_name c, sc_public_key c, sc_aes_key c)"

text \<open>The table of clients and the list of objects say the same, in the same order.\<close>

definition mirrored :: "server \<Rightarrow> bool" where
  "mirrored s \<longleftrightarrow> map row_data (db_clients s) = map client_data (clients_list s)"

text \<open>Names and ids tell clients apart, and all ids have been drawn.\<close>

definition identified :: "'pk pycrypto \<Rightarrow> server \<Rightarrow> bool" where
  "identified P s \<longleftrightarrow>
     distinct (map sc_name (clients_list s)) \<and> distinct (map sc_id (clients_list s)) \<and>
     (\<forall>c \<in> set (clients_list s). \<exists>n < entropy s. sc_id c = uuid4_bytes P n)"

text \<open>A file object belongs to its client, and its path is in the directory of this client.\<close>

definition owns :: "sclient \<Rightarrow> sfile \<Rightarrow> bool" where
  "owns c x \<longleftrightarrow> sf_client_id x = sc_id c \<and> sf_path x = file_path (sc_name c) (sf_name x)"

definition files_owned :: "sclient \<Rightarrow> bool" where
  "files_owned c \<longleftrightarrow> distinct (map sf_name (sc_files c)) \<and> (\<forall>x \<in> set (sc_files c). owns c x)"

text \<open>Every row of the table of files stands for a file object.\<close>

definition has_object :: "sclient list \<Rightarrow> file_row \<Rightarrow> bool" where
  "has_object cs r \<longleftrightarrow>
     (\<exists>c \<in> set cs. sc_id c = fr_client_id r \<and> fr_name r \<in> sf_name ` set (sc_files c) \<and>
        fr_path r = file_path (sc_name c) (fr_name r))"

definition rows_backed :: "server \<Rightarrow> bool" where
  "rows_backed s \<longleftrightarrow>
     distinct (map row_key (db_files s)) \<and> (\<forall>r \<in> set (db_files s). has_object (clients_list s) r)"

definition well_kept :: "'pk pycrypto \<Rightarrow> server \<Rightarrow> bool" where
  "well_kept P s \<longleftrightarrow>
     mirrored s \<and> identified P s \<and> (\<forall>c \<in> set (clients_list s). files_owned c) \<and> rows_backed s"

lemma same_data_well_kept:
  assumes "same_data s s'" and "well_kept P s"
  shows "well_kept P s'"
proof -
  have "identified P s'"
    using assms unfolding same_data_def well_kept_def identified_def by (metis order_less_le_trans)
  then show ?thesis using assms by (simp add: same_data_def well_kept_def mirrored_def rows_backed_def)
qed

lemma mirrored_ids: "mirrored s \<Longrightarrow> map cr_id (db_clients s) = map sc_id (clients_list s)"
  unfolding mirrored_def row_data_def client_data_def
  by (drule arg_cong [where f = "map fst"]) (simp add: comp_def)

text \<open>Changing the object at \<open>i\<close> and the rows with its id changes both sides at \<open>i\<close> only.\<close>

lemma mirrored_change:
  assumes m: "mirrored s" and d: "distinct (map sc_id (clients_list s))" and i: "i < length (clients_list s)"
    and fg: "\<And>c r. row_data r = client_data c \<Longrightarrow> row_data (g r) = client_data (f c)"
  shows "mirrored (change_client i f g s)"
proof -
  let ?t = "db_clients s" and ?l = "clients_list s"
  have len: "length ?t = length ?l" using m unfolding mirrored_def by (rule map_eq_imp_length_eq)
  have same: "row_data (?t ! k) = client_data (?l ! k)" if "k < length ?l" for k
    using m that len unfolding mirrored_def by (metis nth_map)
  have id: "cr_id (?t ! k) = sc_id (?l ! k)" if "k < length ?l" for k
    using same [OF that] by (simp add: row_data_def client_data_def)
  have other: "sc_id (?l ! k) \<noteq> sc_id (?l ! i)" if "k < length ?l" "k \<noteq> i" for k
    using d i that by (simp add: distinct_conv_nth)
  show ?thesis
    unfolding mirrored_def change_client_def
    using len i by (intro nth_equalityI) (auto simp: db_update_def nth_list_update id other same fg)
qed

lemma map_update_same: "f y = f (xs ! i) \<Longrightarrow> map f (xs[i := y]) = map f xs"
  by (metis list_update_id map_update)

lemma has_object_update:
  assumes "has_object cs r" and "i < length cs"
    and "sc_id y = sc_id (cs ! i)" "sc_name y = sc_name (cs ! i)"
    and "fr_client_id r = sc_id (cs ! i) \<Longrightarrow> fr_name r \<in> sf_name ` set (sc_files (cs ! i)) \<Longrightarrow>
      fr_name r \<in> sf_name ` set (sc_files y)"
  shows "has_object (cs[i := y]) r"
proof -
  obtain k where k: "k < length cs" "sc_id (cs ! k) = fr_client_id r" "fr_name r \<in> sf_name ` set (sc_files (cs ! k))"
    "fr_path r = file_path (sc_name (cs ! k)) (fr_name r)"
    using assms(1) unfolding has_object_def by (metis in_set_conv_nth)
  have "cs[i := y] ! k \<in> set (cs[i := y])" using k(1) by (intro nth_mem) simp
  then show ?thesis
    unfolding has_object_def using k assms(2-5) by (intro bexI [of _ "cs[i := y] ! k"]) (auto simp: nth_list_update)
qed

lemma well_kept_change:
  assumes s: "well_kept P s" and i: "i < length (clients_list s)"
    and f: "\<And>c. sc_id (f c) = sc_id c \<and> sc_name (f c) = sc_name c \<and> sc_files (f c) = sc_files c"
    and fg: "\<And>c r. row_data r = client_data c \<Longrightarrow> row_data (g r) = client_data (f c)"
  shows "well_kept P (change_client i f g s)"
proof -
  let ?l = "clients_list s" and ?y = "f (clients_list s ! i)"
  have y: "?l ! i \<in> set ?l" using i by simp
  have names: "map sc_name (?l[i := ?y]) = map sc_name ?l" "map sc_id (?l[i := ?y]) = map sc_id ?l"
    using f by (simp_all add: map_update_same)
  have mem: "c \<in> set (?l[i := ?y]) \<Longrightarrow> \<exists>c' \<in> set ?l. sc_id c = sc_id c' \<and> sc_name c = sc_name c' \<and> sc_files c = sc_files c'"
    for c using f y set_update_subset_insert [of ?l i ?y] by blast
  have "mirrored (change_client i f g s)"
    using s i fg by (intro mirrored_change) (auto simp: well_kept_def identified_def)
  moreover have "identified P (change_client i f g s)"
    unfolding identified_def change_client_def
    using s names by (auto simp: well_kept_def identified_def dest!: mem)
  moreover have "\<forall>c \<in> set (clients_list (change_client i f g s)). files_owned c"
    unfolding change_client_def
    using s by (auto simp: well_kept_def files_owned_def owns_def dest!: mem)
  moreover have "rows_backed (change_client i f g s)"
    unfolding rows_backed_def change_client_def
    using s i f by (auto simp: well_kept_def rows_backed_def intro!: has_object_update)
  ultimately show ?thesis by (simp add: well_kept_def)
qed

lemma well_kept_files:
  assumes s: "well_kept P s" and i: "i < length (clients_list s)"
    and y: "sc_id y = sc_id (clients_list s ! i)" "sc_name y = sc_name (clients_list s ! i)"
      "sc_public_key y = sc_public_key (clients_list s ! i)" "sc_aes_key y = sc_aes_key (clients_list s ! i)"
    and own: "files_owned y"
    and s': "clients_list s' = (clients_list s)[i := y]" "db_clients s' = db_clients s" "entropy s' = entropy s"
    and rows: "distinct (map row_key (db_files s'))" "\<forall>r \<in> set (db_files s'). has_object ((clients_list s)[i := y]) r"
  shows "well_kept P s'"
proof -
  let ?l = "clients_list s"
  have maps: "map client_data (?l[i := y]) = map client_data ?l" "map sc_name (?l[i := y]) = map sc_name ?l"
    "map sc_id (?l[i := y]) = map sc_id ?l"
    using y by (auto intro!: map_update_same simp: client_data_def)
  have mem: "c \<in> set (?l[i := y]) \<Longrightarrow> c = y \<or> c \<in> set ?l" for c
    using set_update_subset_insert [of ?l i y] by blast
  have "\<forall>c \<in> set (?l[i := y]). \<exists>n < entropy s. sc_id c = uuid4_bytes P n"
    using s i y(1) by (auto simp: well_kept_def identified_def dest!: mem)
  then show ?thesis
    using s own rows by (auto simp: well_kept_def mirrored_def identified_def rows_backed_def maps s' dest!: mem)
qed

lemma distinct_drop_nth: "distinct xs \<Longrightarrow> distinct (take j xs @ drop (Suc j) xs)"
  using set_take_disj_set_drop_if_distinct [of xs j "Suc j"] by simp

lemma set_drop_nth: "set (take j xs @ drop (Suc j) xs) \<subseteq> set xs"
  using set_take_subset set_drop_subset by fastforce

lemma files_owned_drop:
  assumes "files_owned c"
  shows "files_owned (c\<lparr>sc_files := take j (sc_files c) @ drop (Suc j) (sc_files c)\<rparr>)"
  using assms distinct_drop_nth [of "map sf_name (sc_files c)" j] set_drop_nth [of j "sc_files c"]
  by (auto simp: files_owned_def owns_def take_map drop_map simp del: set_append)

lemma names_drop_nth:
  "n \<in> f ` set xs \<Longrightarrow> n \<noteq> f (xs ! j) \<Longrightarrow> n \<in> f ` set (take j xs @ drop (Suc j) xs)"
  by (cases "j < length xs") (auto simp: id_take_nth_drop [of j xs, THEN arg_cong [where f = set]])

lemma well_kept_add_file:
  assumes s: "well_kept P s" and i: "i < length (clients_list s)" and c: "c = clients_list s ! i"
    and new: "f \<notin> sf_name ` set (sc_files c)" "(sc_id c, f) \<notin> row_key ` set (db_files s)"
  shows "well_kept P (change_files i (\<lambda>fs. fs @ [file_object c f])
    (s\<lparr>db_files := db_files s @ [file_row_of (file_object c f)]\<rparr>))"
proof -
  let ?y = "c\<lparr>sc_files := sc_files c @ [file_object c f]\<rparr>"
  have own: "files_owned c" using s i c by (simp add: well_kept_def)
  have y: "files_owned ?y"
    using own new by (auto simp: files_owned_def owns_def file_object_def)
  have old: "has_object ((clients_list s)[i := ?y]) r" if "r \<in> set (db_files s)" for r
    using s that i c by (intro has_object_update) (auto simp: well_kept_def rows_backed_def)
  have "?y \<in> set ((clients_list s)[i := ?y])" using i by (rule set_update_memI)
  then have added: "has_object ((clients_list s)[i := ?y]) (file_row_of (file_object c f))"
    unfolding has_object_def by (intro bexI [of _ ?y]) (auto simp: file_row_of_def file_object_def)
  have keys: "distinct (map row_key (db_files s @ [file_row_of (file_object c f)]))"
    using s new(2) by (auto simp: well_kept_def rows_backed_def row_key_def file_row_of_def file_object_def)
  show ?thesis
    by (rule well_kept_files [OF s i _ _ _ _ y])
      (use c keys old added in \<open>simp_all add: change_files_def\<close>)
qed

lemma well_kept_valid:
  assumes s: "well_kept P s" and i: "i < length (clients_list s)" and j: "j < length (sc_files (clients_list s ! i))"
  shows "well_kept P (change_files i (\<lambda>fs. fs[j := (fs ! j)\<lparr>sf_valid_crc := b\<rparr>])
    (s\<lparr>db_files := db_update p (fr_valid_crc_update (\<lambda>_. b)) (db_files s)\<rparr>))"
proof -
  define c where "c = clients_list s ! i"
  let ?y = "c\<lparr>sc_files := (sc_files c)[j := (sc_files c ! j)\<lparr>sf_valid_crc := b\<rparr>]\<rparr>"
  have own: "files_owned c" using s i c_def by (simp add: well_kept_def)
  have jc: "j < length (sc_files c)" using j by (simp add: c_def)
  have names: "map sf_name (sc_files ?y) = map sf_name (sc_files c)" by (simp add: map_update_same)
  have sub: "set ((sc_files c)[j := (sc_files c ! j)\<lparr>sf_valid_crc := b\<rparr>])
      \<subseteq> insert ((sc_files c ! j)\<lparr>sf_valid_crc := b\<rparr>) (set (sc_files c))"
    by (rule set_update_subset_insert)
  have "owns c ((sc_files c ! j)\<lparr>sf_valid_crc := b\<rparr>)"
    using own jc by (simp add: files_owned_def owns_def)
  then have y: "files_owned ?y"
    using own names sub by (auto simp: files_owned_def owns_def)
  have img: "sf_name ` set (sc_files ?y) = sf_name ` set (sc_files c)" using names by (metis set_map)
  have rows: "db_update p (fr_valid_crc_update (\<lambda>_. b)) (db_files s)
      = map (\<lambda>r. if p r then r\<lparr>fr_valid_crc := b\<rparr> else r) (db_files s)" by (simp add: db_update_def)
  have same: "has_object cs (r\<lparr>fr_valid_crc := b\<rparr>) = has_object cs r" "row_key (r\<lparr>fr_valid_crc := b\<rparr>) = row_key r"
    for cs r by (simp_all add: has_object_def row_key_def)
  have "has_object ((clients_list s)[i := ?y]) r" if "r \<in> set (db_files s)" for r
    using s that i img by (intro has_object_update) (auto simp: well_kept_def rows_backed_def c_def)
  then have backed: "\<forall>r \<in> set (db_update p (fr_valid_crc_update (\<lambda>_. b)) (db_files s)).
      has_object ((clients_list s)[i := ?y]) r"
    by (auto simp: rows same)
  have "map row_key (db_update p (fr_valid_crc_update (\<lambda>_. b)) (db_files s)) = map row_key (db_files s)"
    by (simp add: rows same)
  then have keys: "distinct (map row_key (db_update p (fr_valid_crc_update (\<lambda>_. b)) (db_files s)))"
    using s unfolding well_kept_def rows_backed_def by metis
  show ?thesis
    by (rule well_kept_files [OF s i _ _ _ _ y])
      (use keys backed in \<open>simp_all add: change_files_def c_def\<close>)
qed

lemma well_kept_drop:
  assumes s: "well_kept P s" and i: "i < length (clients_list s)" and x: "x = sc_files (clients_list s ! i) ! j"
  shows "well_kept P (change_files i (\<lambda>fs. take j fs @ drop (Suc j) fs)
    (s\<lparr>disk := d, db_files := filter (\<lambda>r. fr_name r \<noteq> sf_name x) (db_files s)\<rparr>))"
proof -
  define c where "c = clients_list s ! i"
  let ?y = "c\<lparr>sc_files := take j (sc_files c) @ drop (Suc j) (sc_files c)\<rparr>"
  have "files_owned c" using s i c_def by (simp add: well_kept_def)
  then have y: "files_owned ?y" by (rule files_owned_drop)
  have "has_object ((clients_list s)[i := ?y]) r" if "r \<in> set (db_files s)" "fr_name r \<noteq> sf_name x" for r
    using s that i x names_drop_nth [of "fr_name r" sf_name "sc_files c" j]
    by (intro has_object_update) (auto simp: well_kept_def rows_backed_def c_def simp del: set_append)
  then show ?thesis
    using s by (intro well_kept_files [OF s i _ _ _ _ y])
      (auto simp: change_files_def c_def well_kept_def rows_backed_def distinct_map_filter)
qed

lemma has_object_mono: "has_object cs r \<Longrightarrow> has_object (cs @ ds) r"
  by (auto simp: has_object_def)

text \<open>
  No two of the ids drawn so far are the same. An id has 128 random bits, so this is not certain, but
  everything below depends on it.
\<close>

definition no_collision :: "'pk pycrypto \<Rightarrow> server \<Rightarrow> bool" where
  "no_collision P s \<longleftrightarrow> inj_on (uuid4_bytes P) {..<entropy s}"

lemma act_entropy: "act P s s' \<Longrightarrow> entropy s \<le> entropy s'"
  by (cases rule: act.cases) (auto simp: same_data_def change_client_def change_files_def enrolled_in_def)

lemma no_collision_earlier: "no_collision P s' \<Longrightarrow> entropy s \<le> entropy s' \<Longrightarrow> no_collision P s"
  unfolding no_collision_def by (erule inj_on_subset) auto

lemma fresh_id:
  assumes s: "well_kept P s" and inj: "inj_on (uuid4_bytes P) {..<entropy s + 1}"
  shows "uuid4_bytes P (entropy s) \<notin> sc_id ` set (clients_list s)"
proof
  assume "uuid4_bytes P (entropy s) \<in> sc_id ` set (clients_list s)"
  then obtain n where n: "n < entropy s" "uuid4_bytes P (entropy s) = uuid4_bytes P n"
    using s by (auto simp: well_kept_def identified_def)
  with inj_onD [OF inj n(2)] show False by simp
qed

lemma well_kept_enroll:
  assumes s: "well_kept P s" and inj: "inj_on (uuid4_bytes P) {..<entropy s + 1}" and n: "n \<notin> sc_name ` set (clients_list s)"
  shows "well_kept P (enrolled_in P n d s\<lparr>db_clients := db_clients s @ [row_of_client (new_client_object P n s)]\<rparr>)"
proof -
  let ?c = "new_client_object P n s"
  have new: "sc_id ?c = uuid4_bytes P (entropy s)" "sc_name ?c = n" "files_owned ?c"
    "row_data (row_of_client ?c) = client_data ?c"
    by (simp_all add: new_client_object_def files_owned_def row_of_client_def row_data_def client_data_def)
  have "\<exists>k < entropy s + 1. sc_id c = uuid4_bytes P k" if "c \<in> set (clients_list s @ [?c])" for c
    using that s new(1) by (auto simp: well_kept_def identified_def less_Suc_eq)
  then show ?thesis
    using s n fresh_id [OF s inj] new
    by (auto simp: well_kept_def mirrored_def identified_def rows_backed_def enrolled_in_def intro: has_object_mono)
qed

lemma well_kept_act:
  assumes "act P s s'" and "no_collision P s'" and "well_kept P s"
  shows "well_kept P s'"
  using assms
proof cases
  case act_io
  then show ?thesis using assms(3) by (rule same_data_well_kept)
next
  case (act_seen i t t')
  then show ?thesis using assms(3) by (auto intro!: well_kept_change simp: row_data_def client_data_def)
next
  case (act_public_key i k)
  then show ?thesis using assms(3) by (auto intro!: well_kept_change simp: row_data_def client_data_def)
next
  case (act_aes_key i k)
  then show ?thesis using assms(3) by (auto intro!: well_kept_change simp: row_data_def client_data_def)
next
  case (act_enroll n d)
  have "inj_on (uuid4_bytes P) {..<entropy s + 1}"
    using assms(2) by (simp add: act_enroll(1) no_collision_def enrolled_in_def)
  then show ?thesis unfolding act_enroll(1) using assms(3) act_enroll(3) by (intro well_kept_enroll)
next
  case (act_enroll_clash n d)
  have "cr_id ` set (db_clients s) = sc_id ` set (clients_list s)"
    using mirrored_ids [of s] assms(3) by (metis list.set_map well_kept_def)
  then show ?thesis
    using act_enroll_clash(1,5) fresh_id [OF assms(3)] assms(2) by (simp add: no_collision_def enrolled_in_def)
next
  case (act_store i f p b)
  then show ?thesis using assms(3)
    by (simp add: well_kept_def mirrored_def identified_def rows_backed_def)
next
  case (act_decrypt i x p b)
  then show ?thesis using assms(3)
    by (simp add: well_kept_def mirrored_def identified_def rows_backed_def)
next
  case (act_add_file i f)
  then show ?thesis using assms(3) by (auto intro: well_kept_add_file)
next
  case (act_valid i j b)
  then show ?thesis using assms(3) by (auto intro: well_kept_valid)
next
  case (act_drop i j x d)
  then show ?thesis using assms(3) by (auto intro: well_kept_drop)
qed

end
