(* ===== verification/Server_Restart.thy ===== *)
theory Server_Restart
  imports Server_Loop
begin

text \<open>
  The restart of the server: what \<open>data_base_handle\<close> rebuilds from the tables, and that it keeps the
  bookkeeping invariant; so the invariant holds in every state the main loop can reach.
\<close>

section \<open>What is rebuilt\<close>

definition object_of_row :: "client_row \<Rightarrow> sclient" where
  "object_of_row r =
     \<lparr>sc_id = cr_id r, sc_name = cr_name r, sc_public_key = cr_public_key r, sc_last_seen = cr_last_seen r,
      sc_aes_key = cr_aes_key r, sc_files = []\<rparr>"

definition file_of_row :: "file_row \<Rightarrow> sfile" where
  "file_of_row r =
     \<lparr>sf_client_id = fr_client_id r, sf_name = fr_name r, sf_path = fr_path r, sf_valid_crc = fr_valid_crc r\<rparr>"

definition files_of :: "file_row list \<Rightarrow> sclient \<Rightarrow> sfile list" where
  "files_of rows c = map file_of_row (filter (\<lambda>r. fr_client_id r = sc_id c) rows)"

lemma fold_load_file:
  "fold load_file rows cs = map (\<lambda>c. c\<lparr>sc_files := sc_files c @ files_of rows c\<rparr>) cs"
proof (induction rows arbitrary: cs)
  case (Cons row rows)
  have "load_file row cs = map (\<lambda>c. c\<lparr>sc_files := sc_files c @ files_of [row] c\<rparr>) cs"
    by (auto simp: load_file_def files_of_def file_of_row_def)
  then show ?case
    by (simp add: Cons.IH) (auto simp: files_of_def)
qed (simp add: files_of_def)

text \<open>The restored list of objects.\<close>

definition restored :: "client_row list \<Rightarrow> file_row list \<Rightarrow> sclient list" where
  "restored crows frows = map (\<lambda>r. (object_of_row r)\<lparr>sc_files := files_of frows (object_of_row r)\<rparr>) crows"

lemma load_clients_result:
  "load_clients P rows s = Some (Inr (), s') \<Longrightarrow>
   clients_list s' = clients_list s @ map object_of_row rows \<and> db_clients s' = db_clients s \<and>
   db_files s' = db_files s \<and> entropy s \<le> entropy s'"
proof (induction rows arbitrary: s)
  case (Cons row rows)
  from Cons.prems show ?case
    unfolding load_clients.simps
  proof (cases rule: bindP_cases)
    case (Go c s1)
    obtain d where c: "c = new_client_object P (cr_name row) s"
      "s1 = s\<lparr>entropy := entropy s + 1, clock := clock s + 1, disk := d\<rparr>"
      using new_sclient_cases [OF Go(1)] by auto
    have "c\<lparr>sc_id := cr_id row, sc_public_key := cr_public_key row, sc_last_seen := cr_last_seen row,
        sc_aes_key := cr_aes_key row\<rparr> = object_of_row row"
      by (simp add: c new_client_object_def object_of_row_def)
    with Cons.IH Go(2) show ?thesis by (fastforce simp: srun_mod c(2))
  qed simp
qed (simp add: retP_def)

lemma data_base_handle_result:
  assumes "data_base_handle P s = Some (Inr (), s')" and "clients_list s = []"
  shows "clients_list s' = restored (db_clients s) (db_files s) \<and> db_clients s' = db_clients s \<and>
    db_files s' = db_files s \<and> entropy s \<le> entropy s'"
proof -
  obtain s1 where s1: "load_clients P (db_clients s) s = Some (Inr (), s1)"
    and rest: "bindP (modP (\<lambda>s. s\<lparr>clients_list := fold load_file (db_files s) (clients_list s)\<rparr>)) (\<lambda>_.
     bindP (getP (\<lambda>s. path_exists (disk s) folder)) (\<lambda>there.
     if there then retP () else on_disk (\<lambda>d. mkdir d folder))) s1 = Some (Inr (), s')"
    using assms(1) unfolding data_base_handle_def srun_get by (auto elim: bindP_cases)
  note l = load_clients_result [OF s1]
  have "s' = s1\<lparr>clients_list := fold load_file (db_files s1) (clients_list s1)\<rparr> \<or>
      (\<exists>d. s' = s1\<lparr>clients_list := fold load_file (db_files s1) (clients_list s1), disk := d\<rparr>)"
    using rest
    by (auto simp: srun_mod srun_get retP_def on_disk_def bindP_def getP_def optP_def throwP_def modP_def
        split: if_splits option.splits)
  then show ?thesis
    using l assms(2) by (auto simp: fold_load_file restored_def object_of_row_def)
qed

section \<open>The invariant survives the restart\<close>

lemma client_data_object: "client_data ((object_of_row r)\<lparr>sc_files := x\<rparr>) = row_data r"
  by (simp add: client_data_def row_data_def object_of_row_def)

lemma well_kept_restart:
  assumes run: "data_base_handle P (s\<lparr>clients_list := []\<rparr>) = Some (Inr (), s')" and s: "well_kept P s"
  shows "well_kept P s'"
proof -
  have s': "clients_list s' = restored (db_clients s) (db_files s)" "db_clients s' = db_clients s"
    "db_files s' = db_files s" "entropy s \<le> entropy s'"
    using data_base_handle_result [OF run] by simp_all
  have same: "map client_data (clients_list s') = map client_data (clients_list s)"
    using s by (simp add: s' restored_def comp_def client_data_object well_kept_def mirrored_def)
  have names: "map sc_name (clients_list s') = map sc_name (clients_list s)"
    "map sc_id (clients_list s') = map sc_id (clients_list s)"
    using arg_cong [OF same, where f = "map (fst \<circ> snd)"] arg_cong [OF same, where f = "map fst"]
    by (simp_all add: comp_def client_data_def)
  have m: "mirrored s'" using s same by (simp add: mirrored_def s'(2) well_kept_def)
  have "\<exists>n < entropy s'. sc_id c = uuid4_bytes P n" if "c \<in> set (clients_list s')" for c
  proof -
    have "sc_id c \<in> sc_id ` set (clients_list s)" using that names(2) by (metis image_eqI list.set_map)
    then show ?thesis using s s'(4) unfolding well_kept_def identified_def by (metis imageE order_less_le_trans)
  qed
  then have ids: "identified P s'" using s names by (simp add: identified_def well_kept_def)
  have twin: "\<exists>c' \<in> set (clients_list s). sc_id c' = sc_id c \<and> sc_name c' = sc_name c"
    if "c \<in> set (clients_list s')" for c
  proof -
    have "client_data c \<in> client_data ` set (clients_list s)" using that same by (metis image_eqI list.set_map)
    then show ?thesis by (auto simp: client_data_def)
  qed
  have files: "sc_files c = files_of (db_files s) c" if "c \<in> set (clients_list s')" for c
    using that by (auto simp: s'(1) restored_def files_of_def)
  have backed: "has_object (clients_list s) r" "distinct (map row_key (db_files s))" if "r \<in> set (db_files s)" for r
    using s that by (simp_all add: well_kept_def rows_backed_def)
  have uniq: "c1 = c2" if "c1 \<in> set (clients_list s)" "c2 \<in> set (clients_list s)" "sc_id c1 = sc_id c2" for c1 c2
    using s that by (auto simp: well_kept_def identified_def distinct_map dest: inj_onD)
  have path: "fr_path r = file_path (sc_name c) (fr_name r)"
    if c: "c \<in> set (clients_list s')" and r: "r \<in> set (db_files s)" "fr_client_id r = sc_id c" for c r
  proof -
    obtain c1 where c1: "c1 \<in> set (clients_list s)" "sc_id c1 = fr_client_id r" "fr_path r = file_path (sc_name c1) (fr_name r)"
      using backed(1) [OF r(1)] by (auto simp: has_object_def)
    obtain c2 where c2: "c2 \<in> set (clients_list s)" "sc_id c2 = sc_id c" "sc_name c2 = sc_name c"
      using twin [OF c] by blast
    have "c1 = c2" using uniq c1 c2 r(2) by simp
    with c1 c2 show ?thesis by simp
  qed
  have own: "files_owned c" if c: "c \<in> set (clients_list s')" for c
  proof -
    have "distinct (map row_key (filter (\<lambda>r. fr_client_id r = sc_id c) (db_files s)))"
      using s by (simp add: well_kept_def rows_backed_def distinct_map_filter)
    then have "distinct (map fr_name (filter (\<lambda>r. fr_client_id r = sc_id c) (db_files s)))"
      by (auto simp: distinct_map row_key_def inj_on_def)
    moreover have "map sf_name (sc_files c) = map fr_name (filter (\<lambda>r. fr_client_id r = sc_id c) (db_files s))"
      by (simp add: files [OF c] files_of_def file_of_row_def comp_def)
    ultimately have "distinct (map sf_name (sc_files c))" by metis
    then show ?thesis
      using path [OF c] by (auto simp: files_owned_def owns_def files [OF c] files_of_def file_of_row_def)
  qed
  have "has_object (clients_list s') r" if r: "r \<in> set (db_files s)" for r
  proof -
    obtain c1 where c1: "c1 \<in> set (clients_list s)" "sc_id c1 = fr_client_id r" using backed(1) [OF r] by (auto simp: has_object_def)
    then have "fr_client_id r \<in> sc_id ` set (clients_list s')" using names(2) by (metis image_eqI list.set_map)
    then obtain c where c: "c \<in> set (clients_list s')" "sc_id c = fr_client_id r" by auto
    have "file_of_row r \<in> set (sc_files c)" using r c(2) by (simp add: files [OF c(1)] files_of_def)
    then have "fr_name r \<in> sf_name ` set (sc_files c)" by (force simp: file_of_row_def)
    with c path [OF c(1) r] show ?thesis by (auto simp: has_object_def)
  qed
  then have "rows_backed s'" using s by (simp add: rows_backed_def s'(3) well_kept_def)
  with m ids own show ?thesis by (simp add: well_kept_def)
qed

text \<open>The restart of a server in which the names are single path components always succeeds.\<close>

lemma mkdir_keeps_dirs: "mkdir d p = Some d' \<Longrightarrow> d q = Some Dir \<Longrightarrow> d' q = Some Dir"
  by (auto simp: mkdir_def split: option.splits if_splits)

lemma new_sclient_plain:
  assumes n: "plain_name n" and d: "disk s [folder] = Some Dir"
  shows "\<exists>d'. new_sclient P n s = Some (Inr (new_client_object P n s),
      s\<lparr>entropy := entropy s + 1, clock := clock s + 1, disk := d'\<rparr>) \<and> d' [folder] = Some Dir"
proof -
  have r: "resolve (disk s) (client_dir n) = Some [folder, n]" using n d by (simp add: resolve_client_dir)
  show ?thesis
  proof (cases "path_exists (disk s) (client_dir n)")
    case True
    then show ?thesis
      using d by (intro exI [of _ "disk s"])
        (simp add: new_sclient_def srun_draw srun_now srun_get srun_ret new_client_object_def, simp add: retP_def)
  next
    case False
    then have m: "mkdir (disk s) (client_dir n) = Some ((disk s)([folder, n] \<mapsto> Dir))"
      using n by (simp add: mkdir_def strip_client_dir r path_exists_def)
    show ?thesis
      using False d
      by (intro exI [of _ "(disk s)([folder, n] \<mapsto> Dir)"])
        (simp add: new_sclient_def srun_draw srun_now srun_get srun_disk m new_client_object_def, simp add: retP_def)
  qed
qed

lemma load_clients_plain:
  "\<forall>r \<in> set rows. plain_name (cr_name r) \<Longrightarrow> disk s [folder] = Some Dir \<Longrightarrow>
   \<exists>s'. load_clients P rows s = Some (Inr (), s') \<and> disk s' [folder] = Some Dir"
proof (induction rows arbitrary: s)
  case (Cons row rows)
  obtain d' where d': "new_sclient P (cr_name row) s = Some (Inr (new_client_object P (cr_name row) s),
      s\<lparr>entropy := entropy s + 1, clock := clock s + 1, disk := d'\<rparr>)" "d' [folder] = Some Dir"
    using new_sclient_plain [of "cr_name row" s P] Cons.prems by auto
  then show ?case using Cons.prems Cons.IH by (simp add: bindP_def [of "new_sclient P (cr_name row)"] srun_mod)
qed (simp add: retP_def)

lemma data_base_handle_plain:
  assumes "\<forall>r \<in> set (db_clients s). plain_name (cr_name r)" and "disk s [folder] = Some Dir"
  shows "\<exists>s'. data_base_handle P s = Some (Inr (), s')"
proof -
  obtain s1 where s1: "load_clients P (db_clients s) s = Some (Inr (), s1)" "disk s1 [folder] = Some Dir"
    using load_clients_plain [OF assms] by blast
  have "resolve (disk s1) folder = Some [folder]"
    by (simp add: resolve_def split_path_plain folder_plain go_folder is_dir_def)
  then have "path_exists (disk s1) folder" using s1(2) by (simp add: path_exists_def is_dir_def)
  then show ?thesis
    unfolding data_base_handle_def srun_get by (simp add: bindP_def [of "load_clients P (db_clients s)"] s1(1) srun_mod srun_get)
      (simp add: retP_def)
qed

end
