(* ===== verification/Server_Types.thy ===== *)
theory Server_Types
  imports Server_Restart
begin

text \<open>
  The sizes of what the server keeps: ids, names and keys, in the objects and in the tables; and what
  never changes: the identity of a registered client and the directories.
\<close>

section \<open>Sizes\<close>

definition typed_client :: "sclient \<Rightarrow> bool" where
  "typed_client c \<longleftrightarrow>
     length (sc_id c) = 16 \<and> wire_name (sc_name c) \<and> length (sc_public_key c) \<le> 160 \<and>
     (sc_aes_key c = [] \<or> length (sc_aes_key c) = 32) \<and> (\<forall>x \<in> set (sc_files c). wire_name (sf_name x))"

definition typed_row :: "client_row \<Rightarrow> bool" where
  "typed_row r \<longleftrightarrow>
     length (cr_id r) = 16 \<and> wire_name (cr_name r) \<and> length (cr_public_key r) \<le> 160 \<and>
     (cr_aes_key r = [] \<or> length (cr_aes_key r) = 32)"

definition well_typed :: "server \<Rightarrow> bool" where
  "well_typed s \<longleftrightarrow>
     (\<forall>c \<in> set (clients_list s). typed_client c) \<and> (\<forall>r \<in> set (db_clients s). typed_row r) \<and>
     (\<forall>r \<in> set (db_files s). wire_name (fr_name r))"

text \<open>\<open>uuid4().bytes\<close> has 16 bytes and \<open>get_random_bytes(n)\<close> has \<open>n\<close>.\<close>

definition sizes_ok :: "'pk pycrypto \<Rightarrow> bool" where
  "sizes_ok P \<longleftrightarrow> (\<forall>n. length (uuid4_bytes P n) = 16) \<and> (\<forall>n k. length (get_random_bytes P n k) = k)"

lemma well_typed_change:
  assumes "well_typed s" and "i < length (clients_list s)"
    and "\<And>c. typed_client c \<Longrightarrow> typed_client (f c)" and "\<And>r. typed_row r \<Longrightarrow> typed_row (g r)"
  shows "well_typed (change_client i f g s)"
  using assms set_update_subset_insert [of "clients_list s" i "f (clients_list s ! i)"]
  by (auto simp: well_typed_def change_client_def db_update_def)

lemma well_typed_files:
  assumes s: "well_typed s" and i: "i < length (clients_list s)"
    and y: "\<forall>x \<in> set (f (sc_files (clients_list s ! i))). wire_name (sf_name x)"
    and rows: "\<forall>r \<in> set t. wire_name (fr_name r)"
  shows "well_typed (change_files i f (s\<lparr>db_files := t\<rparr>))" and "well_typed (change_files i f (s\<lparr>disk := d, db_files := t\<rparr>))"
proof -
  let ?y = "(clients_list s ! i)\<lparr>sc_files := f (sc_files (clients_list s ! i))\<rparr>"
  have "typed_client ?y" using s i y by (simp add: well_typed_def typed_client_def)
  then show "well_typed (change_files i f (s\<lparr>db_files := t\<rparr>))" "well_typed (change_files i f (s\<lparr>disk := d, db_files := t\<rparr>))"
    using s rows set_update_subset_insert [of "clients_list s" i ?y] by (auto simp: well_typed_def change_files_def)
qed

lemma well_typed_act:
  assumes "act P s s'" and ok: "sizes_ok P" and s: "well_typed s"
  shows "well_typed s'"
  using assms(1)
proof cases
  case act_io
  then show ?thesis using s by (simp add: same_data_def well_typed_def)
next
  case (act_seen i t t')
  then show ?thesis using s by (auto intro!: well_typed_change simp: typed_client_def typed_row_def)
next
  case (act_public_key i k)
  then show ?thesis using s by (auto intro!: well_typed_change simp: typed_client_def typed_row_def)
next
  case (act_aes_key i k m)
  then show ?thesis using s ok by (auto intro!: well_typed_change simp: typed_client_def typed_row_def sizes_ok_def)
next
  case (act_enroll n d)
  then show ?thesis
    using s ok by (auto simp: well_typed_def enrolled_in_def new_client_object_def row_of_client_def typed_client_def
        typed_row_def sizes_ok_def)
next
  case (act_enroll_clash n d)
  then show ?thesis
    using s ok by (auto simp: well_typed_def enrolled_in_def new_client_object_def typed_client_def sizes_ok_def)
next
  case (act_store i f p b)
  then show ?thesis using s by (simp add: well_typed_def)
next
  case (act_decrypt i x p b)
  then show ?thesis using s by (simp add: well_typed_def)
next
  case (act_add_file i f)
  have "\<forall>x \<in> set (sc_files (clients_list s ! i)). wire_name (sf_name x)"
    using s nth_mem [OF act_add_file(2)] by (auto simp: well_typed_def typed_client_def)
  then show ?thesis
    using s act_add_file(2,3) unfolding act_add_file(1)
    by (intro well_typed_files) (auto simp: file_object_def file_row_of_def well_typed_def)
next
  case (act_valid i j b)
  have "\<forall>x \<in> set (sc_files (clients_list s ! i)). wire_name (sf_name x)"
    using s nth_mem [OF act_valid(2)] by (auto simp: well_typed_def typed_client_def)
  then have "\<forall>x \<in> set ((sc_files (clients_list s ! i))[j := (sc_files (clients_list s ! i) ! j)\<lparr>sf_valid_crc := b\<rparr>]). wire_name (sf_name x)"
    using act_valid(3) set_update_subset_insert [of "sc_files (clients_list s ! i)" j] by fastforce
  then show ?thesis
    using s act_valid(2) unfolding act_valid(1)
    by (intro well_typed_files) (auto simp: db_update_def well_typed_def)
next
  case (act_drop i j x d)
  have "\<forall>x \<in> set (sc_files (clients_list s ! i)). wire_name (sf_name x)"
    using s nth_mem [OF act_drop(2)] by (auto simp: well_typed_def typed_client_def)
  then show ?thesis
    using s act_drop(2) unfolding act_drop(1)
    by (intro well_typed_files) (auto simp: well_typed_def dest: in_set_takeD in_set_dropD)
qed

lemma well_typed_restart:
  assumes run: "data_base_handle P (s\<lparr>clients_list := []\<rparr>) = Some (Inr (), s')" and s: "well_typed s"
  shows "well_typed s'"
proof -
  have s': "clients_list s' = restored (db_clients s) (db_files s)" "db_clients s' = db_clients s" "db_files s' = db_files s"
    using data_base_handle_result [OF run] by simp_all
  show ?thesis
    using s by (auto simp: well_typed_def s' restored_def typed_client_def typed_row_def object_of_row_def files_of_def
        file_of_row_def)
qed

section \<open>The contracts\<close>

lemma restart_keeps_dirs:
  assumes run: "data_base_handle P s = Some (Inr (), s')" and p: "disk s p = Some Dir"
  shows "disk s' p = Some Dir"
proof -
  have new: "disk s' p = Some Dir" if "new_sclient P n s = Some (r, s')" "disk s p = Some Dir" for n r s s'
    using new_sclient_cases [OF that(1)] that(2) by (auto simp: same_data_def dir_made_def intro: mkdir_keeps_dirs)
  have load: "load_clients P rows s = Some (r, s') \<Longrightarrow> disk s p = Some Dir \<Longrightarrow> disk s' p = Some Dir" for rows r s s'
  proof (induction rows arbitrary: s)
    case (Cons row rows)
    from Cons.prems(1) show ?case
      unfolding load_clients.simps
    proof (cases rule: bindP_cases)
      case (Go c s1)
      then show ?thesis
        using Cons.IH [of "s1\<lparr>clients_list := clients_list s1 @ [c\<lparr>sc_id := cr_id row, sc_public_key := cr_public_key row,
            sc_last_seen := cr_last_seen row, sc_aes_key := cr_aes_key row\<rparr>]\<rparr>"] new [OF Go(1) Cons.prems(2)]
        by (simp add: srun_mod)
    qed (use new Cons.prems(2) in auto)
  qed (simp add: retP_def)
  from run show ?thesis
    unfolding data_base_handle_def srun_get
  proof (cases rule: bindP_cases)
    case (Go x s1)
    then show ?thesis
      using load [OF Go(1) p] mkdir_keeps_dirs [of "disk s1" folder _ p]
      by (auto simp: srun_mod srun_get retP_def on_disk_def bindP_def getP_def optP_def throwP_def modP_def
          split: if_splits option.splits)
  qed simp
qed

lemma act_keeps_dirs:
  assumes "act P s s'" and "disk s p = Some Dir"
  shows "disk s' p = Some Dir"
  using assms
  by cases (auto simp: same_data_def change_client_def change_files_def enrolled_in_def dir_made_def is_dir_def
      remove_path_def intro: mkdir_keeps_dirs split: option.splits node.splits)

text \<open>A registered client keeps its position, its id and its name.\<close>

definition registered_as :: "nat \<Rightarrow> bytes \<Rightarrow> bytes \<Rightarrow> server \<Rightarrow> bool" where
  "registered_as i cid n s \<longleftrightarrow>
     i < length (clients_list s) \<and> sc_id (clients_list s ! i) = cid \<and> sc_name (clients_list s ! i) = n"

lemma act_keeps_identity: "act P s s' \<Longrightarrow> registered_as i cid n s \<Longrightarrow> registered_as i cid n s'"
  by (cases rule: act.cases)
    (auto simp: registered_as_def same_data_def change_client_def change_files_def enrolled_in_def nth_append
      nth_list_update)

lemma restart_keeps_identity:
  assumes run: "data_base_handle P (s\<lparr>clients_list := []\<rparr>) = Some (Inr (), s')" and s: "mirrored s"
    and i: "registered_as i cid n s"
  shows "registered_as i cid n s'"
proof -
  have s': "clients_list s' = restored (db_clients s) (db_files s)" "db_clients s' = db_clients s"
    using data_base_handle_result [OF run] by simp_all
  have same: "map client_data (clients_list s') = map client_data (clients_list s)"
    using s by (simp add: s' restored_def comp_def client_data_object mirrored_def)
  then have "length (clients_list s') = length (clients_list s)" by (rule map_eq_imp_length_eq)
  moreover from this have "client_data (clients_list s' ! i) = client_data (clients_list s ! i)"
    using i same by (metis nth_map registered_as_def)
  ultimately show ?thesis using i by (simp add: registered_as_def client_data_def)
qed

lemma well_kept_mirrored: "well_kept P s \<Longrightarrow> mirrored s"
  by (simp add: well_kept_def)

lemma restart_entropy:
  "data_base_handle P (s\<lparr>clients_list := []\<rparr>) = Some (Inr (), s') \<Longrightarrow> entropy s \<le> entropy s'"
  using data_base_handle_result [of P "s\<lparr>clients_list := []\<rparr>" s'] by simp

interpretation kept: loop_invariant P "\<lambda>s. no_collision P s \<longrightarrow> well_kept P s" for P :: "'pk pycrypto"
proof unfold_locales
  fix s s' assume "act P s s'" "no_collision P s \<longrightarrow> well_kept P s"
  then show "no_collision P s' \<longrightarrow> well_kept P s'"
    by (metis well_kept_act no_collision_earlier act_entropy)
next
  fix s s' assume run: "data_base_handle P (s\<lparr>clients_list := []\<rparr>) = Some (Inr (), s')"
    and "no_collision P s \<longrightarrow> well_kept P s"
  then show "no_collision P s' \<longrightarrow> well_kept P s'"
    by (metis well_kept_restart [OF run] no_collision_earlier restart_entropy [OF run])
qed

interpretation typed: loop_invariant P "\<lambda>s. sizes_ok P \<longrightarrow> well_typed s" for P :: "'pk pycrypto"
  by unfold_locales (auto intro: well_typed_act well_typed_restart)

interpretation dirs: loop_invariant P "\<lambda>s. disk s p = Some Dir" for P :: "'pk pycrypto" and p
  by unfold_locales (auto intro: act_keeps_dirs restart_keeps_dirs)

interpretation identity: loop_invariant P "\<lambda>s. no_collision P s \<longrightarrow> well_kept P s \<and> registered_as i cid n s"
  for P :: "'pk pycrypto" and i cid n
proof unfold_locales
  fix s s' assume "act P s s'" "no_collision P s \<longrightarrow> well_kept P s \<and> registered_as i cid n s"
  then show "no_collision P s' \<longrightarrow> well_kept P s' \<and> registered_as i cid n s'"
    by (metis well_kept_act act_keeps_identity no_collision_earlier act_entropy)
next
  fix s s' assume run: "data_base_handle P (s\<lparr>clients_list := []\<rparr>) = Some (Inr (), s')"
    and "no_collision P s \<longrightarrow> well_kept P s \<and> registered_as i cid n s"
  then show "no_collision P s' \<longrightarrow> well_kept P s' \<and> registered_as i cid n s'"
    by (metis well_kept_restart [OF run] restart_keeps_identity [OF run] well_kept_mirrored no_collision_earlier
        restart_entropy [OF run])
qed

end
