(* ===== verification/Server_Returns.thy ===== *)
theory Server_Returns
  imports Server_Types
begin

text \<open>
  A call of \<open>read\<close> on a non-blocking socket always returns and lets no exception out; on a socket that
  an earlier error left in blocking mode it may wait for ever.
\<close>

section \<open>Programs that do not wait\<close>

text \<open>
  Started on a non-blocking socket the program returns or is stopped; when it returns the socket is
  still non-blocking, and what is left to read, or still to come, has not grown.
\<close>

definition prompt :: "'a sprog \<Rightarrow> bool" where
  "prompt m \<longleftrightarrow> (\<forall>s. \<not> blocking s \<longrightarrow> 
     wp m (\<lambda>_ s'. \<not> blocking s' \<and> bytes_left s' \<le> bytes_left s) (\<lambda>_ _. True) s)"

named_theorems prompt_rules "operations that do not wait"

lemma prompt_bind [prompt_rules]: "prompt m \<Longrightarrow> (\<And>x. prompt (k x)) \<Longrightarrow> prompt (bindP m k)"
  unfolding prompt_def wp_bind by (blast intro: wp_conseq le_trans)

lemma prompt_simple [prompt_rules]:
  "prompt (retP x)" "prompt (throwP e)" "prompt (getP f)" "prompt (optP e v)" "prompt (guardP q e)"
  "prompt (draw g)" "prompt datetime_now" "prompt (sendall b)" "prompt (mod_client i h)" "prompt (mod_file i j l)"
  "prompt (set_valid_crc cid v')" "prompt (set_aes_key k cid)" "prompt (set_public_key k cid)"
  "prompt (add_file_db x')" "prompt (last_seen i c)"
  by (simp_all add: prompt_def wp_rules set_aes_key_def set_public_key_def bytes_left_def split: option.split)
    (simp_all add: wp_def draw_def datetime_now_def)

lemma bytes_left_take: "bytes_left (s\<lparr>rx := drop n (rx s)\<rparr>) \<le> bytes_left s"
  by (simp add: bytes_left_def)

lemma prompt_recv [prompt_rules]: "prompt (recv n)"
proof -
  have "bytes_left ((listen (pending s) s)\<lparr>rx := drop m (rx (listen (pending s) s))\<rparr>) \<le> bytes_left s" for s m
    using bytes_left_take listen_less by (rule le_trans)
  then show ?thesis by (simp add: prompt_def wp_def recv_def throwP_def retP_def Let_def listen_less)
qed

lemma prompt_disk [prompt_rules]: "prompt (on_disk f)"
  by (simp add: prompt_def wp_rules bytes_left_def split: option.split)

lemma prompt_if [prompt_rules]: "prompt m \<Longrightarrow> prompt n \<Longrightarrow> prompt (if b then m else n)"
  by simp

lemma prompt_option [prompt_rules]:
  "prompt m \<Longrightarrow> (\<And>x. prompt (k x)) \<Longrightarrow> prompt (case v of None \<Rightarrow> m | Some x \<Rightarrow> k x)"
  by (simp split: option.split)

lemma prompt_mod:
  "(\<And>s. \<not> blocking s \<Longrightarrow> \<not> blocking (f s) \<and> rx (f s) = rx s \<and> pending (f s) = pending s) \<Longrightarrow> prompt (modP f)"
  by (simp add: prompt_def wp_rules bytes_left_def)

lemma prompt_decode [prompt_rules]: "prompt (decode_name b)"
  unfolding decode_name_def by (intro prompt_rules)

lemma prompt_header [prompt_rules]: "prompt (send_header_to_client code n)"
  unfolding send_header_to_client_def by (intro prompt_rules)

lemma prompt_new_client [prompt_rules]: "prompt (new_sclient P n)"
  unfolding new_sclient_def by (intro prompt_rules)

lemma prompt_add_client [prompt_rules]: "prompt (add_client_db c)"
  unfolding add_client_db_def by (intro prompt_rules prompt_mod) simp

lemma prompt_delete [prompt_rules]: "prompt (delete_file f)"
  unfolding delete_file_def by (intro prompt_rules prompt_mod) simp

lemma prompt_encrypt [prompt_rules]: "prompt (encrypt_by_public_key P k a)"
  unfolding encrypt_by_public_key_def by (intro prompt_rules)

lemma prompt_send_aes [prompt_rules]: "prompt (create_send_aes P code i)"
  unfolding create_send_aes_def by (intro prompt_rules)

lemma prompt_registration: "prompt (registration_request_825 P)"
  unfolding registration_request_825_def by (intro prompt_rules prompt_mod) simp

lemma prompt_handlers:
  "prompt (reconnection_request_827 P r)" "prompt (send_public_key_request_826 P r)"
  "prompt (send_file_request_828 P r)" "prompt (crc_response_900_901_902 r)"
  unfolding reconnection_request_827_def send_public_key_request_826_def send_file_request_828_def
    crc_response_900_901_902_def check_id_def store_packet_def last_packet_def create_decrypted_file_def
    open_read_def thank_you_answer_def Let_def
  by (intro prompt_rules)+

lemma prompt_getHeader: "prompt getHeader"
  unfolding getHeader_def by (intro prompt_rules)

section \<open>One call of \<open>read\<close>\<close>

text \<open>After a call either nothing is left to read, or the socket is non-blocking and less than \<open>n\<close> bytes are left.\<close>

definition settles :: "nat \<Rightarrow> server \<Rightarrow> bool" where
  "settles n s \<longleftrightarrow> rx s = [] \<or> \<not> blocking s \<and> bytes_left s < n"

lemma wp_error_reply:
  "wp (bindP clean_buffer (\<lambda>_. send_header_to_client 1601 0)) (\<lambda>_ s'. rx s' = []) E s"
  "wp (bindP clean_buffer (\<lambda>_. send_header_to_client 1607 0)) (\<lambda>_ s'. rx s' = []) E s"
  by (simp_all add: clean_buffer_def wp_rules)

lemma wp_handle:
  assumes s: "\<not> blocking s" "bytes_left s < n"
  shows "wp (handle_request P r) (\<lambda>_. settles n) (\<lambda>_ _. True) s"
proof -
  have any: "prompt m \<Longrightarrow> wp m (\<lambda>_. settles n) (\<lambda>_ _. True) s" for m :: "unit sprog"
    using s unfolding prompt_def settles_def by (blast intro: wp_conseq le_less_trans)
  have "wp (catchP (registration_request_825 P) (\<lambda>_. bindP clean_buffer (\<lambda>_. send_header_to_client 1601 0)))
      (\<lambda>_. settles n) (\<lambda>_ _. True) s"
    unfolding wp_catch
  proof (rule wp_conseq [OF any [OF prompt_registration]])
    fix s' show "wp (bindP clean_buffer (\<lambda>_. send_header_to_client 1601 0)) (\<lambda>_. settles n) (\<lambda>_ _. True) s'"
      by (rule wp_conseq [OF wp_error_reply(1)]) (simp_all add: settles_def)
  qed
  then show ?thesis
    unfolding handle_request_def by (auto intro: any prompt_handlers prompt_simple)
qed

text \<open>A call after whose header less than \<open>n\<close> bytes are left.\<close>

lemma wp_read_after_header:
  assumes "wp getHeader (\<lambda>_ s'. \<not> blocking s' \<and> bytes_left s' < n) (\<lambda>_ _. True) s"
  shows "wp (server_read P) (\<lambda>_. settles n) (\<lambda>_ _. False) s"
proof -
  have body: "wp (case h of None \<Rightarrow> modP (\<lambda>s. s\<lparr>registered_conn := False\<rparr>)
      | Some r \<Rightarrow> bindP (header_validation r) (\<lambda>_. handle_request P r)) (\<lambda>_. settles n) (\<lambda>_ _. True) s'"
    if "\<not> blocking s'" "bytes_left s' < n" for h s'
    using that wp_handle [OF that, of P]
    by (cases h) (simp_all add: wp_rules settles_def bytes_left_def header_validation_def)
  have "wp (bindP getHeader (\<lambda>h. case h of None \<Rightarrow> modP (\<lambda>s. s\<lparr>registered_conn := False\<rparr>)
      | Some r \<Rightarrow> bindP (header_validation r) (\<lambda>_. handle_request P r))) (\<lambda>_. settles n) (\<lambda>_ _. True) s"
    unfolding wp_bind by (rule wp_conseq [OF assms]) (simp_all add: body)
  then show ?thesis
    unfolding server_read_def wp_catch
    by (rule wp_conseq) (assumption, rule wp_error_reply(2) [THEN wp_conseq], simp_all add: settles_def)
qed

lemma listen_rx: "rx s \<noteq> [] \<Longrightarrow> rx (listen as s) \<noteq> []"
proof (induction as arbitrary: s)
  case (Cons a as)
  then have "rx (arrive a s) \<noteq> []" by (cases a) simp_all
  then show ?case by (simp add: Let_def)
qed (simp add: listen.simps)

lemma wp_getHeader:
  assumes s: "\<not> blocking s" and rx: "rx s \<noteq> []"
  shows "wp getHeader (\<lambda>_ s'. \<not> blocking s' \<and> bytes_left s' < bytes_left s) (\<lambda>_ _. True) s"
proof -
  let ?l = "listen (pending s) s"
  let ?s = "?l\<lparr>rx := drop 16 (rx ?l)\<rparr>"
  let ?rest = "\<lambda>b. if b = [] then retP None else bindP (recv 1) (\<lambda>v. bindP (recv 2) (\<lambda>c. bindP (recv 4) (\<lambda>n.
      retP (Some \<lparr>sr_client_id = b, sr_version = convert_byte_to_int v, sr_code = convert_byte_to_int c,
        sr_payload_size = convert_byte_to_int n\<rparr>))))"
  have ne: "rx ?l \<noteq> []" using rx by (rule listen_rx)
  then have first: "recv 16 s = Some (Inr (take 16 (rx ?l)), ?s)" by (simp add: recv_def retP_def Let_def)
  have "prompt (?rest b)" for b by (intro prompt_rules)
  moreover have "\<not> blocking ?s" using s by simp
  ultimately have "wp (?rest b) (\<lambda>_ s'. \<not> blocking s' \<and> bytes_left s' \<le> bytes_left ?s) (\<lambda>_ _. True) ?s" for b
    unfolding prompt_def by blast
  moreover have "bytes_left ?s < bytes_left ?l" using ne by (cases "rx ?l") (simp_all add: bytes_left_def)
  then have "bytes_left ?s < bytes_left s" using listen_less by (rule less_le_trans)
  ultimately have "wp (?rest b) (\<lambda>_ s'. \<not> blocking s' \<and> bytes_left s' < bytes_left s) (\<lambda>_ _. True) ?s" for b
    by (blast intro: wp_conseq le_less_trans)
  then show ?thesis unfolding getHeader_def wp_bind wp_def [of "recv 16"] first option.case prod.case sum.case .
qed

lemma server_read_returns:
  assumes s: "\<not> blocking s"
  shows "\<exists>s'. server_read P s = Some (Inr (), s')"
proof -
  have "wp getHeader (\<lambda>_ s'. \<not> blocking s' \<and> bytes_left s' < Suc (bytes_left s)) (\<lambda>_ _. True) s"
    using prompt_getHeader s by (simp add: prompt_def less_Suc_eq_le)
  then have "wp (server_read P) (\<lambda>_. settles (Suc (bytes_left s))) (\<lambda>_ _. False) s" by (rule wp_read_after_header)
  then show ?thesis by (auto simp: wp_result)
qed

lemma serve_returns: "\<not> blocking s \<or> rx s = [] \<Longrightarrow> \<exists>s'. serve P s = Some s' \<and> rx s' = []"
proof (induction "bytes_left s" arbitrary: s rule: less_induct)
  case less
  show ?case
  proof (cases "rx s = []")
    case True
    then show ?thesis by (subst serve.simps) simp
  next
    case False
    with less.prems have "\<not> blocking s" by simp
    then obtain s1 where s1: "server_read P s = Some (Inr (), s1)" "settles (bytes_left s) s1"
      using wp_read_after_header [OF wp_getHeader, of s P] False by (auto simp: wp_result)
    have "\<exists>s'. serve P s1 = Some s' \<and> rx s' = []"
    proof (cases "rx s1 = []")
      case True
      then show ?thesis by (subst serve.simps) simp
    next
      case False
      then show ?thesis using s1(2) less.hyps [of s1] by (simp add: settles_def)
    qed
    then show ?thesis using False s1(1) by (subst serve.simps) simp
  qed
qed

section \<open>An incomplete message\<close>

lemma incomplete_header:
  assumes b: "rx s = b" "b \<noteq> []" "length b \<le> 16" and open_peer: "\<not> peer_closed s" and quiet: "pending s = []"
  shows "getHeader s = (if blocking s then None else Some (Inl BlockingIOError, s\<lparr>rx := []\<rparr>))"
proof -
  have "recv 16 s = Some (Inr b, s\<lparr>rx := []\<rparr>)"
    using b quiet by (simp add: recv_def retP_def listen_quiet)
  then show ?thesis
    using b(2) open_peer quiet by (simp add: getHeader_def bindP_def recv_def divergeP_def throwP_def listen_quiet)
qed

lemma incomplete_read:
  assumes b: "rx s = b" "b \<noteq> []" "length b \<le> 16" and open_peer: "\<not> peer_closed s" and quiet: "pending s = []"
  shows "server_read P s =
    (if blocking s then None
     else Some (Inr (), s\<lparr>rx := [], tx := tx s @ header_bytes 1607 0, blocking := True\<rparr>))"
proof -
  have "drain (s\<lparr>rx := [], blocking := False\<rparr>) = s\<lparr>rx := [], blocking := False\<rparr>"
    using quiet by (intro drain_quiet) simp_all
  then show ?thesis
    using send_header [of 1607 0]
    by (simp add: server_read_def catchP_def bindP_def [of getHeader] incomplete_header [OF assms] clean_buffer_def
        srun_mod)
qed

end
