(* ===== verification/Server_Outcomes.thy ===== *)
theory Server_Outcomes
  imports Server_Returns
begin

text \<open>
  What a call of \<open>read\<close> does with a complete request, on every branch: registration as an operation
  of an abstract registry of names, reconnection, and three requests whose effect goes beyond the
  client that sends them.
\<close>

section \<open>Complete requests\<close>

lemma server_read_request:
  assumes "rx s = request_bytes cid code psize payload" and "length cid = 16"
    and "code < 65536" and "psize < 4294967296" and "pending s = []"
  shows "server_read P s = catchP (handle_request P
      \<lparr>sr_client_id = cid, sr_version = 3, sr_code = int code, sr_payload_size = int psize\<rparr>)
      (\<lambda>_. bindP clean_buffer (\<lambda>_. send_header_to_client 1607 0)) (s\<lparr>rx := payload\<rparr>)"
  unfolding server_read_def catchP_def [abs_def] srun_getHeader [OF assms]
  by (simp add: header_validation_def srun_guard)

lemma run_error_reply:
  "rx s = [] \<Longrightarrow> pending s = [] \<Longrightarrow> bindP clean_buffer (\<lambda>_. send_header_to_client 1601 0) s
     = Some (Inr (), s\<lparr>blocking := True, tx := tx s @ header_bytes 1601 0\<rparr>)"
  "rx s = [] \<Longrightarrow> pending s = [] \<Longrightarrow> bindP clean_buffer (\<lambda>_. send_header_to_client 1607 0) s
     = Some (Inr (), s\<lparr>blocking := True, tx := tx s @ header_bytes 1607 0\<rparr>)"
  using send_header [of 1601 0] send_header [of 1607 0] by (simp_all add: clean_buffer_def srun_mod drain_quiet)

section \<open>Registration as an operation of a registry\<close>

text \<open>The registry: the id of every name. Registering a name that is taken changes nothing.\<close>

type_synonym registry = "bytes \<Rightarrow> bytes option"

datatype reply = Refused | Accepted bytes

definition register_spec :: "bytes \<Rightarrow> bytes \<Rightarrow> registry \<Rightarrow> registry \<times> reply" where
  "register_spec n cid reg = (if n \<in> dom reg then (reg, Refused) else (reg(n \<mapsto> cid), Accepted cid))"

definition registry_of :: "server \<Rightarrow> registry" where
  "registry_of s = map_of (map (\<lambda>c. (sc_name c, sc_id c)) (clients_list s))"

definition reply_bytes :: "reply \<Rightarrow> bytes" where
  "reply_bytes r = (case r of Refused \<Rightarrow> header_bytes 1601 0 | Accepted cid \<Rightarrow> header_bytes 1600 16 @ cid)"

lemma dom_registry: "dom (registry_of s) = sc_name ` set (clients_list s)"
  by (simp add: registry_of_def dom_map_of_conv_image_fst image_image)

lemma run_refused:
  assumes rx: "rx s = pad_nul 255 n" "pending s = []" and n: "plain_name n"
    and i: "first_index (\<lambda>c. sc_name c = n) (clients_list s) = Some i"
  shows "registration_request_825 P s = Some (Inl ValueError, s\<lparr>rx := [],
     db_clients := db_update (\<lambda>r. cr_id r = sc_id (clients_list s ! i)) (cr_last_seen_update (\<lambda>_. clock s)) (db_clients s),
     clock := clock s + 2,
     clients_list := (clients_list s)[i := (clients_list s ! i)\<lparr>sc_last_seen := clock s + 1\<rparr>]\<rparr>)"
proof -
  have rx': "rx s = pad_nul 255 n @ []" using rx(1) by simp
  show ?thesis
    unfolding registration_request_825_def
    using rx(2)
    by (simp add: srun_recv_padded [OF rx' n] decode_padded [OF n] srun_get i srun_last_seen) (simp add: throwP_def)
qed

lemma map_of_snoc: "n \<notin> fst ` set xs \<Longrightarrow> map_of (xs @ [(n, v)]) = (map_of xs)(n \<mapsto> v)"
  by (induction xs) auto

lemma read_registration:
  assumes rx: "rx s = request_bytes cid 825 255 (pad_nul 255 n)" and cid: "length cid = 16" and quiet: "pending s = []"
    and n: "plain_name n"
    and d: "dir_ready (disk s) n" and fresh: "uuid4_bytes P (entropy s) \<notin> cr_id ` set (db_clients s)"
  shows "\<exists>s'. server_read P s = Some (Inr (), s') \<and> rx s' = [] \<and>
    (case register_spec n (uuid4_bytes P (entropy s)) (registry_of s) of (reg, reply) \<Rightarrow>
       registry_of s' = reg \<and> tx s' = tx s @ reply_bytes reply)"
proof -
  let ?s = "s\<lparr>rx := pad_nul 255 n\<rparr>"
  have run: "server_read P s = catchP (catchP (registration_request_825 P)
      (\<lambda>_. bindP clean_buffer (\<lambda>_. send_header_to_client 1601 0)))
      (\<lambda>_. bindP clean_buffer (\<lambda>_. send_header_to_client 1607 0)) ?s"
    using server_read_request [OF rx cid _ _ quiet, of P] by (simp add: handle_request_def)
  show ?thesis
  proof (cases "first_index (\<lambda>c. sc_name c = n) (clients_list s)")
    case None
    then have new: "\<forall>c \<in> set (clients_list s). sc_name c \<noteq> n" by (simp add: first_index_None)
    have reg: "registration_request_825 P ?s = Some (Inr (),
      ?s\<lparr>rx := [], entropy := entropy s + 1, clock := clock s + 1, disk := (disk s)([folder, n] \<mapsto> Dir),
        clients_list := clients_list s @ [new_client_object P n ?s],
        db_clients := db_clients s @ [row_of_client (new_client_object P n ?s)],
        tx := tx s @ header_bytes 1600 16 @ uuid4_bytes P (entropy s)\<rparr>)"
      using run_registration [of ?s n P] n d new fresh quiet by simp
    have free: "n \<notin> sc_name ` set (clients_list s)" using new by auto
    then have "map_of (map (\<lambda>c. (sc_name c, sc_id c)) (clients_list s) @ [(n, uuid4_bytes P (entropy s))])
        = (registry_of s)(n \<mapsto> uuid4_bytes P (entropy s))"
      unfolding registry_of_def by (intro map_of_snoc) (simp add: image_image)
    then show ?thesis
      using free unfolding run
      by (simp add: catchP_def reg register_spec_def dom_registry reply_bytes_def)
        (simp add: registry_of_def new_client_object_def)
  next
    case (Some i)
    then have taken: "n \<in> dom (registry_of s)" using first_index_Some [OF Some] by (auto simp: dom_registry)
    have same: "map (\<lambda>c. (sc_name c, sc_id c)) ((clients_list s)[i := (clients_list s ! i)\<lparr>sc_last_seen := t\<rparr>])
        = map (\<lambda>c. (sc_name c, sc_id c)) (clients_list s)" for t
      by (simp add: map_update_same)
    show ?thesis
      unfolding run
      using run_refused [of ?s n i P] n Some taken quiet
      by (simp add: catchP_def run_error_reply register_spec_def reply_bytes_def)
        (simp add: registry_of_def same)
  qed
qed

section \<open>Reconnection\<close>

text \<open>The bytes the server answers to a client that asks to reconnect as \<open>n\<close> with the id \<open>cid\<close>.\<close>

definition reconnect_answer :: "'pk pycrypto \<Rightarrow> server \<Rightarrow> bytes \<Rightarrow> bytes \<Rightarrow> bytes" where
  "reconnect_answer P s cid n =
     (case first_index (\<lambda>c. sc_name c = n) (clients_list s) of
        None \<Rightarrow> header_bytes 1606 16 @ cid
      | Some i \<Rightarrow>
          (if sc_id (clients_list s ! i) \<noteq> cid then header_bytes 1607 0
           else
             (case import_key P (sc_public_key (clients_list s ! i)) of
                None \<Rightarrow> header_bytes 1606 16 @ cid
              | Some pk \<Rightarrow>
                  (case pkcs1_oaep_encrypt P pk (entropy s + 1) (get_random_bytes P (entropy s) 32) of
                     None \<Rightarrow> header_bytes 1607 0
                   | Some enc \<Rightarrow> header_bytes 1605 (16 + length enc) @ cid @ enc))))"

text \<open>The size of an encrypted key fits in the header.\<close>

definition short_ciphertexts :: "'pk pycrypto \<Rightarrow> bool" where
  "short_ciphertexts P \<longleftrightarrow>
     (\<forall>pk k m c. pkcs1_oaep_encrypt P pk k m = Some c \<longrightarrow> length c < 4294967280)"

lemma read_reconnection:
  assumes rx: "rx s = request_bytes cid 827 255 (pad_nul 255 n)" and cid: "length cid = 16" and quiet: "pending s = []"
    and n: "plain_name n"
    and len: "short_ciphertexts P"
  shows "\<exists>s'. server_read P s = Some (Inr (), s') \<and> rx s' = [] \<and> tx s' = tx s @ reconnect_answer P s cid n"
proof -
  let ?s = "s\<lparr>rx := pad_nul 255 n\<rparr>"
  let ?r = "\<lparr>sr_client_id = cid, sr_version = 3, sr_code = 827, sr_payload_size = 255\<rparr>"
  have run: "server_read P s = catchP (reconnection_request_827 P ?r)
      (\<lambda>_. bindP clean_buffer (\<lambda>_. send_header_to_client 1607 0)) ?s"
    using server_read_request [OF rx cid _ _ quiet, of P] by (simp add: handle_request_def)
  have rx': "rx ?s = pad_nul 255 n @ []" by simp
  note start = srun_recv_padded [OF rx' n] decode_padded [OF n] srun_get
  have h1606: "bindP (send_header_to_client 1606 16) k v = k () (v\<lparr>tx := tx v @ header_bytes 1606 16\<rparr>)"
    for k :: "unit \<Rightarrow> unit sprog" and v using srun_header [of 1606 16 k v] by simp
  have send: "sendall b v = Some (Inr (), v\<lparr>tx := tx v @ b\<rparr>)" for b v by (simp add: sendall_def modP_def)
  show ?thesis
  proof (cases "first_index (\<lambda>c. sc_name c = n) (clients_list s)")
    case None
    then show ?thesis
      using quiet
      unfolding run reconnection_request_827_def catchP_def
      by (simp add: start h1606 send reconnect_answer_def)
  next
    case (Some i)
    define c where "c = clients_list s ! i"
    have il: "i < length (clients_list s)" using first_index_Some [OF Some] by simp
    show ?thesis
    proof (cases "sc_id c = cid")
      case False
      then show ?thesis
        using quiet
        unfolding run reconnection_request_827_def catchP_def
        by (simp add: start Some check_id_def guardP_def c_def [symmetric] bindP_def [of "throwP ValueError"] throwP_def
            run_error_reply reconnect_answer_def)
    next
      case True
      let ?t = "s\<lparr>rx := [],
        db_clients := db_update (\<lambda>r. cr_id r = sc_id c) (cr_last_seen_update (\<lambda>_. clock s)) (db_clients s),
        clock := clock s + 2, clients_list := (clients_list s)[i := c\<lparr>sc_last_seen := clock s + 1\<rparr>]\<rparr>"
      have seen: "reconnection_request_827 P ?r ?s = (case import_key P (sc_public_key c) of
          None \<Rightarrow> bindP (send_header_to_client 1606 16) (\<lambda>_. sendall (sc_id c))
        | Some _ \<Rightarrow> create_send_aes P 1605 i) ?t"
        unfolding reconnection_request_827_def using True quiet
        by (simp add: start Some c_def [symmetric] srun_check_id srun_last_seen split: option.split)
      show ?thesis
      proof (cases "import_key P (sc_public_key c)")
        case None
        then show ?thesis
          unfolding run catchP_def seen
          by (simp add: h1606 send reconnect_answer_def Some True flip: c_def)
      next
        case (Some pk)
        note key = Some
        show ?thesis
        proof (cases "pkcs1_oaep_encrypt P pk (entropy s + 1) (get_random_bytes P (entropy s) 32)")
          case None
          have "\<exists>v. create_send_aes P 1605 i ?t = Some (Inl CryptoError, v) \<and> rx v = [] \<and> pending v = [] \<and> tx v = tx s"
            unfolding create_send_aes_def encrypt_by_public_key_def
            using il key None quiet
            by (simp add: srun_draw srun_mod_client srun_get srun_set_aes_key bind_assocP srun_opt)
              (simp add: bindP_def optP_def throwP_def)
          then obtain v where v: "create_send_aes P 1605 i ?t = Some (Inl CryptoError, v)" "rx v = []" "pending v = []" "tx v = tx s"
            by blast
          then show ?thesis
            using None key \<open>first_index _ _ = Some i\<close> True unfolding run catchP_def seen
            by (simp add: run_error_reply reconnect_answer_def flip: c_def)
        next
          case (Some enc)
          have "create_send_aes P 1605 i ?t = Some (Inr (), ?t\<lparr>entropy := entropy ?t + 2,
              clients_list := (clients_list ?t)[i := (c\<lparr>sc_last_seen := clock s + 1\<rparr>)\<lparr>sc_aes_key := get_random_bytes P (entropy s) 32\<rparr>],
              db_clients := db_update (\<lambda>r. cr_id r = sc_id (c\<lparr>sc_last_seen := clock s + 1\<rparr>))
                (cr_aes_key_update (\<lambda>_. get_random_bytes P (entropy s) 32)) (db_clients ?t),
              tx := tx ?t @ header_bytes 1605 (16 + length enc) @ sc_id (c\<lparr>sc_last_seen := clock s + 1\<rparr>) @ enc\<rparr>)"
            by (rule run_create_send_aes [where pk = pk]) (use il key Some len in \<open>simp_all add: short_ciphertexts_def\<close>)
          then show ?thesis
            using Some key \<open>first_index _ _ = Some i\<close> True unfolding run catchP_def seen
            by (simp add: reconnect_answer_def flip: c_def)
        qed
      qed
    qed
  qed
qed

section \<open>File names that leave the client's directory\<close>

text \<open>The file name of the request and the path it leads to.\<close>

definition name_in_directory_of :: "bytes \<Rightarrow> bytes \<Rightarrow> bytes" where
  "name_in_directory_of v f = lit ''../'' @ v @ [slash] @ f"

lemma split_path_up: "split_path (lit ''../'' @ r) = lit ''..'' # split_path r"
  by (simp add: lit_def slash_def)

lemma resolve_outside:
  assumes "plain_name n" "plain_name v" "plain_name f"
    and "d [folder] = Some Dir" "d [folder, n] = Some Dir" "d [folder, v] = Some Dir"
  shows "resolve d (file_path n (name_in_directory_of v f)) = Some [folder, v, f]"
proof -
  have up: "go [folder, n] (lit ''..'') = [folder]"
    using plain_not_up [OF assms(1)] by (simp add: go_def lit_def)
  have split: "split_path (file_path n (name_in_directory_of v f)) = [folder, n, lit ''..'', v, f]"
    using assms(1-3)
    by (simp add: file_path_def name_in_directory_of_def split_path_slash folder_plain split_path_up split_path_plain
        plain_name_def)
  have dirs: "is_dir d []" "is_dir d [folder]" "is_dir d [folder, n]" "is_dir d [folder, v]"
    using assms(4-6) by (simp_all add: is_dir_def)
  have steps: "go [] folder = [folder]" "go [folder] n = [folder, n]" "go [folder] v = [folder, v]"
    "go [folder, v] f = [folder, v, f]"
    using assms(1-3) by (simp_all add: go_folder go_plain)
  show ?thesis unfolding resolve_def split by (simp add: dirs steps up)
qed

lemma read_packet_outside:
  assumes rx: "rx s = request_bytes cid 828 (267 + length content)
      (packet_bytes csize osize 1 tot (name_in_directory_of v f) content)"
    and cid: "length cid = 16" and quiet: "pending s = []" and k: "known s i cid n aes" and names: "plain_name n" "plain_name v" "plain_name f"
    and field: "field_name (name_in_directory_of v f)"
    and small: "csize < 4294967296" "osize < 4294967296" "tot < 65536" "tot \<noteq> 1"
    and content: "content \<noteq> []" "length content \<le> 4096"
    and target: "disk s [folder, v] = Some Dir" "disk s [folder, v, f] \<noteq> Some Dir"
    and new: "name_in_directory_of v f \<notin> sf_name ` set (sc_files (clients_list s ! i))"
      "cid \<notin> fr_client_id ` set (db_files s)"
  shows "\<exists>s'. server_read P s = Some (Inr (), s') \<and> tx s' = tx s \<and> disk s' = (disk s)([folder, v, f] \<mapsto> Regular content)"
proof -
  let ?g = "name_in_directory_of v f" and ?s = "s\<lparr>rx := []\<rparr>"
  let ?r = "\<lparr>sr_client_id = cid, sr_version = 3, sr_code = 828, sr_payload_size = int (267 + length content)\<rparr>"
  define c where "c = clients_list s ! i"
  have c: "sc_name c = n" "sc_id c = cid" using k known_index [OF k] by (simp_all add: known_def c_def)
  have idx: "first_index (\<lambda>c. sc_id c = sr_client_id ?r) (clients_list (s\<lparr>rx := packet_bytes csize osize 1 tot ?g content\<rparr>)) = Some i"
    using k by (simp add: known_def)
  have path: "resolve (disk s) (file_path n ?g) = Some [folder, v, f]"
    using resolve_outside [OF names, of "disk s"] k target by (simp add: known_def)
  have wr: "write_path (disk s) (file_path n ?g) content = Some ((disk s)([folder, v, f] \<mapsto> Regular content))"
    using target names by (simp add: write_path_def path is_dir_def plain_not_up)
  have none: "first_index (\<lambda>x. sf_name x = ?g) (sc_files c) = None"
    using new(1) unfolding first_index_None c_def by (metis rev_image_eqI)
  have row: "(cid, ?g) \<notin> (\<lambda>r. (fr_client_id r, fr_name r)) ` set (db_files s)" using new(2) by auto
  have packet: "send_file_request_828 P ?r (s\<lparr>rx := packet_bytes csize osize 1 tot ?g content\<rparr>) =
      bindP (store_packet i c 1 ?g content) (\<lambda>x. retP ()) ?s"
    using run_packet [where s = "s\<lparr>rx := packet_bytes csize osize 1 tot ?g content\<rparr>" and r = ?r and k = 1 and P = P and c = c,
        OF _ _ _ _ small(1,2) _ small(3) field content(1) idx] c small(4) quiet by (simp add: c_def)
  have "wp (bindP (store_packet i c 1 ?g content) (\<lambda>x. retP ()))
      (\<lambda>_ s'. tx s' = tx s \<and> disk s' = (disk s)([folder, v, f] \<mapsto> Regular content)) (\<lambda>_ _. False) ?s"
    unfolding store_packet_def Let_def using row by (simp add: wp_rules c wr none)
  then obtain s' where s': "bindP (store_packet i c 1 ?g content) (\<lambda>x. retP ()) ?s = Some (Inr (), s')"
    "tx s' = tx s" "disk s' = (disk s)([folder, v, f] \<mapsto> Regular content)"
    unfolding wp_result by auto
  have sz: "267 + length content < 4294967296" using content(2) by simp
  show ?thesis
    using s' packet unfolding server_read_request [OF rx cid _ sz quiet, of P, simplified]
    by (simp add: handle_request_def catchP_def)
qed

section \<open>Verdicts\<close>

text \<open>The position of a client and of one of its files.\<close>

definition file_at :: "server \<Rightarrow> nat \<Rightarrow> nat \<Rightarrow> bytes \<Rightarrow> bytes \<Rightarrow> bool" where
  "file_at s i j cid f \<longleftrightarrow>
     first_index (\<lambda>c. sc_id c = cid) (clients_list s) = Some i \<and>
     first_index (\<lambda>x. sf_name x = f) (sc_files (clients_list s ! i)) = Some j"

lemma read_verdict:
  assumes rx: "rx s = request_bytes cid code 255 (pad_nul 255 f)" and cid: "length cid = 16" and quiet: "pending s = []" and f: "field_name f"
    and code: "code = 900 \<or> code = 901 \<or> code = 902" and at: "file_at s i j cid f"
    and c: "c = clients_list s ! i" and x: "x = sc_files c ! j"
  shows "wp (server_read P) N E s = wp (catchP (bindP (last_seen i c) (\<lambda>_.
      if sf_valid_crc x then throwP ValueError
      else if code = 900 then
        bindP (mod_file i j (sf_valid_crc_update (\<lambda>_. True))) (\<lambda>_.
        bindP (set_valid_crc cid True) (\<lambda>_. thank_you_answer cid))
      else if code = 902 then
        bindP (on_disk (\<lambda>d. remove_path d (sf_path x))) (\<lambda>_.
        bindP (mod_client i (\<lambda>c. c\<lparr>sc_files := take j (sc_files c) @ drop (Suc j) (sc_files c)\<rparr>)) (\<lambda>_.
        bindP (delete_file f) (\<lambda>_. thank_you_answer cid)))
      else retP ())) (\<lambda>_. bindP clean_buffer (\<lambda>_. send_header_to_client 1607 0))) N E (s\<lparr>rx := []\<rparr>)"
proof -
  let ?s = "s\<lparr>rx := pad_nul 255 f\<rparr>"
  have rx': "rx ?s = pad_nul 255 f @ []" by simp
  have i: "first_index (\<lambda>c. sc_id c = cid) (clients_list s) = Some i"
    and j: "first_index (\<lambda>x. sf_name x = f) (sc_files c) = Some j"
    using at c by (simp_all add: file_at_def)
  have id: "sc_id c = cid" using first_index_Some [OF i] c by simp
  have r: "server_read P s = catchP (crc_response_900_901_902
      \<lparr>sr_client_id = cid, sr_version = 3, sr_code = int code, sr_payload_size = 255\<rparr>)
      (\<lambda>_. bindP clean_buffer (\<lambda>_. send_header_to_client 1607 0)) ?s"
    using server_read_request [OF rx cid _ _ quiet, of P] code by (auto simp: handle_request_def)
  show ?thesis
    unfolding wp_def r crc_response_900_901_902_def catchP_def
    using quiet
    by (simp add: srun_recv_field [OF rx' f] decode_field [OF f] srun_get i j Let_def id flip: c x cong: if_cong)
qed

text \<open>The objects of the other clients and the other objects of this client.\<close>

definition other_objects_same :: "nat \<Rightarrow> bytes \<Rightarrow> server \<Rightarrow> server \<Rightarrow> bool" where
  "other_objects_same i f s s' \<longleftrightarrow>
     length (clients_list s') = length (clients_list s) \<and>
     (\<forall>k. k \<noteq> i \<longrightarrow> clients_list s' ! k = clients_list s ! k) \<and>
     filter (\<lambda>x. sf_name x \<noteq> f) (sc_files (clients_list s' ! i)) = filter (\<lambda>x. sf_name x \<noteq> f) (sc_files (clients_list s ! i))"

lemma filter_update_other: "\<not> p (xs ! j) \<Longrightarrow> \<not> p y \<Longrightarrow> filter p (xs[j := y]) = filter p xs"
  by (induction xs arbitrary: j) (auto split: nat.splits)

lemma filter_drop_other: "j < length xs \<Longrightarrow> \<not> p (xs ! j) \<Longrightarrow> filter p (take j xs @ drop (Suc j) xs) = filter p xs"
  by (subst (3) id_take_nth_drop [of j xs]) simp_all

lemma read_valid:
  assumes rx: "rx s = request_bytes cid 900 255 (pad_nul 255 f)" and cid: "length cid = 16" and quiet: "pending s = []" and f: "field_name f"
    and at: "file_at s i j cid f" and x: "\<not> sf_valid_crc (sc_files (clients_list s ! i) ! j)"
  shows "\<exists>s'. server_read P s = Some (Inr (), s') \<and> tx s' = tx s @ header_bytes 1604 16 @ cid \<and>
    other_objects_same i f s s' \<and> db_files s' = db_update (\<lambda>r. fr_client_id r = cid) (fr_valid_crc_update (\<lambda>_. True)) (db_files s)"
proof -
  have i: "i < length (clients_list s)" and j: "sf_name (sc_files (clients_list s ! i) ! j) = f"
    using at by (auto simp: file_at_def dest: first_index_Some)
  have "wp (server_read P) (\<lambda>_ s'. tx s' = tx s @ header_bytes 1604 16 @ cid \<and> other_objects_same i f s s' \<and>
      db_files s' = db_update (\<lambda>r. fr_client_id r = cid) (fr_valid_crc_update (\<lambda>_. True)) (db_files s)) (\<lambda>_ _. False) s"
    unfolding read_verdict [OF rx cid quiet f disjI1 [OF refl] at refl refl]
    using x i j
    by (simp add: wp_rules thank_you_answer_def other_objects_same_def filter_update_other)
  then show ?thesis unfolding wp_result by auto
qed

lemma read_drop:
  assumes rx: "rx s = request_bytes cid 902 255 (pad_nul 255 f)" and cid: "length cid = 16" and quiet: "pending s = []" and f: "field_name f"
    and at: "file_at s i j cid f" and x: "x = sc_files (clients_list s ! i) ! j" "\<not> sf_valid_crc x"
    and d: "remove_path (disk s) (sf_path x) = Some d" and row: "f \<in> fr_name ` set (db_files s)"
  shows "\<exists>s'. server_read P s = Some (Inr (), s') \<and> tx s' = tx s @ header_bytes 1604 16 @ cid \<and>
    other_objects_same i f s s' \<and> disk s' = d \<and> db_files s' = filter (\<lambda>r. fr_name r \<noteq> f) (db_files s)"
proof -
  have i: "i < length (clients_list s)" and j: "j < length (sc_files (clients_list s ! i))" "sf_name x = f"
    using at x by (auto simp: file_at_def dest: first_index_Some)
  have some_row: "filter (\<lambda>r. fr_name r = f) (db_files s) \<noteq> []" using row by (auto simp: filter_empty_conv)
  have "wp (server_read P) (\<lambda>_ s'. tx s' = tx s @ header_bytes 1604 16 @ cid \<and> other_objects_same i f s s' \<and>
      disk s' = d \<and> db_files s' = filter (\<lambda>r. fr_name r \<noteq> f) (db_files s)) (\<lambda>_ _. False) s"
    unfolding read_verdict [OF rx cid quiet f disjI2 [OF disjI2 [OF refl]] at refl x(1)]
    using x i j d some_row
    by (simp add: wp_rules thank_you_answer_def other_objects_same_def filter_drop_other delete_file_def del: set_append filter_append)
  then show ?thesis unfolding wp_result by auto
qed

end
