(* ===== verification/System.thy ===== *)
theory System
  imports Server_Transfer Client_Function
begin

text \<open>
  The whole system: the client program connected to the server. The client's writes are delivered to
  the server, which handles them one after the other, and its answers come back into the client's
  input buffer.
\<close>

section \<open>The server as the client's peer\<close>

text \<open>\<open>Hung\<close>: a handler waits on the blocking socket for ever, and nothing is answered any more.\<close>

datatype speer = Serving server | Hung

definition server_connect :: "bytes \<Rightarrow> bytes \<Rightarrow> speer \<Rightarrow> speer option" where
  "server_connect ip port p = Some (case p of Hung \<Rightarrow> Hung | Serving s \<Rightarrow> Serving (accept s))"

definition server_write :: "'k pycrypto \<Rightarrow> bytes \<Rightarrow> speer \<Rightarrow> (speer \<times> bytes) option" where
  "server_write P m p =
     Some (case p of
             Hung \<Rightarrow> (Hung, [])
           | Serving s \<Rightarrow>
               (case serve P (s\<lparr>rx := rx s @ m\<rparr>) of
                  None \<Rightarrow> (Hung, [])
                | Some s' \<Rightarrow> (Serving (s'\<lparr>tx := []\<rparr>), tx s')))"

definition system_env :: "('sk, 'pk) cryptopp \<Rightarrow> 'k pycrypto \<Rightarrow> ('sk, 'pk, speer) env" where
  "system_env C P = \<lparr>crypto = C, net = \<lparr>net_connect = server_connect, net_write = server_write P\<rparr>\<rparr>"

section \<open>What both sides rely on in their libraries\<close>

text \<open>
  A key pair made by Crypto++ is understood by PyCryptodome, OAEP and AES-CBC with PKCS #7 padding
  invert each other across the two libraries, and random values have the sizes asked for.
\<close>

definition libraries_agree :: "('sk, 'pk) cryptopp \<Rightarrow> 'k pycrypto \<Rightarrow> bool" where
  "libraries_agree C P \<longleftrightarrow>
     (\<forall>sk. rsa_load_private C (rsa_save_private C sk) = Some sk) \<and>
     (\<forall>n. let sk = rsa_initialize C n 1024; key = rsa_save_public C (rsa_function C sk)
          in length key = 160 \<and>
             (\<exists>pk. import_key P key = Some pk \<and>
                (\<forall>m k. length m = 32 \<longrightarrow>
                   (\<exists>c. pkcs1_oaep_encrypt P pk k m = Some c \<and> length c = 128 \<and> oaep_decrypt C sk c = Some m)))) \<and>
     (\<forall>key p. length key = 32 \<longrightarrow>
        (\<exists>d. aes_cbc_decrypt P key (replicate 16 0) (cbc_encrypt C key (replicate 16 0) p) = Some d \<and>
             unpad P d 16 = Some p)) \<and>
     (\<forall>key iv p. length (cbc_encrypt C key iv p) = 16 * (length p div 16 + 1)) \<and>
     (\<forall>n. length (uuid4_bytes P n) = 16) \<and>
     (\<forall>n k. length (get_random_bytes P n k) = k)"

section \<open>Messages of the client as the server sees them\<close>

lemma store16: "0 \<le> c \<Longrightarrow> c < 65536 \<Longrightarrow> store_little_u16 (word_of_int c) = le_bytes 2 (nat c)"
  by (simp add: store_little_u16_def unat_eq_nat_uint unsigned_of_int take_bit_int_eq_self)

lemma store32: "0 \<le> c \<Longrightarrow> c < 4294967296 \<Longrightarrow> store_little_u32 (word_of_int c) = le_bytes 4 (nat c)"
  by (simp add: store_little_u32_def unat_eq_nat_uint unsigned_of_int take_bit_int_eq_self)

lemma store16_nat: "c < 65536 \<Longrightarrow> store_little_u16 (of_nat c) = le_bytes 2 c"
  using store16 [of "int c"] by simp

lemma store32_nat: "c < 4294967296 \<Longrightarrow> store_little_u32 (of_nat c) = le_bytes 4 c"
  using store32 [of "int c"] by simp

lemma answer_bytes_header:
  "code < 65536 \<Longrightarrow> psize < 4294967296 \<Longrightarrow> answer_bytes code psize payload = header_bytes code psize @ payload"
  by (simp add: answer_bytes_def header_bytes_def store16_nat store32_nat)

lemma message_bytes:
  assumes "rq_client_id r = cid" and "length cid = 16" and "rq_version r = [3]"
    and "rq_code r = le_bytes 2 code" and "rq_payload_size r = le_bytes 4 psize" and "rq_payload r = payload"
  shows "request_message r = request_bytes cid code psize payload"
  using assms by (simp add: request_message_def request_bytes_def)

text \<open>The server is idle: it has read everything and sent everything, and nothing is on its way.\<close>

definition idle :: "server \<Rightarrow> bool" where
  "idle s \<longleftrightarrow> rx s = [] \<and> tx s = [] \<and> pending s = []"

lemma after_send_served:
  assumes "peer w = Serving s" and "idle s" and "serve P (s\<lparr>rx := request_message q\<rparr>) = Some s'"
  shows "after_send (system_env C P) q w =
    w\<lparr>peer := Serving (s'\<lparr>tx := []\<rparr>), inbuf := inbuf w @ tx s', sent := sent w @ [request_message q]\<rparr>"
  using assms by (simp add: after_send_def system_env_def server_write_def idle_def)

lemma transfer_frame [simp]:
  "known (s\<lparr>tx := t\<rparr>) i cid n aes = known s i cid n aes"
  "known (s\<lparr>rx := t\<rparr>) i cid n aes = known s i cid n aes"
  "holds (s\<lparr>tx := t\<rparr>) i cid n aes f v acc = holds s i cid n aes f v acc"
  "holds (s\<lparr>rx := t\<rparr>) i cid n aes f v acc = holds s i cid n aes f v acc"
  "may_start (s\<lparr>tx := t\<rparr>) i cid n aes f = may_start s i cid n aes f"
  "may_start (s\<lparr>rx := t\<rparr>) i cid n aes f = may_start s i cid n aes f"
  "others_same i p s (s'\<lparr>tx := t\<rparr>) = others_same i p s s'"
  "others_same i p (s\<lparr>rx := t\<rparr>) s' = others_same i p s s'"
  by (simp_all add: known_def holds_def may_start_def others_same_def cong: option.case_cong)

section \<open>One packet through the system\<close>

lemma packet_message:
  assumes r: "rq_client_id r = cid" "length cid = 16" "rq_version r = [3]" "rq_code r = le_bytes 2 828"
    and small: "csize < 4294967296" "osize < 4294967296" "Suc k < 65536" "tot < 65536"
    and f: "length f \<le> 255"
  shows "request_message (packet_request r (int csize) (int osize) (int tot) f body k)
    = request_bytes cid 828 (267 + length (chunk body k)) (packet_bytes csize osize (Suc k) tot f (chunk body k))"
proof -
  have "length (chunk body k) \<le> 4096" by (simp add: length_chunk)
  then have "store_little_u32 (of_nat (267 + length (chunk body k))) = le_bytes 4 (267 + length (chunk body k))"
    by (intro store32_nat) simp
  then show ?thesis
    using r small store16_nat [OF small(3)]
    by (intro message_bytes)
      (simp_all add: packet_request_def packet_payload_def packet_bytes_def store32_nat store16_nat)
qed


text \<open>Where the transfer stands before packet \<open>num\<close>, with \<open>acc\<close> stored so far.\<close>

definition before_packet ::
    "server \<Rightarrow> nat \<Rightarrow> bytes \<Rightarrow> bytes \<Rightarrow> bytes \<Rightarrow> bytes \<Rightarrow> nat \<Rightarrow> bytes \<Rightarrow> bool" where
  "before_packet s i cid n aes f num acc \<longleftrightarrow>
     (if num = 1 then may_start s i cid n aes f \<and> acc = [] else holds s i cid n aes f False acc)"

lemma store_packet_step:
  assumes s: "before_packet s i cid n aes f num acc" and n: "plain_name n" "plain_name f"
    and c: "clients_list s ! i = c"
  shows "wp (store_packet i c (int num) f content) (stored_packet s i cid n aes f (acc @ content)) (\<lambda>_ _. False) s"
proof (cases "num = 1")
  case True
  with s have "may_start s i cid n aes f" "acc = []" by (simp_all add: before_packet_def)
  with True show ?thesis using wp_first_packet [OF _ n c] by simp
next
  case False
  with s have "holds s i cid n aes f False acc" by (simp add: before_packet_def)
  with False show ?thesis using wp_next_packet [OF _ n c, where number = "int num"] by simp
qed

lemma before_packet_known: "before_packet s i cid n aes f num acc \<Longrightarrow> known s i cid n aes"
  by (auto simp: before_packet_def may_start_def holds_def split: if_splits)

lemma serve_packet:
  assumes rx: "rx s = request_bytes cid 828 (267 + length content) (packet_bytes csize osize num tot f content)"
    and quiet: "pending s = []" and s: "before_packet s i cid n aes f num acc" and n: "plain_name n" "plain_name f" and cid: "length cid = 16"
    and small: "csize < 4294967296" "osize < 4294967296" "num < 65536" "tot < 65536"
    and content: "content \<noteq> []" "length content \<le> 4096"
    and last: "num = tot \<Longrightarrow> aes_cbc_decrypt P aes (replicate 16 0) (acc @ content) = Some d \<and>
      unpad P d 16 = Some original \<and> osize = length original"
  shows "\<exists>s'. serve P s = Some s' \<and> (others_same i [folder, n, f] s s' \<and>
    (if num = tot then holds s' i cid n aes f False original \<and> tx s' = tx s @ crc_answer_bytes cid csize f original
     else holds s' i cid n aes f False (acc @ content) \<and> tx s' = tx s)) \<and> rx s' = []"
proof (rule serve_request [OF rx cid])
  let ?r = "\<lparr>sr_client_id = cid, sr_version = 3, sr_code = int 828, sr_payload_size = int (267 + length content)\<rparr>"
  let ?s = "s\<lparr>rx := packet_bytes csize osize num tot f content\<rparr>"
  let ?Q = "\<lambda>_ s'. (others_same i [folder, n, f] s s' \<and>
    (if num = tot then holds s' i cid n aes f False original \<and> tx s' = tx s @ crc_answer_bytes cid csize f original
     else holds s' i cid n aes f False (acc @ content) \<and> tx s' = tx s)) \<and> rx s' = []"
  define c where "c = clients_list s ! i"
  have k: "known s i cid n aes" by (rule before_packet_known [OF s])
  have c: "sc_id c = cid" "sc_aes_key c = aes" using k known_index [OF k] by (simp_all add: c_def known_def)
  have i: "first_index (\<lambda>c. sc_id c = sr_client_id ?r) (clients_list ?s) = Some i" using k by (simp add: known_def)
  have run: "handle_request P ?r ?s = bindP (store_packet i c (int num) f content) (\<lambda>file.
      if num = tot then last_packet P file c (int csize) (int osize) else retP ()) (s\<lparr>rx := []\<rparr>)"
    unfolding handle_request_def
    using run_packet [where s = ?s and r = ?r and c = c and P = P, OF _ _ _ _ small plain_field [OF n(2)] content(1) i] c quiet
    by (simp add: c_def)
  have st: "before_packet (s\<lparr>rx := []\<rparr>) i cid n aes f num acc" using s by (simp add: before_packet_def)
  have step: "wp (store_packet i c (int num) f content)
      (stored_packet (s\<lparr>rx := []\<rparr>) i cid n aes f (acc @ content)) (\<lambda>_ _. False) (s\<lparr>rx := []\<rparr>)"
    by (rule store_packet_step [OF st n]) (simp add: c_def)
  have "wp (bindP (store_packet i c (int num) f content) (\<lambda>file.
      if num = tot then last_packet P file c (int csize) (int osize) else retP ())) ?Q (\<lambda>_ _. False) (s\<lparr>rx := []\<rparr>)"
    unfolding wp_bind
  proof (rule wp_conseq [OF step])
    fix fil s' assume p: "stored_packet (s\<lparr>rx := []\<rparr>) i cid n aes f (acc @ content) fil s'"
    show "wp (if num = tot then last_packet P fil c (int csize) (int osize) else retP ()) ?Q (\<lambda>_ _. False) s'"
    proof (cases "num = tot")
      case True
      have "wp (last_packet P fil c (int csize) (int osize))
        (\<lambda>_ v. holds v i cid n aes f False original \<and> others_same i [folder, n, f] s' v \<and> rx v = rx s' \<and>
           tx v = tx s' @ crc_answer_bytes cid csize f original) (\<lambda>_ _. False) s'"
        by (rule wp_last_packet [where body = "acc @ content" and d = d])
          (use p n c small last True in \<open>auto simp: stored_packet_def\<close>)
      then show ?thesis
        unfolding if_P [OF True]
        by (rule wp_conseq) (use p True in \<open>auto simp: stored_packet_def intro: others_same_trans\<close>)
    next
      case False
      then show ?thesis using p by (simp add: wp_rules stored_packet_def)
    qed
  qed simp
  then show "wp (handle_request P ?r) ?Q (\<lambda>_ _. False) ?s"
    unfolding wp_def run .
qed (use content quiet in simp_all)


section \<open>A whole transfer through the system\<close>

text \<open>The client's world with the server as an idle peer; \<open>w'\<close> is \<open>w\<close> after some messages.\<close>

definition connected :: "speer world \<Rightarrow> server \<Rightarrow> bool" where
  "connected w s \<longleftrightarrow> peer w = Serving s \<and> idle s"

text \<open>What a transfer needs: its request, its names, and a body that decrypts to the original.\<close>

definition good_transfer ::
    "'k pycrypto \<Rightarrow> request \<Rightarrow> bytes \<Rightarrow> bytes \<Rightarrow> bytes \<Rightarrow> bytes \<Rightarrow> bytes \<Rightarrow> bytes \<Rightarrow> bool" where
  "good_transfer P q cid n f aes body original \<longleftrightarrow>
     rq_client_id q = cid \<and> length cid = 16 \<and> rq_version q = [3] \<and> rq_code q = le_bytes 2 828 \<and>
     plain_name n \<and> plain_name f \<and> body \<noteq> [] \<and> length body \<le> 268431360 \<and> length original < 2147483648 \<and>
     (\<exists>d. aes_cbc_decrypt P aes (replicate 16 0) body = Some d \<and> unpad P d 16 = Some original)"

abbreviation nth_packet :: "request \<Rightarrow> bytes \<Rightarrow> bytes \<Rightarrow> bytes \<Rightarrow> nat \<Rightarrow> request" where
  "nth_packet q f body original \<equiv>
     packet_request q (int (length body)) (int (length original)) (int (packet_count body)) f body"

lemma packet_count_bounds:
  "good_transfer P q cid n f aes body original \<Longrightarrow> 0 < packet_count body \<and> packet_count body \<le> 65535"
proof -
  assume "good_transfer P q cid n f aes body original"
  then have "0 < length body" and "length body \<le> 268431360" by (auto simp: good_transfer_def)
  then have "4096 \<le> length body + 4095" by linarith
  with total_packets_bound [of "length body"] \<open>length body \<le> 268431360\<close> show ?thesis
    by (simp add: packet_count_def div_greater_zero_iff)
qed

lemma one_packet:
  assumes g: "good_transfer P q cid n f aes body original" and w: "connected w s"
    and k: "k < packet_count body"
    and s: "before_packet s i cid n aes f (Suc k) (concat (map (chunk body) [0..<k]))"
  shows "\<exists>s'. connected (after_send (system_env C P) (nth_packet q f body original k) w) s' \<and>
     others_same i [folder, n, f] s s' \<and>
     (if Suc k = packet_count body
      then holds s' i cid n aes f False original \<and>
        inbuf (after_send (system_env C P) (nth_packet q f body original k) w) =
          inbuf w @ crc_answer_bytes cid (length body) f original
      else before_packet s' i cid n aes f (Suc (Suc k)) (concat (map (chunk body) [0..<Suc k])) \<and>
        inbuf (after_send (system_env C P) (nth_packet q f body original k) w) = inbuf w)"
proof -
  let ?q = "nth_packet q f body original k" and ?acc = "concat (map (chunk body) [0..<k])"
  have K: "packet_count body \<le> 65535" using packet_count_bounds [OF g] by simp
  have small: "length body < 4294967296" "length original < 4294967296" "Suc k < 65536" "packet_count body < 65536"
    using g k K by (simp_all add: good_transfer_def)
  have fl: "length f \<le> 255" using g by (simp add: good_transfer_def plain_name_def)
  have msg: "request_message ?q = request_bytes cid 828 (267 + length (chunk body k))
      (packet_bytes (length body) (length original) (Suc k) (packet_count body) f (chunk body k))"
    using g by (intro packet_message [OF _ _ _ _ small fl]) (simp_all add: good_transfer_def)
  have ch: "chunk body k \<noteq> []" "length (chunk body k) \<le> 4096" using chunk_bounds [OF k] by auto
  have all: "?acc @ chunk body k = concat (map (chunk body) [0..<Suc k])" by simp
  obtain d where d: "aes_cbc_decrypt P aes (replicate 16 0) body = Some d" "unpad P d 16 = Some original"
    using g by (auto simp: good_transfer_def)
  have last: "aes_cbc_decrypt P aes (replicate 16 0) (?acc @ chunk body k) = Some d \<and>
      unpad P d 16 = Some original \<and> length original = length original" if "Suc k = packet_count body"
    using d concat_chunks [of body] unfolding all that by simp
  define s0 where "s0 = s\<lparr>rx := request_message ?q\<rparr>"
  have s0: "before_packet s0 i cid n aes f (Suc k) ?acc" "tx s0 = tx s" "rx s0 = request_message ?q" "pending s0 = []"
    using s w by (simp_all add: before_packet_def s0_def connected_def idle_def)
  have names: "plain_name n" "plain_name f" "length cid = 16" using g by (simp_all add: good_transfer_def)
  obtain s' where s': "serve P s0 = Some s'" "rx s' = []" "others_same i [folder, n, f] s0 s'"
    "if Suc k = packet_count body
     then holds s' i cid n aes f False original \<and> tx s' = tx s0 @ crc_answer_bytes cid (length body) f original
     else holds s' i cid n aes f False (?acc @ chunk body k) \<and> tx s' = tx s0"
    using serve_packet [OF s0(3) [unfolded msg] s0(4) s0(1) names small ch last] by blast
  have others: "others_same i [folder, n, f] s s'" using s'(3) by (simp add: s0_def)
  have sent: "after_send (system_env C P) ?q w =
      w\<lparr>peer := Serving (s'\<lparr>tx := []\<rparr>), inbuf := inbuf w @ tx s', sent := sent w @ [request_message ?q]\<rparr>"
    using w s'(1) by (intro after_send_served [where s = s]) (simp_all add: connected_def s0_def)
  have tx: "tx s = []" using w by (simp add: connected_def idle_def)
  show ?thesis
  proof (intro exI [of _ "s'\<lparr>tx := []\<rparr>"] conjI)
    show "connected (after_send (system_env C P) ?q w) (s'\<lparr>tx := []\<rparr>)"
      using s'(2) others w by (simp add: sent connected_def idle_def others_same_def)
    show "others_same i [folder, n, f] s (s'\<lparr>tx := []\<rparr>)" using others by simp
    show "if Suc k = packet_count body
      then holds (s'\<lparr>tx := []\<rparr>) i cid n aes f False original \<and>
        inbuf (after_send (system_env C P) ?q w) = inbuf w @ crc_answer_bytes cid (length body) f original
      else before_packet (s'\<lparr>tx := []\<rparr>) i cid n aes f (Suc (Suc k)) (concat (map (chunk body) [0..<Suc k])) \<and>
        inbuf (after_send (system_env C P) ?q w) = inbuf w"
      using s'(4) tx by (simp add: sent s0(2) before_packet_def split: if_splits)
  qed
qed


lemma some_packets:
  assumes g: "good_transfer P q cid n f aes body original" and w: "connected w s"
    and s: "may_start s i cid n aes f"
  shows "m < packet_count body \<Longrightarrow>
    \<exists>s'. connected (fold (after_send (system_env C P)) (map (nth_packet q f body original) [0..<m]) w) s' \<and>
      others_same i [folder, n, f] s s' \<and>
      before_packet s' i cid n aes f (Suc m) (concat (map (chunk body) [0..<m])) \<and>
      inbuf (fold (after_send (system_env C P)) (map (nth_packet q f body original) [0..<m]) w) = inbuf w"
proof (induction m)
  case 0
  then show ?case using w s by (auto simp: before_packet_def)
next
  case (Suc m)
  let ?w = "fold (after_send (system_env C P)) (map (nth_packet q f body original) [0..<m]) w"
  obtain s1 where s1: "connected ?w s1" "others_same i [folder, n, f] s s1"
    "before_packet s1 i cid n aes f (Suc m) (concat (map (chunk body) [0..<m]))" "inbuf ?w = inbuf w"
    using Suc by auto
  have m: "m < packet_count body" "Suc m \<noteq> packet_count body" using Suc.prems by simp_all
  obtain s2 where "connected (after_send (system_env C P) (nth_packet q f body original m) ?w) s2"
    "others_same i [folder, n, f] s1 s2"
    "before_packet s2 i cid n aes f (Suc (Suc m)) (concat (map (chunk body) [0..<Suc m]))"
    "inbuf (after_send (system_env C P) (nth_packet q f body original m) ?w) = inbuf ?w"
    using one_packet [OF g s1(1) m(1) s1(3), of C] m(2) by auto
  with s1 show ?case
    by (intro exI [of _ s2]) (simp add: others_same_trans [OF s1(2)])
qed

lemma all_packets:
  assumes g: "good_transfer P q cid n f aes body original" and w: "connected w s"
    and s: "may_start s i cid n aes f"
  shows "\<exists>s'. connected (fold (after_send (system_env C P)) (map (nth_packet q f body original) [0..<packet_count body]) w) s' \<and>
      others_same i [folder, n, f] s s' \<and> holds s' i cid n aes f False original \<and>
      inbuf (fold (after_send (system_env C P)) (map (nth_packet q f body original) [0..<packet_count body]) w)
        = inbuf w @ crc_answer_bytes cid (length body) f original"
proof -
  obtain m where K: "packet_count body = Suc m"
    using packet_count_bounds [OF g] by (cases "packet_count body") auto
  let ?w = "fold (after_send (system_env C P)) (map (nth_packet q f body original) [0..<m]) w"
  obtain s1 where s1: "connected ?w s1" "others_same i [folder, n, f] s s1"
    "before_packet s1 i cid n aes f (Suc m) (concat (map (chunk body) [0..<m]))" "inbuf ?w = inbuf w"
    using some_packets [OF g w s, of m C] K by auto
  have m: "m < packet_count body" "Suc m = packet_count body" using K by simp_all
  obtain s2 where "connected (after_send (system_env C P) (nth_packet q f body original m) ?w) s2"
    "others_same i [folder, n, f] s1 s2" "holds s2 i cid n aes f False original"
    "inbuf (after_send (system_env C P) (nth_packet q f body original m) ?w)
      = inbuf ?w @ crc_answer_bytes cid (length body) f original"
    using one_packet [OF g s1(1) m(1) s1(3), of C] m(2) by auto
  with s1 show ?thesis
    unfolding K by (intro exI [of _ s2]) (simp add: others_same_trans [OF s1(2)])
qed

section \<open>The verdict and the end through the system\<close>

lemma finish_message:
  assumes "length (client_id c) = 16" and "length (client_file_name c) \<le> 255"
  shows "request_message (finish_request_of c 900)
    = request_bytes (client_id c) 900 255 (pad_nul 255 (client_file_name c))"
  using assms
  by (intro message_bytes)
    (simp_all add: finish_request_of_def setClientID_eq request_defs new_request_def store_little_u16_def
      store_little_u32_def pad_nul_def)

lemma finish_through_system:
  assumes w: "connected w s" and s: "holds s i cid n aes f False original" and f: "plain_name f"
    and c: "client_id c = cid" "client_file_name c = f" and cid: "length cid = 16"
  shows "\<exists>s'. connected (after_send (system_env C P) (finish_request_of c 900) w) s' \<and>
     others_same i [folder, n, f] s s' \<and> holds s' i cid n aes f True original \<and>
     inbuf (after_send (system_env C P) (finish_request_of c 900) w) = inbuf w @ header_bytes 1604 16 @ cid"
proof -
  let ?q = "finish_request_of c 900"
  let ?r = "\<lparr>sr_client_id = cid, sr_version = 3, sr_code = int 900, sr_payload_size = int 255\<rparr>"
  have fl: "length f \<le> 255" using f by (simp add: plain_name_def)
  have msg: "request_message ?q = request_bytes cid 900 255 (pad_nul 255 f)"
    using finish_message [of c] c cid fl by simp
  define s0 where "s0 = s\<lparr>rx := request_message ?q\<rparr>"
  have rx: "rx s0 = request_bytes cid 900 255 (pad_nul 255 f)" by (simp add: s0_def msg)
  have h: "wp (crc_response_900_901_902 ?r)
      (\<lambda>_ s'. holds s' i cid n aes f True original \<and> others_same i [folder, n, f] s s' \<and> rx s' = [] \<and>
         tx s' = tx s @ header_bytes 1604 16 @ cid) (\<lambda>_ _. False) (s0\<lparr>rx := pad_nul 255 f\<rparr>)"
    by (rule wp_conseq [OF wp_valid_crc [of _ i cid n aes f original]])
      (use s f w in \<open>auto simp: s0_def connected_def idle_def\<close>)
  have "wp (handle_request P ?r)
      (\<lambda>_ s'. (holds s' i cid n aes f True original \<and> others_same i [folder, n, f] s s' \<and>
         tx s' = tx s @ header_bytes 1604 16 @ cid) \<and> rx s' = []) (\<lambda>_ _. False) (s0\<lparr>rx := pad_nul 255 f\<rparr>)"
    unfolding handle_request_def by (simp, rule wp_conseq [OF h [simplified]]) auto
  moreover have "pending s0 = []" using w by (simp add: s0_def connected_def idle_def)
  ultimately obtain s' where s': "serve P s0 = Some s'" "rx s' = []" "holds s' i cid n aes f True original"
    "others_same i [folder, n, f] s s'" "tx s' = tx s @ header_bytes 1604 16 @ cid"
    using serve_request [OF rx cid, where P = P and Q = "\<lambda>s'. holds s' i cid n aes f True original \<and>
        others_same i [folder, n, f] s s' \<and> tx s' = tx s @ header_bytes 1604 16 @ cid"] by auto
  have sent: "after_send (system_env C P) ?q w =
      w\<lparr>peer := Serving (s'\<lparr>tx := []\<rparr>), inbuf := inbuf w @ tx s', sent := sent w @ [request_message ?q]\<rparr>"
    using w s'(1) by (intro after_send_served [where s = s]) (simp_all add: connected_def s0_def)
  show ?thesis
    using s' w unfolding sent
    by (intro exI [of _ "s'\<lparr>tx := []\<rparr>"]) (auto simp: connected_def idle_def others_same_def)
qed


section \<open>The client's side of a transfer\<close>

lemma run_the_end:
  assumes "inbuf w = header_bytes 1604 16 @ client_id (the_client w)" and "length (client_id (the_client w)) = 16"
    and "0 \<notin> set (client_id (the_client w))"
  shows "the_end E code fin w = Some (Inr (), w\<lparr>inbuf := []\<rparr>)"
proof -
  have h: "inbuf w = answer_bytes 1604 16 (client_id (the_client w))"
    using assms(1) by (simp add: answer_bytes_header)
  show ?thesis
    using assms(2,3)
    by (subst the_end.simps)
      (simp add: run_header [OF h] run_clientP Let_def,
        simp add: read_string_and_check_def bindP_def asio_read_def retP_def until_nul_id)
qed

lemma crc_answer_eq:
  "length body < 4294967296 \<Longrightarrow> crc_answer_bytes cid (length body) f original =
   crc_answer cid (word_of_int (int (length body))) f (memcrc original (length original))"
  by (simp add: crc_answer_bytes_def crc_answer_def answer_bytes_header store32_nat)
    (simp add: store_little_u32_def)

lemma encrypt_with_key:
  assumes libs: "libraries_agree C P" and key: "oaep_decrypt C sk enc = Some aes" "length aes = 32"
    and len: "length original < 4294967296"
  shows "encrypt_file (system_env C P) enc (rsa_save_private C sk) original
    = Inr (cbc_encrypt C aes (replicate 16 0) original)"
proof -
  have "unat (of_nat (length original) :: 32 word) = length original"
    unfolding unat_of_nat using len by simp
  then show ?thesis
    using libs key
    by (simp add: encrypt_file_def system_env_def libraries_agree_def RSAPrivateWrapper_of_string_def
        RSAPrivateWrapper_decrypt_def AESWrapper_def DEFAULT_KEYLENGTH_def AESWrapper_encrypt_def BLOCKSIZE_def Let_def)
qed

lemma body_length:
  assumes "libraries_agree C P" and "length original \<le> 268431344"
  shows "cbc_encrypt C aes iv original \<noteq> [] \<and> length (cbc_encrypt C aes iv original) \<le> 268431360"
proof -
  have "length (cbc_encrypt C aes iv original) = 16 * (length original div 16 + 1)"
    using assms(1) by (simp add: libraries_agree_def)
  moreover have "16 * (length original div 16) \<le> length original" by simp
  ultimately show ?thesis using assms(2) by auto
qed

lemma send_file_through_system:
  fixes w :: "speer world"
  assumes libs: "libraries_agree C P" and w: "connected w s" "inbuf w = []" and s: "may_start s i cid n aes f"
    and names: "plain_name n" "plain_name f"
    and cid: "client_id (the_client w) = cid" "length cid = 16" "0 \<notin> set cid"
    and fname: "client_file_name (the_client w) = f"
    and keys: "priv_key (the_client w) = rsa_save_private C sk" "encrypted_aes (the_client w) = enc"
      "oaep_decrypt C sk enc = Some aes" "length aes = 32"
    and orig: "files w (path_to_file (the_client w)) = Some original" "length original \<le> 268431344"
  shows "\<exists>w' s'. send_file (system_env C P) new_request w = Some (Inr (), w') \<and> connected w' s' \<and>
    others_same i [folder, n, f] s s' \<and> holds s' i cid n aes f True original \<and> inbuf w' = [] \<and> files w' = files w"
proof -
  let ?E = "system_env C P"
  define body where "body = cbc_encrypt C aes (replicate 16 0) original"
  define c where "c = setCRC (memcrc original (length original)) (the_client w)"
  define w0 where "w0 = w\<lparr>the_client := c\<rparr>"
  define q where "q = transfer_request (the_client w) new_request"
  define w1 where "w1 = fold (after_send ?E) (map (nth_packet q f body original) [0..<packet_count body]) w0"
  have len: "body \<noteq> []" "length body \<le> 268431360"
    using body_length [OF libs orig(2)] by (simp_all add: body_def)
  have c_same: "client_id c = cid" "client_file_name c = f" "crc_value c = memcrc original (length original)"
    using cid fname by (simp_all add: c_def setCRC_def)
  have enc: "encrypt_file ?E (encrypted_aes (the_client w)) (priv_key (the_client w)) original = Inr body"
    using encrypt_with_key [OF libs keys(3,4), of original] orig(2) by (simp add: keys body_def)
  have q: "rq_client_id q = cid" "rq_version q = [3]" "rq_code q = le_bytes 2 828"
    using cid by (simp_all add: q_def transfer_request_def setCode_def new_request_def store_little_u16_def)
  have "good_transfer P q cid n f aes body original"
    using libs q cid(2) names len orig(2) keys(4) by (simp add: good_transfer_def libraries_agree_def body_def)
  note packets = all_packets [OF this, of w0 s i C]
  have w0: "connected w0 s" using w by (simp add: w0_def connected_def)
  obtain s1 where s1: "connected w1 s1" "others_same i [folder, n, f] s s1" "holds s1 i cid n aes f False original"
    "inbuf w1 = crc_answer_bytes cid (length body) f original"
    using packets [OF w0 s] w(2) unfolding w1_def by (auto simp: w0_def)
  have w1: "the_client w1 = c" "files w1 = files w" by (simp_all add: w1_def w0_def)
  obtain r' where r': "send_file_packets ?E new_request w = Some (Inr (r', length body), w1)"
    using run_send_file_packets [OF orig(1) _ enc len(2), of new_request] orig(2) cid
    by (auto simp: id16_def file_request_def new_request_def [THEN arg_cong [where f = rq_payload]] w1_def w0_def
        transfer_packets_def c_def q_def fname)
  have sz: "int_of_size (length body) = int (length body)" using len by (intro int_of_size_small) simp
  have in1: "inbuf w1 = crc_answer (client_id (the_client w1)) (word_of_int (int (length body)))
      (client_file_name (the_client w1)) (memcrc original (length original)) @ []"
    using s1(4) len crc_answer_eq [of body cid f original] by (simp add: w1 c_same)
  have f: "0 \<notin> set f" "length f \<le> 255" using names(2) by (simp_all add: plain_name_def)
  define fin where "fin = finish_request_of c 900"
  have crc: "crc_checking ?E r' (int (length body)) new_request w1
      = Some (Inr (900, r', fin), after_send ?E fin (w1\<lparr>inbuf := []\<rparr>))"
    using run_crc_checking [OF _ _ _ _ in1, where E = ?E and r = r'] cid f
    by (simp add: w1 c_same id16_def crc_code_def fin_def Let_def)
  have w1': "connected (w1\<lparr>inbuf := []\<rparr>) s1" using s1(1) by (simp add: connected_def)
  obtain s2 where s2: "connected (after_send ?E fin (w1\<lparr>inbuf := []\<rparr>)) s2" "others_same i [folder, n, f] s1 s2"
    "holds s2 i cid n aes f True original"
    "inbuf (after_send ?E fin (w1\<lparr>inbuf := []\<rparr>)) = header_bytes 1604 16 @ cid"
    using finish_through_system [OF w1' s1(3) names(2) c_same(1,2) cid(2), of C P] by (auto simp: fin_def)
  let ?w2 = "after_send ?E fin (w1\<lparr>inbuf := []\<rparr>)"
  have theend: "the_end ?E 900 fin ?w2 = Some (Inr (), ?w2\<lparr>inbuf := []\<rparr>)"
    by (rule run_the_end) (use s2(4) cid in \<open>simp_all add: w1 c_same\<close>)
  have "send_file ?E new_request w = Some (Inr (), ?w2\<lparr>inbuf := []\<rparr>)"
    by (subst send_file.simps) (simp add: bindP_def r' sz crc theend)
  then show ?thesis
    using s2 others_same_trans [OF s1(2) s2(2)]
    by (intro exI [of _ "?w2\<lparr>inbuf := []\<rparr>"] exI [of _ s2]) (simp add: connected_def w1)
qed


section \<open>Registration through the system\<close>

text \<open>The server does not know the name \<open>n\<close>, and the next id it draws is a new one.\<close>

definition fresh_name :: "'k pycrypto \<Rightarrow> server \<Rightarrow> bytes \<Rightarrow> bytes \<Rightarrow> bool" where
  "fresh_name P s n f \<longleftrightarrow>
     dir_ready (disk s) n \<and> disk s [folder, n, f] \<noteq> Some Dir \<and>
     (\<forall>c \<in> set (clients_list s). sc_name c \<noteq> n \<and> sc_id c \<noteq> uuid4_bytes P (entropy s)) \<and>
     uuid4_bytes P (entropy s) \<notin> cr_id ` set (db_clients s) \<and>
     uuid4_bytes P (entropy s) \<notin> fr_client_id ` set (db_files s)"

text \<open>A client that has registered but sent nothing yet: its key is \<open>aes\<close>.\<close>

definition enrolled :: "server \<Rightarrow> nat \<Rightarrow> bytes \<Rightarrow> bytes \<Rightarrow> bytes \<Rightarrow> bytes \<Rightarrow> bool" where
  "enrolled s i cid n aes f \<longleftrightarrow>
     known s i cid n aes \<and> first_index (\<lambda>c. sc_name c = n) (clients_list s) = Some i \<and>
     sc_files (clients_list s ! i) = [] \<and> disk s [folder, n, f] \<noteq> Some Dir \<and>
     cid \<notin> fr_client_id ` set (db_files s)"

lemma enrolled_may_start: "enrolled s i cid n aes f \<Longrightarrow> may_start s i cid n aes f"
  by (auto simp: enrolled_def may_start_def)

text \<open>What stays the same for all the clients before position \<open>i\<close> and for all files.\<close>

definition older_same :: "nat \<Rightarrow> dir_path \<Rightarrow> server \<Rightarrow> server \<Rightarrow> bool" where
  "older_same i p s s' \<longleftrightarrow>
     take i (clients_list s') = take i (clients_list s) \<and>
     (\<forall>q. q \<noteq> p \<longrightarrow> disk s' q = disk s q)"

lemma serve_run:
  assumes "rx s = request_bytes cid code psize payload" and "length cid = 16"
    and "code < 65536" and "psize < 4294967296" and "pending s = []"
    and "handle_request P \<lparr>sr_client_id = cid, sr_version = 3, sr_code = int code, sr_payload_size = int psize\<rparr>
      (s\<lparr>rx := payload\<rparr>) = Some (Inr (), s')" and "rx s' = []"
  shows "serve P s = Some s'"
proof -
  have "\<exists>v. serve P s = Some v \<and> v = s' \<and> rx v = []"
    by (rule serve_request [OF assms(1-5)]) (simp add: wp_def assms(6,7))
  then show ?thesis by blast
qed

lemma registration_message:
  "length n \<le> 255 \<Longrightarrow> request_message (registration_request n new_request)
     = request_bytes (replicate 16 0) 825 255 (pad_nul 255 n)"
  by (intro message_bytes)
    (simp_all add: registration_request_def request_defs new_request_def store_little_u16_def
      store_little_u32_def pad_nul_def)

lemma register_through_system:
  assumes w: "connected w s" and fresh: "fresh_name P s n f" and n: "plain_name n"
    and cid: "uuid4_bytes P (entropy s) = cid" "length cid = 16"
  shows "\<exists>s'. connected (after_send (system_env C P) (registration_request n new_request) w) s' \<and>
    enrolled s' (length (clients_list s)) cid n [] f \<and> older_same (length (clients_list s)) [folder, n] s s' \<and>
    inbuf (after_send (system_env C P) (registration_request n new_request) w) = inbuf w @ header_bytes 1600 16 @ cid"
proof -
  let ?q = "registration_request n new_request"
  define s0 where "s0 = s\<lparr>rx := request_message ?q\<rparr>"
  have nl: "length n \<le> 255" using n by (simp add: plain_name_def)
  have rx: "rx s0 = request_bytes (replicate 16 0) 825 255 (pad_nul 255 n)"
    by (simp add: s0_def registration_message [OF nl])
  define s' where "s' = s\<lparr>rx := [], entropy := entropy s + 1, clock := clock s + 1,
      disk := (disk s)([folder, n] \<mapsto> Dir), clients_list := clients_list s @ [new_client_object P n s],
      db_clients := db_clients s @ [row_of_client (new_client_object P n s)], tx := header_bytes 1600 16 @ cid\<rparr>"
  have idle: "rx s = []" "tx s = []" "pending s = []" using w by (simp_all add: connected_def idle_def)
  have obj: "new_client_object P n (s0\<lparr>rx := pad_nul 255 n\<rparr>) = new_client_object P n s"
    by (simp add: new_client_object_def s0_def)
  have reg: "registration_request_825 P (s0\<lparr>rx := pad_nul 255 n\<rparr>) = Some (Inr (), s')"
    using run_registration [of "s0\<lparr>rx := pad_nul 255 n\<rparr>" n P] n fresh cid(1) obj idle
    by (simp add: fresh_name_def s0_def s'_def)
  have "serve P s0 = Some s'"
    by (rule serve_run [OF rx]) (simp_all add: handle_request_def catchP_def reg, simp_all add: s'_def s0_def idle)
  then have sent: "after_send (system_env C P) ?q w =
      w\<lparr>peer := Serving (s'\<lparr>tx := []\<rparr>), inbuf := inbuf w @ tx s', sent := sent w @ [request_message ?q]\<rparr>"
    using w by (intro after_send_served [where s = s]) (simp_all add: connected_def s0_def)
  have index: "first_index (\<lambda>c. sc_id c = cid) (clients_list s') = Some (length (clients_list s))"
    "first_index (\<lambda>c. sc_name c = n) (clients_list s') = Some (length (clients_list s))"
    unfolding s'_def using fresh cid
    by (auto intro!: first_index_last simp: fresh_name_def new_client_object_def)
  show ?thesis
    unfolding sent
    using fresh cid index idle
    by (intro exI [of _ "s'\<lparr>tx := []\<rparr>"])
      (auto simp: connected_def idle_def enrolled_def known_def older_same_def s'_def new_client_object_def
        fresh_name_def dir_ready_def)
qed


definition key_request :: "bytes \<Rightarrow> bytes \<Rightarrow> bytes \<Rightarrow> request" where
  "key_request cid n key =
     appendStringPayload key (length key) (appendStringPayload n 255
       (setPayloadSize (int (255 + length key)) (setCode 826 (new_request\<lparr>rq_client_id := cid\<rparr>))))"

lemma key_message:
  assumes "length n \<le> 255" and "length key = 160" and "length cid = 16"
  shows "request_message (key_request cid n key) = request_bytes cid 826 415 (pad_nul 255 n @ key)"
  using assms
  by (intro message_bytes)
    (simp_all add: key_request_def request_defs new_request_def store_little_u16_def
      store_little_u32_def pad_nul_def)

lemma first_index_take: "first_index p xs = Some i \<Longrightarrow> k \<le> i \<Longrightarrow> take k (xs[i := y]) = take k xs"
  by simp

lemma key_through_system:
  assumes w: "connected w s" and e: "enrolled s i cid n [] f" and n: "plain_name n" and cid: "length cid = 16"
    and libs: "libraries_agree C P" and sk: "sk = rsa_initialize C m 1024"
    and key: "key = rsa_save_public C (rsa_function C sk)"
  shows "\<exists>s' aes enc. connected (after_send (system_env C P) (key_request cid n key) w) s' \<and>
    enrolled s' i cid n aes f \<and> older_same i [folder, n] s s' \<and>
    length aes = 32 \<and> length enc = 128 \<and> oaep_decrypt C sk enc = Some aes \<and>
    inbuf (after_send (system_env C P) (key_request cid n key) w) = inbuf w @ header_bytes 1602 144 @ cid @ enc"
proof -
  let ?q = "key_request cid n key"
  define aes where "aes = get_random_bytes P (entropy s) 32"
  have aes: "length aes = 32" using libs by (simp add: libraries_agree_def aes_def)
  have klen: "length key = 160" using libs by (simp add: libraries_agree_def Let_def key sk)
  obtain pk where pk: "import_key P key = Some pk"
    "\<And>m k. length m = 32 \<Longrightarrow> \<exists>c. pkcs1_oaep_encrypt P pk k m = Some c \<and> length c = 128 \<and> oaep_decrypt C sk c = Some m"
    using libs unfolding libraries_agree_def Let_def key sk by blast
  obtain enc where enc: "pkcs1_oaep_encrypt P pk (entropy s + 1) aes = Some enc" "length enc = 128"
    "oaep_decrypt C sk enc = Some aes"
    using pk(2) [OF aes] by blast
  have k: "known s i cid n []" and name: "first_index (\<lambda>c. sc_name c = n) (clients_list s) = Some i"
    using e by (simp_all add: enrolled_def)
  note idx = known_index [OF k]
  define c where "c = clients_list s ! i"
  define s0 where "s0 = s\<lparr>rx := request_message ?q\<rparr>"
  have nl: "length n \<le> 255" using n by (simp add: plain_name_def)
  have rx: "rx s0 = request_bytes cid 826 415 (pad_nul 255 n @ key)"
    by (simp add: s0_def key_message [OF nl klen cid])
  have idle: "rx s = []" "tx s = []" "pending s = []" using w by (simp_all add: connected_def idle_def)
  let ?r = "\<lparr>sr_client_id = cid, sr_version = 3, sr_code = int 826, sr_payload_size = int 415\<rparr>"
  let ?up = "\<lambda>g. db_update (\<lambda>r. cr_id r = cid) g"
  define s' where "s' = s\<lparr>rx := [],
      clients_list := (clients_list s)[i := c\<lparr>sc_public_key := key, sc_last_seen := clock s + 1, sc_aes_key := aes\<rparr>],
      db_clients := ?up (cr_aes_key_update (\<lambda>_. aes)) (?up (cr_last_seen_update (\<lambda>_. clock s))
          (?up (cr_public_key_update (\<lambda>_. key)) (db_clients s))),
      clock := clock s + 2, entropy := entropy s + 2, tx := header_bytes 1602 144 @ cid @ enc\<rparr>"
  have run: "send_public_key_request_826 P ?r (s0\<lparr>rx := pad_nul 255 n @ key\<rparr>) = Some (Inr (), s')"
    using run_public_key [of "s0\<lparr>rx := pad_nul 255 n @ key\<rparr>" n key i c ?r P pk aes enc]
      klen n name pk(1) enc(1,2) idx idle
    by (simp add: s0_def c_def aes_def s'_def)
  have "serve P s0 = Some s'"
    by (rule serve_run [OF rx cid]) (simp_all add: handle_request_def run [simplified], simp_all add: s'_def s0_def idle)
  then have sent: "after_send (system_env C P) ?q w =
      w\<lparr>peer := Serving (s'\<lparr>tx := []\<rparr>), inbuf := inbuf w @ tx s', sent := sent w @ [request_message ?q]\<rparr>"
    using w by (intro after_send_served [where s = s]) (simp_all add: connected_def s0_def)
  have fi: "first_index (\<lambda>x. sc_id x = cid) (clients_list s') = Some i"
    "first_index (\<lambda>x. sc_name x = n) (clients_list s') = Some i"
    using k name idx by (auto simp: s'_def known_def c_def intro!: first_index_update)
  show ?thesis
    unfolding sent
    using e k idx fi aes enc idle
    by (intro exI [of _ "s'\<lparr>tx := []\<rparr>"] exI [of _ aes] exI [of _ enc])
      (auto simp: connected_def idle_def enrolled_def known_def older_same_def s'_def c_def)
qed

end
