(* ===== verification/System_Main.thy ===== *)
theory System_Main
  imports System
begin

text \<open>
  The whole client program against the server: a client that is new to the server registers, sends
  its public key, receives the AES key and transfers its file, all through the two programs.
\<close>

section \<open>The exchange of the keys\<close>

lemma run_get_aes:
  assumes "inbuf w = cid @ enc" and "client_id (the_client w) = cid" and "length cid = 16" and "0 \<notin> set cid"
    and "ans_payload_size a = int (16 + length enc)"
  shows "get_aes_key_from_server a w =
    Some (Inr (), w\<lparr>inbuf := [], the_client := setEncryptedAes enc (the_client w)\<rparr>)"
  using assms
  by (simp add: get_aes_key_from_server_def run_clientP run_read_string [where b = cid] until_nul_id getEncryptedAes_def
      run_read [where b = enc and rest = "[]"])
    (simp add: set_clientP_def modP_def)

lemma system_env_simps [simp]:
  "crypto (system_env C P) = C"
  "net_write (net (system_env C P)) = server_write P"
  "net_connect (net (system_env C P)) = server_connect"
  by (simp_all add: system_env_def)

text \<open>The client's world once its key pair is made and stored.\<close>

definition with_keys :: "('sk, 'pk) cryptopp \<Rightarrow> 'sk \<Rightarrow> 'p world \<Rightarrow> 'p world" where
  "with_keys C sk w =
     (let c = setPrivateKey (rsa_save_private C sk) (the_client w);
          text = Base64Wrapper_encode C (priv_key c) @ [newline]
      in w\<lparr>rng := rng w + 1, the_client := c,
           files := (files w)(lit ''me.info'' \<mapsto> name_client c @ [newline] @ convert_string_to_hex (client_id c) @
               [newline] @ text, lit ''priv.key'' \<mapsto> text)\<rparr>)"

lemma with_keys_simps [simp]:
  "peer (with_keys C sk w) = peer w" "inbuf (with_keys C sk w) = inbuf w"
  "the_client (with_keys C sk w) = setPrivateKey (rsa_save_private C sk) (the_client w)"
  "p \<noteq> lit ''me.info'' \<Longrightarrow> p \<noteq> lit ''priv.key'' \<Longrightarrow> files (with_keys C sk w) p = files w p"
  by (simp_all add: with_keys_def Let_def)

lemma send_public_key_start:
  assumes cid: "length (client_id (the_client w)) = 16"
  shows "send_public_key_get_aes E new_request w =
    (let sk = rsa_initialize (crypto E) (rng w) 1024; c = the_client w;
         q = key_request (client_id c) (name_client c) (rsa_save_public (crypto E) (rsa_function (crypto E) sk))
     in bindP get_header_from_server (\<lambda>a.
          if ans_code a = 1607 then
            bindP (general_error_handle a q) (\<lambda>(again, r).
              if again = TRY_AGAIN then (\<lambda>w. send_public_key_get_aes E (clearPayload r) w)
              else get_aes_key_from_server a)
          else if ans_code a \<noteq> 1602 then throwP (Exit1 Code_not_recognized)
          else get_aes_key_from_server a) (after_send E q (with_keys (crypto E) sk w)))"
proof -
  have set_id: "setClientID (client_id (the_client w)) new_request
      = Some (new_request\<lparr>rq_client_id := client_id (the_client w)\<rparr>)"
    using cid by (rule setClientID_eq)
  have same: "client_id (setPrivateKey k c) = client_id c" "name_client (setPrivateKey k c) = name_client c"
    "priv_key (setPrivateKey k c) = k" for k c
    by (simp_all add: setPrivateKey_def)
  show ?thesis
    by (subst send_public_key_get_aes.simps)
      (simp add: run_get Let_def run_set_client run_clientP run_create_me_info run_create_priv_key same set_id run_opt
        run_sendP RSAPrivateWrapper_def RSAPrivateWrapper_getPrivateKey_def RSAPrivateWrapper_getPublicKey_def
        RSA_BITS_def bindP_def [of "modP f" for f] modP_def with_keys_def key_request_def cong: if_cong)
qed


text \<open>The client program with a fresh world of keys: what it has after the key exchange.\<close>

lemma setters_frame [simp]:
  "client_id (setPrivateKey k c) = client_id c" "client_id (setEncryptedAes e c) = client_id c"
  "name_client (setPrivateKey k c) = name_client c" "name_client (setEncryptedAes e c) = name_client c"
  "client_file_name (setPrivateKey k c) = client_file_name c"
  "client_file_name (setEncryptedAes e c) = client_file_name c"
  "path_to_file (setPrivateKey k c) = path_to_file c" "path_to_file (setEncryptedAes e c) = path_to_file c"
  "priv_key (setPrivateKey k c) = k" "priv_key (setEncryptedAes e c) = priv_key c"
  "encrypted_aes (setEncryptedAes e c) = e"
  by (simp_all add: setPrivateKey_def setEncryptedAes_def)

lemma keys_through_system:
  assumes libs: "libraries_agree C P" and w: "connected w s" "inbuf w = []" and e: "enrolled s i cid n [] f"
    and n: "plain_name n" "name_client (the_client w) = n"
    and cid: "client_id (the_client w) = cid" "length cid = 16" "0 \<notin> set cid"
  shows "\<exists>w' s' aes enc sk. send_public_key_get_aes (system_env C P) new_request w = Some (Inr (), w') \<and>
    connected w' s' \<and> inbuf w' = [] \<and> enrolled s' i cid n aes f \<and> older_same i [folder, n] s s' \<and>
    the_client w' = setEncryptedAes enc (setPrivateKey (rsa_save_private C sk) (the_client w)) \<and>
    oaep_decrypt C sk enc = Some aes \<and> length aes = 32 \<and>
    (\<forall>p. p \<noteq> lit ''me.info'' \<longrightarrow> p \<noteq> lit ''priv.key'' \<longrightarrow> files w' p = files w p)"
proof -
  define sk where "sk = rsa_initialize C (rng w) 1024"
  define key where "key = rsa_save_public C (rsa_function C sk)"
  define q where "q = key_request cid n key"
  define w1 where "w1 = with_keys C sk w"
  define w2 where "w2 = after_send (system_env C P) q w1"
  have w1: "connected w1 s" "inbuf w1 = []" using w by (simp_all add: w1_def connected_def)
  obtain s' aes enc where s': "connected w2 s'" "enrolled s' i cid n aes f" "older_same i [folder, n] s s'"
    "length aes = 32" "length enc = 128" "oaep_decrypt C sk enc = Some aes"
    "inbuf w2 = header_bytes 1602 144 @ cid @ enc"
    using key_through_system [OF w1(1) e n(1) cid(2) libs sk_def key_def] w1(2) unfolding w2_def q_def by auto
  have h: "inbuf w2 = answer_bytes 1602 144 (cid @ enc)" using s'(7) by (simp add: answer_bytes_header)
  have c2: "the_client w2 = setPrivateKey (rsa_save_private C sk) (the_client w)" by (simp add: w2_def w1_def)
  let ?w = "w2\<lparr>inbuf := [], the_client := setEncryptedAes enc (the_client w2)\<rparr>"
  have aes: "get_aes_key_from_server \<lparr>ans_version = 3, ans_code = 1602, ans_payload_size = 144\<rparr>
      (w2\<lparr>inbuf := cid @ enc\<rparr>) = Some (Inr (), ?w)"
    by (subst run_get_aes [of _ cid enc]) (use cid s'(5) in \<open>simp_all add: c2\<close>)
  have "send_public_key_get_aes (system_env C P) new_request w = Some (Inr (), ?w)"
    using cid(2) unfolding cid(1) [symmetric]
    by (subst send_public_key_start)
      (simp_all add: Let_def n(2) cid(1) flip: sk_def key_def q_def w1_def w2_def,
        simp add: run_header [OF h] aes cong: if_cong)
  then show ?thesis
    using s' by (intro exI [of _ ?w] exI [of _ s'] exI [of _ aes] exI [of _ enc] exI [of _ sk])
      (simp add: connected_def c2, simp add: w2_def w1_def)
qed

section \<open>Registration and transfer\<close>

text \<open>The client's world holds a name, a file name, and the file, under a path the key files do not use.\<close>

definition ready_to_send :: "'p world \<Rightarrow> bytes \<Rightarrow> bytes \<Rightarrow> bytes \<Rightarrow> bool" where
  "ready_to_send w n f original \<longleftrightarrow>
     name_client (the_client w) = n \<and> client_file_name (the_client w) = f \<and>
     files w (path_to_file (the_client w)) = Some original \<and> length original \<le> 268431344 \<and>
     path_to_file (the_client w) \<noteq> lit ''me.info'' \<and> path_to_file (the_client w) \<noteq> lit ''priv.key''"

lemma registering_start:
  "registering E r w =
    (let q = registration_request (name_client (the_client w)) r
     in bindP get_header_from_server (\<lambda>a.
          if ans_code a = 1607 \<or> ans_code a = 1601 then
            bindP (general_error_handle a q) (\<lambda>(again, r).
              if again = TRY_AGAIN then (\<lambda>w. registering E (clearPayload r) w) else registered E)
          else if ans_code a \<noteq> 1600 then throwP (Exit1 Code_not_recognized)
          else registered E) (after_send E q w))"
proof -
  have cid: "setClientID (replicate 32 0) r = Some (r\<lparr>rq_client_id := replicate 16 0\<rparr>)"
    by (subst setClientID_long) simp_all
  show ?thesis
    by (subst registering.simps)
      (simp add: cid run_opt run_clientP Let_def run_sendP registration_request_def cong: if_cong)
qed

lemma older_same_trans: "older_same i p s s' \<Longrightarrow> older_same i p s' s'' \<Longrightarrow> older_same i p s s''"
  by (simp add: older_same_def)

lemma register_and_send:
  fixes w :: "speer world"
  assumes libs: "libraries_agree C P" and w: "connected w s" "inbuf w = []" and fresh: "fresh_name P s n f"
    and names: "plain_name n" "plain_name f" and r: "ready_to_send w n f original"
    and cid: "uuid4_bytes P (entropy s) = cid" "0 \<notin> set cid"
  shows "\<exists>w' s' aes. registering (system_env C P) new_request w = Some (Inr (), w') \<and> connected w' s' \<and>
    holds s' (length (clients_list s)) cid n aes f True original \<and>
    take (length (clients_list s)) (clients_list s') = clients_list s \<and>
    (\<forall>p. p \<noteq> [folder, n] \<and> p \<noteq> [folder, n, f] \<longrightarrow> disk s' p = disk s p)"
proof -
  let ?E = "system_env C P"
  let ?i = "length (clients_list s)"
  define q where "q = registration_request n new_request"
  define w1 where "w1 = after_send ?E q w"
  have cl: "length cid = 16" using libs cid by (auto simp: libraries_agree_def)
  obtain s1 where s1: "connected w1 s1" "enrolled s1 ?i cid n [] f" "older_same ?i [folder, n] s s1"
    "inbuf w1 = header_bytes 1600 16 @ cid"
    using register_through_system [OF w(1) fresh names(1) cid(1) cl, of C] w(2) by (auto simp: w1_def q_def)
  have h: "inbuf w1 = answer_bytes 1600 16 cid" using s1(4) by (simp add: answer_bytes_header)
  define w2 where "w2 = w1\<lparr>inbuf := [], the_client := (the_client w)\<lparr>client_id := cid\<rparr>\<rparr>"
  have c1: "the_client w1 = the_client w" by (simp add: w1_def)
  have c2: "client_setClientID cid (the_client w) = Some ((the_client w)\<lparr>client_id := cid\<rparr>)"
    using cl by (simp add: client_setClientID_def)
  have run1: "registered ?E (w1\<lparr>inbuf := cid\<rparr>)
      = bindP (send_public_key_get_aes ?E new_request) (\<lambda>_. send_file ?E new_request) w2"
    unfolding registered_def answer_getClientID_def
    using cl by (simp add: run_read [where b = cid and rest = "[]"] c1 w2_def)
      (simp add: bindP_def try_set_clientP_def c1 c2 retP_def)
  have w2: "connected w2 s1" "inbuf w2 = []" "name_client (the_client w2) = n" "client_id (the_client w2) = cid"
    "files w2 = files w"
    using s1 r by (simp_all add: w2_def connected_def ready_to_send_def w1_def)
  obtain w3 s3 aes enc sk where s3: "send_public_key_get_aes ?E new_request w2 = Some (Inr (), w3)"
    "connected w3 s3" "inbuf w3 = []" "enrolled s3 ?i cid n aes f" "older_same ?i [folder, n] s1 s3"
    "the_client w3 = setEncryptedAes enc (setPrivateKey (rsa_save_private C sk) (the_client w2))"
    "oaep_decrypt C sk enc = Some aes" "length aes = 32"
    "\<forall>p. p \<noteq> lit ''me.info'' \<longrightarrow> p \<noteq> lit ''priv.key'' \<longrightarrow> files w3 p = files w2 p"
    using keys_through_system [OF libs w2(1,2) s1(2) names(1) w2(3,4) cl cid(2)] by blast
  have c3: "client_file_name (the_client w3) = f" "path_to_file (the_client w3) = path_to_file (the_client w)"
    "client_id (the_client w3) = cid" "encrypted_aes (the_client w3) = enc"
    "priv_key (the_client w3) = rsa_save_private C sk"
    using r by (simp_all add: s3(6) w2_def ready_to_send_def)
  have path: "files w3 (path_to_file (the_client w3)) = Some original"
    using r s3(9) w2(5) c3(2) by (simp add: ready_to_send_def)
  have orig: "length original \<le> 268431344" using r by (simp add: ready_to_send_def)
  obtain w4 s4 where s4: "send_file ?E new_request w3 = Some (Inr (), w4)" "connected w4 s4"
    "others_same ?i [folder, n, f] s3 s4" "holds s4 ?i cid n aes f True original"
    using send_file_through_system [OF libs s3(2,3) enrolled_may_start [OF s3(4)] names c3(3) cl cid(2) c3(1) c3(5,4)
        s3(7,8) path orig] by blast
  have "registering ?E new_request w = Some (Inr (), w4)"
    using r by (subst registering_start) (simp add: ready_to_send_def flip: q_def w1_def,
      simp add: run_header [OF h] run1 bindP_def [of "send_public_key_get_aes ?E new_request"] s3(1) s4(1) cong: if_cong)
  moreover have o: "older_same ?i [folder, n] s s3" by (rule older_same_trans [OF s1(3) s3(5)])
  moreover have "take ?i (clients_list s4) = take ?i (clients_list s3)"
    using s4(3) by (intro nth_equalityI) (auto simp: others_same_def)
  ultimately show ?thesis
    using s4 by (intro exI [of _ w4] exI [of _ s4] exI [of _ aes]) (simp add: older_same_def others_same_def)
qed

section \<open>From the configuration file to the stored file\<close>

lemma run_read_transfer:
  assumes t: "files w (lit ''transfer.info'') = Some (address @ newline # n @ newline # path @ newline # rest)"
    and lines: "newline \<notin> set address" "newline \<notin> set n" "newline \<notin> set path"
    and n: "length n \<le> 100" and f: "find_file_name path = f" "length f < 255" "0 \<notin> set f"
    and p: "peer w = Serving s"
  shows "read_transfer (system_env C P) w = Some (Inr (), w\<lparr>peer := Serving (accept s),
    the_client := setPath path ((setClientName n (the_client w))\<lparr>client_file_name := f\<rparr>)\<rparr>)"
proof -
  have name: "setFileName f c = Some (c\<lparr>client_file_name := f\<rparr>)" for c
    using f by (simp add: setFileName_eq until_nul_id)
  have fl: "length f \<noteq> 255" using f(2) by simp
  obtain ip port where addr: "split_address address = (ip, port)" by (cases "split_address address")
  show ?thesis
    using lines n
    by (simp add: read_transfer_def run_get t Let_def addr run_set_client f(1) fl)
      (simp add: bindP_def try_set_clientP_def name retP_def set_clientP_def modP_def connect_to_server_def
        server_connect_def p)
qed

lemma fresh_name_accept [simp]: "fresh_name P (accept s) n f = fresh_name P s n f"
  by (simp add: fresh_name_def accept_def)

text \<open>
  A new client: the server does not know the name and has an id for it without a zero byte; the
  configuration file names the client and an existing file that is not too long.
\<close>

definition new_user :: "'k pycrypto \<Rightarrow> speer world \<Rightarrow> server \<Rightarrow> bytes \<Rightarrow> bytes \<Rightarrow> bytes \<Rightarrow> bool" where
  "new_user P w s n f original \<longleftrightarrow>
     peer w = Serving s \<and> inbuf w = [] \<and> fresh_name P s n f \<and> 0 \<notin> set (uuid4_bytes P (entropy s)) \<and>
     plain_name n \<and> plain_name f \<and> length n \<le> 100 \<and> length f < 255 \<and> files w (lit ''me.info'') = None \<and>
     (\<exists>address path rest.
        files w (lit ''transfer.info'') = Some (address @ newline # n @ newline # path @ newline # rest) \<and>
        newline \<notin> set address \<and> newline \<notin> set n \<and> newline \<notin> set path \<and>
        find_file_name path = f \<and> files w path = Some original \<and> length original \<le> 268431344 \<and>
        path \<noteq> lit ''me.info'' \<and> path \<noteq> lit ''priv.key'')"

text \<open>
  C1: End to end: the client program of a user new to the server, run against the server program,
  registers, exchanges the keys, transfers its file and returns normally. Afterwards the server has
  one client object more, its last one, with the user's name and the file marked as verified; the
  file on the server's disk is the client's file, byte for byte; the other client objects and the
  other files are as before. The libraries are assumed to invert each other's encryption.
\<close>

theorem client_stores_file:
  assumes "libraries_agree C P" and "new_user P w s n f original"
  shows "\<exists>w' s'. client_main (system_env C P) w = Some (Inr (), w') \<and> peer w' = Serving s' \<and>
    disk s' [folder, n, f] = Some (Regular original) \<and>
    take (length (clients_list s)) (clients_list s') = clients_list s \<and>
    (let c = clients_list s' ! length (clients_list s)
     in sc_name c = n \<and> sc_id c = uuid4_bytes P (entropy s) \<and> has_file c f True) \<and>
    (\<forall>p. p \<noteq> [folder, n] \<and> p \<noteq> [folder, n, f] \<longrightarrow> disk s' p = disk s p)"
proof -
  have u: "peer w = Serving s" "inbuf w = []" "fresh_name P s n f" "0 \<notin> set (uuid4_bytes P (entropy s))"
    "plain_name n" "plain_name f" "length n \<le> 100" "length f < 255" "files w (lit ''me.info'') = None"
    using assms(2) by (simp_all add: new_user_def)
  obtain address path rest where t:
    "files w (lit ''transfer.info'') = Some (address @ newline # n @ newline # path @ newline # rest)"
    "newline \<notin> set address" "newline \<notin> set n" "newline \<notin> set path"
    "find_file_name path = f" "files w path = Some original" "length original \<le> 268431344"
    "path \<noteq> lit ''me.info''" "path \<noteq> lit ''priv.key''"
    using assms(2) unfolding new_user_def by blast
  have f0: "0 \<notin> set f" using u(6) by (simp add: plain_name_def)
  define c where "c = setPath path ((setClientName n (the_client w))\<lparr>client_file_name := f\<rparr>)"
  define w1 where "w1 = w\<lparr>peer := Serving (accept s), the_client := c\<rparr>"
  have start: "read_transfer (system_env C P) w = Some (Inr (), w1)"
    using run_read_transfer [OF t(1-4) u(7) t(5) u(8) f0 u(1)] by (simp add: w1_def c_def)
  have w1: "connected w1 (accept s)" "inbuf w1 = []" "files w1 = files w"
    using u(2) by (simp_all add: w1_def connected_def accept_def idle_def)
  have r: "ready_to_send w1 n f original"
    using t(6-9) by (simp add: ready_to_send_def w1_def c_def client_setters)
  have fresh: "fresh_name P (accept s) n f" using u(3) by simp
  have e: "entropy (accept s) = entropy s" "clients_list (accept s) = clients_list s" "disk (accept s) = disk s"
    by (simp_all add: accept_def)
  obtain w' s' aes where s': "registering (system_env C P) new_request w1 = Some (Inr (), w')" "connected w' s'"
    "holds s' (length (clients_list s)) (uuid4_bytes P (entropy s)) n aes f True original"
    "take (length (clients_list s)) (clients_list s') = clients_list s"
    "\<forall>p. p \<noteq> [folder, n] \<and> p \<noteq> [folder, n, f] \<longrightarrow> disk s' p = disk s p"
    using register_and_send [OF assms(1) w1(1,2) fresh u(5,6) r refl] u(4) unfolding e by blast
  have "client_main (system_env C P) w = Some (Inr (), w')"
    unfolding client_main_def
    by (simp add: bindP_def [of "read_transfer (system_env C P)"] start)
      (simp add: run_get w1(3) u(9) run_bind s'(1))
  then show ?thesis
    using s' known_index [of s' "length (clients_list s)"]
    by (intro exI [of _ w'] exI [of _ s']) (auto simp: connected_def holds_def known_def)
qed

section \<open>An instance\<close>

text \<open>Keys are byte strings padded to their sizes, RSA and AES only pad.\<close>

definition system_cryptopp :: "(bytes, bytes) cryptopp" where
  "system_cryptopp = example_crypto\<lparr>rsa_save_public := pad_nul 160, oaep_decrypt := (\<lambda>k c. Some (take 32 c))\<rparr>"

definition system_pycrypto :: "unit pycrypto" where
  "system_pycrypto =
     \<lparr>uuid4_bytes = (\<lambda>n. replicate 16 (of_nat n + 1)), get_random_bytes = (\<lambda>n k. replicate k (of_nat n)),
      import_key = (\<lambda>k. if length k = 160 then Some () else None),
      pkcs1_oaep_encrypt = (\<lambda>pk n m. if length m \<le> 128 then Some (pad_nul 128 m) else None),
      aes_cbc_decrypt = (\<lambda>key iv c. Some c), unpad = (\<lambda>d n. pkcs_unpad d)\<rparr>"

lemma length_pkcs_pad: "length (pkcs_pad p) = 16 * (length p div 16 + 1)"
  by (simp add: pkcs_pad_def Let_def) presburger

lemma system_libraries_agree: "libraries_agree system_cryptopp system_pycrypto"
  by (simp add: libraries_agree_def system_cryptopp_def system_pycrypto_def example_crypto_def length_pkcs_pad
      pkcs_unpad_pad pad_nul_def Let_def)

definition empty_server :: server where
  "empty_server =
     \<lparr>rx = [], tx = [], blocking = False, peer_closed = False, registered_conn = False, pending = [], clients_list = [],
      db_clients = [], db_files = [], disk = [[folder] \<mapsto> Dir], entropy = 0, clock = 0\<rparr>"

definition first_user :: "speer world" where
  "first_user =
     \<lparr>the_client = new_client,
      files = [lit ''transfer.info'' \<mapsto> lit ''1:2'' @ newline # lit ''bob'' @ newline # lit ''a.txt'' @ newline # [],
               lit ''a.txt'' \<mapsto> [1, 2, 3]],
      peer = Serving empty_server, inbuf = [], rng = 0, sent = []\<rparr>"

lemma first_user_new: "new_user system_pycrypto first_user empty_server (lit ''bob'') (lit ''a.txt'') [1, 2, 3]"
proof -
  have "find_last_of backslash (lit ''a.txt'') = None"
    by (simp add: find_last_of_None backslash_def lit_def)
  then have "find_file_name (lit ''a.txt'') = lit ''a.txt''"
    by (simp add: find_file_name_def)
  moreover have "plain_name (lit ''bob'')" "plain_name (lit ''a.txt'')"
    by (simp_all add: plain_name_def lit_def slash_def in_range_def)
  moreover have "fresh_name system_pycrypto empty_server (lit ''bob'') (lit ''a.txt'')"
    by (simp add: fresh_name_def empty_server_def dir_ready_def)
  moreover have lines: "newline \<notin> set (lit ''1:2'')" "newline \<notin> set (lit ''bob'')" "newline \<notin> set (lit ''a.txt'')"
    "length (lit ''bob'') = 3" "length (lit ''a.txt'') = 5" "lit ''a.txt'' \<noteq> lit ''me.info''"
    "lit ''a.txt'' \<noteq> lit ''priv.key''" "lit ''a.txt'' \<noteq> lit ''transfer.info''"
    "lit ''me.info'' \<noteq> lit ''transfer.info''" "lit ''me.info'' \<noteq> lit ''a.txt''"
    by (simp_all add: lit_def newline_def)
  moreover have "0 \<notin> set (uuid4_bytes system_pycrypto (entropy empty_server))"
    by (simp add: system_pycrypto_def empty_server_def)
  ultimately show ?thesis
    unfolding new_user_def
    by (intro conjI exI [of _ "lit ''1:2''"] exI [of _ "lit ''a.txt''"] exI [of _ "[]"])
      (simp_all add: first_user_def)
qed

theorem client_stores_file_witness:
  "\<exists>w' s'. client_main (system_env system_cryptopp system_pycrypto) first_user = Some (Inr (), w') \<and>
     peer w' = Serving s' \<and> disk s' [folder, lit ''bob'', lit ''a.txt''] = Some (Regular [1, 2, 3])"
  using client_stores_file [OF system_libraries_agree first_user_new] by blast

end
