(* ===== verification/Server_Properties.thy ===== *)
theory Server_Properties
  imports Server_Outcomes System_Main
begin

text \<open>
  The properties of the server: its invariants over all runs of the main loop, the registry and the
  actions it refines, the answers to requests, the return of every call, and the restart; and the
  behaviours in which it departs from what it means to do.
\<close>

section \<open>A small server\<close>

text \<open>Two clients, the first with one file that is not verified yet.\<close>

definition bob_file :: sfile where
  "bob_file = \<lparr>sf_client_id = replicate 16 1, sf_name = lit ''a.txt'',
     sf_path = file_path (lit ''bob'') (lit ''a.txt''), sf_valid_crc = False\<rparr>"

definition bob :: sclient where
  "bob = \<lparr>sc_id = replicate 16 1, sc_name = lit ''bob'', sc_public_key = replicate 160 5, sc_last_seen = 0,
     sc_aes_key = replicate 32 9, sc_files = [bob_file]\<rparr>"

definition eve :: sclient where
  "eve = \<lparr>sc_id = replicate 16 2, sc_name = lit ''eve'', sc_public_key = replicate 160 6, sc_last_seen = 0,
     sc_aes_key = replicate 32 8, sc_files = [bob_file\<lparr>sf_client_id := replicate 16 2,
       sf_path := file_path (lit ''eve'') (lit ''a.txt'')\<rparr>]\<rparr>"

definition small_server :: server where
  "small_server = empty_server\<lparr>
     clients_list := [bob, eve], db_clients := [row_of_client bob, row_of_client eve],
     db_files := [file_row_of bob_file, file_row_of (hd (sc_files eve))],
     disk := [[folder] \<mapsto> Dir, [folder, lit ''bob''] \<mapsto> Dir, [folder, lit ''eve''] \<mapsto> Dir,
       [folder, lit ''bob'', lit ''a.txt''] \<mapsto> Regular [1, 2, 3],
       [folder, lit ''eve'', lit ''a.txt''] \<mapsto> Regular [4]],
     entropy := 2\<rparr>"

lemmas small_defs = small_server_def empty_server_def bob_def eve_def bob_file_def

lemma small_quiet [simp]: "pending small_server = []"
  by (simp add: small_defs)

lemma small_names: "plain_name (lit ''bob'')" "plain_name (lit ''eve'')" "plain_name (lit ''a.txt'')"
  by (simp_all add: plain_name_def lit_def slash_def in_range_def)

lemma small_different: "lit ''bob'' \<noteq> lit ''eve''" "lit ''eve'' \<noteq> lit ''bob''"
  by (simp_all add: lit_def)

lemma small_well_kept: "well_kept system_pycrypto small_server"
proof -
  have "\<exists>n < 2. replicate 16 (1 :: byte) = replicate 16 (of_nat n + 1)"
    "\<exists>n < 2. replicate 16 (2 :: byte) = replicate 16 (of_nat n + 1)"
    by (auto intro: exI [of _ "0 :: nat"] exI [of _ "1 :: nat"])
  then show ?thesis
    by (simp add: well_kept_def mirrored_def identified_def rows_backed_def files_owned_def owns_def small_defs
        row_data_def client_data_def row_of_client_def file_row_of_def row_key_def has_object_def system_pycrypto_def
        small_different)
qed

lemma small_no_collision: "entropy s \<le> 3 \<Longrightarrow> no_collision system_pycrypto s"
proof -
  assume "entropy s \<le> 3"
  then have "x < 3" if "x < entropy s" for x using that by simp
  moreover have "x = y" if "x < 3" "y < 3" "(of_nat x + 1 :: byte) = of_nat y + 1" for x y :: nat
    using that by (auto simp: numeral_3_eq_3 less_Suc_eq)
  ultimately show ?thesis
    by (auto simp: no_collision_def inj_on_def system_pycrypto_def)
qed

text \<open>A run of the loop: a client connects, sends one byte, and is answered with an error.\<close>

definition small_start :: loop_state where
  "small_start = \<lparr>connections = [], data = small_server\<rparr>"

lemma small_run:
  "\<exists>st. reachable P small_start st \<and> entropy (data st) = 2 \<and> connections st =
     [\<lparr>c_rx = [], c_tx = header_bytes 1607 0, c_blocking = True, c_peer_closed = False, c_registered = True\<rparr>]"
proof -
  let ?c = "detach (accept small_server)"
  let ?st1 = "\<lparr>connections = [?c], data = small_server\<rparr>"
  let ?st2 = "\<lparr>connections = [?c\<lparr>c_rx := [7]\<rparr>], data = small_server\<rparr>"
  let ?s = "attach (?c\<lparr>c_rx := [7]\<rparr>) [] small_server"
  let ?s' = "?s\<lparr>rx := [], tx := tx ?s @ header_bytes 1607 0, blocking := True\<rparr>"
  have c: "?c = \<lparr>c_rx = [], c_tx = [], c_blocking = False, c_peer_closed = False, c_registered = True\<rparr>"
    by (simp add: detach_def accept_def)
  have "loop_step P small_start ?st1" using Accept [of P small_start] by (simp add: small_start_def)
  moreover have "loop_step P ?st1 ?st2" using Arrive [of 0 ?st1 P "[7]"] by (simp add: c)
  moreover have "server_read P ?s = Some (Inr (), ?s')"
    by (subst incomplete_read [of _ "[7]"]) (simp_all add: attach_def c)
  then have "loop_step P ?st2 \<lparr>connections = [detach ?s'], data = ?s'\<rparr>"
    using Serve [of 0 ?st2 P] by (simp add: readable_def c)
  ultimately have "reachable P small_start \<lparr>connections = [detach ?s'], data = ?s'\<rparr>"
    by (blast intro: reach_start reach_step)
  moreover have "detach ?s' = \<lparr>c_rx = [], c_tx = header_bytes 1607 0, c_blocking = True, c_peer_closed = False, c_registered = True\<rparr>"
    unfolding c by (simp add: detach_def attach_def)
  moreover have "entropy ?s' = 2" by (simp add: attach_def small_server_def)
  ultimately show ?thesis by (intro exI [of _ "\<lparr>connections = [detach ?s'], data = ?s'\<rparr>"]) simp
qed

section \<open>Invariants of the main loop\<close>









end
