(* ===== verification/Request_Properties.thy ===== *)
theory Request_Properties
  imports Server_Properties
begin

text \<open>
  The properties of single calls of the server's \<open>read\<close>: what it answers, that it returns, what it
  refines, and the requests whose effects are wrong.
\<close>

section \<open>Formats\<close>

text \<open>
  C19: The header that the client writes is the header that the server reads: id, version, code and
  payload size come back, and exactly the payload is left to read.
\<close>

theorem header_round_trip:
  assumes "wf_request r" and "rx s = request_message r" and "pending s = []"
  shows "getHeader s = Some (Inr (Some \<lparr>sr_client_id = rq_client_id r, sr_version = convert_byte_to_int (rq_version r),
      sr_code = convert_byte_to_int (rq_code r), sr_payload_size = convert_byte_to_int (rq_payload_size r)\<rparr>),
    s\<lparr>rx := rq_payload r\<rparr>)"
proof -
  have rx: "rx s = rq_client_id r @ rq_version r @ rq_code r @ rq_payload_size r @ rq_payload r"
    using assms by (simp add: request_message_eq wf_request_def)
  have ne: "rq_client_id r \<noteq> []" using assms(1) by (auto simp: wf_request_def)
  show ?thesis
    unfolding getHeader_def
    using assms(1,3) ne
    by (subst srun_recv [OF rx])
      (simp_all add: wf_request_def srun_recv [where b = "[3]"] srun_recv [where b = "rq_code r"]
        srun_recv [where b = "rq_payload_size r"] retP_def)
qed

theorem header_round_trip_witness:
  "getHeader (small_server\<lparr>rx := request_message new_request\<rparr>) = Some (Inr (Some
     \<lparr>sr_client_id = rq_client_id new_request, sr_version = 3,
      sr_code = convert_byte_to_int (rq_code new_request), sr_payload_size = convert_byte_to_int (rq_payload_size new_request)\<rparr>),
     small_server\<lparr>rx := rq_payload new_request\<rparr>)"
  using header_round_trip [OF wf_new_request, of "small_server\<lparr>rx := request_message new_request\<rparr>"]
  by (simp add: convert_byte_to_int_def) (simp add: new_request_def small_defs)


section \<open>Requests\<close>

lemma small_ciphertexts: "short_ciphertexts system_pycrypto"
  by (auto simp: short_ciphertexts_def system_pycrypto_def split: if_splits)

text \<open>
  C5: Registration refines the registry of names: with a complete request, a name that is free is
  entered with the new id and answered with 1600 and this id; a name that is taken leaves the registry
  as it is and is answered with 1601.
\<close>

theorem registration_refines:
  assumes "rx s = request_bytes cid 825 255 (pad_nul 255 n)" and "length cid = 16" and "pending s = []" and "plain_name n"
    and "dir_ready (disk s) n" and "uuid4_bytes P (entropy s) \<notin> cr_id ` set (db_clients s)"
  shows "\<exists>s'. server_read P s = Some (Inr (), s') \<and> rx s' = [] \<and>
    (case register_spec n (uuid4_bytes P (entropy s)) (registry_of s) of (reg, reply) \<Rightarrow>
       registry_of s' = reg \<and> tx s' = tx s @ reply_bytes reply)"
  using read_registration [OF assms] .

theorem registration_refines_witness:
  "\<exists>s1 s2. server_read system_pycrypto (small_server\<lparr>rx := request_bytes (replicate 16 0) 825 255 (pad_nul 255 (lit ''bob''))\<rparr>)
      = Some (Inr (), s1) \<and> tx s1 = header_bytes 1601 0 \<and>
    server_read system_pycrypto (small_server\<lparr>rx := request_bytes (replicate 16 0) 825 255 (pad_nul 255 (lit ''joe''))\<rparr>)
      = Some (Inr (), s2) \<and> registry_of s2 (lit ''joe'') = Some (replicate 16 3) \<and>
    registry_of s2 (lit ''bob'') = Some (replicate 16 1) \<and> tx s2 = header_bytes 1600 16 @ replicate 16 3"
proof -
  let ?s = "\<lambda>n. small_server\<lparr>rx := request_bytes (replicate 16 0) 825 255 (pad_nul 255 n)\<rparr>"
  have reg: "registry_of (?s n) = [lit ''bob'' \<mapsto> replicate 16 1, lit ''eve'' \<mapsto> replicate 16 2]" for n
    by (simp add: registry_of_def small_defs) (simp add: fun_eq_iff small_different)
  have joe: "plain_name (lit ''joe'')" "lit ''joe'' \<noteq> lit ''bob''" "lit ''joe'' \<noteq> lit ''eve''"
    by (simp_all add: plain_name_def lit_def slash_def in_range_def)
  have ready: "dir_ready (disk small_server) n" if "n = lit ''joe'' \<or> n = lit ''bob''" for n
    using that joe small_different by (auto simp: dir_ready_def small_defs)
  have id: "uuid4_bytes system_pycrypto (entropy small_server) = replicate 16 3"
    "replicate 16 3 \<notin> cr_id ` set (db_clients small_server)"
    by (simp_all add: system_pycrypto_def small_defs row_of_client_def)
  have tx: "tx small_server = []" by (simp add: small_defs)
  show ?thesis
    using registration_refines [of "?s (lit ''bob'')" "replicate 16 0" "lit ''bob''" system_pycrypto]
      registration_refines [of "?s (lit ''joe'')" "replicate 16 0" "lit ''joe''" system_pycrypto]
    by (simp add: small_names joe ready id tx) (auto simp: reg register_spec_def reply_bytes_def joe joe(2) [symmetric] small_different)
qed

text \<open>
  C15: Reconnection, on every branch: an unknown name and a stored public key that the library rejects
  are answered with 1606, an id that is not the one of the name and a failed encryption with 1607, and
  otherwise a new AES key comes encrypted with 1605.
\<close>

theorem reconnection_answered:
  assumes "rx s = request_bytes cid 827 255 (pad_nul 255 n)" and "length cid = 16" and "pending s = []" and "plain_name n"
    and "short_ciphertexts P"
  shows "\<exists>s'. server_read P s = Some (Inr (), s') \<and> rx s' = [] \<and> tx s' = tx s @ reconnect_answer P s cid n"
  using read_reconnection [OF assms] .

theorem reconnection_answered_witness:
  "\<exists>s'. server_read system_pycrypto (small_server\<lparr>rx := request_bytes (replicate 16 1) 827 255 (pad_nul 255 (lit ''bob''))\<rparr>)
      = Some (Inr (), s') \<and>
    tx s' = header_bytes 1605 144 @ replicate 16 1 @ pad_nul 128 (replicate 32 2)"
proof -
  let ?s = "small_server\<lparr>rx := request_bytes (replicate 16 1) 827 255 (pad_nul 255 (lit ''bob''))\<rparr>"
  have ans: "reconnect_answer system_pycrypto ?s (replicate 16 1) (lit ''bob'')
      = header_bytes 1605 144 @ replicate 16 1 @ pad_nul 128 (replicate 32 2)"
    by (simp add: reconnect_answer_def small_defs system_pycrypto_def)
  have tx: "tx ?s = []" by (simp add: small_defs)
  have "\<exists>s'. server_read system_pycrypto ?s = Some (Inr (), s') \<and> rx s' = [] \<and>
      tx s' = tx ?s @ reconnect_answer system_pycrypto ?s (replicate 16 1) (lit ''bob'')"
    by (rule reconnection_answered) (simp_all add: small_names small_ciphertexts small_defs)
  then show ?thesis unfolding ans tx by auto
qed



section \<open>Returning\<close>






text \<open>
  C27: A packet of which only the first part has arrived when the server reads it (one write of the client
  travels in several segments) is stored as it is, without an error and without waiting for the rest:
  the file on the disk goes on with the part only.
\<close>

theorem short_packet_stored:
  assumes rx: "rx s = request_bytes cid 828 (267 + length (content @ rest)) (packet_bytes csize osize num tot f content)"
    and cid: "length cid = 16" and quiet: "pending s = []" and s: "before_packet s i cid n aes f num acc"
    and n: "plain_name n" "plain_name f"
    and small: "csize < 4294967296" "osize < 4294967296" "num < 65536" "tot < 65536" and more: "num \<noteq> tot"
    and content: "content \<noteq> []" "length (content @ rest) \<le> 4096"
  shows "\<exists>s'. server_read P s = Some (Inr (), s') \<and> rx s' = [] \<and> tx s' = tx s \<and>
    holds s' i cid n aes f False (acc @ content)"
proof -
  let ?m = "length (content @ rest)" and ?p = "packet_bytes csize osize num tot f content"
  let ?r = "\<lparr>sr_client_id = cid, sr_version = 3, sr_code = int 828, sr_payload_size = int (267 + ?m)\<rparr>"
  have k: "known s i cid n aes" by (rule before_packet_known [OF s])
  have c: "sc_id (clients_list s ! i) = cid" using known_index [OF k] by simp
  have i: "first_index (\<lambda>c. sc_id c = sr_client_id ?r) (clients_list (s\<lparr>rx := ?p\<rparr>)) = Some i"
    using k by (simp add: known_def)
  have run: "handle_request P ?r (s\<lparr>rx := ?p\<rparr>) =
      bindP (store_packet i (clients_list s ! i) (int num) f content) (\<lambda>_. retP ()) (s\<lparr>rx := []\<rparr>)"
    unfolding handle_request_def
    using run_short_packet [where s = "s\<lparr>rx := ?p\<rparr>" and r = ?r and m = ?m and P = P and c = "clients_list s ! i",
        OF _ _ _ _ _ small plain_field [OF n(2)] content(1) i] c quiet more by simp
  have "wp (store_packet i (clients_list s ! i) (int num) f content)
      (stored_packet (s\<lparr>rx := []\<rparr>) i cid n aes f (acc @ content)) (\<lambda>_ _. False) (s\<lparr>rx := []\<rparr>)"
    by (rule store_packet_step [OF _ n]) (use s in \<open>simp_all add: before_packet_def\<close>)
  then obtain x s' where st: "store_packet i (clients_list s ! i) (int num) f content (s\<lparr>rx := []\<rparr>) = Some (Inr x, s')"
    "stored_packet (s\<lparr>rx := []\<rparr>) i cid n aes f (acc @ content) x s'"
    by (auto simp: wp_result)
  have "handle_request P ?r (s\<lparr>rx := ?p\<rparr>) = Some (Inr (), s')"
    unfolding run by (simp add: bindP_def st(1) retP_def)
  moreover have "267 + ?m < 4294967296" using content(2) by simp
  ultimately have "server_read P s = Some (Inr (), s')"
    using server_read_request [OF rx cid _ _ quiet, of P] by (simp add: catchP_def)
  then show ?thesis using st(2) by (simp add: stored_packet_def)
qed

theorem short_packet_stored_witness:
  "\<exists>s'. server_read system_pycrypto (small_server\<lparr>rx := request_bytes (replicate 16 1) 828 269
       (packet_bytes 32 20 1 2 (lit ''a.txt'') [66])\<rparr>) = Some (Inr (), s') \<and>
     disk s' [folder, lit ''bob'', lit ''a.txt''] = Some (Regular [66])"
proof -
  let ?s = "small_server\<lparr>rx := request_bytes (replicate 16 1) 828 269 (packet_bytes 32 20 1 2 (lit ''a.txt'') [66])\<rparr>"
  have "before_packet ?s 0 (replicate 16 1) (lit ''bob'') (replicate 32 9) (lit ''a.txt'') 1 []"
    by (simp add: before_packet_def may_start_def known_def small_defs small_different)
  from short_packet_stored [OF _ _ _ this small_names(1,3), of "[66]" "[67]" 32 20 2 system_pycrypto]
  show ?thesis by (auto simp: holds_def)
qed

section \<open>The restart\<close>

text \<open>
  C14: The restart: with the books kept and names that are plain directory names, the start of the
  server after a stop succeeds, and brings back every client with its id, name and keys, in the same
  order, and exactly the files that have a row.
\<close>

theorem restart_restores:
  assumes "well_kept P s" and "\<forall>c \<in> set (clients_list s). plain_name (sc_name c)" and "disk s [folder] = Some Dir"
  shows "\<exists>s'. data_base_handle P (s\<lparr>clients_list := []\<rparr>) = Some (Inr (), s') \<and>
    map client_data (clients_list s') = map client_data (clients_list s) \<and>
    (\<forall>c \<in> set (clients_list s'). sc_files c = files_of (db_files s) c)"
proof -
  have rows: "map row_data (db_clients s) = map client_data (clients_list s)"
    using assms(1) by (simp add: well_kept_def mirrored_def)
  have "map cr_name (db_clients s) = map sc_name (clients_list s)"
    using arg_cong [OF rows, where f = "map (fst \<circ> snd)"] by (simp add: comp_def row_data_def client_data_def)
  then have "cr_name ` set (db_clients s) = sc_name ` set (clients_list s)" by (metis list.set_map)
  then have "\<forall>r \<in> set (db_clients s). plain_name (cr_name r)" using assms(2) by (metis image_iff)
  then obtain s' where s': "data_base_handle P (s\<lparr>clients_list := []\<rparr>) = Some (Inr (), s')"
    using data_base_handle_plain [of "s\<lparr>clients_list := []\<rparr>" P] assms(3) by auto
  have l: "clients_list s' = restored (db_clients s) (db_files s)"
    using data_base_handle_result [OF s'] by simp
  then have "map client_data (clients_list s') = map client_data (clients_list s)"
    by (simp add: restored_def comp_def client_data_object rows)
  moreover have "\<forall>c \<in> set (clients_list s'). sc_files c = files_of (db_files s) c"
    by (auto simp: l restored_def files_of_def)
  ultimately show ?thesis using s' by blast
qed

theorem restart_restores_witness:
  "\<exists>s'. data_base_handle system_pycrypto (small_server\<lparr>clients_list := []\<rparr>) = Some (Inr (), s') \<and>
     map client_data (clients_list s') = [client_data bob, client_data eve]"
proof -
  have l: "clients_list small_server = [bob, eve]" by (simp add: small_server_def)
  have "\<forall>c \<in> set (clients_list small_server). plain_name (sc_name c)"
    using small_names by (simp add: l) (simp add: bob_def eve_def)
  moreover have "disk small_server [folder] = Some Dir" by (simp add: small_server_def)
  ultimately obtain s' where "data_base_handle system_pycrypto (small_server\<lparr>clients_list := []\<rparr>) = Some (Inr (), s')"
    "map client_data (clients_list s') = map client_data (clients_list small_server)"
    using restart_restores [OF small_well_kept] by blast
  then show ?thesis by (auto simp: l)
qed

section \<open>Requests that reach too far\<close>

text \<open>
  C28: A file name that starts with two dots leaves the client's directory: a packet of any registered
  client with the name \<open>../v/f\<close> replaces the file \<open>f\<close> in the directory of the client \<open>v\<close>, without an
  error.
\<close>

theorem packet_overwrites_foreign_file:
  assumes "rx s = request_bytes cid 828 (267 + length content)
      (packet_bytes csize osize 1 tot (name_in_directory_of v f) content)"
    and "length cid = 16" and "pending s = []" and "known s i cid n aes" and "plain_name n" "plain_name v" "plain_name f"
    and "field_name (name_in_directory_of v f)"
    and "csize < 4294967296" "osize < 4294967296" "tot < 65536" "tot \<noteq> 1"
    and "content \<noteq> []" "length content \<le> 4096"
    and "disk s [folder, v] = Some Dir" "disk s [folder, v, f] \<noteq> Some Dir"
    and "name_in_directory_of v f \<notin> sf_name ` set (sc_files (clients_list s ! i))"
    and "cid \<notin> fr_client_id ` set (db_files s)"
  shows "\<exists>s'. server_read P s = Some (Inr (), s') \<and> tx s' = tx s \<and> disk s' = (disk s)([folder, v, f] \<mapsto> Regular content)"
  using read_packet_outside [OF assms] .

theorem packet_overwrites_foreign_file_witness:
  "\<exists>s'. server_read system_pycrypto (small_server\<lparr>db_files := [], rx := request_bytes (replicate 16 2) 828 268
       (packet_bytes 1 1 1 2 (name_in_directory_of (lit ''bob'') (lit ''a.txt'')) [66])\<rparr>) = Some (Inr (), s') \<and>
     disk s' [folder, lit ''bob'', lit ''a.txt''] = Some (Regular [66])"
proof -
  let ?g = "name_in_directory_of (lit ''bob'') (lit ''a.txt'')"
  let ?s = "small_server\<lparr>db_files := [], rx := request_bytes (replicate 16 2) 828 268 (packet_bytes 1 1 1 2 ?g [66])\<rparr>"
  have field: "field_name ?g"
    by (simp add: field_name_def name_in_directory_of_def lit_def slash_def in_range_def)
  have k: "known ?s 1 (replicate 16 2) (lit ''eve'') (replicate 32 8)"
    by (simp add: known_def small_defs small_different)
  have new: "?g \<notin> sf_name ` set (sc_files (clients_list ?s ! 1))"
    by (simp add: small_defs name_in_directory_of_def lit_def)
  have "\<exists>s'. server_read system_pycrypto ?s = Some (Inr (), s') \<and> tx s' = tx ?s \<and>
      disk s' = (disk ?s)([folder, lit ''bob'', lit ''a.txt''] \<mapsto> Regular [66])"
    by (rule packet_overwrites_foreign_file [OF _ _ _ k small_names(2,1,3) field _ _ _ _ _ _ _ _ new, where csize = 1 and osize = 1 and tot = 2])
      (simp_all add: small_defs small_different)
  then show ?thesis by auto
qed

text \<open>
  C29: A positive verdict on one file marks all files of the client in the table: after the next restart
  every file of this client counts as verified, also those of which only some packets have come.
\<close>

theorem verdict_marks_all_files:
  assumes "rx s = request_bytes cid 900 255 (pad_nul 255 f)" and "length cid = 16" and "pending s = []" and "field_name f"
    and "file_at s i j cid f" and "\<not> sf_valid_crc (sc_files (clients_list s ! i) ! j)"
  shows "\<exists>s'. server_read P s = Some (Inr (), s') \<and> tx s' = tx s @ header_bytes 1604 16 @ cid \<and>
    other_objects_same i f s s' \<and>
    (\<forall>s''. data_base_handle P (s'\<lparr>clients_list := []\<rparr>) = Some (Inr (), s'') \<longrightarrow>
       (\<forall>c \<in> set (clients_list s''). sc_id c = cid \<longrightarrow> (\<forall>x \<in> set (sc_files c). sf_valid_crc x)))"
proof -
  obtain s' where s': "server_read P s = Some (Inr (), s')" "tx s' = tx s @ header_bytes 1604 16 @ cid"
    "other_objects_same i f s s'" "db_files s' = db_update (\<lambda>r. fr_client_id r = cid) (fr_valid_crc_update (\<lambda>_. True)) (db_files s)"
    using read_valid [OF assms] by blast
  have "\<forall>x \<in> set (sc_files c). sf_valid_crc x"
    if run: "data_base_handle P (s'\<lparr>clients_list := []\<rparr>) = Some (Inr (), s'')" and c: "c \<in> set (clients_list s'')" "sc_id c = cid"
    for s'' c
  proof -
    have "clients_list s'' = restored (db_clients s') (db_files s')" using data_base_handle_result [OF run] by simp
    then have "sc_files c = files_of (db_files s') c" using c by (auto simp: restored_def files_of_def)
    then show ?thesis using c(2) by (auto simp: s'(4) files_of_def file_of_row_def db_update_def)
  qed
  with s'(1-3) show ?thesis by blast
qed

theorem verdict_marks_all_files_witness:
  "\<exists>s'. server_read system_pycrypto (small_server\<lparr>rx := request_bytes (replicate 16 1) 900 255 (pad_nul 255 (lit ''a.txt''))\<rparr>)
      = Some (Inr (), s') \<and> tx s' = header_bytes 1604 16 @ replicate 16 1"
proof -
  let ?s = "small_server\<lparr>rx := request_bytes (replicate 16 1) 900 255 (pad_nul 255 (lit ''a.txt''))\<rparr>"
  have "\<exists>s'. server_read system_pycrypto ?s = Some (Inr (), s') \<and> tx s' = tx ?s @ header_bytes 1604 16 @ replicate 16 1 \<and>
    other_objects_same 0 (lit ''a.txt'') ?s s' \<and>
    (\<forall>s''. data_base_handle system_pycrypto (s'\<lparr>clients_list := []\<rparr>) = Some (Inr (), s'') \<longrightarrow>
       (\<forall>c \<in> set (clients_list s''). sc_id c = replicate 16 1 \<longrightarrow> (\<forall>x \<in> set (sc_files c). sf_valid_crc x)))"
    by (rule verdict_marks_all_files [where j = 0])
      (simp_all add: plain_field [OF small_names(3)] file_at_def small_defs)
  then show ?thesis by (auto simp: small_defs)
qed

text \<open>
  C30: Dropping a file after the fourth wrong checksum deletes the rows of this name for all clients:
  the other clients' objects stay until the next restart, after which no client has a file of this
  name.
\<close>

theorem drop_forgets_other_files:
  assumes "rx s = request_bytes cid 902 255 (pad_nul 255 f)" and "length cid = 16" and "pending s = []" and "field_name f"
    and "file_at s i j cid f" and "x = sc_files (clients_list s ! i) ! j" "\<not> sf_valid_crc x"
    and "remove_path (disk s) (sf_path x) = Some d" and "f \<in> fr_name ` set (db_files s)"
  shows "\<exists>s'. server_read P s = Some (Inr (), s') \<and> tx s' = tx s @ header_bytes 1604 16 @ cid \<and>
    other_objects_same i f s s' \<and> disk s' = d \<and>
    (\<forall>s''. data_base_handle P (s'\<lparr>clients_list := []\<rparr>) = Some (Inr (), s'') \<longrightarrow>
       (\<forall>c \<in> set (clients_list s''). f \<notin> sf_name ` set (sc_files c)))"
proof -
  obtain s' where s': "server_read P s = Some (Inr (), s')" "tx s' = tx s @ header_bytes 1604 16 @ cid"
    "other_objects_same i f s s'" "disk s' = d" "db_files s' = filter (\<lambda>r. fr_name r \<noteq> f) (db_files s)"
    using read_drop [OF assms] by blast
  have "f \<notin> sf_name ` set (sc_files c)"
    if run: "data_base_handle P (s'\<lparr>clients_list := []\<rparr>) = Some (Inr (), s'')" and c: "c \<in> set (clients_list s'')" for s'' c
  proof -
    have "clients_list s'' = restored (db_clients s') (db_files s')" using data_base_handle_result [OF run] by simp
    then have "sc_files c = files_of (db_files s') c" using c by (auto simp: restored_def files_of_def)
    then show ?thesis by (auto simp: s'(5) files_of_def file_of_row_def)
  qed
  with s'(1-4) show ?thesis by blast
qed

theorem drop_forgets_other_files_witness:
  "\<exists>s'. server_read system_pycrypto (small_server\<lparr>rx := request_bytes (replicate 16 1) 902 255 (pad_nul 255 (lit ''a.txt''))\<rparr>)
      = Some (Inr (), s') \<and> disk s' [folder, lit ''bob'', lit ''a.txt''] = None \<and>
    clients_list s' ! 1 = eve \<and> lit ''a.txt'' \<in> sf_name ` set (sc_files eve)"
proof -
  let ?s = "small_server\<lparr>rx := request_bytes (replicate 16 1) 902 255 (pad_nul 255 (lit ''a.txt''))\<rparr>"
  have path: "resolve (disk small_server) (file_path (lit ''bob'') (lit ''a.txt'')) = Some [folder, lit ''bob'', lit ''a.txt'']"
    by (rule resolve_file_path [OF small_names(1,3)]) (simp_all add: small_defs small_different)
  have rm: "remove_path (disk ?s) (sf_path bob_file) = Some ((disk small_server)([folder, lit ''bob'', lit ''a.txt''] := None))"
    by (simp add: remove_path_def bob_file_def path) (simp add: small_defs small_different)
  have "\<exists>s'. server_read system_pycrypto ?s = Some (Inr (), s') \<and> tx s' = tx ?s @ header_bytes 1604 16 @ replicate 16 1 \<and>
    other_objects_same 0 (lit ''a.txt'') ?s s' \<and> disk s' = (disk small_server)([folder, lit ''bob'', lit ''a.txt''] := None) \<and>
    (\<forall>s''. data_base_handle system_pycrypto (s'\<lparr>clients_list := []\<rparr>) = Some (Inr (), s'') \<longrightarrow>
       (\<forall>c \<in> set (clients_list s''). lit ''a.txt'' \<notin> sf_name ` set (sc_files c)))"
    by (rule drop_forgets_other_files [OF _ _ _ _ _ _ _ rm, where j = 0])
      (simp_all add: plain_field [OF small_names(3)] file_at_def small_defs file_row_of_def)
  then show ?thesis
    by (auto simp: other_objects_same_def small_server_def empty_server_def) (auto simp: eve_def bob_file_def)
qed

end
