(* ===== verification/Server_Start.thy ===== *)
theory Server_Start
  imports Server_Properties
begin

text \<open>
  The start of the server (\<open>src/Server/server.py\<close>): the port from \<open>port.info\<close>, the tables, the
  listening socket; and the report \<open>cksum.py\<close> prints when it is run by itself. Both rest on the
  decimal notation of Python: \<open>int\<close> of a string and the formatting of an \<open>int\<close>.
\<close>

section \<open>Decimal numbers in Python\<close>

definition is_digit :: "byte \<Rightarrow> bool" where
  "is_digit c \<longleftrightarrow> 48 \<le> unat c \<and> unat c \<le> 57"

definition digit_value :: "byte \<Rightarrow> int" where
  "digit_value c = int (unat c) - 48"

definition white_space :: "byte \<Rightarrow> bool" where
  "white_space c \<longleftrightarrow> 9 \<le> unat c \<and> unat c \<le> 13 \<or> c = 32"

text \<open>The digits after a first one, with single underscores between them.\<close>

fun more_digits :: "int \<Rightarrow> bytes \<Rightarrow> int option" where
  "more_digits v [] = Some v"
| "more_digits v (c # cs) =
     (if is_digit c then more_digits (10 * v + digit_value c) cs
      else if c = 95 then
        (case cs of
           [] \<Rightarrow> None
         | d # ds \<Rightarrow> if is_digit d then more_digits (10 * v + digit_value d) ds else None)
      else None)"

definition unsigned_number :: "bytes \<Rightarrow> int option" where
  "unsigned_number t = (case t of [] \<Rightarrow> None | c # cs \<Rightarrow> if is_digit c then more_digits (digit_value c) cs else None)"

definition py_strip :: "bytes \<Rightarrow> bytes" where
  "py_strip t = rev (dropWhile white_space (rev (dropWhile white_space t)))"

text \<open>\<open>int(t)\<close> of a string of ASCII characters; \<open>None\<close> is \<open>ValueError\<close>.\<close>

definition py_int :: "bytes \<Rightarrow> int option" where
  "py_int t =
     (case py_strip t of
        [] \<Rightarrow> None
      | c # cs \<Rightarrow>
          if c = 45 then map_option uminus (unsigned_number cs)
          else if c = 43 then unsigned_number cs
          else unsigned_number (c # cs))"

text \<open>The text of a natural number in a formatted string.\<close>

definition digit_char :: "nat \<Rightarrow> byte" where
  "digit_char d = of_nat (48 + d)"

fun py_decimal :: "nat \<Rightarrow> bytes" where
  "py_decimal n = (if n < 10 then [digit_char n] else py_decimal (n div 10) @ [digit_char (n mod 10)])"

declare py_decimal.simps [simp del]

section \<open>The port and the start\<close>

definition DEFAULT_PORT_NUMBER :: bytes where
  "DEFAULT_PORT_NUMBER = lit ''1256''"

text \<open>Reading in text mode: every end of line becomes a line feed.\<close>

fun universal_newlines :: "bytes \<Rightarrow> bytes" where
  "universal_newlines [] = []"
| "universal_newlines (c # cs) =
     (if c = 13 then
        10 # (case cs of [] \<Rightarrow> [] | d # ds \<Rightarrow> if d = 10 then universal_newlines ds else universal_newlines cs)
      else c # universal_newlines cs)"

text \<open>
  The port the server listens on. \<open>readlines\<close> gives a list, and \<open>"".join\<close> puts the text together
  again. A list is never equal to \<open>''\<close>, so the default is taken only when there is no file. \<open>None\<close> is
  the exit of the program: \<open>int\<close> or \<open>bind\<close> raises. \<open>free\<close> tells which ports the system gives.
\<close>

definition listening_port :: "(int \<Rightarrow> bool) \<Rightarrow> bytes option \<Rightarrow> int option" where
  "listening_port free port_info =
     (let port = (case port_info of None \<Rightarrow> DEFAULT_PORT_NUMBER | Some text \<Rightarrow> universal_newlines text)
      in case py_int port of
           None \<Rightarrow> None
         | Some n \<Rightarrow> if 0 \<le> n \<and> n \<le> 65535 \<and> free n then Some n else None)"

text \<open>
  The program up to its loop: the data are loaded before the port is looked at. The result is the
  port, or \<open>None\<close> when the program ends.
\<close>

definition start_server ::
    "'pk pycrypto \<Rightarrow> (int \<Rightarrow> bool) \<Rightarrow> bytes option \<Rightarrow> bool \<Rightarrow> server \<Rightarrow> (int option \<times> server) option" where
  "start_server P free port_info there s =
     Option.bind (start_data_base P there s) (\<lambda>(r, s').
       Some (case r of Inl e \<Rightarrow> (None, s') | Inr _ \<Rightarrow> (listening_port free port_info, s')))"

section \<open>The report of \<open>cksum.py\<close>\<close>

text \<open>\<open>readfile\<close>: checksum, size and name with tabs between them; \<open>None\<close> is the exit on a file that cannot be read.\<close>

definition py_readfile :: "(bytes \<Rightarrow> bytes option) \<Rightarrow> bytes \<Rightarrow> bytes option" where
  "py_readfile fs fname =
     (case fs fname of
        None \<Rightarrow> None
      | Some buffer \<Rightarrow>
          Some (py_decimal (nat (py_memcrc buffer)) @ 9 # py_decimal (length buffer) @ 9 # fname))"

section \<open>Lemmas\<close>

lemma unat_digit: "d < 10 \<Longrightarrow> unat (digit_char d) = 48 + d"
  unfolding digit_char_def by (subst unat_of_nat) simp

lemma digit_char_digit [simp]: "d < 10 \<Longrightarrow> is_digit (digit_char d)" "d < 10 \<Longrightarrow> digit_value (digit_char d) = int d"
  by (simp_all add: is_digit_def digit_value_def unat_digit)

lemma digit_no_space: "is_digit c \<Longrightarrow> \<not> white_space c \<and> c \<noteq> 13 \<and> c \<noteq> 45 \<and> c \<noteq> 43"
  by (auto simp: is_digit_def white_space_def)

lemma decimal_digits: "c \<in> set (py_decimal n) \<Longrightarrow> is_digit c"
  by (induction n rule: py_decimal.induct) (subst (asm) (2) py_decimal.simps, auto split: if_splits)

lemma decimal_not_empty [simp]: "py_decimal n \<noteq> []"
  by (subst py_decimal.simps) simp

lemma more_digits_append: "\<forall>c\<in>set a. is_digit c \<Longrightarrow>
    more_digits v (a @ b) = Option.bind (more_digits v a) (\<lambda>v. more_digits v b)"
  by (induction a arbitrary: v) auto

lemma unsigned_append:
  "a \<noteq> [] \<Longrightarrow> \<forall>c\<in>set a. is_digit c \<Longrightarrow>
   unsigned_number (a @ b) = Option.bind (unsigned_number a) (\<lambda>v. more_digits v b)"
  by (cases a) (simp_all add: unsigned_number_def more_digits_append)

lemma unsigned_decimal: "unsigned_number (py_decimal n) = Some (int n)"
proof (induction n rule: py_decimal.induct)
  case (1 n)
  show ?case
  proof (cases "n < 10")
    case True
    then show ?thesis by (subst py_decimal.simps) (simp add: unsigned_number_def)
  next
    case False
    have d: "\<forall>c\<in>set (py_decimal (n div 10)). is_digit c" by (auto intro: decimal_digits)
    have v: "10 * int (n div 10) + int (n mod 10) = int n" by presburger
    have "py_decimal n = py_decimal (n div 10) @ [digit_char (n mod 10)]"
      using False by (subst py_decimal.simps) simp
    then show ?thesis using 1 [OF False] by (simp add: unsigned_append [OF _ d] v)
  qed
qed

lemma py_strip_around:
  assumes "\<forall>c\<in>set a. white_space c" and "\<forall>c\<in>set b. white_space c" and "t \<noteq> []" and "\<forall>c\<in>set t. \<not> white_space c"
  shows "py_strip (a @ t @ b) = t"
proof -
  have h: "dropWhile white_space (t @ b) = t @ b" using assms(3,4) by (cases t) auto
  have r: "dropWhile white_space (rev b @ rev t) = rev t"
  proof -
    have "dropWhile white_space (rev b @ rev t) = dropWhile white_space (rev t)"
      using assms(2) by (intro dropWhile_append2) simp
    also have "\<dots> = rev t" using assms(3,4) by (cases t rule: rev_cases) simp_all
    finally show ?thesis .
  qed
  show ?thesis using assms(1) h r by (simp add: py_strip_def dropWhile_append2)
qed

lemma py_strip_blank: "\<forall>c\<in>set a. white_space c \<Longrightarrow> py_strip a = []"
  by (simp add: py_strip_def dropWhile_eq_Nil_conv [THEN iffD2])

lemma py_int_decimal:
  assumes "\<forall>c\<in>set a. white_space c" and "\<forall>c\<in>set b. white_space c"
  shows "py_int (a @ py_decimal n @ b) = Some (int n)"
proof -
  have ns: "\<forall>c\<in>set (py_decimal n). \<not> white_space c" by (auto dest: decimal_digits digit_no_space)
  obtain c cs where c: "py_decimal n = c # cs" by (cases "py_decimal n") auto
  have "is_digit c" using decimal_digits [of c n] c by simp
  then have "c \<noteq> 45" "c \<noteq> 43" using digit_no_space by blast+
  then show ?thesis
    using py_strip_around [OF assms _ ns] unsigned_decimal [of n] by (simp add: py_int_def c)
qed

lemma newlines_white: "\<forall>c\<in>set a. white_space c \<Longrightarrow> \<forall>c\<in>set (universal_newlines a). white_space c"
  by (induction a rule: universal_newlines.induct) (auto simp: white_space_def split: list.splits)

lemma newlines_around:
  assumes "t \<noteq> []" and "\<forall>c\<in>set t. is_digit c"
  shows "universal_newlines (a @ t @ b) = universal_newlines a @ t @ universal_newlines b"
proof -
  have t: "\<forall>c\<in>set t. c \<noteq> 13 \<and> c \<noteq> 10" using assms(2) digit_no_space by (auto simp: is_digit_def)
  have tail: "universal_newlines (t @ b) = t @ universal_newlines b"
    using t by (induction t) auto
  show ?thesis
  proof (induction a rule: universal_newlines.induct)
    case 1
    then show ?case by (simp add: tail)
  next
    case (2 c cs)
    then show ?case
    proof (cases "c = 13")
      case True
      obtain d ds where "t = d # ds" "d \<noteq> 10" using assms(1) t by (cases t) auto
      then show ?thesis using True 2 tail by (cases cs) auto
    qed simp
  qed
qed

lemma port_of_number:
  assumes "n \<le> 65535" and "free (int n)" and "\<forall>c\<in>set a. white_space c" and "\<forall>c\<in>set b. white_space c"
  shows "listening_port free (Some (a @ py_decimal n @ b)) = Some (int n)"
proof -
  have d: "\<forall>c\<in>set (py_decimal n). is_digit c" by (auto intro: decimal_digits)
  show ?thesis
    using assms(1,2) py_int_decimal [OF newlines_white [OF assms(3)] newlines_white [OF assms(4)]]
    by (simp add: listening_port_def newlines_around [OF _ d])
qed

lemma port_of_blank: "\<forall>c\<in>set a. white_space c \<Longrightarrow> listening_port free (Some a) = None"
  using py_strip_blank [OF newlines_white] by (simp add: listening_port_def py_int_def)

text \<open>
  The checksum in the report of \<open>cksum.py\<close>, read as a number, is the one \<open>memcrc\<close> of the client computes.
\<close>

lemma report_checksum:
  assumes "py_readfile fs fname = Some report" and "fs fname = Some b"
  shows "py_int (takeWhile (\<lambda>c. c \<noteq> 9) report) = Some (py_memcrc b)"
proof -
  let ?d = "py_decimal (nat (py_memcrc b))"
  have nn: "0 \<le> py_memcrc b" by (simp add: py_memcrc_def py_UNSIGNED_def)
  have "\<forall>c\<in>set ?d. c \<noteq> 9" using decimal_digits by (fastforce simp: is_digit_def)
  then have "takeWhile (\<lambda>c. c \<noteq> 9) report = ?d"
    using assms by (auto simp: py_readfile_def takeWhile_append)
  then show ?thesis using py_int_decimal [of "[]" "[]"] nn by simp
qed

section \<open>Properties\<close>

text \<open>
  C32: The server listens on the port that \<open>port.info\<close> gives in decimal, with white space around it,
  and on 1256 without the file; a file that is empty or blank ends the program after the data are
  loaded, although the code means to take the default then.
\<close>

theorem port_read_back:
  assumes "start_data_base P there s = Some (Inr (), s')" and "n \<le> 65535" and "free (int n)"
    and "\<forall>c\<in>set a. white_space c" and "\<forall>c\<in>set b. white_space c"
  shows "start_server P free (Some (a @ py_decimal n @ b)) there s = Some (Some (int n), s') \<and>
    start_server P free (Some a) there s = Some (None, s')"
  using assms(1) port_of_number [of n free, OF assms(2-5)] port_of_blank [OF assms(4)]
  by (simp add: start_server_def)

theorem port_read_back_witness:
  "start_server system_pycrypto (\<lambda>_. True) (Some ([10] @ lit ''8080'' @ [13, 10])) False empty_server
     = Some (Some 8080, empty_server) \<and>
   start_server system_pycrypto (\<lambda>_. True) (Some [10]) False empty_server = Some (None, empty_server)"
proof -
  have there: "path_exists [[folder] \<mapsto> Dir] folder"
    by (simp add: path_exists_def resolve_def split_path_plain folder_plain go_folder is_dir_def)
  have "start_data_base system_pycrypto False empty_server = Some (Inr (), empty_server)"
    by (simp add: start_data_base_def create_data_base_def data_base_handle_def srun_mod srun_get srun_ret empty_server_def there)
      (simp add: retP_def)
  moreover have "py_decimal 8080 = lit ''8080''"
    by (simp add: py_decimal.simps digit_char_def lit_def)
  ultimately show ?thesis
    using port_read_back [of system_pycrypto False empty_server empty_server 8080 "\<lambda>_. True" "[10]" "[13, 10]"]
    by (simp add: white_space_def)
qed

end
