(* ===== verification/System_Return.thy ===== *)
theory System_Return
  imports Server_Properties
begin

text \<open>
  A client that the server already knows: it reconnects with the identity of its local files, receives
  a new AES key, and transfers its file, which replaces the one the server has.
\<close>

section \<open>The reconnection request\<close>

definition reconnection_request :: "bytes \<Rightarrow> bytes \<Rightarrow> request" where
  "reconnection_request cid n =
     appendStringPayload n 255 (setPayloadSize 255 (setCode 827 (new_request\<lparr>rq_client_id := cid\<rparr>)))"

text \<open>What the client does with the answer to the request \<open>q\<close>.\<close>

definition reconnection_reply ::
    "('sk, 'pk, 'p) env \<Rightarrow> request \<Rightarrow> 'p world \<Rightarrow> ((stop + Answer_codes \<times> request) \<times> 'p world) option" where
  "reconnection_reply E q =
     bindP get_header_from_server (\<lambda>a.
       if ans_code a = 1607 then
         bindP (general_error_handle a q) (\<lambda>(again, r).
           if again = TRY_AGAIN then (\<lambda>w. reconnection E (clearPayload r) w) else reconnected E a r)
       else if ans_code a = 1606 then
         bindP (asio_read (Uncaught Network_exception) CLIENT_ID_SIZE) (\<lambda>_.
         retP (INVALID_RECONNECT_1606, restartFailures (clearPayload q)))
       else if ans_code a \<noteq> 1605 then throwP (Exit1 Code_not_recognized)
       else reconnected E a q)"

lemma reconnection_start:
  assumes key: "files w (lit ''priv.key'') = Some key_text"
    and me: "files w (lit ''me.info'') = Some (n @ newline # convert_string_to_hex cid @ newline # rest)"
    and n: "newline \<notin> set n" "name_client (the_client w) = n" and cid: "length cid = 16"
  shows "reconnection E new_request w =
    (let q = reconnection_request cid n;
         c = (the_client w)\<lparr>priv_key := Base64Wrapper_decode (crypto E) (join_lines [] key_text), client_id := cid\<rparr>
     in reconnection_reply E q (after_send E q (w\<lparr>the_client := c\<rparr>)))"
proof -
  have line: "get_line (convert_string_to_hex cid @ newline # rest) = (convert_string_to_hex cid, rest)"
    using convert_string_to_hex_text [of newline cid] by (intro get_line_line) blast
  have set_id: "setClientID cid new_request = Some (new_request\<lparr>rq_client_id := cid\<rparr>)"
    by (rule setClientID_eq [OF cid])
  have set_client: "client_setClientID cid c = Some (c\<lparr>client_id := cid\<rparr>)" for c
    using cid by (simp add: client_setClientID_def)
  show ?thesis
    unfolding reconnection_reply_def
    by (subst reconnection.simps, unfold run_read_priv_key [OF key])
      (simp add: run_set_client run_get me run_clientP setPrivateKey_def n line Let_def convert_hex_roundtrip
        run_try_set [OF set_client] set_id run_opt run_sendP reconnection_request_def cong: if_cong)
qed

lemma reconnection_message:
  assumes "length n \<le> 255" and "length cid = 16"
  shows "request_message (reconnection_request cid n) = request_bytes cid 827 255 (pad_nul 255 n)"
  using assms
  by (intro message_bytes)
    (simp_all add: reconnection_request_def request_defs new_request_def store_little_u16_def
      store_little_u32_def pad_nul_def)

section \<open>Reconnection through the system\<close>

text \<open>The server knows the client, and its public key belongs to the private key \<open>sk\<close>.\<close>

definition known_with_key ::
    "('sk, 'pk) cryptopp \<Rightarrow> server \<Rightarrow> nat \<Rightarrow> bytes \<Rightarrow> bytes \<Rightarrow> 'sk \<Rightarrow> bytes \<Rightarrow> bool" where
  "known_with_key C s i cid n sk f \<longleftrightarrow>
     (\<exists>aes. may_start s i cid n aes f) \<and> first_index (\<lambda>c. sc_name c = n) (clients_list s) = Some i \<and>
     sc_public_key (clients_list s ! i) = rsa_save_public C (rsa_function C sk)"

lemma reconnect_through_system:
  assumes w: "connected w s" and k: "known_with_key C s i cid n sk f" and n: "plain_name n" and cid: "length cid = 16"
    and libs: "libraries_agree C P" and sk: "sk = rsa_initialize C m 1024"
  shows "\<exists>s' aes enc. connected (after_send (system_env C P) (reconnection_request cid n) w) s' \<and>
    may_start s' i cid n aes f \<and> others_same i [folder, n, f] s s' \<and>
    length aes = 32 \<and> length enc = 128 \<and> oaep_decrypt C sk enc = Some aes \<and>
    inbuf (after_send (system_env C P) (reconnection_request cid n) w) = inbuf w @ header_bytes 1605 144 @ cid @ enc"
proof -
  let ?q = "reconnection_request cid n"
  obtain old where old: "may_start s i cid n old f" and name: "first_index (\<lambda>c. sc_name c = n) (clients_list s) = Some i"
    and pub: "sc_public_key (clients_list s ! i) = rsa_save_public C (rsa_function C sk)"
    using k by (auto simp: known_with_key_def)
  have kn: "known s i cid n old" using old by (simp add: may_start_def)
  note idx = known_index [OF kn]
  define aes where "aes = get_random_bytes P (entropy s) 32"
  have aes: "length aes = 32" using libs by (simp add: libraries_agree_def aes_def)
  obtain pk where pk: "import_key P (rsa_save_public C (rsa_function C sk)) = Some pk"
    "\<And>m k. length m = 32 \<Longrightarrow> \<exists>c. pkcs1_oaep_encrypt P pk k m = Some c \<and> length c = 128 \<and> oaep_decrypt C sk c = Some m"
    using libs unfolding libraries_agree_def Let_def sk by blast
  obtain enc where enc: "pkcs1_oaep_encrypt P pk (entropy s + 1) aes = Some enc" "length enc = 128"
    "oaep_decrypt C sk enc = Some aes"
    using pk(2) [OF aes] by blast
  define c where "c = clients_list s ! i"
  define s0 where "s0 = s\<lparr>rx := request_message ?q\<rparr>"
  have nl: "length n \<le> 255" using n by (simp add: plain_name_def)
  have rx: "rx s0 = request_bytes cid 827 255 (pad_nul 255 n)"
    by (simp add: s0_def reconnection_message [OF nl cid])
  have idle: "rx s = []" "tx s = []" "pending s = []" using w by (simp_all add: connected_def idle_def)
  let ?r = "\<lparr>sr_client_id = cid, sr_version = 3, sr_code = int 827, sr_payload_size = int 255\<rparr>"
  let ?t = "s\<lparr>rx := [],
      db_clients := db_update (\<lambda>r. cr_id r = sc_id c) (cr_last_seen_update (\<lambda>_. clock s)) (db_clients s),
      clock := clock s + 2, clients_list := (clients_list s)[i := c\<lparr>sc_last_seen := clock s + 1\<rparr>]\<rparr>"
  have seen: "reconnection_request_827 P ?r (s0\<lparr>rx := pad_nul 255 n\<rparr>) = create_send_aes P 1605 i ?t"
  proof -
    have rx': "rx (s\<lparr>rx := pad_nul 255 n\<rparr>) = pad_nul 255 n @ []" by simp
    have s0: "s0\<lparr>rx := pad_nul 255 n\<rparr> = s\<lparr>rx := pad_nul 255 n\<rparr>" by (simp add: s0_def)
    show ?thesis
      unfolding s0 reconnection_request_827_def
      using idx pub pk(1) name idle
      by (simp add: srun_recv_padded [OF rx' n] decode_padded [OF n] srun_get srun_check_id srun_last_seen c_def)
  qed
  let ?c = "c\<lparr>sc_last_seen := clock s + 1\<rparr>"
  define s' where "s' = ?t\<lparr>entropy := entropy ?t + 2,
      clients_list := (clients_list ?t)[i := ?c\<lparr>sc_aes_key := aes\<rparr>],
      db_clients := db_update (\<lambda>r. cr_id r = sc_id ?c) (cr_aes_key_update (\<lambda>_. aes)) (db_clients ?t),
      tx := tx ?t @ header_bytes 1605 (16 + 128) @ sc_id ?c @ enc\<rparr>"
  have "create_send_aes P 1605 i ?t = Some (Inr (), s')"
    unfolding s'_def
    by (rule run_create_send_aes [where pk = pk]) (use idx pub pk(1) enc in \<open>simp_all add: aes_def c_def\<close>)
  then have "serve P s0 = Some s'"
    by (intro serve_run [OF rx cid]) (simp_all add: handle_request_def seen [simplified], simp_all add: s'_def s0_def idle)
  then have sent: "after_send (system_env C P) ?q w =
      w\<lparr>peer := Serving (s'\<lparr>tx := []\<rparr>), inbuf := inbuf w @ tx s', sent := sent w @ [request_message ?q]\<rparr>"
    using w by (intro after_send_served [where s = s]) (simp_all add: connected_def s0_def)
  have fi: "first_index (\<lambda>x. sc_id x = cid) (clients_list s') = Some i"
    using kn idx by (auto simp: s'_def known_def c_def intro!: first_index_update)
  have at_i: "clients_list s' ! i = ?c\<lparr>sc_aes_key := aes\<rparr>" using idx by (simp add: s'_def)
  have "may_start s' i cid n aes f"
    using old fi idx by (simp add: may_start_def known_def at_i) (simp add: s'_def c_def split: option.splits)
  moreover have "others_same i [folder, n, f] s s'" by (simp add: others_same_def s'_def)
  ultimately show ?thesis
    unfolding sent
    using aes enc idx idle
    by (intro exI [of _ "s'\<lparr>tx := []\<rparr>"] exI [of _ aes] exI [of _ enc])
      (simp add: connected_def idle_def, simp add: s'_def c_def)
qed

section \<open>From the configuration file to the reconnection\<close>

text \<open>What a client that has registered before has in its files.\<close>

definition keeps_identity ::
    "speer world \<Rightarrow> bytes \<Rightarrow> bytes \<Rightarrow> bytes \<Rightarrow> bytes \<Rightarrow> bytes \<Rightarrow> bool" where
  "keeps_identity w cid n f path key_text \<longleftrightarrow>
     inbuf w = [] \<and> plain_name n \<and> plain_name f \<and> length n \<le> 100 \<and> length f < 255 \<and> length cid = 16 \<and>
     find_file_name path = f \<and> files w (lit ''priv.key'') = Some key_text \<and>
     (\<exists>address rest rest'.
        files w (lit ''transfer.info'') = Some (address @ newline # n @ newline # path @ newline # rest) \<and>
        newline \<notin> set address \<and> newline \<notin> set n \<and> newline \<notin> set path \<and>
        files w (lit ''me.info'') = Some (n @ newline # convert_string_to_hex cid @ newline # rest'))"

lemma identity_peer:
  "keeps_identity (w\<lparr>peer := p\<rparr>) cid n f path key_text = keeps_identity w cid n f path key_text"
  by (simp add: keeps_identity_def)

definition ready_to_reconnect ::
    "('sk, 'pk) cryptopp \<Rightarrow> speer world \<Rightarrow> server \<Rightarrow> bytes \<Rightarrow> bytes \<Rightarrow> bytes \<Rightarrow> bytes \<Rightarrow> bytes \<Rightarrow> speer world" where
  "ready_to_reconnect C w s cid n f path key_text = w\<lparr>peer := Serving (accept s), the_client := (the_client w)\<lparr>
     name_client := n, client_file_name := f, client_id := cid, path_to_file := path,
     priv_key := Base64Wrapper_decode C (join_lines [] key_text)\<rparr>\<rparr>"

lemma main_reconnects:
  assumes id: "keeps_identity w cid n f path key_text" and s: "peer w = Serving s"
  shows "client_main (system_env C P) w =
    bindP (reconnection_reply (system_env C P) (reconnection_request cid n)) (\<lambda>(ans, r).
      if ans = INVALID_RECONNECT_1606 then registering (system_env C P) r else retP ())
    (after_send (system_env C P) (reconnection_request cid n) (ready_to_reconnect C w s cid n f path key_text))"
proof -
  let ?E = "system_env C P"
  have u: "plain_name f" "length n \<le> 100" "length f < 255" "length cid = 16" "find_file_name path = f"
    "files w (lit ''priv.key'') = Some key_text"
    using id by (simp_all add: keeps_identity_def)
  obtain address rest rest' where t:
    "files w (lit ''transfer.info'') = Some (address @ newline # n @ newline # path @ newline # rest)"
    "newline \<notin> set address" "newline \<notin> set n" "newline \<notin> set path"
    "files w (lit ''me.info'') = Some (n @ newline # convert_string_to_hex cid @ newline # rest')"
    using id unfolding keeps_identity_def by blast
  have f0: "0 \<notin> set f" using u(1) by (simp add: plain_name_def)
  define c where "c = setPath path ((setClientName n (the_client w))\<lparr>client_file_name := f\<rparr>)"
  define w1 where "w1 = w\<lparr>peer := Serving (accept s), the_client := c\<rparr>"
  have start: "read_transfer ?E w = Some (Inr (), w1)"
    using run_read_transfer [OF t(1-4) u(2,5,3) f0 s] by (simp add: w1_def c_def)
  have n1: "name_client (the_client w1) = n" by (simp add: w1_def c_def client_setters)
  have files: "files w1 = files w" by (simp add: w1_def)
  have ready: "w1\<lparr>the_client := (the_client w1)\<lparr>priv_key := Base64Wrapper_decode C (join_lines [] key_text), client_id := cid\<rparr>\<rparr>
      = ready_to_reconnect C w s cid n f path key_text"
    by (simp add: w1_def c_def client_setters ready_to_reconnect_def)
  have recon: "reconnection ?E new_request w1 = reconnection_reply ?E (reconnection_request cid n)
      (after_send ?E (reconnection_request cid n) (ready_to_reconnect C w s cid n f path key_text))"
    using reconnection_start [of w1 key_text n cid rest' ?E] t(3,5) u(4,6) n1 by (simp add: files ready Let_def)
  show ?thesis
    unfolding client_main_def
    by (simp add: bindP_def [of "read_transfer ?E"] start, simp add: run_get files t(5))
      (simp add: bindP_def recon)
qed

text \<open>The connection after it is accepted.\<close>

lemma ready_connected:
  "keeps_identity w cid n f path key_text \<Longrightarrow>
   connected (ready_to_reconnect C w s cid n f path key_text) (accept s) \<and>
   inbuf (ready_to_reconnect C w s cid n f path key_text) = []"
  by (simp add: ready_to_reconnect_def keeps_identity_def connected_def accept_def idle_def)

section \<open>The run of a returning client\<close>

text \<open>What a returning client has in its files and what the server has of it.\<close>

definition returning_user ::
    "('sk, 'pk) cryptopp \<Rightarrow> speer world \<Rightarrow> server \<Rightarrow> nat \<Rightarrow> bytes \<Rightarrow> bytes \<Rightarrow> bytes \<Rightarrow> bytes \<Rightarrow> bool" where
  "returning_user C w s i cid n f original \<longleftrightarrow>
     peer w = Serving s \<and> 0 \<notin> set cid \<and>
     (\<exists>path key_text m. keeps_identity w cid n f path key_text \<and>
        files w path = Some original \<and> length original \<le> 268431344 \<and>
        Base64Wrapper_decode C (join_lines [] key_text) = rsa_save_private C (rsa_initialize C m 1024) \<and>
        known_with_key C s i cid n (rsa_initialize C m 1024) f)"

lemma known_with_key_accept [simp]: "known_with_key C (accept s) i cid n sk f = known_with_key C s i cid n sk f"
  by (simp add: known_with_key_def may_start_def known_def accept_def cong: option.case_cong)

text \<open>
  C2: A client that comes back: with the files of its registration it reconnects, and its file, new or
  changed, ends up on the disk of the server byte for byte and verified; no other client's object and
  no other file changes.
\<close>

theorem returning_client_stores_file:
  assumes "libraries_agree C P" and "returning_user C w s i cid n f original"
  shows "\<exists>w' s'. client_main (system_env C P) w = Some (Inr (), w') \<and> peer w' = Serving s' \<and>
    disk s' [folder, n, f] = Some (Regular original) \<and> has_file (clients_list s' ! i) f True \<and>
    length (clients_list s') = length (clients_list s) \<and>
    (\<forall>k. k \<noteq> i \<longrightarrow> clients_list s' ! k = clients_list s ! k) \<and>
    (\<forall>p. p \<noteq> [folder, n, f] \<longrightarrow> disk s' p = disk s p)"
proof -
  let ?E = "system_env C P" and ?q = "reconnection_request cid n"
  obtain path key_text m where t: "keeps_identity w cid n f path key_text" "files w path = Some original"
    "length original \<le> 268431344"
    "Base64Wrapper_decode C (join_lines [] key_text) = rsa_save_private C (rsa_initialize C m 1024)"
    "known_with_key C s i cid n (rsa_initialize C m 1024) f"
    using assms(2) unfolding returning_user_def by blast
  have u: "peer w = Serving s" "0 \<notin> set cid" "plain_name n" "plain_name f" "length cid = 16"
    using assms(2) t(1) by (simp_all add: returning_user_def keeps_identity_def)
  define sk where "sk = rsa_initialize C m 1024"
  define w1 where "w1 = ready_to_reconnect C w s cid n f path key_text"
  define w2 where "w2 = after_send ?E ?q w1"
  have conn: "connected w1 (accept s)" "inbuf w1 = []" using ready_connected [OF t(1), of C s] by (simp_all add: w1_def)
  have known: "known_with_key C (accept s) i cid n sk f" using t(5) by (simp add: sk_def)
  obtain s2 aes enc where s2: "connected w2 s2" "may_start s2 i cid n aes f" "others_same i [folder, n, f] (accept s) s2"
    "length aes = 32" "length enc = 128" "oaep_decrypt C sk enc = Some aes" "inbuf w2 = header_bytes 1605 144 @ cid @ enc"
    using reconnect_through_system [OF conn(1) known u(3,5) assms(1) sk_def] conn(2) unfolding w2_def by auto
  have h: "inbuf w2 = answer_bytes 1605 144 (cid @ enc)" using s2(7) by (simp add: answer_bytes_header)
  have c: "client_id (the_client w2) = cid" "client_file_name (the_client w2) = f" "path_to_file (the_client w2) = path"
    "priv_key (the_client w2) = rsa_save_private C sk" "files w2 = files w"
    by (simp_all add: w2_def w1_def ready_to_reconnect_def t(4) sk_def)
  define w3 where "w3 = w2\<lparr>inbuf := [], the_client := setEncryptedAes enc (the_client w2)\<rparr>"
  have aes: "get_aes_key_from_server \<lparr>ans_version = 3, ans_code = 1605, ans_payload_size = 144\<rparr>
      (w2\<lparr>inbuf := cid @ enc\<rparr>) = Some (Inr (), w3)"
    by (subst run_get_aes [of _ cid enc]) (use u(2,5) s2(5) in \<open>simp_all add: c w3_def\<close>)
  have w3: "connected w3 s2" "inbuf w3 = []" "client_id (the_client w3) = cid" "client_file_name (the_client w3) = f"
    "priv_key (the_client w3) = rsa_save_private C sk" "encrypted_aes (the_client w3) = enc"
    "files w3 (path_to_file (the_client w3)) = Some original"
    using s2(1) t(2) c by (simp_all add: w3_def connected_def client_setters)
  obtain w4 s4 where s4: "send_file ?E new_request w3 = Some (Inr (), w4)" "connected w4 s4"
    "others_same i [folder, n, f] s2 s4" "holds s4 i cid n aes f True original"
    using send_file_through_system [OF assms(1) w3(1,2) s2(2) u(3,4) w3(3) u(5,2) w3(4,5,6) s2(6,4) w3(7) t(3)] by blast
  have "reconnection_reply ?E ?q w2 = Some (Inr (VALID_RECONNECT_1605, ?q), w4)"
    unfolding reconnection_reply_def
    by (simp add: run_header [OF h] reconnected_def bindP_def [of "get_aes_key_from_server a" for a] aes
        bindP_def [of "send_file ?E new_request"] s4(1) retP_def cong: if_cong)
  then have "client_main ?E w = Some (Inr (), w4)"
    unfolding main_reconnects [OF t(1) u(1)] by (simp add: bindP_def retP_def flip: w1_def w2_def)
  moreover have "disk (accept s) = disk s" "clients_list (accept s) = clients_list s" by (simp_all add: accept_def)
  ultimately show ?thesis
    using s2(3) s4(2-4) by (intro exI [of _ w4] exI [of _ s4]) (auto simp: connected_def others_same_def holds_def)
qed

text \<open>Bob, whose public key is the one of the library's first key pair, sends a new version of his file.\<close>

definition returning_server :: server where
  "returning_server = small_server\<lparr>clients_list := [bob\<lparr>sc_public_key := pad_nul 160 [0]\<rparr>, eve]\<rparr>"

definition returning_bob :: "speer world" where
  "returning_bob =
     \<lparr>the_client = new_client,
      files = [lit ''transfer.info'' \<mapsto> lit ''1:2'' @ newline # lit ''bob'' @ newline # lit ''a.txt'' @ newline # [],
               lit ''a.txt'' \<mapsto> [9, 9],
               lit ''me.info'' \<mapsto> lit ''bob'' @ newline # convert_string_to_hex (replicate 16 1) @ newline # [],
               lit ''priv.key'' \<mapsto> Base64Wrapper_encode system_cryptopp [0] @ [newline]],
      peer = Serving returning_server, inbuf = [], rng = 0, sent = []\<rparr>"

lemma returning_bob_returns:
  "returning_user system_cryptopp returning_bob returning_server 0 (replicate 16 1) (lit ''bob'') (lit ''a.txt'') [9, 9]"
proof -
  have "find_last_of backslash (lit ''a.txt'') = None"
    by (simp add: find_last_of_None backslash_def lit_def)
  then have name: "find_file_name (lit ''a.txt'') = lit ''a.txt''"
    by (simp add: find_file_name_def)
  have lines: "newline \<notin> set (lit ''1:2'')" "newline \<notin> set (lit ''bob'')" "newline \<notin> set (lit ''a.txt'')"
    "length (lit ''bob'') = 3" "length (lit ''a.txt'') = 5" "lit ''transfer.info'' \<noteq> lit ''a.txt''"
    "lit ''a.txt'' \<noteq> lit ''transfer.info''" "lit ''a.txt'' \<noteq> lit ''me.info''" "lit ''a.txt'' \<noteq> lit ''priv.key''"
    "lit ''transfer.info'' \<noteq> lit ''me.info''" "lit ''transfer.info'' \<noteq> lit ''priv.key''"
    "lit ''me.info'' \<noteq> lit ''priv.key''"
    by (simp_all add: lit_def newline_def)
  have "filter (\<lambda>c. c \<noteq> newline) (convert_string_to_hex b) = convert_string_to_hex b" for b
    using convert_string_to_hex_text by (auto intro: filter_True)
  then have key: "Base64Wrapper_decode system_cryptopp (join_lines [] (Base64Wrapper_encode system_cryptopp [0] @ [newline]))
      = rsa_save_private system_cryptopp (rsa_initialize system_cryptopp 0 1024)"
    by (simp add: Base64Wrapper_decode_def Base64Wrapper_encode_def join_lines_filter system_cryptopp_def example_crypto_def
        convert_hex_roundtrip)
  have known: "known_with_key system_cryptopp returning_server 0 (replicate 16 1) (lit ''bob'') (rsa_initialize system_cryptopp 0 1024) (lit ''a.txt'')"
    unfolding known_with_key_def
    by (intro conjI exI [of _ "replicate 32 9"])
      (simp_all add: may_start_def known_def returning_server_def small_defs small_different system_cryptopp_def
        example_crypto_def)
  show ?thesis
    unfolding returning_user_def keeps_identity_def
    by (intro conjI exI [of _ "lit ''1:2''"] exI [of _ "lit ''a.txt''"] exI [of _ "[]"]
        exI [of _ "Base64Wrapper_encode system_cryptopp [0] @ [newline]"] exI [of _ "0 :: nat"])
      (simp_all add: returning_bob_def lines name key known small_names)
qed

theorem returning_client_stores_file_witness:
  "\<exists>w' s'. client_main (system_env system_cryptopp system_pycrypto) returning_bob = Some (Inr (), w') \<and>
     peer w' = Serving s' \<and> disk s' [folder, lit ''bob'', lit ''a.txt''] = Some (Regular [9, 9]) \<and>
     disk s' [folder, lit ''eve'', lit ''a.txt''] = Some (Regular [4])"
proof -
  obtain w' s' where "client_main (system_env system_cryptopp system_pycrypto) returning_bob = Some (Inr (), w')"
    "peer w' = Serving s'" "disk s' [folder, lit ''bob'', lit ''a.txt''] = Some (Regular [9, 9])"
    "\<forall>p. p \<noteq> [folder, lit ''bob'', lit ''a.txt''] \<longrightarrow> disk s' p = disk returning_server p"
    using returning_client_stores_file [OF system_libraries_agree returning_bob_returns] by blast
  then show ?thesis using small_different by (simp add: returning_server_def small_defs)
qed

end
