(* ===== verification/System_Lockout.thy ===== *)
theory System_Lockout
  imports System_Return
begin

text \<open>
  A client whose public key never reached the server, or was rejected: the server tells it to register
  again and then refuses to, because the name is taken.
\<close>

section \<open>A refused registration through the system\<close>

text \<open>The name is that of the client at position \<open>i\<close>.\<close>

definition name_taken :: "server \<Rightarrow> nat \<Rightarrow> bytes \<Rightarrow> bool" where
  "name_taken s i n \<longleftrightarrow> first_index (\<lambda>c. sc_name c = n) (clients_list s) = Some i"

lemma registration_message_again:
  "length n \<le> 255 \<Longrightarrow> rq_version r = [3] \<Longrightarrow> rq_payload r = [] \<Longrightarrow>
   request_message (registration_request n r) = request_bytes (replicate 16 0) 825 255 (pad_nul 255 n)"
  by (intro message_bytes)
    (simp_all add: registration_request_def request_defs store_little_u16_def store_little_u32_def pad_nul_def)

lemma refused_through_system:
  assumes w: "connected w s" and taken: "name_taken s i n" and n: "plain_name n"
    and r: "rq_version r = [3]" "rq_payload r = []"
  shows "\<exists>s'. connected (after_send (system_env C P) (registration_request n r) w) s' \<and> name_taken s' i n \<and>
    map client_data (clients_list s') = map client_data (clients_list s) \<and> disk s' = disk s \<and>
    inbuf (after_send (system_env C P) (registration_request n r) w) = inbuf w @ header_bytes 1601 0"
proof -
  let ?q = "registration_request n r"
  define s0 where "s0 = s\<lparr>rx := request_message ?q\<rparr>"
  have nl: "length n \<le> 255" using n by (simp add: plain_name_def)
  have rx: "rx s0 = request_bytes (replicate 16 0) 825 255 (pad_nul 255 n)"
    by (simp add: s0_def registration_message_again [OF nl r])
  have idle: "rx s = []" "tx s = []" "pending s = []" using w by (simp_all add: connected_def idle_def)
  have i: "first_index (\<lambda>c. sc_name c = n) (clients_list s) = Some i" using taken by (simp add: name_taken_def)
  define s' where "s' = s\<lparr>rx := [],
     db_clients := db_update (\<lambda>r. cr_id r = sc_id (clients_list s ! i)) (cr_last_seen_update (\<lambda>_. clock s)) (db_clients s),
     clock := clock s + 2,
     clients_list := (clients_list s)[i := (clients_list s ! i)\<lparr>sc_last_seen := clock s + 1\<rparr>],
     blocking := True, tx := header_bytes 1601 0\<rparr>"
  have "registration_request_825 P (s0\<lparr>rx := pad_nul 255 n\<rparr>) = Some (Inl ValueError, s\<lparr>rx := [],
     db_clients := db_update (\<lambda>r. cr_id r = sc_id (clients_list s ! i)) (cr_last_seen_update (\<lambda>_. clock s)) (db_clients s),
     clock := clock s + 2,
     clients_list := (clients_list s)[i := (clients_list s ! i)\<lparr>sc_last_seen := clock s + 1\<rparr>]\<rparr>)"
    using run_refused [of "s0\<lparr>rx := pad_nul 255 n\<rparr>" n i P] n i idle by (simp add: s0_def)
  then have "serve P s0 = Some s'"
    using idle by (intro serve_run [OF rx])
      (simp_all add: handle_request_def catchP_def run_error_reply, simp_all add: s'_def s0_def)
  then have sent: "after_send (system_env C P) ?q w =
      w\<lparr>peer := Serving (s'\<lparr>tx := []\<rparr>), inbuf := inbuf w @ tx s', sent := sent w @ [request_message ?q]\<rparr>"
    using w by (intro after_send_served [where s = s]) (simp_all add: connected_def s0_def)
  have "name_taken s' i n"
    unfolding name_taken_def s'_def using first_index_Some [OF i] i by (simp, intro first_index_update) simp_all
  moreover have "map client_data (clients_list s') = map client_data (clients_list s)"
    by (simp add: s'_def map_update_same client_data_def)
  ultimately show ?thesis
    unfolding sent
    by (intro exI [of _ "s'\<lparr>tx := []\<rparr>"]) (simp add: connected_def idle_def name_taken_def, simp add: s'_def idle)
qed

lemma registering_refused:
  assumes n: "plain_name n"
  shows "connected w s \<Longrightarrow> inbuf w = [] \<Longrightarrow> name_client (the_client w) = n \<Longrightarrow> name_taken s i n \<Longrightarrow>
    rq_version r = [3] \<Longrightarrow> rq_payload r = [] \<Longrightarrow> num_of_failures r = 4 - int (Suc k) \<Longrightarrow>
    \<exists>w' s'. registering (system_env C P) r w = Some (Inl (Exit1 Too_many_tries), w') \<and> peer w' = Serving s' \<and>
      map client_data (clients_list s') = map client_data (clients_list s) \<and> disk s' = disk s"
proof (induction k arbitrary: r w s)
  case (0 r w s)
  let ?q = "registration_request n r" and ?E = "system_env C P"
  obtain s' where s': "connected (after_send ?E ?q w) s'" "map client_data (clients_list s') = map client_data (clients_list s)"
    "disk s' = disk s" "inbuf (after_send ?E ?q w) = header_bytes 1601 0"
    using refused_through_system [OF 0(1,4) n 0(5,6), of C P] 0(2) by auto
  have h: "inbuf (after_send ?E ?q w) = answer_bytes 1601 0 []" using s'(4) by (simp add: answer_bytes_header)
  have f: "num_of_failures r = 3" using 0(7) by simp
  have "registering ?E r w = Some (Inl (Exit1 Too_many_tries), (after_send ?E ?q w)\<lparr>inbuf := []\<rparr>)"
    by (subst registering_start) (simp add: 0(3) Let_def run_header [OF h] run_general_error f)
  then show ?case using s' by (auto simp: connected_def)
next
  case (Suc k r w s)
  let ?q = "registration_request n r" and ?E = "system_env C P"
  obtain s' where s': "connected (after_send ?E ?q w) s'" "name_taken s' i n"
    "map client_data (clients_list s') = map client_data (clients_list s)"
    "disk s' = disk s" "inbuf (after_send ?E ?q w) = header_bytes 1601 0"
    using refused_through_system [OF Suc.prems(1,4) n Suc.prems(5,6), of C P] Suc.prems(2) by auto
  have h: "inbuf (after_send ?E ?q w) = answer_bytes 1601 0 []" using s'(5) by (simp add: answer_bytes_header)
  let ?w = "(after_send ?E ?q w)\<lparr>inbuf := []\<rparr>" and ?r = "clearPayload (addFailure ?q)"
  have f: "num_of_failures r \<noteq> 3" using Suc.prems(7) by simp
  have next_try: "registering ?E r w = registering ?E ?r ?w"
    by (subst registering_start) (simp add: Suc.prems(3) Let_def run_header [OF h] run_general_error f TRY_AGAIN_def)
  have r: "rq_version ?r = [3]" "rq_payload ?r = []" "num_of_failures ?r = 4 - int (Suc k)"
    using Suc.prems(5,7) by (simp_all add: registration_request_def request_defs)
  have "connected ?w s'" "inbuf ?w = []" "name_client (the_client ?w) = n"
    using s'(1) Suc.prems(3) by (simp_all add: connected_def)
  then show ?case unfolding next_try using Suc.IH [OF _ _ _ s'(2) r] s'(3,4) by simp
qed

section \<open>The rejected reconnection\<close>

lemma rejected_through_system:
  assumes w: "connected w s" and taken: "name_taken s i n" and n: "plain_name n" and cid: "length cid = 16"
    and c: "sc_id (clients_list s ! i) = cid" "import_key P (sc_public_key (clients_list s ! i)) = None"
  shows "\<exists>s'. connected (after_send (system_env C P) (reconnection_request cid n) w) s' \<and> name_taken s' i n \<and>
    map client_data (clients_list s') = map client_data (clients_list s) \<and> disk s' = disk s \<and>
    inbuf (after_send (system_env C P) (reconnection_request cid n) w) = inbuf w @ header_bytes 1606 16 @ cid"
proof -
  let ?q = "reconnection_request cid n"
  let ?r = "\<lparr>sr_client_id = cid, sr_version = 3, sr_code = int 827, sr_payload_size = int 255\<rparr>"
  define s0 where "s0 = s\<lparr>rx := request_message ?q\<rparr>"
  have nl: "length n \<le> 255" using n by (simp add: plain_name_def)
  have rx: "rx s0 = request_bytes cid 827 255 (pad_nul 255 n)"
    by (simp add: s0_def reconnection_message [OF nl cid])
  have idle: "rx s = []" "tx s = []" "pending s = []" using w by (simp_all add: connected_def idle_def)
  have i: "first_index (\<lambda>c. sc_name c = n) (clients_list s) = Some i" using taken by (simp add: name_taken_def)
  define s' where "s' = s\<lparr>rx := [],
      db_clients := db_update (\<lambda>r. cr_id r = cid) (cr_last_seen_update (\<lambda>_. clock s)) (db_clients s),
      clock := clock s + 2, clients_list := (clients_list s)[i := (clients_list s ! i)\<lparr>sc_last_seen := clock s + 1\<rparr>],
      tx := header_bytes 1606 16 @ cid\<rparr>"
  have s0: "s0\<lparr>rx := pad_nul 255 n\<rparr> = s\<lparr>rx := pad_nul 255 n\<rparr>" by (simp add: s0_def)
  have rx': "rx (s\<lparr>rx := pad_nul 255 n\<rparr>) = pad_nul 255 n @ []" by simp
  have h1606: "bindP (send_header_to_client 1606 16) k v = k () (v\<lparr>tx := tx v @ header_bytes 1606 16\<rparr>)"
    for k :: "unit \<Rightarrow> unit sprog" and v using srun_header [of 1606 16 k v] by simp
  have "reconnection_request_827 P ?r (s0\<lparr>rx := pad_nul 255 n\<rparr>) = Some (Inr (), s')"
    unfolding s0 reconnection_request_827_def
    using idle c
    by (simp add: srun_recv_padded [OF rx' n] decode_padded [OF n] srun_get i srun_check_id srun_last_seen h1606)
      (simp add: sendall_def modP_def s'_def)
  then have "serve P s0 = Some s'"
    by (intro serve_run [OF rx cid]) (simp_all add: handle_request_def, simp_all add: s'_def s0_def idle)
  then have sent: "after_send (system_env C P) ?q w =
      w\<lparr>peer := Serving (s'\<lparr>tx := []\<rparr>), inbuf := inbuf w @ tx s', sent := sent w @ [request_message ?q]\<rparr>"
    using w by (intro after_send_served [where s = s]) (simp_all add: connected_def s0_def)
  have "name_taken s' i n"
    unfolding name_taken_def s'_def using first_index_Some [OF i] i by (simp, intro first_index_update) simp_all
  moreover have "map client_data (clients_list s') = map client_data (clients_list s)"
    by (simp add: s'_def map_update_same client_data_def)
  ultimately show ?thesis
    unfolding sent
    by (intro exI [of _ "s'\<lparr>tx := []\<rparr>"]) (simp add: connected_def idle_def name_taken_def, simp add: s'_def idle)
qed

text \<open>A client with its files whose stored public key the server's library does not accept.\<close>

definition keyless_user ::
    "'k pycrypto \<Rightarrow> speer world \<Rightarrow> server \<Rightarrow> nat \<Rightarrow> bytes \<Rightarrow> bytes \<Rightarrow> bytes \<Rightarrow> bool" where
  "keyless_user P w s i cid n f \<longleftrightarrow>
     peer w = Serving s \<and> (\<exists>path key_text. keeps_identity w cid n f path key_text) \<and>
     name_taken s i n \<and> sc_id (clients_list s ! i) = cid \<and>
     import_key P (sc_public_key (clients_list s ! i)) = None"

text \<open>
  C31: A dead end of the protocol: a client that is registered but whose public key the server does not
  accept (it was never stored, for instance) is told to register again with 1606, is refused four times
  with 1601 because its name is taken, and exits; the server's clients and files are as before, so
  every later run ends in the same way.
\<close>

theorem keyless_client_locked_out:
  assumes "keyless_user P w s i cid n f"
  shows "\<exists>w' s'. client_main (system_env C P) w = Some (Inl (Exit1 Too_many_tries), w') \<and> peer w' = Serving s' \<and>
    map client_data (clients_list s') = map client_data (clients_list s) \<and> disk s' = disk s"
proof -
  let ?E = "system_env C P" and ?q = "reconnection_request cid n"
  obtain path key_text where id: "keeps_identity w cid n f path key_text"
    using assms by (auto simp: keyless_user_def)
  have u: "peer w = Serving s" "plain_name n" "length cid = 16" "name_taken (accept s) i n"
    "sc_id (clients_list (accept s) ! i) = cid" "import_key P (sc_public_key (clients_list (accept s) ! i)) = None"
    using assms id by (simp_all add: keyless_user_def keeps_identity_def accept_def name_taken_def)
  have same: "clients_list (accept s) = clients_list s" "disk (accept s) = disk s" by (simp_all add: accept_def)
  define w1 where "w1 = ready_to_reconnect C w s cid n f path key_text"
  define w2 where "w2 = after_send ?E ?q w1"
  have conn: "connected w1 (accept s)" "inbuf w1 = []" using ready_connected [OF id, of C s] by (simp_all add: w1_def)
  obtain s2 where s2: "connected w2 s2" "name_taken s2 i n" "map client_data (clients_list s2) = map client_data (clients_list s)"
    "disk s2 = disk s" "inbuf w2 = header_bytes 1606 16 @ cid"
    using rejected_through_system [OF conn(1) u(4,2,3,5,6)] conn(2) unfolding w2_def same by auto
  have h: "inbuf w2 = answer_bytes 1606 16 cid" using s2(5) by (simp add: answer_bytes_header)
  let ?r = "restartFailures (clearPayload ?q)" and ?w = "w2\<lparr>inbuf := []\<rparr>"
  have recon: "reconnection_reply ?E ?q w2 = Some (Inr (INVALID_RECONNECT_1606, ?r), ?w)"
    unfolding reconnection_reply_def
    by (simp add: run_header [OF h] run_read [where b = cid and rest = "[]"] u(3) retP_def cong: if_cong)
  have r: "rq_version ?r = [3]" "rq_payload ?r = []" "num_of_failures ?r = 4 - int (Suc 3)"
    by (simp_all add: reconnection_request_def request_defs new_request_def)
  have w3: "connected ?w s2" "inbuf ?w = []" "name_client (the_client ?w) = n"
    using s2(1) by (simp_all add: connected_def w2_def w1_def ready_to_reconnect_def)
  obtain w4 s4 where s4: "registering ?E ?r ?w = Some (Inl (Exit1 Too_many_tries), w4)" "peer w4 = Serving s4"
    "map client_data (clients_list s4) = map client_data (clients_list s2)" "disk s4 = disk s2"
    using registering_refused [OF u(2) w3 s2(2) r, of C P] by blast
  have "client_main ?E w = Some (Inl (Exit1 Too_many_tries), w4)"
    unfolding main_reconnects [OF id u(1)] by (simp add: bindP_def recon s4(1) flip: w1_def w2_def)
  then show ?thesis using s2(3,4) s4(2-4) by auto
qed

theorem keyless_client_locked_out_witness:
  "\<exists>w' s'. client_main (system_env system_cryptopp system_pycrypto)
      (returning_bob\<lparr>peer := Serving (small_server\<lparr>clients_list := [bob\<lparr>sc_public_key := []\<rparr>, eve]\<rparr>)\<rparr>)
    = Some (Inl (Exit1 Too_many_tries), w') \<and> peer w' = Serving s'"
proof -
  let ?s = "small_server\<lparr>clients_list := [bob\<lparr>sc_public_key := []\<rparr>, eve]\<rparr>"
  have b: "returning_user system_cryptopp returning_bob returning_server 0 (replicate 16 1) (lit ''bob'') (lit ''a.txt'') [9, 9]"
    by (rule returning_bob_returns)
  have k: "name_taken ?s 0 (lit ''bob'')" "sc_id (clients_list ?s ! 0) = replicate 16 1"
    "import_key system_pycrypto (sc_public_key (clients_list ?s ! 0)) = None"
    by (simp_all add: name_taken_def small_defs system_pycrypto_def)
  have "keyless_user system_pycrypto (returning_bob\<lparr>peer := Serving ?s\<rparr>) ?s 0 (replicate 16 1) (lit ''bob'') (lit ''a.txt'')"
    using b k unfolding returning_user_def keyless_user_def identity_peer by auto
  then show ?thesis using keyless_client_locked_out by blast
qed

end
